(* ===== verification/Go_Prelude.thy ===== *)
theory Go_Prelude
  imports Main "HOL-Library.Sublist" "HOL-Library.Multiset"
begin

text \<open>
  What the components share: the Go standard-library functions on strings and integers
  that the program calls (\<open>fmt\<close> verbs, \<open>strconv.ParseInt\<close>, \<open>strings\<close>), the
  wrap-around of signed 32-bit values, and the development's theorem collections.
  A Go string is a list of bytes, here a list of characters.
\<close>

named_theorems go_simps "unfolding rules for the standard-library functions"
named_theorems step_defs "definitions of operations that a case analysis unfolds"

section \<open>Types shared by the components\<close>

type_synonym bytes = "char list"
type_synonym int32 = int
type_synonym go_int = int

text \<open>
  A Go \<open>map[string]bool\<close> or \<open>map[string][]string\<close> that is only indexed, never ranged
  over, is a total function: a missing key reads the zero value (\<open>false\<close>, the nil slice).
\<close>

type_synonym boolmap = "string \<Rightarrow> bool"
type_synonym depmap = "string \<Rightarrow> string list"

section \<open>Signed 32-bit values\<close>

definition min_int32 :: int where "min_int32 = - (2 ^ 31)"
definition max_int32 :: int where "max_int32 = 2 ^ 31 - 1"

definition is_int32 :: "int \<Rightarrow> bool" where
  "is_int32 i \<longleftrightarrow> min_int32 \<le> i \<and> i \<le> max_int32"

text \<open>The conversion \<open>int32(x)\<close> and 32-bit arithmetic keep the low 32 bits, two's complement.\<close>

definition wrap32 :: "int \<Rightarrow> int32" where
  "wrap32 i = (i + 2 ^ 31) mod 2 ^ 32 - 2 ^ 31"

lemma wrap32_id: "is_int32 i \<Longrightarrow> wrap32 i = i"
  by (simp add: wrap32_def is_int32_def min_int32_def max_int32_def)

lemma wrap32_range: "is_int32 (wrap32 i)"
proof -
  have "0 \<le> (i + 2 ^ 31) mod 2 ^ 32" and "(i + 2 ^ 31) mod 2 ^ 32 < 2 ^ 32" by simp_all
  then show ?thesis by (simp add: wrap32_def is_int32_def min_int32_def max_int32_def)
qed

section \<open>Decimal numbers: \<open>%d\<close> and \<open>strconv.ParseInt(s, 10, 32)\<close>\<close>

definition digit_char :: "nat \<Rightarrow> char" where
  "digit_char d = char_of (48 + d)"

definition char_digit :: "char \<Rightarrow> nat option" where
  "char_digit c = (let n = of_char c :: nat in if 48 \<le> n \<and> n \<le> 57 then Some (n - 48) else None)"

fun show_nat :: "nat \<Rightarrow> string" where
  "show_nat n = (if n < 10 then [digit_char n] else show_nat (n div 10) @ [digit_char (n mod 10)])"

declare show_nat.simps [simp del]

definition show_int :: "int \<Rightarrow> string" where
  "show_int i = (if i < 0 then CHR ''-'' # show_nat (nat (- i)) else show_nat (nat i))"

fun read_digits :: "nat \<Rightarrow> string \<Rightarrow> nat option" where
  "read_digits acc [] = Some acc"
| "read_digits acc (c # cs) =
     (case char_digit c of None \<Rightarrow> None | Some d \<Rightarrow> read_digits (10 * acc + d) cs)"

definition read_nat :: "string \<Rightarrow> nat option" where
  "read_nat s = (if s = [] then None else read_digits 0 s)"

text \<open>The sign handling of \<open>strconv.ParseInt\<close>: an optional \<open>+\<close> or \<open>-\<close>, then digits.\<close>

definition read_int :: "string \<Rightarrow> int option" where
  "read_int s =
     (case s of
        [] \<Rightarrow> None
      | c # cs \<Rightarrow>
          if c = CHR ''-'' then map_option (\<lambda>n. - int n) (read_nat cs)
          else if c = CHR ''+'' then map_option int (read_nat cs)
          else map_option int (read_nat s))"

text \<open>\<open>ParseInt\<close> with bit size 32: a syntax error and a range error are both errors.\<close>

definition parse_int32 :: "string \<Rightarrow> int32 option" where
  "parse_int32 s =
     (case read_int s of None \<Rightarrow> None | Some i \<Rightarrow> if is_int32 i then Some i else None)"

lemma char_digit_digit_char: "d < 10 \<Longrightarrow> char_digit (digit_char d) = Some d"
  by (simp add: char_digit_def digit_char_def)

lemma read_digits_append:
  "read_digits acc (s @ t) = (case read_digits acc s of None \<Rightarrow> None | Some n \<Rightarrow> read_digits n t)"
  by (induction s arbitrary: acc) (auto split: option.splits)

lemma read_digits_show_nat:
  "read_digits 0 (show_nat n) = Some n"
proof (induction n rule: show_nat.induct)
  case (1 n)
  show ?case
  proof (cases "n < 10")
    case True
    then show ?thesis by (simp add: show_nat.simps [of n] char_digit_digit_char)
  next
    case False
    with "1.IH" show ?thesis
      by (simp add: show_nat.simps [of n] read_digits_append char_digit_digit_char)
  qed
qed

lemma show_nat_nonempty [simp]: "show_nat n \<noteq> []"
  by (subst show_nat.simps) simp

lemma show_nat_hd_digit: "\<exists>d < 10. hd (show_nat n) = digit_char d"
proof (induction n rule: show_nat.induct)
  case (1 n)
  then show ?case
    by (cases "n < 10") (auto simp: show_nat.simps [of n])
qed

lemma digit_char_not_sign: "d < 10 \<Longrightarrow> digit_char d \<noteq> CHR ''-'' \<and> digit_char d \<noteq> CHR ''+''"
proof -
  assume "d < 10"
  then have "(of_char (digit_char d) :: nat) = 48 + d" by (simp add: digit_char_def)
  with \<open>d < 10\<close> show ?thesis by auto
qed

lemma read_nat_show_nat [simp]: "read_nat (show_nat n) = Some n"
  by (simp add: read_nat_def read_digits_show_nat)

lemma read_int_unsigned:
  "s \<noteq> [] \<Longrightarrow> hd s \<noteq> CHR ''-'' \<Longrightarrow> hd s \<noteq> CHR ''+'' \<Longrightarrow> read_int s = map_option int (read_nat s)"
  by (cases s) (auto simp: read_int_def)

lemma read_int_show_nat: "read_int (show_nat n) = Some (int n)"
proof -
  obtain d where "d < 10" "hd (show_nat n) = digit_char d"
    using show_nat_hd_digit by blast
  then show ?thesis
    using digit_char_not_sign [of d] by (simp add: read_int_unsigned)
qed

lemma read_int_show_int: "read_int (show_int i) = Some i"
proof (cases "i < 0")
  case True
  then show ?thesis
    by (simp add: show_int_def read_int_def)
next
  case False
  then show ?thesis by (simp add: show_int_def read_int_show_nat)
qed

lemma parse_int32_show_int [simp]:
  "is_int32 i \<Longrightarrow> parse_int32 (show_int i) = Some i"
  by (simp add: parse_int32_def read_int_show_int)

lemma parse_int32_range: "parse_int32 s = Some i \<Longrightarrow> is_int32 i"
  by (auto simp: parse_int32_def split: option.splits if_splits)

lemma show_int_inject [simp]: "show_int i = show_int j \<longleftrightarrow> i = j"
  by (metis option.inject read_int_show_int)

lemma show_int_nonempty [simp]: "show_int i \<noteq> []"
  by (simp add: show_int_def)

section \<open>The \<open>strings\<close> package\<close>

definition has_suffix :: "string \<Rightarrow> string \<Rightarrow> bool" where
  "has_suffix s t \<longleftrightarrow> length t \<le> length s \<and> drop (length s - length t) s = t"

definition has_prefix :: "string \<Rightarrow> string \<Rightarrow> bool" where
  "has_prefix s t \<longleftrightarrow> length t \<le> length s \<and> take (length t) s = t"

fun join :: "string list \<Rightarrow> string \<Rightarrow> string" where
  "join [] sep = []"
| "join [s] sep = s"
| "join (s # t # ss) sep = s @ sep @ join (t # ss) sep"

lemma has_suffix_iff: "has_suffix s t \<longleftrightarrow> (\<exists>p. s = p @ t)"
  by (auto simp: has_suffix_def) (metis append_take_drop_id)

lemma has_prefix_iff: "has_prefix s t \<longleftrightarrow> (\<exists>p. s = t @ p)"
  by (auto simp: has_prefix_def) (metis append_take_drop_id)

text \<open>
  The \<open>%q\<close> verb (\<open>strconv.Quote\<close>): quotes, backslashes and control bytes are escaped; bytes
  above 127 are kept, as for printable Unicode text.
\<close>

definition hex_char :: "nat \<Rightarrow> char" where
  "hex_char d = (if d < 10 then char_of (48 + d) else char_of (87 + d))"

definition quote_char :: "char \<Rightarrow> string" where
  "quote_char c =
     (let n = of_char c :: nat
      in if n = 34 then [char_of (92 :: nat), char_of (34 :: nat)]
         else if n = 92 then [char_of (92 :: nat), char_of (92 :: nat)]
         else if n = 7 then char_of (92 :: nat) # ''a'' else if n = 8 then char_of (92 :: nat) # ''b''
         else if n = 9 then char_of (92 :: nat) # ''t'' else if n = 10 then char_of (92 :: nat) # ''n''
         else if n = 11 then char_of (92 :: nat) # ''v'' else if n = 12 then char_of (92 :: nat) # ''f''
         else if n = 13 then char_of (92 :: nat) # ''r''
         else if n < 32 \<or> n = 127
         then char_of (92 :: nat) # ''x'' @ [hex_char (n div 16), hex_char (n mod 16)]
         else [c])"

definition go_quote :: "string \<Rightarrow> string" where
  "go_quote s = [char_of (34 :: nat)] @ concat (map quote_char s) @ [char_of (34 :: nat)]"

section \<open>Iteration order of Go maps\<close>

text \<open>
  \<open>for k := range m\<close> visits every key of \<open>m\<close> once, in an order the language leaves
  open. A definition that ranges over a map takes the order as an argument, and a theorem about
  it assumes only that the order is a permutation of the keys.
\<close>

type_synonym range_order = "string list \<Rightarrow> string list"

definition perm_order :: "range_order \<Rightarrow> bool" where
  "perm_order ord \<longleftrightarrow> (\<forall>ks. mset (ord ks) = mset ks)"

lemma perm_order_mset: "perm_order ord \<Longrightarrow> mset (ord ks) = mset ks"
  by (simp add: perm_order_def)

lemma perm_order_set [simp]: "perm_order ord \<Longrightarrow> set (ord ks) = set ks"
  by (metis mset_eq_setD perm_order_mset)

lemma perm_order_distinct [simp]: "perm_order ord \<Longrightarrow> distinct (ord ks) = distinct ks"
  by (metis perm_order_mset mset_eq_imp_distinct_iff)

lemma perm_order_length [simp]: "perm_order ord \<Longrightarrow> length (ord ks) = length ks"
  by (metis perm_order_mset size_mset)

lemma perm_order_id: "perm_order (\<lambda>ks. ks)"
  by (simp add: perm_order_def)

lemma perm_order_rev: "perm_order rev"
  by (simp add: perm_order_def)

section \<open>Lists\<close>

lemma set_concat_map: "set (concat (map f xs)) = (\<Union>x\<in>set xs. set (f x))"
  by simp

lemma foldl_concat_map: "foldl f a (concat (map g xs)) = foldl (\<lambda>a x. foldl f a (g x)) a xs"
  by (induction xs arbitrary: a) simp_all

lemma foldl_append_concat: "foldl (\<lambda>acc x. acc @ f x) acc xs = acc @ concat (map f xs)"
  by (induction xs arbitrary: acc) auto

end
