(* ===== verification/Go_Errors.thy ===== *)
theory Go_Errors
  imports Go_Prelude
begin

text \<open>
  The values of the \<open>error\<close> interface that occur in the server: plain errors of
  \<open>errors.New\<close> and \<open>fmt.Errorf\<close>, wrapped errors (\<open>%w\<close>), the storage error of
  \<open>internal/store/errors.go\<close>, the compatibility error of \<open>formats/protobuf/error.go\<close>,
  the gateway's \<open>HTTPStatusError\<close>, gRPC status errors, the two database-driver errors the
  code inspects, combined errors of \<open>multierr\<close>, and errors of other libraries, known only
  by their text.
\<close>

section \<open>Kinds of differences between two schemas (formats/protobuf/compatibility.go)\<close>

datatype diffKind =
    messageDelete
  | nonInclusivereservedRange
  | nonInclusiceReservedNames
  | fieldDelete
  | fieldDeleteWithoutReservedNumber
  | fieldDeleteWithoutReservedName
  | fieldNameChange
  | fieldLabelchange
  | fieldKindChange
  | fieldTypeChange
  | enumDelete
  | enumValueDelete
  | enumValueDeleteWithoutReservedNumber
  | enumValueDeleteWithoutReservedName
  | enumValueNumberChange
  | syntaxChange

record diff =
  d_kind :: diffKind
  d_msg :: string

record compatibilityErr =
  ce_notAllowed :: "diffKind list"
  ce_diffs :: "diff list"

section \<open>Error values\<close>

datatype errKind = unknown | conflict | noRows

datatype grpc_code = Code_Unknown | Code_NotFound | Code_AlreadyExists | Code_InvalidArgument

datatype go_error =
    ErrString string
  | ErrWrap string go_error
  | StorageErr string errKind "go_error option"
  | CompatErr compatibilityErr
  | HTTPStatusErr nat go_error
  | StatusErr grpc_code string
  | PgxErrNoRows
  | PgErr string string
  | MultiErr "go_error list"
  | ErrExt string

type_synonym 'a res = "go_error + 'a"

text \<open>Sequencing of fallible calls: the early return of \<open>if err != nil\<close>.\<close>

definition bind_res :: "'a res \<Rightarrow> ('a \<Rightarrow> 'b res) \<Rightarrow> 'b res" where
  "bind_res r f = (case r of Inl e \<Rightarrow> Inl e | Inr a \<Rightarrow> f a)"

lemma bind_res_simps [simp]:
  "bind_res (Inl e) f = Inl e" "bind_res (Inr a) f = f a"
  by (simp_all add: bind_res_def)

lemma bind_res_Inr: "bind_res r f = Inr b \<longleftrightarrow> (\<exists>a. r = Inr a \<and> f a = Inr b)"
  by (auto simp: bind_res_def split: sum.splits)

section \<open>Storage errors (internal/store/errors.go)\<close>

text \<open>The sentinel errors, and \<open>WithErr\<close>, which keeps the kind.\<close>

definition UnknownErr :: go_error where "UnknownErr = StorageErr [] unknown None"
definition ConflictErr :: go_error where "ConflictErr = StorageErr [] conflict None"
definition NoRowsErr :: go_error where "NoRowsErr = StorageErr [] noRows None"

fun WithErr :: "go_error \<Rightarrow> go_error \<Rightarrow> string \<Rightarrow> go_error" where
  "WithErr (StorageErr _ k _) err name = StorageErr name k (Some err)"
| "WithErr e err name = e"

section \<open>Texts\<close>

text \<open>\<open>(*compatibilityErr).Error\<close>: the messages joined by semicolons.\<close>

definition compat_error_text :: "compatibilityErr \<Rightarrow> string" where
  "compat_error_text c = join (map d_msg (ce_diffs c)) '';''"

fun error_text :: "go_error \<Rightarrow> string" where
  "error_text (ErrString s) = s"
| "error_text (ErrWrap s e) = s"
| "error_text (StorageErr name k err) = (case err of Some e \<Rightarrow> error_text e | None \<Rightarrow> name)"
| "error_text (CompatErr c) = compat_error_text c"
| "error_text (HTTPStatusErr n e) = error_text e"
| "error_text (StatusErr c s) = s"
| "error_text PgxErrNoRows = ''no rows in result set''"
| "error_text (PgErr code msg) = msg"
| "error_text (MultiErr es) = join (map error_text es) ''; ''"
| "error_text (ErrExt s) = s"

text \<open>
  \<open>errors.Is\<close> for the sentinels the program tests: \<open>pgx.ErrNoRows\<close>, and a storage
  error, which \<open>StorageErr.Is\<close> compares by kind; both descend through \<open>Unwrap\<close>.
\<close>

datatype sentinel = Is_pgx_ErrNoRows | Is_storage errKind

fun errors_is :: "go_error \<Rightarrow> sentinel \<Rightarrow> bool" where
  "errors_is (StorageErr name k err) t =
     (t = Is_storage k \<or> (case err of None \<Rightarrow> False | Some e \<Rightarrow> errors_is e t))"
| "errors_is (ErrWrap s e) t = errors_is e t"
| "errors_is PgxErrNoRows t = (t = Is_pgx_ErrNoRows)"
| "errors_is (MultiErr es) t = list_ex (\<lambda>e. errors_is e t) es"
| "errors_is (HTTPStatusErr n e) t = errors_is e t"
| "errors_is _ t = False"

text \<open>
  \<open>errors.As\<close> with a \<open>*pgconn.PgError\<close> target: the code of the first database error in
  the chain.
\<close>

fun pg_code :: "go_error \<Rightarrow> string option" where
  "pg_code (PgErr code msg) = Some code"
| "pg_code (StorageErr name k err) = (case err of None \<Rightarrow> None | Some e \<Rightarrow> pg_code e)"
| "pg_code (ErrWrap s e) = pg_code e"
| "pg_code _ = None"

text \<open>\<open>StorageErr.GRPCStatus\<close> and \<open>(*compatibilityErr).GRPCStatus\<close>.\<close>

fun grpc_status :: "go_error \<Rightarrow> (grpc_code \<times> string) option" where
  "grpc_status (StorageErr name k err) = Some
     (if k = noRows then (Code_NotFound, name @ '' '' @ ''not found'')
      else if k = conflict then (Code_AlreadyExists, name @ '' '' @ ''resource already exists'')
      else (Code_Unknown, error_text (StorageErr name k err)))"
| "grpc_status (CompatErr c) = Some (Code_InvalidArgument, compat_error_text c)"
| "grpc_status (StatusErr c s) = Some (c, s)"
| "grpc_status _ = None"

section \<open>The database layer's error translation (internal/store/postgres/postgres.go)\<close>

text \<open>\<open>wrapError\<close>; its \<open>Sprintf\<close> of the name is done by the caller of the model.\<close>

definition wrapError :: "go_error option \<Rightarrow> string \<Rightarrow> go_error option" where
  "wrapError err name =
     (case err of
        None \<Rightarrow> None
      | Some e \<Rightarrow> Some
          (if errors_is e Is_pgx_ErrNoRows then WithErr NoRowsErr e name
           else if pg_code e = Some ''23505'' then WithErr ConflictErr e name
           else WithErr UnknownErr e name))"

definition wrap_err :: "go_error \<Rightarrow> string \<Rightarrow> go_error" where
  "wrap_err e name = (case wrapError (Some e) name of Some e' \<Rightarrow> e' | None \<Rightarrow> e)"

lemmas store_errs = UnknownErr_def ConflictErr_def NoRowsErr_def

lemma wrap_err_eq: "wrapError (Some e) name = Some (wrap_err e name)"
  by (simp add: wrap_err_def wrapError_def)

lemma wrap_err_storage: "\<exists>k. wrap_err e name = StorageErr name k (Some e)"
  by (simp add: wrap_err_def wrapError_def store_errs)

text \<open>What a consumer can still see of the driver's error after the translation.\<close>

lemma wrap_err_no_rows:
  "errors_is (wrap_err e name) Is_pgx_ErrNoRows \<longleftrightarrow> errors_is e Is_pgx_ErrNoRows"
  by (auto simp: wrap_err_def wrapError_def store_errs)

end
