(* ===== verification/Descriptors.thy ===== *)
theory Descriptors
  imports Go_Errors
begin

text \<open>
  The descriptor messages of \<open>descriptor.proto\<close> as the change detector and the lineage code
  read them. The Go types are generated by the protobuf library, which is not part of the
  repository: only the fields the program reads are named, by the value their \<open>GetX\<close> accessor
  returns (the zero value when absent), and everything else a message carries is kept in an opaque
  component (\<open>_rest\<close>), so that two messages can differ in it. Optional sub-messages
  (\<open>options\<close>) are \<open>option\<close> values; a nil message pointer is \<open>None\<close>.
\<close>

record options = deprecated :: "bool option"

definition get_deprecated :: "options option \<Rightarrow> bool" where
  "get_deprecated o' = (case o' of None \<Rightarrow> False | Some opts \<Rightarrow>
     (case deprecated opts of None \<Rightarrow> False | Some b \<Rightarrow> b))"

record FieldDescriptorProto =
  fd_name :: string
  fd_type :: int
  fd_type_name :: string
  fd_options :: "options option"
  fd_rest :: string

record EnumValueDescriptorProto =
  ev_name :: string
  ev_options :: "options option"
  ev_rest :: string

record EnumDescriptorProto =
  ed_name :: string
  ed_value :: "EnumValueDescriptorProto list"
  ed_options :: "options option"
  ed_rest :: string

datatype DescriptorProto = DescriptorProto
  (md_name: string)
  (md_field: "FieldDescriptorProto list")
  (md_nested_type: "DescriptorProto list")
  (md_enum_type: "EnumDescriptorProto list")
  (md_options: "options option")
  (md_rest: string)

record FileDescriptorProto =
  fl_name :: string
  fl_package :: string
  fl_message_type :: "DescriptorProto list"
  fl_enum_type :: "EnumDescriptorProto list"
  fl_rest :: string

type_synonym FileDescriptorSet = "FileDescriptorProto list"

text \<open>
  What the program calls of \<open>google.golang.org/protobuf/proto\<close>: \<open>Unmarshal\<close> into a
  \<open>FileDescriptorSet\<close> (an error, or the message) and \<open>Equal\<close> on messages and
  enums. They are parameters; \<open>proto_ok\<close> is the documented behaviour the theorems rely on:
  \<open>Equal\<close> holds of a message and itself.
\<close>

record proto_api =
  unmarshal_fds :: "bytes \<Rightarrow> FileDescriptorSet res"
  equal_message :: "DescriptorProto \<Rightarrow> DescriptorProto \<Rightarrow> bool"
  equal_enum :: "EnumDescriptorProto \<Rightarrow> EnumDescriptorProto \<Rightarrow> bool"

definition proto_ok :: "proto_api \<Rightarrow> bool" where
  "proto_ok P \<longleftrightarrow> (\<forall>m. equal_message P m m) \<and> (\<forall>e. equal_enum P e e)"

lemma proto_okD: "proto_ok P \<Longrightarrow> equal_message P m m" "proto_ok P \<Longrightarrow> equal_enum P e e"
  by (simp_all add: proto_ok_def)

lemma nested_size [termination_simp]:
  "x \<in> set (md_nested_type m) \<Longrightarrow> size x < size m"
  by (cases m) (auto dest: size_list_estimation'[where f = size])

end
