(* ===== verification/Go_Map.thy ===== *)
theory Go_Map
  imports Go_Prelude "HOL-Library.AList"
begin

text \<open>
  Go maps that the program ranges over. \<open>go_map\<close> is the interface the components rely on
  (lookup after an assignment or a \<open>delete\<close>, and the keys a \<open>range\<close> visits);
  \<open>gm_set\<close>, \<open>gm_del\<close> and the rest implement it by association lists without duplicate
  keys, and the interpretation \<open>gm\<close> discharges the laws.
\<close>

type_synonym 'v gomap = "(string \<times> 'v) list"

definition gm_empty :: "'v gomap" where "gm_empty = []"

definition gm_get :: "'v gomap \<Rightarrow> string \<Rightarrow> 'v option" where "gm_get m = map_of m"

definition gm_set :: "string \<Rightarrow> 'v \<Rightarrow> 'v gomap \<Rightarrow> 'v gomap" where
  "gm_set k v m = AList.update k v m"

definition gm_del :: "string \<Rightarrow> 'v gomap \<Rightarrow> 'v gomap" where
  "gm_del k m = AList.delete k m"

definition gm_keys :: "'v gomap \<Rightarrow> string list" where "gm_keys m = map fst m"

definition gm_inv :: "'v gomap \<Rightarrow> bool" where "gm_inv m \<longleftrightarrow> distinct (map fst m)"

section \<open>The interface\<close>

locale go_map =
  fixes empty :: 'm
    and get :: "'m \<Rightarrow> string \<Rightarrow> 'v option"
    and put :: "string \<Rightarrow> 'v \<Rightarrow> 'm \<Rightarrow> 'm"
    and del :: "string \<Rightarrow> 'm \<Rightarrow> 'm"
    and keys :: "'m \<Rightarrow> string list"
    and inv :: "'m \<Rightarrow> bool"
  assumes get_empty: "get empty = Map.empty"
    and get_put: "get (put k v m) = (get m)(k \<mapsto> v)"
    and get_del: "get (del k m) = (get m)(k := None)"
    and set_keys: "set (keys m) = dom (get m)"
    and distinct_keys: "inv m \<Longrightarrow> distinct (keys m)"
    and inv_empty: "inv empty"
    and inv_put: "inv m \<Longrightarrow> inv (put k v m)"
    and inv_del: "inv m \<Longrightarrow> inv (del k m)"
begin

lemma keys_put: "set (keys (put k v m)) = insert k (set (keys m))"
  by (simp add: set_keys get_put)

lemma keys_del: "set (keys (del k m)) = set (keys m) - {k}"
  by (simp add: set_keys get_del)

text \<open>A loop of assignments, the last one for a key winning.\<close>

lemma get_foldl_put:
  "get (foldl (\<lambda>m x. put (f x) (h x) m) m xs) = (get m)(map f xs [\<mapsto>] map h xs)"
  by (induction xs arbitrary: m) (simp_all add: get_put)

lemma inv_foldl_put: "inv m \<Longrightarrow> inv (foldl (\<lambda>m x. put (f x) (h x) m) m xs)"
  by (induction xs arbitrary: m) (simp_all add: inv_put)

lemma keys_foldl_put:
  "set (keys (foldl (\<lambda>m x. put (f x) (h x) m) m xs)) = f ` set xs \<union> set (keys m)"
  by (induction xs arbitrary: m) (auto simp: keys_put)

end

interpretation gm: go_map gm_empty gm_get gm_set gm_del gm_keys gm_inv
proof unfold_locales
  fix k and v :: 'v and m :: "'v gomap"
  show "gm_get (gm_set k v m) = (gm_get m)(k \<mapsto> v)"
    by (simp add: gm_get_def gm_set_def update_conv')
  show "gm_get (gm_del k m) = (gm_get m)(k := None)"
    by (simp add: gm_get_def gm_del_def delete_conv')
  show "set (gm_keys m) = dom (gm_get m)"
    by (simp add: gm_keys_def gm_get_def dom_map_of_conv_image_fst)
  show "gm_inv m \<Longrightarrow> gm_inv (gm_set k v m)"
    by (simp add: gm_inv_def gm_set_def distinct_update)
  show "gm_inv m \<Longrightarrow> gm_inv (gm_del k m)"
    by (simp add: gm_inv_def gm_del_def distinct_delete)
qed (simp_all add: gm_empty_def gm_get_def gm_keys_def gm_inv_def)

lemmas gm_simps [simp] = gm.get_empty gm.get_put gm.get_del
lemmas gm_invs [simp, intro] = gm.inv_empty gm.inv_put gm.inv_del
lemmas gm_eval = gm_empty_def gm_get_def gm_set_def gm_del_def gm_keys_def

text \<open>Keys by name: the entry of a key is the last element of the list that carries it.\<close>

lemma map_upds_eq_Some_in:
  "(m(map f xs [\<mapsto>] xs)) k = Some x \<Longrightarrow> m k \<noteq> Some x \<Longrightarrow> x \<in> set xs \<and> f x = k"
  by (induction xs arbitrary: m) (force split: if_splits)+

end
