(* ===== verification/Level_Search.thy ===== *)
theory Level_Search
  imports Go_Prelude
begin

text \<open>
  Level-by-level search of a dependency map. \<open>walk g r n v\<close> says that a walk of \<open>n\<close>
  edges leads from \<open>r\<close> to \<open>v\<close>; \<open>at_dist\<close> and \<open>within\<close> are the vertices at
  distance exactly, at most, \<open>n\<close>. The locale \<open>level_search\<close> is the contract that
  one pass over a queue has to satisfy (visit exactly the unvisited successors, once each);
  the change detector's loop and the lineage loop are its two interpretations, and get from it
  that the queue after \<open>n\<close> passes holds the vertices at distance \<open>n\<close>.
\<close>

section \<open>Walks and distances\<close>

fun walk :: "depmap \<Rightarrow> string \<Rightarrow> nat \<Rightarrow> string \<Rightarrow> bool" where
  "walk g r 0 v \<longleftrightarrow> v = r"
| "walk g r (Suc n) v \<longleftrightarrow> (\<exists>u. walk g r n u \<and> v \<in> set (g u))"

definition within :: "depmap \<Rightarrow> string \<Rightarrow> nat \<Rightarrow> string set" where
  "within g r n = {v. \<exists>k\<le>n. walk g r k v}"

definition at_dist :: "depmap \<Rightarrow> string \<Rightarrow> nat \<Rightarrow> string set" where
  "at_dist g r n = {v. walk g r n v \<and> (\<forall>k<n. \<not> walk g r k v)}"

definition reachable :: "depmap \<Rightarrow> string \<Rightarrow> string set" where
  "reachable g r = {v. \<exists>n. walk g r n v}"

lemma within_0 [simp]: "within g r 0 = {r}"
  by (simp add: within_def)

lemma at_dist_0 [simp]: "at_dist g r 0 = {r}"
  by (simp add: at_dist_def)

lemma within_mono: "m \<le> n \<Longrightarrow> within g r m \<subseteq> within g r n"
  by (auto simp: within_def intro: le_trans)

lemma within_reachable: "within g r n \<subseteq> reachable g r"
  by (auto simp: within_def reachable_def)

lemma reachable_UN_within: "reachable g r = (\<Union>n. within g r n)"
  by (auto simp: within_def reachable_def)

lemma at_dist_Suc_eq: "at_dist g r (Suc n) = {v. walk g r (Suc n) v} - within g r n"
  by (auto simp del: walk.simps simp: at_dist_def within_def less_Suc_eq_le)

lemma within_Suc: "within g r (Suc n) = within g r n \<union> at_dist g r (Suc n)"
  by (auto simp del: walk.simps simp: at_dist_Suc_eq within_def le_Suc_eq)

lemma at_dist_within: "at_dist g r n \<subseteq> within g r n"
  by (auto simp: at_dist_def within_def)

lemma at_dist_unique: "v \<in> at_dist g r m \<Longrightarrow> v \<in> at_dist g r n \<Longrightarrow> m = n"
  by (rule linorder_cases [of m n]) (auto simp: at_dist_def)

lemma within_UN_at_dist: "within g r n = (\<Union>k\<le>n. at_dist g r k)"
  by (induction n) (auto simp: within_Suc le_Suc_eq)

text \<open>The next level is made of the new successors of the current one.\<close>

lemma walk_SucE_at_dist:
  assumes "v \<in> at_dist g r (Suc n)"
  obtains u where "u \<in> at_dist g r n" and "v \<in> set (g u)"
proof -
  from assms obtain u where u: "walk g r n u" "v \<in> set (g u)"
    by (auto simp: at_dist_def)
  have "\<not> walk g r k u" if "k < n" for k
  proof
    assume "walk g r k u"
    with u have "walk g r (Suc k) v" by auto
    with assms that show False
      by (auto simp del: walk.simps simp: at_dist_def)
  qed
  with u that show thesis by (auto simp: at_dist_def)
qed

lemma at_dist_Suc:
  "at_dist g r (Suc n) = (\<Union>u\<in>at_dist g r n. set (g u)) - within g r n"
proof
  show "at_dist g r (Suc n) \<subseteq> (\<Union>u\<in>at_dist g r n. set (g u)) - within g r n"
    using walk_SucE_at_dist by (auto simp: at_dist_Suc_eq simp del: walk.simps) blast
  show "(\<Union>u\<in>at_dist g r n. set (g u)) - within g r n \<subseteq> at_dist g r (Suc n)"
    by (auto simp: at_dist_Suc_eq) (auto simp: at_dist_def)
qed

text \<open>Once a level is empty, every later level is, and all reachable vertices have been seen.\<close>

lemma at_dist_empty_later: "at_dist g r n = {} \<Longrightarrow> n \<le> m \<Longrightarrow> at_dist g r m = {}"
proof (induction m)
  case (Suc m)
  then show ?case by (cases "n \<le> m") (simp_all add: at_dist_Suc le_Suc_eq)
qed simp

lemma within_at_dist_empty:
  assumes "at_dist g r n = {}" and "n \<le> m"
  shows "within g r m = within g r n"
  using assms(2)
proof (induction m)
  case (Suc m)
  then show ?case
    using at_dist_empty_later [OF assms(1), of "Suc m"] by (auto simp: le_Suc_eq within_Suc)
qed simp

lemma reachable_level_empty:
  assumes "at_dist g r n = {}"
  shows "reachable g r = within g r n"
proof -
  have "within g r m \<subseteq> within g r n" for m
  proof (cases "n \<le> m")
    case True
    from within_at_dist_empty [OF assms True] show ?thesis by (rule equalityD1)
  next
    case False
    then show ?thesis by (intro within_mono) simp
  qed
  then have "reachable g r \<subseteq> within g r n" unfolding reachable_UN_within by (rule UN_least)
  then show ?thesis using within_reachable by (rule subset_antisym)
qed

lemma within_card:
  assumes "finite (reachable g r)" and "at_dist g r n \<noteq> {}"
  shows "n < card (within g r n)"
  using assms(2)
proof (induction n)
  case (Suc n)
  have ne: "at_dist g r n \<noteq> {}"
    using Suc.prems at_dist_empty_later [of g r n "Suc n"] by auto
  have fin: "finite (within g r m)" for m
    using within_reachable assms(1) by (rule finite_subset)
  have "at_dist g r (Suc n) \<inter> within g r n = {}" by (auto simp: at_dist_Suc)
  then have "within g r n \<subset> within g r (Suc n)" using Suc.prems unfolding within_Suc by blast
  then have "card (within g r n) < card (within g r (Suc n))" using fin by (rule psubset_card_mono [rotated])
  with Suc.IH [OF ne] show ?case by simp
qed simp

lemma reachable_within_card:
  assumes "finite (reachable g r)" and "card (reachable g r) \<le> Suc n"
  shows "reachable g r = within g r n"
proof (cases "at_dist g r (Suc n) = {}")
  case True
  then show ?thesis using reachable_level_empty [OF True] by (simp add: within_Suc)
next
  case False
  have "card (within g r (Suc n)) \<le> card (reachable g r)"
    using assms(1) within_reachable by (rule card_mono)
  with within_card [OF assms(1) False] assms(2) show ?thesis by simp
qed

section \<open>One pass over a queue\<close>

text \<open>
  \<open>push_new g vis u\<close>: the successors of \<open>u\<close> not yet visited, in order, each once, and
  the visited map with them marked; \<open>expand\<close> does so for a queue.
\<close>

fun push_new :: "string list \<Rightarrow> boolmap \<Rightarrow> string list \<times> boolmap" where
  "push_new [] vis = ([], vis)"
| "push_new (n # ns) vis =
     (if vis n then push_new ns vis
      else (let (new, vis') = push_new ns (vis(n := True)) in (n # new, vis')))"

fun expand :: "depmap \<Rightarrow> string list \<Rightarrow> boolmap \<Rightarrow> string list \<times> boolmap" where
  "expand g [] vis = ([], vis)"
| "expand g (u # us) vis =
     (let (new, vis1) = push_new (g u) vis; (more, vis2) = expand g us vis1 in (new @ more, vis2))"

definition marked :: "boolmap \<Rightarrow> string set" where "marked vis = {v. vis v}"

lemma marked_upd [simp]: "marked (vis(n := True)) = insert n (marked vis)"
  by (auto simp: marked_def)

lemma in_marked [simp]: "v \<in> marked vis \<longleftrightarrow> vis v"
  by (simp add: marked_def)

lemma push_new_spec:
  assumes "push_new ns vis = (new, vis')"
  shows "set new = set ns - marked vis" and "distinct new" and "marked vis' = marked vis \<union> set ns"
proof -
  have "set new = set ns - marked vis \<and> distinct new \<and> marked vis' = marked vis \<union> set ns"
    using assms
  proof (induction ns vis arbitrary: new vis' rule: push_new.induct)
    case (2 n ns vis)
    obtain n1 v1 where p: "push_new ns (vis(n := True)) = (n1, v1)" by fastforce
    show ?case
    proof (cases "vis n")
      case True
      then show ?thesis using "2.IH"(1) "2.prems" by auto
    next
      case False
      then have "new = n # n1" "vis' = v1" using "2.prems" p by auto
      then show ?thesis using "2.IH"(2) [OF False p] False by auto
    qed
  qed simp
  then show "set new = set ns - marked vis" and "distinct new" and "marked vis' = marked vis \<union> set ns"
    by auto
qed

lemma expand_spec:
  assumes "expand g us vis = (new, vis')"
  shows "set new = (\<Union>u\<in>set us. set (g u)) - marked vis" and "distinct new"
    and "marked vis' = marked vis \<union> (\<Union>u\<in>set us. set (g u))"
proof -
  have "set new = (\<Union>u\<in>set us. set (g u)) - marked vis \<and> distinct new \<and>
      marked vis' = marked vis \<union> (\<Union>u\<in>set us. set (g u))"
    using assms
  proof (induction us arbitrary: vis new vis')
    case (Cons u us)
    obtain n1 v1 where p: "push_new (g u) vis = (n1, v1)" by fastforce
    obtain n2 v2 where e: "expand g us v1 = (n2, v2)" by fastforce
    have "new = n1 @ n2" "vis' = v2" using Cons.prems p e by auto
    then show ?case
      using Cons.IH [OF e] push_new_spec [OF p] by (auto simp del: in_marked)
  qed simp
  then show "set new = (\<Union>u\<in>set us. set (g u)) - marked vis" and "distinct new"
    and "marked vis' = marked vis \<union> (\<Union>u\<in>set us. set (g u))" by auto
qed

section \<open>The contract of a level pass, and what it gives\<close>

definition level_inv :: "depmap \<Rightarrow> string \<Rightarrow> nat \<Rightarrow> string list \<Rightarrow> boolmap \<Rightarrow> bool" where
  "level_inv g r n us vis \<longleftrightarrow> set us = at_dist g r n \<and> distinct us \<and> marked vis = within g r n"

lemma level_inv_init: "level_inv g r 0 [r] ((\<lambda>_. False)(r := True))"
  by (auto simp: level_inv_def marked_def)

locale level_search =
  fixes names :: "'q \<Rightarrow> string list"
    and pass :: "depmap \<Rightarrow> 'q \<Rightarrow> boolmap \<Rightarrow> 'q \<times> boolmap"
  assumes pass_expand:
    "pass g q vis = (q', vis') \<Longrightarrow> expand g (names q) vis = (names q', vis')"
begin

lemma level_inv_pass:
  assumes "level_inv g r n (names q) vis" and "pass g q vis = (q', vis')"
  shows "level_inv g r (Suc n) (names q') vis'"
  using assms(1) expand_spec [OF pass_expand [OF assms(2)]]
  by (auto simp: level_inv_def at_dist_Suc within_Suc)

lemma empty_level_complete:
  "level_inv g r n (names q) vis \<Longrightarrow> names q = [] \<Longrightarrow> marked vis = reachable g r"
  using reachable_level_empty [of g r n] unfolding level_inv_def by simp

end

end
