(* ===== verification/Change_Detector.thy ===== *)
theory Change_Detector
  imports Descriptors Go_Map Level_Search
begin

text \<open>
  The schema-change detector, \<open>core/changedetector\<close>. First the field comparison of
  \<open>utils.go\<close>, then \<open>proto_change_detector_service.go\<close>: the maps of the previous
  descriptor set, the comparison loops that fill a \<open>SchemaChangedEvent\<close>, the reverse
  dependencies and the level-by-level search for impacted schemas, and
  \<open>IdentifySchemaChange\<close>. Loops that range over a Go map take the iteration order as an argument.
\<close>

section \<open>Data\<close>

record ChangeRequest =
  cr_NamespaceID :: string
  cr_SchemaName :: string
  cr_Version :: int32
  cr_VersionID :: string
  cr_OldData :: bytes
  cr_NewData :: bytes
  cr_Depth :: int32
  cr_SourceURL :: string
  cr_CommitSHA :: string

record SchemaChangedEvent =
  sce_EventId :: string
  sce_EventTimestamp :: int
  sce_NamespaceName :: string
  sce_SchemaName :: string
  sce_UpdatedSchemas :: "string list"
  sce_UpdatedFields :: "string list gomap"
  sce_ImpactedSchemas :: "string list gomap"
  sce_Version :: int32
  sce_SourceUrl :: string
  sce_CommitSha :: string

section \<open>Field and value comparison (utils.go)\<close>

definition IsMessageFieldDeprecated :: "FieldDescriptorProto \<Rightarrow> FieldDescriptorProto \<Rightarrow> bool" where
  "IsMessageFieldDeprecated field1 field2 \<longleftrightarrow>
     fd_options field1 \<noteq> fd_options field1 \<or>
     get_deprecated (fd_options field1) \<noteq> get_deprecated (fd_options field2)"

definition IsMessageFieldChanged :: "FieldDescriptorProto \<Rightarrow> FieldDescriptorProto \<Rightarrow> bool" where
  "IsMessageFieldChanged field1 field2 \<longleftrightarrow>
     fd_type field1 \<noteq> fd_type field2 \<or> fd_name field1 \<noteq> fd_name field2 \<or>
     IsMessageFieldDeprecated field1 field2"

definition IsEnumFieldDeprecated :: "EnumValueDescriptorProto \<Rightarrow> EnumValueDescriptorProto \<Rightarrow> bool" where
  "IsEnumFieldDeprecated field1 field2 \<longleftrightarrow>
     ev_options field1 \<noteq> ev_options field1 \<or>
     get_deprecated (ev_options field1) \<noteq> get_deprecated (ev_options field2)"

definition IsEnumFieldChanged :: "EnumValueDescriptorProto \<Rightarrow> EnumValueDescriptorProto \<Rightarrow> bool" where
  "IsEnumFieldChanged field1 field2 \<longleftrightarrow>
     ev_name field1 \<noteq> ev_name field2 \<or> IsEnumFieldDeprecated field1 field2"

definition GetDescriptorSet :: "proto_api \<Rightarrow> bytes \<Rightarrow> FileDescriptorSet res" where
  "GetDescriptorSet P data = unmarshal_fds P data"

text \<open>The accessors on a possibly nil message or enum return zero values on nil.\<close>

definition opt_md_name :: "DescriptorProto option \<Rightarrow> string" where
  "opt_md_name m = (case m of None \<Rightarrow> [] | Some d \<Rightarrow> md_name d)"

definition opt_md_field :: "DescriptorProto option \<Rightarrow> FieldDescriptorProto list" where
  "opt_md_field m = (case m of None \<Rightarrow> [] | Some d \<Rightarrow> md_field d)"

definition opt_md_enum_type :: "DescriptorProto option \<Rightarrow> EnumDescriptorProto list" where
  "opt_md_enum_type m = (case m of None \<Rightarrow> [] | Some d \<Rightarrow> md_enum_type d)"

definition opt_md_deprecated :: "DescriptorProto option \<Rightarrow> bool" where
  "opt_md_deprecated m = (case m of None \<Rightarrow> False | Some d \<Rightarrow> get_deprecated (md_options d))"

definition opt_ed_name :: "EnumDescriptorProto option \<Rightarrow> string" where
  "opt_ed_name e = (case e of None \<Rightarrow> [] | Some d \<Rightarrow> ed_name d)"

definition opt_ed_value :: "EnumDescriptorProto option \<Rightarrow> EnumValueDescriptorProto list" where
  "opt_ed_value e = (case e of None \<Rightarrow> [] | Some d \<Rightarrow> ed_value d)"

definition opt_ed_deprecated :: "EnumDescriptorProto option \<Rightarrow> bool" where
  "opt_ed_deprecated e = (case e of None \<Rightarrow> False | Some d \<Rightarrow> get_deprecated (ed_options d))"

lemmas opt_getters = opt_md_name_def opt_md_field_def opt_md_enum_type_def opt_md_deprecated_def
  opt_ed_name_def opt_ed_value_def opt_ed_deprecated_def

text \<open>The map of the new entries by name, a later entry of the same name overwriting.\<close>

definition by_name :: "('a \<Rightarrow> string) \<Rightarrow> 'a list \<Rightarrow> 'a gomap" where
  "by_name nm xs = foldl (\<lambda>m x. gm_set (nm x) x m) gm_empty xs"

text \<open>
  The loop over the old fields of a message, or the old values of an enum (the two have the same
  text): an old entry still present is reported under its \<open>label\<close> when it changed, and its name
  is deleted from the map of new entries in either case.
\<close>

fun match_old ::
  "('a \<Rightarrow> string) \<Rightarrow> ('a \<Rightarrow> 'a \<Rightarrow> bool) \<Rightarrow> (string \<Rightarrow> string) \<Rightarrow> 'a list \<Rightarrow> 'a gomap \<Rightarrow> string list
   \<Rightarrow> string list \<times> 'a gomap" where
  "match_old nm changed label [] newFields impacted = (impacted, newFields)"
| "match_old nm changed label (oldField # rest) newFields impacted =
     (case gm_get newFields (nm oldField) of
        None \<Rightarrow> match_old nm changed label rest newFields impacted
      | Some newField \<Rightarrow>
          match_old nm changed label rest (gm_del (nm oldField) newFields)
            (if changed oldField newField then impacted @ [label (nm oldField)] else impacted))"

text \<open>
  The loop over the old enums nested in a message. An entry is deleted from the map of new enums
  only in the branch that reports it.
\<close>

fun match_old_enums ::
  "proto_api \<Rightarrow> EnumDescriptorProto list \<Rightarrow> EnumDescriptorProto gomap \<Rightarrow> string list
   \<Rightarrow> string list \<times> EnumDescriptorProto gomap" where
  "match_old_enums P [] newEnums impacted = (impacted, newEnums)"
| "match_old_enums P (oldEnum # rest) newEnums impacted =
     (case gm_get newEnums (ed_name oldEnum) of
        None \<Rightarrow> match_old_enums P rest newEnums impacted
      | Some newEnum \<Rightarrow>
          if \<not> equal_enum P oldEnum newEnum
          then match_old_enums P rest (gm_del (ed_name oldEnum) newEnums)
                 (impacted @ [ed_name oldEnum])
          else match_old_enums P rest newEnums impacted)"

definition GetImpactedEnumFieldInsideMessage ::
  "proto_api \<Rightarrow> range_order \<Rightarrow> DescriptorProto option \<Rightarrow> DescriptorProto \<Rightarrow> string list" where
  "GetImpactedEnumFieldInsideMessage P ord oldMessageDesc newMessageDesc =
     (let newEnums = by_name ed_name (md_enum_type newMessageDesc);
          (impacted, remaining) = match_old_enums P (opt_md_enum_type oldMessageDesc) newEnums []
      in impacted @ ord (gm_keys remaining))"

definition GetImpactedMessageFields ::
  "proto_api \<Rightarrow> range_order \<Rightarrow> DescriptorProto option \<Rightarrow> DescriptorProto \<Rightarrow> string list" where
  "GetImpactedMessageFields P ord oldMessageDesc newMessageDesc =
     (if opt_md_deprecated oldMessageDesc \<noteq> get_deprecated (md_options newMessageDesc)
      then [opt_md_name oldMessageDesc]
      else
        let newFields = by_name fd_name (md_field newMessageDesc);
            (impacted, remaining) = match_old fd_name IsMessageFieldChanged (\<lambda>name. name)
                                      (opt_md_field oldMessageDesc) newFields []
        in (impacted @ ord (gm_keys remaining)) @
           GetImpactedEnumFieldInsideMessage P ord oldMessageDesc newMessageDesc)"

definition GetImpactedEnumFields ::
  "range_order \<Rightarrow> EnumDescriptorProto option \<Rightarrow> EnumDescriptorProto \<Rightarrow> string list" where
  "GetImpactedEnumFields ord oldEnumDesc newEnumDesc =
     (if opt_ed_deprecated oldEnumDesc \<noteq> get_deprecated (ed_options newEnumDesc)
      then [opt_ed_name oldEnumDesc]
      else
        let newFields = by_name ev_name (ed_value newEnumDesc);
            (impacted, remaining) =
              match_old ev_name IsEnumFieldChanged (\<lambda>name. opt_ed_name oldEnumDesc @ ''.'' @ name)
                (opt_ed_value oldEnumDesc) newFields []
        in impacted @ map (\<lambda>name. ed_name newEnumDesc @ ''.'' @ name) (ord (gm_keys remaining)))"

section \<open>The maps of the previous descriptor set\<close>

type_synonym message_map = "string \<Rightarrow> (string \<Rightarrow> DescriptorProto option) option"
type_synonym enum_map = "string \<Rightarrow> (string \<Rightarrow> EnumDescriptorProto option) option"

text \<open>One round of the two loops: the package's inner map is made when missing, then filled.\<close>

definition add_package :: "(string \<Rightarrow> (string \<Rightarrow> 'd option) option) \<Rightarrow> string \<Rightarrow> ('d \<Rightarrow> string) \<Rightarrow> 'd list
    \<Rightarrow> (string \<Rightarrow> (string \<Rightarrow> 'd option) option)" where
  "add_package pm pkgName nm ds =
     (let inner = (case pm pkgName of None \<Rightarrow> Map.empty | Some i \<Rightarrow> i)
      in pm(pkgName \<mapsto> foldl (\<lambda>i d. i(nm d \<mapsto> d)) inner ds))"

definition getPackageMessageMap :: "FileDescriptorSet \<Rightarrow> message_map" where
  "getPackageMessageMap fds =
     foldl (\<lambda>pm fd. add_package pm (fl_package fd) md_name (fl_message_type fd)) Map.empty fds"

definition getPackageEnumMap :: "FileDescriptorSet \<Rightarrow> enum_map" where
  "getPackageEnumMap fds =
     foldl (\<lambda>pm fd. add_package pm (fl_package fd) ed_name (fl_enum_type fd)) Map.empty fds"

definition getMessageDescriptor :: "message_map \<Rightarrow> string \<Rightarrow> string \<Rightarrow> DescriptorProto option" where
  "getMessageDescriptor pm packageName messageName =
     (case pm packageName of None \<Rightarrow> None | Some packageMap \<Rightarrow> packageMap messageName)"

definition getEnumDescriptor :: "enum_map \<Rightarrow> string \<Rightarrow> string \<Rightarrow> EnumDescriptorProto option" where
  "getEnumDescriptor pm packageName enumName =
     (case pm packageName of None \<Rightarrow> None | Some packageMap \<Rightarrow> packageMap enumName)"

definition findEnumDescriptorFromMessageDescriptor ::
  "DescriptorProto \<Rightarrow> string \<Rightarrow> EnumDescriptorProto option" where
  "findEnumDescriptorFromMessageDescriptor m enumName = find (\<lambda>e. ed_name e = enumName) (md_enum_type m)"

section \<open>Directly impacted schemas\<close>

definition appendImpactedFields ::
  "SchemaChangedEvent \<Rightarrow> string \<Rightarrow> string list \<Rightarrow> SchemaChangedEvent" where
  "appendImpactedFields sce key impactedFields =
     (case gm_get (sce_UpdatedFields sce) key of
        Some val \<Rightarrow> sce\<lparr>sce_UpdatedFields := gm_set key (val @ impactedFields) (sce_UpdatedFields sce)\<rparr>
      | None \<Rightarrow> sce\<lparr>sce_UpdatedFields := gm_set key impactedFields (sce_UpdatedFields sce)\<rparr>)"

text \<open>\<open>sce.UpdatedSchemas = append(...)\<close> followed by \<open>appendImpactedFields\<close>.\<close>

definition report_update ::
  "string \<Rightarrow> string list \<Rightarrow> SchemaChangedEvent \<Rightarrow> SchemaChangedEvent" where
  "report_update name impacted sce =
     appendImpactedFields (sce\<lparr>sce_UpdatedSchemas := sce_UpdatedSchemas sce @ [name]\<rparr>) name impacted"

definition compare_enum ::
  "proto_api \<Rightarrow> (string \<Rightarrow> range_order) \<Rightarrow> string \<Rightarrow> EnumDescriptorProto option \<Rightarrow> EnumDescriptorProto
   \<Rightarrow> SchemaChangedEvent \<Rightarrow> SchemaChangedEvent" where
  "compare_enum P ords enumName oldEnumDesc newEnumDesc sce =
     (case oldEnumDesc of
        None \<Rightarrow> report_update enumName (GetImpactedEnumFields (ords enumName) None newEnumDesc) sce
      | Some old \<Rightarrow>
          if \<not> equal_enum P old newEnumDesc
          then report_update enumName (GetImpactedEnumFields (ords enumName) (Some old) newEnumDesc) sce
          else sce)"

definition compareEnumDescInMessageDesc ::
  "proto_api \<Rightarrow> (string \<Rightarrow> range_order) \<Rightarrow> DescriptorProto \<Rightarrow> DescriptorProto \<Rightarrow> string
   \<Rightarrow> SchemaChangedEvent \<Rightarrow> SchemaChangedEvent" where
  "compareEnumDescInMessageDesc P ords oldMessageDesc newMessageDesc messageName sce =
     foldl (\<lambda>sce newEnumDesc.
         compare_enum P ords (messageName @ ''.'' @ ed_name newEnumDesc)
           (findEnumDescriptorFromMessageDescriptor oldMessageDesc (ed_name newEnumDesc)) newEnumDesc sce)
       sce (md_enum_type newMessageDesc)"

definition compareEnumDescriptors ::
  "proto_api \<Rightarrow> (string \<Rightarrow> range_order) \<Rightarrow> FileDescriptorProto \<Rightarrow> enum_map
   \<Rightarrow> SchemaChangedEvent \<Rightarrow> SchemaChangedEvent" where
  "compareEnumDescriptors P ords fds packageEnumMap sce =
     foldl (\<lambda>sce newEnumDesc.
         compare_enum P ords (fl_package fds @ ''.'' @ ed_name newEnumDesc)
           (getEnumDescriptor packageEnumMap (fl_package fds) (ed_name newEnumDesc)) newEnumDesc sce)
       sce (fl_enum_type fds)"

text \<open>The body of the message loop: a new message is reported and its enums are skipped.\<close>

definition compare_message ::
  "proto_api \<Rightarrow> (string \<Rightarrow> range_order) \<Rightarrow> message_map \<Rightarrow> string \<Rightarrow> DescriptorProto
   \<Rightarrow> SchemaChangedEvent \<Rightarrow> SchemaChangedEvent" where
  "compare_message P ords packageMessageMap pkg newMessageDesc sce =
     (let messageName = pkg @ ''.'' @ md_name newMessageDesc
      in case getMessageDescriptor packageMessageMap pkg (md_name newMessageDesc) of
           None \<Rightarrow> report_update messageName
                     (GetImpactedMessageFields P (ords messageName) None newMessageDesc) sce
         | Some old \<Rightarrow>
             let sce1 = (if \<not> equal_message P old newMessageDesc
                         then report_update messageName
                           (GetImpactedMessageFields P (ords messageName) (Some old) newMessageDesc) sce
                         else sce)
             in compareEnumDescInMessageDesc P ords old newMessageDesc messageName sce1)"

definition setDirectlyImpactedSchemasAndFields ::
  "proto_api \<Rightarrow> (string \<Rightarrow> range_order) \<Rightarrow> FileDescriptorSet \<Rightarrow> FileDescriptorSet
   \<Rightarrow> SchemaChangedEvent \<Rightarrow> SchemaChangedEvent" where
  "setDirectlyImpactedSchemasAndFields P ords currentFds prevFds sce =
     (let packageMessageMap = getPackageMessageMap prevFds;
          packageEnumMap = getPackageEnumMap prevFds
      in foldl (\<lambda>sce fileDesc.
           compareEnumDescriptors P ords fileDesc packageEnumMap
             (foldl (\<lambda>sce m. compare_message P ords packageMessageMap (fl_package fileDesc) m sce)
                sce (fl_message_type fileDesc)))
         sce currentFds)"

section \<open>Dependents\<close>

text \<open>The edge a field contributes: a type name with a leading dot, without it.\<close>

definition field_dependency :: "FieldDescriptorProto \<Rightarrow> string option" where
  "field_dependency f =
     (case fd_type_name f of
        [] \<Rightarrow> None
      | c # dep \<Rightarrow> if c = CHR ''.'' then Some dep else None)"

definition add_dependency :: "string \<Rightarrow> string \<Rightarrow> depmap \<Rightarrow> depmap" where
  "add_dependency k v g = g(k := g k @ [v])"

definition getReverseDependencies :: "FileDescriptorSet \<Rightarrow> depmap" where
  "getReverseDependencies fds =
     foldl (\<lambda>g fd. foldl (\<lambda>g m. foldl (\<lambda>g f.
         (case field_dependency f of
            None \<Rightarrow> g
          | Some dependentMessage \<Rightarrow>
              add_dependency dependentMessage (fl_package fd @ ''.'' @ md_name m) g))
         g (md_field m)) g (fl_message_type fd)) (\<lambda>_. []) fds"

text \<open>
  The loop body over the neighbours appends the unvisited ones to the queue; the inner loop takes
  \<open>size\<close> elements off the front, \<open>size\<close> being the queue's length when it starts.
\<close>

fun enqueue_neighbors :: "string list \<Rightarrow> string list \<Rightarrow> boolmap \<Rightarrow> string list \<times> boolmap" where
  "enqueue_neighbors [] queue vis = (queue, vis)"
| "enqueue_neighbors (neighbor # ns) queue vis =
     (if \<not> vis neighbor then enqueue_neighbors ns (queue @ [neighbor]) (vis(neighbor := True))
      else enqueue_neighbors ns queue vis)"

fun drain_level ::
  "depmap \<Rightarrow> nat \<Rightarrow> string list \<Rightarrow> boolmap \<Rightarrow> string list \<Rightarrow> string list \<times> boolmap \<times> string list" where
  "drain_level g 0 queue vis impacted = (queue, vis, impacted)"
| "drain_level g (Suc i) [] vis impacted = ([], vis, impacted)"
| "drain_level g (Suc i) (currentMessage # queue) vis impacted =
     (let (queue', vis') = enqueue_neighbors (g currentMessage) queue vis
      in drain_level g i queue' vis' (impacted @ [currentMessage]))"

function impacted_loop :: "depmap \<Rightarrow> int32 \<Rightarrow> string list \<Rightarrow> boolmap \<Rightarrow> string list \<Rightarrow> string list" where
  "impacted_loop g depth queue vis impacted =
     (if queue \<noteq> [] \<and> depth \<ge> 0
      then case drain_level g (length queue) queue vis impacted of
             (queue', vis', impacted') \<Rightarrow> impacted_loop g (depth - 1) queue' vis' impacted'
      else impacted)"
  by pat_completeness auto
termination
  by (relation "measure (\<lambda>(g, depth, queue, vis, impacted). nat (depth + 1))") auto

declare impacted_loop.simps [simp del]

definition getDependentImpactedSchemas :: "depmap \<Rightarrow> string \<Rightarrow> int32 \<Rightarrow> string list" where
  "getDependentImpactedSchemas reverseDependencies impactedSchema depth =
     impacted_loop reverseDependencies depth [impactedSchema] ((\<lambda>_. False)(impactedSchema := True)) []"

section \<open>The service operation\<close>

definition appendImpactedDependents ::
  "SchemaChangedEvent \<Rightarrow> string \<Rightarrow> string list \<Rightarrow> SchemaChangedEvent" where
  "appendImpactedDependents sce key impactedDependents =
     sce\<lparr>sce_ImpactedSchemas := gm_set key impactedDependents (sce_ImpactedSchemas sce)\<rparr>"

definition new_event :: "string \<Rightarrow> int \<Rightarrow> ChangeRequest \<Rightarrow> SchemaChangedEvent" where
  "new_event eventId now request =
     \<lparr>sce_EventId = eventId, sce_EventTimestamp = now,
      sce_NamespaceName = cr_NamespaceID request, sce_SchemaName = cr_SchemaName request,
      sce_UpdatedSchemas = [], sce_UpdatedFields = gm_empty, sce_ImpactedSchemas = gm_empty,
      sce_Version = cr_Version request, sce_SourceUrl = cr_SourceURL request,
      sce_CommitSha = cr_CommitSHA request\<rparr>"

text \<open>
  \<open>uuid.New\<close> and \<open>time.Now\<close> are the arguments \<open>eventId\<close> and \<open>now\<close>. The
  request is a pointer: its depth is normalised in place before the last loop.
\<close>

definition effective_depth :: "int32 \<Rightarrow> int32" where
  "effective_depth d = (if d < 0 then max_int32 else d)"

definition IdentifySchemaChange ::
  "proto_api \<Rightarrow> (string \<Rightarrow> range_order) \<Rightarrow> string \<Rightarrow> int \<Rightarrow> ChangeRequest \<Rightarrow> SchemaChangedEvent res" where
  "IdentifySchemaChange P ords eventId now request =
     (if cr_OldData request = [] then Inl (ErrString ''previous schema data is nil'')
      else case GetDescriptorSet P (cr_OldData request) of
        Inl _ \<Rightarrow> Inl (ErrString ''unable to get file descriptor set from previous schema data'')
      | Inr prevFds \<Rightarrow>
          (case GetDescriptorSet P (cr_NewData request) of
             Inl _ \<Rightarrow> Inl (ErrString ''unable to get file descriptor set from current schema data'')
           | Inr currentFds \<Rightarrow>
               let sce = setDirectlyImpactedSchemasAndFields P ords currentFds prevFds
                           (new_event eventId now request);
                   reverseDependencies = getReverseDependencies currentFds;
                   depth = effective_depth (cr_Depth request)
               in Inr (foldl (\<lambda>sce schema.
                      appendImpactedDependents sce schema
                        (getDependentImpactedSchemas reverseDependencies schema depth))
                    sce (sce_UpdatedSchemas sce))))"

end
