(* ===== verification/Change_Detector_Search.thy ===== *)
theory Change_Detector_Search
  imports Change_Detector
begin

text \<open>
  Correctness of the change detector's search for dependents: the reverse dependency map holds
  the edges of the fields' type names, one round of the inner loop meets the contract
  \<open>level_search\<close>, and the whole loop returns the schemas within the depth, each once, in the
  order of their distance.
\<close>

section \<open>The reverse dependency map\<close>

lemma add_dependency_in [simp]:
  "x \<in> set (add_dependency k v g d) \<longleftrightarrow> x \<in> set (g d) \<or> d = k \<and> x = v"
  by (auto simp: add_dependency_def)

definition field_edge :: "FieldDescriptorProto \<Rightarrow> string \<Rightarrow> bool" where
  "field_edge f d \<longleftrightarrow> fd_type_name f = CHR ''.'' # d"

lemma field_dependency_edge [simp]: "field_dependency f = Some d \<longleftrightarrow> field_edge f d"
  by (auto simp: field_dependency_def field_edge_def split: list.splits)

lemma fields_dependencies:
  "x \<in> set (foldl (\<lambda>g f. case field_dependency f of None \<Rightarrow> g
       | Some dep \<Rightarrow> add_dependency dep v g) g fs d) \<longleftrightarrow>
     x \<in> set (g d) \<or> x = v \<and> (\<exists>f\<in>set fs. field_edge f d)"
proof (induction fs arbitrary: g)
  case (Cons f fs)
  then show ?case by (cases "field_dependency f") (auto simp flip: field_dependency_edge)
qed simp

lemma messages_dependencies:
  "x \<in> set (foldl (\<lambda>g m. foldl (\<lambda>g f. case field_dependency f of None \<Rightarrow> g
       | Some dep \<Rightarrow> add_dependency dep (pkg @ ''.'' @ md_name m) g) g (md_field m)) g ms d) \<longleftrightarrow>
     x \<in> set (g d) \<or>
     (\<exists>m\<in>set ms. x = pkg @ ''.'' @ md_name m \<and> (\<exists>f\<in>set (md_field m). field_edge f d))"
  by (induction ms arbitrary: g) (auto simp: fields_dependencies)

lemma getReverseDependencies_iff:
  "x \<in> set (getReverseDependencies fds d) \<longleftrightarrow>
     (\<exists>fd\<in>set fds. \<exists>m\<in>set (fl_message_type fd).
        x = fl_package fd @ ''.'' @ md_name m \<and> (\<exists>f\<in>set (md_field m). field_edge f d))"
proof -
  have "x \<in> set (foldl (\<lambda>g fd. foldl (\<lambda>g m. foldl (\<lambda>g f. case field_dependency f of None \<Rightarrow> g
       | Some dep \<Rightarrow> add_dependency dep (fl_package fd @ ''.'' @ md_name m) g) g (md_field m))
         g (fl_message_type fd)) g fds d) \<longleftrightarrow> x \<in> set (g d) \<or>
     (\<exists>fd\<in>set fds. \<exists>m\<in>set (fl_message_type fd).
        x = fl_package fd @ ''.'' @ md_name m \<and> (\<exists>f\<in>set (md_field m). field_edge f d))" for g
    by (induction fds arbitrary: g) (auto simp: messages_dependencies)
  then show ?thesis by (simp add: getReverseDependencies_def)
qed

section \<open>One level of the loop\<close>

lemma enqueue_neighbors_push_new:
  "enqueue_neighbors ns queue vis = (let (new, vis') = push_new ns vis in (queue @ new, vis'))"
  by (induction ns arbitrary: queue vis) (simp_all add: case_prod_unfold Let_def)

lemma drain_level_expand:
  "drain_level g (length us) (us @ tail) vis acc =
     (let (new, vis') = expand g us vis in (tail @ new, vis', acc @ us))"
  by (induction us arbitrary: tail vis acc)
    (auto simp: enqueue_neighbors_push_new split: prod.splits)

definition impacted_pass :: "depmap \<Rightarrow> string list \<Rightarrow> boolmap \<Rightarrow> string list \<times> boolmap" where
  "impacted_pass g queue vis =
     (case drain_level g (length queue) queue vis [] of (queue', vis', _) \<Rightarrow> (queue', vis'))"

lemma impacted_pass_expand: "impacted_pass g queue vis = expand g queue vis"
  using drain_level_expand [of g queue "[]" vis "[]"] by (simp add: impacted_pass_def split: prod.splits)

interpretation impacted: level_search "\<lambda>q. q" impacted_pass
  by unfold_locales (simp add: impacted_pass_expand)

lemma drain_level_whole:
  "drain_level g (length queue) queue vis acc =
     (case impacted_pass g queue vis of (queue', vis') \<Rightarrow> (queue', vis', acc @ queue))"
  using drain_level_expand [of g queue "[]" vis acc] by (simp add: impacted_pass_expand split: prod.splits)

section \<open>The loop\<close>

text \<open>The vertices at a distance below \<open>n\<close>, and lists ordered by distance.\<close>

definition nearer :: "depmap \<Rightarrow> string \<Rightarrow> nat \<Rightarrow> string set" where
  "nearer g r n = (\<Union>k<n. at_dist g r k)"

lemma nearer_Suc: "nearer g r (Suc n) = nearer g r n \<union> at_dist g r n"
  by (auto simp: nearer_def less_Suc_eq)

lemma nearer_Suc_within: "nearer g r (Suc n) = within g r n"
  by (auto simp: nearer_def within_UN_at_dist less_Suc_eq_le)

lemma nearer_disjoint: "nearer g r n \<inter> at_dist g r n = {}"
  by (auto simp: nearer_def dest: at_dist_unique)

lemma nearer_empty_level: "at_dist g r n = {} \<Longrightarrow> n \<le> m \<Longrightarrow> nearer g r m = nearer g r n"
  using at_dist_empty_later [of g r n]
  by (induction m) (auto simp: nearer_Suc le_Suc_eq)

definition by_distance :: "depmap \<Rightarrow> string \<Rightarrow> string list \<Rightarrow> bool" where
  "by_distance g r xs \<longleftrightarrow>
     sorted_wrt (\<lambda>u v. \<forall>m n. u \<in> at_dist g r m \<longrightarrow> v \<in> at_dist g r n \<longrightarrow> m \<le> n) xs"

lemma by_distance_append_level:
  assumes "by_distance g r acc" and "set acc = nearer g r n" and "set us = at_dist g r n"
  shows "by_distance g r (acc @ us)"
  unfolding by_distance_def sorted_wrt_append
proof (intro conjI ballI allI impI)
  show "sorted_wrt (\<lambda>u v. \<forall>m n. u \<in> at_dist g r m \<longrightarrow> v \<in> at_dist g r n \<longrightarrow> m \<le> n) acc"
    using assms(1) by (simp add: by_distance_def)
  show "sorted_wrt (\<lambda>u v. \<forall>m n. u \<in> at_dist g r m \<longrightarrow> v \<in> at_dist g r n \<longrightarrow> m \<le> n) us"
  proof (rule sorted_wrt_mono_rel [of us "\<lambda>_ _. True"])
    fix u v
    assume "u \<in> set us" "v \<in> set us"
    then show "\<forall>m n. u \<in> at_dist g r m \<longrightarrow> v \<in> at_dist g r n \<longrightarrow> m \<le> n"
      unfolding assms(3) by (metis at_dist_unique order_refl)
  qed simp
next
  fix u v m k
  assume "u \<in> set acc" "v \<in> set us" and m: "u \<in> at_dist g r m" and k: "v \<in> at_dist g r k"
  then obtain j where "j < n" "u \<in> at_dist g r j" using assms(2) by (auto simp: nearer_def)
  with m have "m < n" by (auto dest: at_dist_unique)
  moreover have "k = n" using \<open>v \<in> set us\<close> k assms(3) by (auto dest: at_dist_unique)
  ultimately show "m \<le> k" by simp
qed

lemma impacted_loop_spec:
  assumes "level_inv g r n queue vis" and "set acc = nearer g r n" and "distinct acc"
    and "by_distance g r acc"
  shows "set (impacted_loop g depth queue vis acc) = nearer g r (n + nat (depth + 1)) \<and>
    distinct (impacted_loop g depth queue vis acc) \<and>
    by_distance g r (impacted_loop g depth queue vis acc)"
  using assms
proof (induction g depth queue vis acc arbitrary: n rule: impacted_loop.induct)
  case (1 g depth queue vis acc)
  have lvl: "set queue = at_dist g r n" and dq: "distinct queue"
    using "1.prems"(1) by (simp_all add: level_inv_def)
  show ?case
  proof (cases "queue \<noteq> [] \<and> depth \<ge> 0")
    case False
    have "nearer g r (n + nat (depth + 1)) = nearer g r n"
    proof (cases "queue = []")
      case True
      then show ?thesis using lvl by (intro nearer_empty_level) simp_all
    next
      case False
      then show ?thesis using \<open>\<not> (queue \<noteq> [] \<and> depth \<ge> 0)\<close> by simp
    qed
    moreover have "impacted_loop g depth queue vis acc = acc"
      using False by (subst impacted_loop.simps) auto
    ultimately show ?thesis using "1.prems" by simp
  next
    case True
    obtain q' v' where p: "impacted_pass g queue vis = (q', v')" by fastforce
    have step: "impacted_loop g depth queue vis acc = impacted_loop g (depth - 1) q' v' (acc @ queue)"
      using True p by (subst impacted_loop.simps) (simp add: drain_level_whole)
    have inv: "level_inv g r (Suc n) q' v'" by (rule impacted.level_inv_pass [OF "1.prems"(1) p])
    have acc: "set (acc @ queue) = nearer g r (Suc n)" and "distinct (acc @ queue)"
      using "1.prems" lvl dq nearer_disjoint [of g r n] by (auto simp: nearer_Suc)
    moreover have "by_distance g r (acc @ queue)"
      using "1.prems"(4) "1.prems"(2) lvl by (rule by_distance_append_level)
    moreover have "n + nat (depth + 1) = Suc (n + nat depth)"
      using True by (simp add: nat_add_distrib)
    moreover have "drain_level g (length queue) queue vis acc = (q', v', acc @ queue)"
      using p by (simp add: drain_level_whole)
    ultimately show ?thesis
      unfolding step using "1.IH" [OF True _ refl inv] by simp
  qed
qed

lemma getDependentImpactedSchemas_spec:
  "set (getDependentImpactedSchemas g r depth) = nearer g r (nat (depth + 1)) \<and>
   distinct (getDependentImpactedSchemas g r depth) \<and>
   by_distance g r (getDependentImpactedSchemas g r depth)"
  using impacted_loop_spec [OF level_inv_init, of "[]" g r depth]
  by (simp add: getDependentImpactedSchemas_def nearer_def by_distance_def)

lemma set_getDependentImpactedSchemas:
  "0 \<le> depth \<Longrightarrow> set (getDependentImpactedSchemas g r depth) = within g r (nat depth)"
  using getDependentImpactedSchemas_spec [of g r depth]
  by (simp add: nat_add_distrib flip: nearer_Suc_within)

end
