(* ===== verification/Change_Detector_Props.thy ===== *)
theory Change_Detector_Props
  imports Change_Detector_Search
begin

text \<open>
  What the change detector reports: the fields and enum values of one message or enum, the list
  of updated schemas of a whole descriptor set, and the event \<open>IdentifySchemaChange\<close> returns.
\<close>

section \<open>Maps by name\<close>

definition last_named :: "('a \<Rightarrow> 'k) \<Rightarrow> 'a list \<Rightarrow> 'k \<Rightarrow> 'a option" where
  "last_named nm xs k = find (\<lambda>x. nm x = k) (rev xs)"

definition first_named :: "('a \<Rightarrow> 'k) \<Rightarrow> 'a list \<Rightarrow> 'k \<Rightarrow> 'a option" where
  "first_named nm xs k = find (\<lambda>x. nm x = k) xs"

lemma find_append: "find P (xs @ ys) = (case find P xs of None \<Rightarrow> find P ys | Some x \<Rightarrow> Some x)"
  by (induction xs) auto

lemma find_None_names: "find (\<lambda>x. nm x = k) xs = None \<longleftrightarrow> k \<notin> nm ` set xs"
  by (auto simp: find_None_iff)

lemma find_named_distinct:
  "distinct (map nm xs) \<Longrightarrow> x \<in> set xs \<Longrightarrow> find (\<lambda>y. nm y = nm x) xs = Some x"
  by (induction xs) (auto simp: image_iff)

lemma gm_keys_iff: "k \<in> set (gm_keys m) \<longleftrightarrow> gm_get m k \<noteq> None"
  by (auto simp: gm.set_keys dom_def)

lemma by_name_get: "gm_get (by_name nm xs) k = last_named nm xs k"
  by (induction xs rule: rev_induct) (auto simp: by_name_def last_named_def)

lemma by_name_inv: "gm_inv (by_name nm xs)"
  using gm.inv_foldl_put [of gm_empty nm "\<lambda>x. x" xs] by (simp add: by_name_def)

lemma last_named_None: "last_named nm xs k = None \<longleftrightarrow> k \<notin> nm ` set xs"
  by (simp add: last_named_def find_None_names)

lemma last_named_Some: "(\<exists>x. last_named nm xs k = Some x) \<longleftrightarrow> k \<in> nm ` set xs"
  using last_named_None [of nm xs k] by (simp flip: not_None_eq)

lemma first_named_None: "first_named nm xs k = None \<longleftrightarrow> k \<notin> nm ` set xs"
  by (simp add: first_named_def find_None_names)

lemma first_named_Cons:
  "first_named nm (x # xs) k = (if nm x = k then Some x else first_named nm xs k)"
  by (simp add: first_named_def)

lemma last_named_distinct:
  "distinct (map nm xs) \<Longrightarrow> x \<in> set xs \<Longrightarrow> last_named nm xs (nm x) = Some x"
  using find_named_distinct [of nm "rev xs" x] by (simp add: last_named_def rev_map [symmetric])

lemma first_named_distinct:
  "distinct (map nm xs) \<Longrightarrow> x \<in> set xs \<Longrightarrow> first_named nm xs (nm x) = Some x"
  by (simp add: first_named_def find_named_distinct)

section \<open>Fields of a message, values of an enum\<close>

lemma match_old_spec:
  assumes "match_old nm ch lab olds m acc = (imp, rem)"
  shows "gm_get rem k = (if k \<in> nm ` set olds then None else gm_get m k)"
    and "gm_inv m \<Longrightarrow> gm_inv rem"
    and "set imp = set acc \<union> lab ` {k. \<exists>old new. first_named nm olds k = Some old \<and>
           gm_get m k = Some new \<and> ch old new}"
proof -
  have "gm_get rem k = (if k \<in> nm ` set olds then None else gm_get m k) \<and>
    (gm_inv m \<longrightarrow> gm_inv rem) \<and>
    set imp = set acc \<union> lab ` {k. \<exists>old new. first_named nm olds k = Some old \<and>
           gm_get m k = Some new \<and> ch old new}"
    using assms
  proof (induction olds arbitrary: m acc)
    case Nil
    then show ?case by (simp add: first_named_def)
  next
    case (Cons old olds)
    let ?hit = "\<lambda>m k. \<exists>o' n'. first_named nm olds k = Some o' \<and> gm_get m k = Some n' \<and> ch o' n'"
    show ?case
    proof (cases "gm_get m (nm old)")
      case None
      then have "{k. \<exists>o' n'. first_named nm (old # olds) k = Some o' \<and> gm_get m k = Some n' \<and> ch o' n'}
          = {k. ?hit m k}"
        by (auto simp: first_named_Cons)
      with None Cons show ?thesis by auto
    next
      case (Some new)
      have "{k. \<exists>o' n'. first_named nm (old # olds) k = Some o' \<and> gm_get m k = Some n' \<and> ch o' n'}
          = {k. ?hit (gm_del (nm old) m) k} \<union> (if ch old new then {nm old} else {})"
        using Some by (auto simp: first_named_Cons split: if_splits)
      with Some Cons.IH [of "gm_del (nm old) m" "if ch old new then acc @ [lab (nm old)] else acc"]
        Cons.prems
      show ?thesis by (auto simp: image_Un)
    qed
  qed
  then show "gm_get rem k = (if k \<in> nm ` set olds then None else gm_get m k)"
    and "gm_inv m \<Longrightarrow> gm_inv rem"
    and "set imp = set acc \<union> lab ` {k. \<exists>old new. first_named nm olds k = Some old \<and>
           gm_get m k = Some new \<and> ch old new}" by blast+
qed

text \<open>
  An entry of the new version is new or changed: no old entry of its name, or the first such old
  entry differs from it.
\<close>

definition new_or_changed ::
  "('a \<Rightarrow> string) \<Rightarrow> ('a \<Rightarrow> 'a \<Rightarrow> bool) \<Rightarrow> 'a list \<Rightarrow> 'a list \<Rightarrow> string \<Rightarrow> bool" where
  "new_or_changed nm ch olds news k \<longleftrightarrow>
     (\<exists>new. last_named nm news k = Some new \<and>
        (case first_named nm olds k of None \<Rightarrow> True | Some old \<Rightarrow> ch old new))"

lemma match_old_reported:
  assumes "match_old nm ch lab olds (by_name nm news) [] = (imp, rem)"
  shows "set imp \<union> lab ` set (gm_keys rem) = lab ` {k. new_or_changed nm ch olds news k}"
proof -
  have rem: "set (gm_keys rem) = {k. k \<notin> nm ` set olds \<and> k \<in> nm ` set news}"
    using match_old_spec(1) [OF assms]
    unfolding gm_keys_iff by_name_get set_eq_iff by (simp add: gm_keys_iff last_named_Some)
  have "{k. new_or_changed nm ch olds news k} =
      {k. \<exists>old new. first_named nm olds k = Some old \<and> gm_get (by_name nm news) k = Some new \<and> ch old new}
      \<union> {k. k \<notin> nm ` set olds \<and> k \<in> nm ` set news}"
  proof (rule set_eqI)
    fix k
    show "k \<in> {k. new_or_changed nm ch olds news k} \<longleftrightarrow> k \<in>
      {k. \<exists>old new. first_named nm olds k = Some old \<and> gm_get (by_name nm news) k = Some new \<and> ch old new}
      \<union> {k. k \<notin> nm ` set olds \<and> k \<in> nm ` set news}"
      using first_named_None [of nm olds k] last_named_None [of nm news k]
      by (cases "first_named nm olds k"; cases "last_named nm news k")
        (simp_all add: new_or_changed_def by_name_get)
  qed
  with rem match_old_spec(3) [OF assms] show ?thesis by (simp add: image_Un)
qed

section \<open>Enums nested in a message\<close>

lemma match_old_enums_spec:
  assumes "match_old_enums P olds m acc = (imp, rem)" and "gm_inv m"
    and "distinct acc" and "set acc \<inter> dom (gm_get m) = {}"
  shows "set imp \<union> dom (gm_get rem) = set acc \<union> dom (gm_get m)"
    and "set imp \<inter> dom (gm_get rem) = {}" and "distinct imp" and "gm_inv rem"
proof -
  have "set imp \<union> dom (gm_get rem) = set acc \<union> dom (gm_get m) \<and>
    set imp \<inter> dom (gm_get rem) = {} \<and> distinct imp \<and> gm_inv rem"
    using assms
  proof (induction olds arbitrary: m acc)
    case (Cons old olds)
    show ?case
    proof (cases "\<exists>new. gm_get m (ed_name old) = Some new \<and> \<not> equal_enum P old new")
      case True
      then have mem: "ed_name old \<in> dom (gm_get m)" by auto
      have del: "dom (gm_get (gm_del (ed_name old) m)) = dom (gm_get m) - {ed_name old}" by auto
      have run: "match_old_enums P olds (gm_del (ed_name old) m) (acc @ [ed_name old]) = (imp, rem)"
        using True Cons.prems(1) by auto
      have "set imp \<union> dom (gm_get rem) = set (acc @ [ed_name old]) \<union> (dom (gm_get m) - {ed_name old}) \<and>
          set imp \<inter> dom (gm_get rem) = {} \<and> distinct imp \<and> gm_inv rem"
        using Cons.IH [OF run] Cons.prems(2-4) mem unfolding del by auto
      with mem show ?thesis by auto
    next
      case False
      then show ?thesis using Cons by (auto split: option.splits)
    qed
  qed simp
  then show "set imp \<union> dom (gm_get rem) = set acc \<union> dom (gm_get m)"
    and "set imp \<inter> dom (gm_get rem) = {}" and "distinct imp" and "gm_inv rem" by auto
qed

lemma impacted_enums_all:
  assumes "perm_order ord"
  shows "set (GetImpactedEnumFieldInsideMessage P ord old new) = ed_name ` set (md_enum_type new)"
    and "distinct (GetImpactedEnumFieldInsideMessage P ord old new)"
proof -
  let ?m = "by_name ed_name (md_enum_type new)"
  obtain imp rem where m: "match_old_enums P (opt_md_enum_type old) ?m [] = (imp, rem)" by fastforce
  note spec = match_old_enums_spec [OF m by_name_inv]
  have "dom (gm_get ?m) = ed_name ` set (md_enum_type new)"
    using last_named_None [of ed_name "md_enum_type new"] unfolding by_name_get dom_def set_eq_iff by simp
  then show "set (GetImpactedEnumFieldInsideMessage P ord old new) = ed_name ` set (md_enum_type new)"
    using spec(1) assms m by (simp add: GetImpactedEnumFieldInsideMessage_def gm.set_keys)
  show "distinct (GetImpactedEnumFieldInsideMessage P ord old new)"
    using spec assms m
    by (simp add: GetImpactedEnumFieldInsideMessage_def gm.set_keys gm.distinct_keys)
qed

lemma impacted_fields_set:
  assumes "perm_order ord" and "opt_md_deprecated old = get_deprecated (md_options new)"
  shows "set (GetImpactedMessageFields P ord old new) =
     {k. new_or_changed fd_name IsMessageFieldChanged (opt_md_field old) (md_field new) k} \<union>
     ed_name ` set (md_enum_type new)"
proof -
  obtain imp rem where m: "match_old fd_name IsMessageFieldChanged (\<lambda>n. n) (opt_md_field old)
      (by_name fd_name (md_field new)) [] = (imp, rem)" by fastforce
  have "set (GetImpactedMessageFields P ord old new) = (set imp \<union> set (gm_keys rem)) \<union>
      ed_name ` set (md_enum_type new)"
    using assms m impacted_enums_all(1) [OF assms(1)] by (simp add: GetImpactedMessageFields_def Un_assoc)
  with match_old_reported [OF m] show ?thesis by simp
qed

lemma impacted_values_set:
  assumes "perm_order ord" and "opt_ed_deprecated old = get_deprecated (ed_options new)"
    and "opt_ed_name old = ed_name new"
  shows "set (GetImpactedEnumFields ord old new) =
     (\<lambda>k. ed_name new @ ''.'' @ k) `
       {k. new_or_changed ev_name IsEnumFieldChanged (opt_ed_value old) (ed_value new) k}"
proof -
  obtain imp rem where m: "match_old ev_name IsEnumFieldChanged (\<lambda>n. ed_name new @ ''.'' @ n)
      (opt_ed_value old) (by_name ev_name (ed_value new)) [] = (imp, rem)" by fastforce
  from match_old_reported [OF m] assms m show ?thesis
    by (simp add: GetImpactedEnumFields_def)
qed

section \<open>The list of updated schemas\<close>

definition enum_updated :: "proto_api \<Rightarrow> EnumDescriptorProto option \<Rightarrow> EnumDescriptorProto \<Rightarrow> bool" where
  "enum_updated P old new \<longleftrightarrow> (case old of None \<Rightarrow> True | Some o' \<Rightarrow> \<not> equal_enum P o' new)"

definition nested_enum_updates ::
  "proto_api \<Rightarrow> DescriptorProto \<Rightarrow> DescriptorProto \<Rightarrow> string \<Rightarrow> string list" where
  "nested_enum_updates P old new messageName =
     concat (map (\<lambda>e. if enum_updated P (findEnumDescriptorFromMessageDescriptor old (ed_name e)) e
                      then [messageName @ ''.'' @ ed_name e] else []) (md_enum_type new))"

definition message_updates ::
  "proto_api \<Rightarrow> message_map \<Rightarrow> string \<Rightarrow> DescriptorProto \<Rightarrow> string list" where
  "message_updates P pm pkg new =
     (let messageName = pkg @ ''.'' @ md_name new
      in case getMessageDescriptor pm pkg (md_name new) of
           None \<Rightarrow> [messageName]
         | Some old \<Rightarrow> (if \<not> equal_message P old new then [messageName] else []) @
                         nested_enum_updates P old new messageName)"

definition file_updates ::
  "proto_api \<Rightarrow> message_map \<Rightarrow> enum_map \<Rightarrow> FileDescriptorProto \<Rightarrow> string list" where
  "file_updates P pm em fd =
     concat (map (message_updates P pm (fl_package fd)) (fl_message_type fd)) @
     concat (map (\<lambda>e. if enum_updated P (getEnumDescriptor em (fl_package fd) (ed_name e)) e
                      then [fl_package fd @ ''.'' @ ed_name e] else []) (fl_enum_type fd))"

definition schema_updates ::
  "proto_api \<Rightarrow> FileDescriptorSet \<Rightarrow> FileDescriptorSet \<Rightarrow> string list" where
  "schema_updates P currentFds prevFds =
     concat (map (file_updates P (getPackageMessageMap prevFds) (getPackageEnumMap prevFds)) currentFds)"

text \<open>A loop that only appends to the list appends the concatenation of what each round appends.\<close>

lemma foldl_append_field:
  assumes "\<And>sce x. upd (step sce x) = upd sce @ out x"
  shows "upd (foldl step sce xs) = upd sce @ concat (map out xs)"
  by (induction xs arbitrary: sce) (simp_all add: assms)

lemma appendImpactedFields_updated [simp]:
  "sce_UpdatedSchemas (appendImpactedFields sce key xs) = sce_UpdatedSchemas sce"
  by (simp add: appendImpactedFields_def split: option.splits)

lemma report_update_updated [simp]:
  "sce_UpdatedSchemas (report_update name xs sce) = sce_UpdatedSchemas sce @ [name]"
  by (simp add: report_update_def)

lemma compare_enum_updated [simp]:
  "sce_UpdatedSchemas (compare_enum P ords name old new sce) =
     sce_UpdatedSchemas sce @ (if enum_updated P old new then [name] else [])"
  by (simp add: compare_enum_def enum_updated_def split: option.splits)

lemma compareEnumDescInMessageDesc_updated [simp]:
  "sce_UpdatedSchemas (compareEnumDescInMessageDesc P ords old new name sce) =
     sce_UpdatedSchemas sce @ nested_enum_updates P old new name"
  unfolding compareEnumDescInMessageDesc_def nested_enum_updates_def
  by (rule foldl_append_field) simp

lemma compareEnumDescriptors_updated [simp]:
  "sce_UpdatedSchemas (compareEnumDescriptors P ords fd em sce) =
     sce_UpdatedSchemas sce @
     concat (map (\<lambda>e. if enum_updated P (getEnumDescriptor em (fl_package fd) (ed_name e)) e
                      then [fl_package fd @ ''.'' @ ed_name e] else []) (fl_enum_type fd))"
  unfolding compareEnumDescriptors_def by (rule foldl_append_field) simp

lemma compare_message_updated [simp]:
  "sce_UpdatedSchemas (compare_message P ords pm pkg m sce) =
     sce_UpdatedSchemas sce @ message_updates P pm pkg m"
  by (simp add: compare_message_def message_updates_def Let_def split: option.splits)

lemma setDirectly_updated:
  "sce_UpdatedSchemas (setDirectlyImpactedSchemasAndFields P ords cur prev sce) =
     sce_UpdatedSchemas sce @ schema_updates P cur prev"
  unfolding setDirectlyImpactedSchemasAndFields_def schema_updates_def Let_def
  by (rule foldl_append_field)
    (simp add: file_updates_def foldl_append_field [where upd = sce_UpdatedSchemas,
        where out = "message_updates P (getPackageMessageMap prev) (fl_package _)"])

section \<open>The event invariant\<close>

text \<open>Exactly the updated schemas have an entry of updated fields.\<close>

definition event_ok :: "SchemaChangedEvent \<Rightarrow> bool" where
  "event_ok sce \<longleftrightarrow> gm_inv (sce_UpdatedFields sce) \<and>
     set (gm_keys (sce_UpdatedFields sce)) = set (sce_UpdatedSchemas sce)"

lemma event_ok_report [simp]: "event_ok sce \<Longrightarrow> event_ok (report_update name xs sce)"
  by (auto simp: event_ok_def report_update_def appendImpactedFields_def gm.keys_put split: option.splits)

lemma foldl_invariant: "I s \<Longrightarrow> (\<And>s x. I s \<Longrightarrow> I (step s x)) \<Longrightarrow> I (foldl step s xs)"
  by (induction xs arbitrary: s) simp_all

lemma event_ok_compare_enum [simp]: "event_ok sce \<Longrightarrow> event_ok (compare_enum P ords name old new sce)"
  by (simp add: compare_enum_def split: option.splits)

lemma event_ok_compare_message [simp]:
  "event_ok sce \<Longrightarrow> event_ok (compare_message P ords pm pkg m sce)"
  by (auto simp: compare_message_def compareEnumDescInMessageDesc_def Let_def
      intro!: foldl_invariant [where I = event_ok] split: option.splits)

lemma event_ok_setDirectly:
  "event_ok sce \<Longrightarrow> event_ok (setDirectlyImpactedSchemasAndFields P ords cur prev sce)"
  unfolding setDirectlyImpactedSchemasAndFields_def compareEnumDescriptors_def Let_def
  by (intro foldl_invariant [where I = event_ok]) simp_all

section \<open>The event returned\<close>

definition add_impacted ::
  "depmap \<Rightarrow> int32 \<Rightarrow> SchemaChangedEvent \<Rightarrow> string list \<Rightarrow> SchemaChangedEvent" where
  "add_impacted g depth sce us =
     foldl (\<lambda>sce schema. appendImpactedDependents sce schema (getDependentImpactedSchemas g schema depth)) sce us"

lemma add_impacted_frame:
  "sce_UpdatedSchemas (add_impacted g depth sce us) = sce_UpdatedSchemas sce"
  "sce_UpdatedFields (add_impacted g depth sce us) = sce_UpdatedFields sce"
  unfolding add_impacted_def
  by (induction us arbitrary: sce) (simp_all add: appendImpactedDependents_def)

lemma add_impacted_get:
  "gm_get (sce_ImpactedSchemas (add_impacted g depth sce us)) s =
     (if s \<in> set us then Some (getDependentImpactedSchemas g s depth)
      else gm_get (sce_ImpactedSchemas sce) s)"
  unfolding add_impacted_def
  by (induction us arbitrary: sce) (auto simp: appendImpactedDependents_def)

lemma setDirectly_impacted_frame:
  "sce_ImpactedSchemas (setDirectlyImpactedSchemasAndFields P ords cur prev sce) = sce_ImpactedSchemas sce"
proof -
  have rep: "sce_ImpactedSchemas (report_update n xs s) = sce_ImpactedSchemas s" for n xs s
    by (simp add: report_update_def appendImpactedFields_def split: option.splits)
  have enm: "sce_ImpactedSchemas (compare_enum P ords n old new s) = sce_ImpactedSchemas s" for n old new s
    by (simp add: compare_enum_def rep split: option.splits)
  have fold: "(\<And>s x. sce_ImpactedSchemas (step s x) = sce_ImpactedSchemas s) \<Longrightarrow>
      sce_ImpactedSchemas (foldl step s xs) = sce_ImpactedSchemas s" for step s and xs :: "'b list"
    by (induction xs arbitrary: s) simp_all
  have msg: "sce_ImpactedSchemas (compare_message P ords pm pkg m s) = sce_ImpactedSchemas s" for pm pkg m s
    by (simp add: compare_message_def compareEnumDescInMessageDesc_def Let_def rep enm fold split: option.splits)
  show ?thesis
    by (simp add: setDirectlyImpactedSchemasAndFields_def compareEnumDescriptors_def Let_def fold msg enm)
qed

lemma IdentifySchemaChange_Inr:
  assumes "IdentifySchemaChange P ords eventId now req = Inr sce"
  obtains prev cur where
    "unmarshal_fds P (cr_OldData req) = Inr prev" and "unmarshal_fds P (cr_NewData req) = Inr cur"
    and "sce = add_impacted (getReverseDependencies cur) (effective_depth (cr_Depth req))
           (setDirectlyImpactedSchemasAndFields P ords cur prev (new_event eventId now req))
           (schema_updates P cur prev)"
  using assms that
  by (auto simp: IdentifySchemaChange_def GetDescriptorSet_def Let_def add_impacted_def
      setDirectly_updated new_event_def split: if_splits sum.splits)

section \<open>Looking up the previous version\<close>

definition map_lookup :: "(string \<Rightarrow> (string \<Rightarrow> 'd option) option) \<Rightarrow> string \<Rightarrow> string \<Rightarrow> 'd option" where
  "map_lookup pm pkg n = (case pm pkg of None \<Rightarrow> None | Some inner \<Rightarrow> inner n)"

lemma inner_fold:
  "foldl (\<lambda>i d. i(nm d \<mapsto> d)) i ds n = (case last_named nm ds n of None \<Rightarrow> i n | Some d \<Rightarrow> Some d)"
  by (induction ds rule: rev_induct) (auto simp: last_named_def)

lemma map_lookup_add_package:
  "map_lookup (add_package pm pkg nm ds) p n =
     (if p = pkg then (case last_named nm ds n of None \<Rightarrow> map_lookup pm p n | Some d \<Rightarrow> Some d)
      else map_lookup pm p n)"
  by (simp add: map_lookup_def add_package_def Let_def inner_fold split: option.splits)

definition in_packages :: "(FileDescriptorProto \<Rightarrow> 'd list) \<Rightarrow> FileDescriptorSet \<Rightarrow> (string \<times> 'd) list" where
  "in_packages sel fds = concat (map (\<lambda>fd. map (Pair (fl_package fd)) (sel fd)) fds)"

definition package_key :: "('d \<Rightarrow> string) \<Rightarrow> string \<times> 'd \<Rightarrow> string \<times> string" where
  "package_key nm pd = (fst pd, nm (snd pd))"

lemma last_named_append:
  "last_named nm (xs @ ys) k = (case last_named nm ys k of None \<Rightarrow> last_named nm xs k | Some x \<Rightarrow> Some x)"
  by (simp add: last_named_def find_append split: option.splits)

lemma last_named_one_package:
  "last_named (package_key nm) (map (Pair pkg) ds) (p, n) =
     (if p = pkg then map_option (Pair pkg) (last_named nm ds n) else None)"
  by (induction ds rule: rev_induct) (auto simp: last_named_append last_named_def package_key_def)

lemma package_map_lookup:
  "map_lookup (foldl (\<lambda>pm fd. add_package pm (fl_package fd) nm (sel fd)) Map.empty fds) p n =
     map_option snd (last_named (package_key nm) (in_packages sel fds) (p, n))"
proof (induction fds rule: rev_induct)
  case Nil
  then show ?case by (simp add: map_lookup_def in_packages_def last_named_def)
next
  case (snoc fd fds)
  then show ?case
    by (auto simp: map_lookup_add_package in_packages_def last_named_append last_named_one_package
        split: option.splits)
qed

lemma getMessageDescriptor_lookup:
  "getMessageDescriptor (getPackageMessageMap fds) p n =
     map_option snd (last_named (package_key md_name) (in_packages fl_message_type fds) (p, n))"
  by (simp add: getPackageMessageMap_def getMessageDescriptor_def flip: package_map_lookup map_lookup_def)

lemma getEnumDescriptor_lookup:
  "getEnumDescriptor (getPackageEnumMap fds) p n =
     map_option snd (last_named (package_key ed_name) (in_packages fl_enum_type fds) (p, n))"
  by (simp add: getPackageEnumMap_def getEnumDescriptor_def flip: package_map_lookup map_lookup_def)

text \<open>
  Names are unique as the protobuf compiler enforces: no two top-level messages or enums of one
  package, and no two enums of one message, share a name.
\<close>

definition unique_names :: "FileDescriptorSet \<Rightarrow> bool" where
  "unique_names fds \<longleftrightarrow>
     distinct (map (package_key md_name) (in_packages fl_message_type fds)) \<and>
     distinct (map (package_key ed_name) (in_packages fl_enum_type fds)) \<and>
     (\<forall>fd\<in>set fds. \<forall>m\<in>set (fl_message_type fd). distinct (map ed_name (md_enum_type m)))"

lemma in_packages_mem: "fd \<in> set fds \<Longrightarrow> d \<in> set (sel fd) \<Longrightarrow> (fl_package fd, d) \<in> set (in_packages sel fds)"
  by (auto simp: in_packages_def)

lemma getMessageDescriptor_self:
  "unique_names fds \<Longrightarrow> fd \<in> set fds \<Longrightarrow> m \<in> set (fl_message_type fd) \<Longrightarrow>
     getMessageDescriptor (getPackageMessageMap fds) (fl_package fd) (md_name m) = Some m"
  using last_named_distinct [of "package_key md_name" "in_packages fl_message_type fds" "(fl_package fd, m)"]
  by (simp add: getMessageDescriptor_lookup unique_names_def in_packages_mem package_key_def)

lemma getEnumDescriptor_self:
  "unique_names fds \<Longrightarrow> fd \<in> set fds \<Longrightarrow> e \<in> set (fl_enum_type fd) \<Longrightarrow>
     getEnumDescriptor (getPackageEnumMap fds) (fl_package fd) (ed_name e) = Some e"
  using last_named_distinct [of "package_key ed_name" "in_packages fl_enum_type fds" "(fl_package fd, e)"]
  by (simp add: getEnumDescriptor_lookup unique_names_def in_packages_mem package_key_def)

lemma findEnum_self:
  "distinct (map ed_name (md_enum_type m)) \<Longrightarrow> e \<in> set (md_enum_type m) \<Longrightarrow>
     findEnumDescriptorFromMessageDescriptor m (ed_name e) = Some e"
  by (simp add: findEnumDescriptorFromMessageDescriptor_def find_named_distinct)

lemma schema_updates_self:
  assumes "proto_ok P" and "unique_names fds"
  shows "schema_updates P fds fds = []"
proof -
  have "nested_enum_updates P m m n = []" if "fd \<in> set fds" "m \<in> set (fl_message_type fd)" for fd m n
    using that assms
    by (auto simp: nested_enum_updates_def unique_names_def findEnum_self enum_updated_def proto_okD)
  then show ?thesis using assms
    by (auto simp: schema_updates_def file_updates_def message_updates_def Let_def enum_updated_def
        getMessageDescriptor_self getEnumDescriptor_self proto_okD)
qed

text \<open>Membership in the list, spelled out.\<close>

lemma schema_updates_iff:
  "s \<in> set (schema_updates P cur prev) \<longleftrightarrow>
     (\<exists>fd\<in>set cur. \<exists>m\<in>set (fl_message_type fd).
        s = fl_package fd @ ''.'' @ md_name m \<and>
        (case getMessageDescriptor (getPackageMessageMap prev) (fl_package fd) (md_name m) of
           None \<Rightarrow> True | Some old \<Rightarrow> \<not> equal_message P old m)) \<or>
     (\<exists>fd\<in>set cur. \<exists>m\<in>set (fl_message_type fd). \<exists>e\<in>set (md_enum_type m).
        s = (fl_package fd @ ''.'' @ md_name m) @ ''.'' @ ed_name e \<and>
        (case getMessageDescriptor (getPackageMessageMap prev) (fl_package fd) (md_name m) of
           None \<Rightarrow> False
         | Some old \<Rightarrow> enum_updated P (findEnumDescriptorFromMessageDescriptor old (ed_name e)) e)) \<or>
     (\<exists>fd\<in>set cur. \<exists>e\<in>set (fl_enum_type fd).
        s = fl_package fd @ ''.'' @ ed_name e \<and>
        enum_updated P (getEnumDescriptor (getPackageEnumMap prev) (fl_package fd) (ed_name e)) e)"
proof -
  have msg: "s \<in> set (message_updates P pm pkg m) \<longleftrightarrow>
      s = pkg @ ''.'' @ md_name m \<and> (case getMessageDescriptor pm pkg (md_name m) of
           None \<Rightarrow> True | Some old \<Rightarrow> \<not> equal_message P old m) \<or>
      (\<exists>e\<in>set (md_enum_type m). s = (pkg @ ''.'' @ md_name m) @ ''.'' @ ed_name e \<and>
        (case getMessageDescriptor pm pkg (md_name m) of None \<Rightarrow> False
         | Some old \<Rightarrow> enum_updated P (findEnumDescriptorFromMessageDescriptor old (ed_name e)) e))"
    for pm pkg m
    by (auto simp: message_updates_def nested_enum_updates_def Let_def split: option.splits if_splits)
  show ?thesis
    unfolding schema_updates_def file_updates_def set_concat_map set_append
    by (auto simp: msg bex_Un bex_disj_distrib split: if_splits)
qed

end
