(* ===== verification/Change_Detector_Claims.thy ===== *)
theory Change_Detector_Claims
  imports Change_Detector_Props
begin

text \<open>
  The properties of the change detector, each with a witness at a concrete input: the example
  of the guide \<open>docs/docs/guides/5_schema_change.md\<close>, where \<open>User\<close> uses \<open>Friend\<close>
  and \<open>Friend\<close> uses \<open>Address\<close>.
\<close>

section \<open>Concrete inputs for the witnesses\<close>

definition mk_field :: "string \<Rightarrow> int \<Rightarrow> string \<Rightarrow> FieldDescriptorProto" where
  "mk_field n t tn = \<lparr>fd_name = n, fd_type = t, fd_type_name = tn, fd_options = None, fd_rest = []\<rparr>"

definition mk_message :: "string \<Rightarrow> FieldDescriptorProto list \<Rightarrow> EnumDescriptorProto list \<Rightarrow> DescriptorProto" where
  "mk_message n fs es = DescriptorProto n fs [] es None []"

definition mk_enum :: "string \<Rightarrow> string list \<Rightarrow> EnumDescriptorProto" where
  "mk_enum n vs = \<lparr>ed_name = n,
     ed_value = map (\<lambda>v. \<lparr>ev_name = v, ev_options = None, ev_rest = []\<rparr>) vs,
     ed_options = None, ed_rest = []\<rparr>"

definition mk_file :: "string \<Rightarrow> DescriptorProto list \<Rightarrow> FileDescriptorProto" where
  "mk_file pkg ms = \<lparr>fl_name = ''1.proto'', fl_package = pkg, fl_message_type = ms,
     fl_enum_type = [], fl_rest = []\<rparr>"

definition guide_v1 :: FileDescriptorSet where
  "guide_v1 = [mk_file ''t'' [mk_message ''Address'' [] [],
     mk_message ''Friend'' [mk_field ''address'' 11 ''.t.Address''] [],
     mk_message ''User'' [mk_field ''friend'' 11 ''.t.Friend''] []]]"

definition guide_v2 :: FileDescriptorSet where
  "guide_v2 = [mk_file ''t'' [mk_message ''Address'' [mk_field ''city'' 9 []] [],
     mk_message ''Friend'' [mk_field ''address'' 11 ''.t.Address''] [],
     mk_message ''User'' [mk_field ''friend'' 11 ''.t.Friend''] []]]"

text \<open>A concrete stand-in for the protobuf library: two byte strings decode, equality is equality.\<close>

definition guide_proto :: proto_api where
  "guide_proto = \<lparr>unmarshal_fds = (\<lambda>d. if d = ''v1'' then Inr guide_v1 else if d = ''v2'' then Inr guide_v2
       else Inl (ErrExt ''proto: cannot parse'')),
     equal_message = (\<lambda>a b. a = b), equal_enum = (\<lambda>a b. a = b)\<rparr>"

definition guide_request :: "bytes \<Rightarrow> bytes \<Rightarrow> int32 \<Rightarrow> ChangeRequest" where
  "guide_request old new d = \<lparr>cr_NamespaceID = ''quickstart'', cr_SchemaName = ''example'',
     cr_Version = 2, cr_VersionID = ''id'', cr_OldData = old, cr_NewData = new, cr_Depth = d,
     cr_SourceURL = [], cr_CommitSHA = []\<rparr>"

lemmas guide_defs = mk_field_def mk_message_def mk_enum_def mk_file_def guide_v1_def guide_v2_def
  guide_proto_def guide_request_def

lemma guide_ok: "proto_ok guide_proto"
  by (simp add: guide_proto_def proto_ok_def)

lemma guide_unique: "unique_names guide_v1"
  by (simp add: guide_defs unique_names_def in_packages_def package_key_def)

section \<open>The impacted schemas\<close>

text \<open>
  C4. For a non-negative depth the dependents listed for a schema are exactly the schemas that
  reach it through at most \<open>depth\<close> uses (the schema itself included), each listed once.
\<close>

theorem impacted_exact:
  assumes "0 \<le> depth"
  shows "set (getDependentImpactedSchemas g s depth) = {v. \<exists>n\<le>nat depth. walk g s n v} \<and>
    distinct (getDependentImpactedSchemas g s depth)"
  using set_getDependentImpactedSchemas [OF assms, of g s] getDependentImpactedSchemas_spec [of g s depth]
  by (simp add: within_def)

definition ring :: depmap where
  "ring = (\<lambda>_. [])(''a'' := [''b'', ''c''], ''b'' := [''c'', ''a''], ''c'' := [''d''])"

theorem impacted_exact_witness:
  "set (getDependentImpactedSchemas ring ''a'' 1) = {v. \<exists>n\<le>nat 1. walk ring ''a'' n v} \<and>
   distinct (getDependentImpactedSchemas ring ''a'' 1)"
  by (rule impacted_exact) simp

text \<open>The dependents are listed in the order of their distance from the changed schema.\<close>

theorem impacted_by_distance: "by_distance g s (getDependentImpactedSchemas g s depth)"
  using getDependentImpactedSchemas_spec by blast

lemma reachable_messages:
  "reachable (getReverseDependencies fds) s \<subseteq>
     insert s ((\<lambda>(p, m). p @ ''.'' @ md_name m) ` set (in_packages fl_message_type fds))"
proof -
  have "walk (getReverseDependencies fds) s n v \<Longrightarrow> v = s \<or>
      v \<in> (\<lambda>(p, m). p @ ''.'' @ md_name m) ` set (in_packages fl_message_type fds)" for n v
    by (cases n) (force simp: getReverseDependencies_iff in_packages_def)+
  then show ?thesis by (auto simp: reachable_def)
qed

text \<open>
  A negative depth, which the service replaces by the largest 32-bit value, lists every
  schema that depends on the changed one, however indirectly, as long as the descriptor set has
  fewer than 2 to the 31 messages.
\<close>

theorem impacted_unlimited:
  assumes "depth < 0" and "length (in_packages fl_message_type fds) < 2 ^ 31"
  shows "set (getDependentImpactedSchemas (getReverseDependencies fds) s (effective_depth depth)) =
    reachable (getReverseDependencies fds) s"
proof -
  let ?g = "getReverseDependencies fds" and ?ms = "in_packages fl_message_type fds"
  let ?N = "insert s ((\<lambda>(p, m). p @ ''.'' @ md_name m) ` set ?ms)"
  have "card ((\<lambda>(p, m). p @ ''.'' @ md_name m) ` set ?ms) \<le> length ?ms"
    by (rule le_trans [OF card_image_le card_length]) simp
  then have "card ?N \<le> Suc (length ?ms)" by (simp add: card_insert_if)
  moreover have "card (reachable ?g s) \<le> card ?N"
    by (rule card_mono [OF _ reachable_messages]) simp
  ultimately have "card (reachable ?g s) \<le> Suc (nat max_int32)"
    using assms(2) by (simp add: max_int32_def)
  moreover have "finite (reachable ?g s)"
    by (rule finite_subset [OF reachable_messages]) simp
  ultimately have "reachable ?g s = within ?g s (nat max_int32)"
    by (rule reachable_within_card [rotated])
  then show ?thesis
    using assms(1) by (simp add: effective_depth_def set_getDependentImpactedSchemas max_int32_def)
qed

theorem impacted_unlimited_witness:
  "set (getDependentImpactedSchemas (getReverseDependencies guide_v2) ''t.Address'' (effective_depth (-1))) =
    reachable (getReverseDependencies guide_v2) ''t.Address''"
  by (rule impacted_unlimited) (simp_all add: guide_defs in_packages_def)

text \<open>
  The guide says that with depth 2 the impacted schemas of \<open>Address\<close> are \<open>Address\<close> and
  \<open>Friend\<close> only. The code counts the changed schema as level 0: depth 2 also lists
  \<open>User\<close>, and it is depth 1 that stops after \<open>Friend\<close>.
\<close>

theorem guide_depth_two:
  "getDependentImpactedSchemas (getReverseDependencies guide_v2) ''t.Address'' 2 =
     [''t.Address'', ''t.Friend'', ''t.User''] \<and>
   getDependentImpactedSchemas (getReverseDependencies guide_v2) ''t.Address'' 1 =
     [''t.Address'', ''t.Friend'']"
  by (simp add: getDependentImpactedSchemas_def impacted_loop.simps getReverseDependencies_def
      guide_defs field_dependency_def add_dependency_def drain_level.simps eval_nat_numeral)

text \<open>
  For files without a package the search finds nothing: the names it starts from and collects
  begin with a dot, the keys of the reverse dependency map do not, so only the changed schema
  itself is listed, whatever uses it.
\<close>

theorem no_package_no_dependents:
  assumes "\<forall>fd\<in>set fds. \<forall>m\<in>set (fl_message_type fd). \<forall>f\<in>set (md_field m).
      \<not> field_edge f (CHR ''.'' # n)"
    and "0 \<le> depth"
  shows "getDependentImpactedSchemas (getReverseDependencies fds) ([] @ ''.'' @ n) depth = [''.'' @ n]"
proof -
  let ?g = "getReverseDependencies fds"
  have none: "?g (''.'' @ n) = []"
    using assms(1) getReverseDependencies_iff [of _ fds "''.'' @ n"]
    by (metis append_Cons append_Nil last_in_set)
  have "impacted_loop ?g depth' [] vis acc = acc" for depth' vis acc
    by (subst impacted_loop.simps) simp
  with none assms(2) show ?thesis
    by (simp add: getDependentImpactedSchemas_def impacted_loop.simps [of ?g depth])
qed

theorem no_package_no_dependents_witness:
  "getDependentImpactedSchemas
     (getReverseDependencies [mk_file [] [mk_message ''A'' [] [],
        mk_message ''B'' [mk_field ''a'' 11 ''.A''] []]]) ([] @ ''.'' @ ''A'') 5 = [''.'' @ ''A'']"
  by (rule no_package_no_dependents) (simp_all add: guide_defs field_edge_def)

section \<open>The updated schemas\<close>

lemma identify_updated:
  assumes "IdentifySchemaChange P ords eventId now req = Inr sce"
    and "unmarshal_fds P (cr_OldData req) = Inr prev" and "unmarshal_fds P (cr_NewData req) = Inr cur"
  shows "sce_UpdatedSchemas sce = schema_updates P cur prev"
  using assms
  by (elim IdentifySchemaChange_Inr) (simp add: add_impacted_frame setDirectly_updated new_event_def)

text \<open>
  C9. The updated schemas of the event are exactly: the top-level messages of the new descriptor
  set that are absent from the previous one or not equal to the previous message of the same
  package and name; the enums nested in a message that existed before, when absent there or not
  equal; and the top-level enums, likewise.
\<close>

theorem updated_schemas_exact:
  assumes "IdentifySchemaChange P ords eventId now req = Inr sce"
    and "unmarshal_fds P (cr_OldData req) = Inr prev" and "unmarshal_fds P (cr_NewData req) = Inr cur"
  shows "s \<in> set (sce_UpdatedSchemas sce) \<longleftrightarrow>
     (\<exists>fd\<in>set cur. \<exists>m\<in>set (fl_message_type fd).
        s = fl_package fd @ ''.'' @ md_name m \<and>
        (case getMessageDescriptor (getPackageMessageMap prev) (fl_package fd) (md_name m) of
           None \<Rightarrow> True | Some old \<Rightarrow> \<not> equal_message P old m)) \<or>
     (\<exists>fd\<in>set cur. \<exists>m\<in>set (fl_message_type fd). \<exists>e\<in>set (md_enum_type m).
        s = (fl_package fd @ ''.'' @ md_name m) @ ''.'' @ ed_name e \<and>
        (case getMessageDescriptor (getPackageMessageMap prev) (fl_package fd) (md_name m) of
           None \<Rightarrow> False
         | Some old \<Rightarrow> enum_updated P (findEnumDescriptorFromMessageDescriptor old (ed_name e)) e)) \<or>
     (\<exists>fd\<in>set cur. \<exists>e\<in>set (fl_enum_type fd).
        s = fl_package fd @ ''.'' @ ed_name e \<and>
        enum_updated P (getEnumDescriptor (getPackageEnumMap prev) (fl_package fd) (ed_name e)) e)"
  unfolding identify_updated [OF assms] by (rule schema_updates_iff)

definition guide_event :: SchemaChangedEvent where
  "guide_event = (case IdentifySchemaChange guide_proto (\<lambda>_ ks. ks) ''e1'' 0
       (guide_request ''v1'' ''v2'' 1) of Inr sce \<Rightarrow> sce | Inl _ \<Rightarrow> new_event [] 0 (guide_request [] [] 0))"

lemma guide_event_run:
  "IdentifySchemaChange guide_proto (\<lambda>_ ks. ks) ''e1'' 0 (guide_request ''v1'' ''v2'' 1) = Inr guide_event"
  by (simp add: guide_event_def IdentifySchemaChange_def GetDescriptorSet_def Let_def
      guide_request_def guide_proto_def)

lemma guide_decodes:
  "unmarshal_fds guide_proto (cr_OldData (guide_request ''v1'' ''v2'' 1)) = Inr guide_v1"
  "unmarshal_fds guide_proto (cr_NewData (guide_request ''v1'' ''v2'' 1)) = Inr guide_v2"
  by (simp_all add: guide_request_def guide_proto_def)

theorem updated_schemas_exact_witness:
  "''t.Address'' \<in> set (sce_UpdatedSchemas guide_event) \<and> ''t.Friend'' \<notin> set (sce_UpdatedSchemas guide_event)"
  unfolding updated_schemas_exact [OF guide_event_run guide_decodes]
  by (simp add: getMessageDescriptor_lookup guide_defs in_packages_def last_named_def package_key_def)

text \<open>
  The impacted schemas of the event: exactly the updated schemas have an entry, and it is the
  list of dependents found in the new descriptor set at the request's depth.
\<close>

theorem impacted_entries:
  assumes "IdentifySchemaChange P ords eventId now req = Inr sce"
    and "unmarshal_fds P (cr_NewData req) = Inr cur"
  shows "gm_get (sce_ImpactedSchemas sce) s =
    (if s \<in> set (sce_UpdatedSchemas sce)
     then Some (getDependentImpactedSchemas (getReverseDependencies cur) s (effective_depth (cr_Depth req)))
     else None)"
  using assms
  by (elim IdentifySchemaChange_Inr)
    (simp add: add_impacted_get add_impacted_frame setDirectly_updated setDirectly_impacted_frame new_event_def)

theorem impacted_entries_witness:
  "gm_get (sce_ImpactedSchemas guide_event) ''t.User'' = None"
proof -
  have "''t.User'' \<notin> set (sce_UpdatedSchemas guide_event)"
    unfolding identify_updated [OF guide_event_run guide_decodes] schema_updates_iff
    by (simp add: getMessageDescriptor_lookup guide_defs in_packages_def last_named_def package_key_def)
  then show ?thesis
    unfolding impacted_entries [OF guide_event_run guide_decodes(2), of "''t.User''"] by simp
qed

text \<open>
  In every event the schemas with an entry of updated fields are exactly the updated schemas,
  and no key occurs twice.
\<close>

theorem event_fields_invariant:
  assumes "IdentifySchemaChange P ords eventId now req = Inr sce"
  shows "event_ok sce"
proof -
  have "event_ok (new_event eventId now req)"
    by (simp add: event_ok_def new_event_def gm_empty_def gm_inv_def gm_keys_def)
  with assms show ?thesis
    by (elim IdentifySchemaChange_Inr)
      (simp add: event_ok_def add_impacted_frame event_ok_setDirectly [unfolded event_ok_def])
qed

theorem event_fields_invariant_witness: "event_ok guide_event"
  by (rule event_fields_invariant [OF guide_event_run])

text \<open>
  Uploading the same descriptor set again reports nothing: with unique names and a reflexive
  \<open>proto.Equal\<close> the event has no updated schema and no impacted schema, so no notification is
  sent for it.
\<close>

theorem unchanged_reports_nothing:
  assumes "IdentifySchemaChange P ords eventId now req = Inr sce"
    and "unmarshal_fds P (cr_OldData req) = Inr fds" and "unmarshal_fds P (cr_NewData req) = Inr fds"
    and "proto_ok P" and "unique_names fds"
  shows "sce_UpdatedSchemas sce = [] \<and> gm_keys (sce_ImpactedSchemas sce) = []"
proof -
  have up: "schema_updates P fds fds = []" by (rule schema_updates_self [OF assms(4,5)])
  have "sce_ImpactedSchemas sce = gm_empty"
    using assms(1-3) up
    by (elim IdentifySchemaChange_Inr) (simp add: add_impacted_def setDirectly_impacted_frame new_event_def)
  then show ?thesis
    using identify_updated [OF assms(1-3)] up by (simp add: gm_keys_def gm_empty_def)
qed

theorem unchanged_reports_nothing_witness:
  "case IdentifySchemaChange guide_proto (\<lambda>_ ks. ks) ''e1'' 0 (guide_request ''v1'' ''v1'' (-1)) of
     Inl _ \<Rightarrow> False | Inr sce \<Rightarrow> sce_UpdatedSchemas sce = [] \<and> gm_keys (sce_ImpactedSchemas sce) = []"
proof -
  have dec: "unmarshal_fds guide_proto (cr_OldData (guide_request ''v1'' ''v1'' (-1))) = Inr guide_v1"
    "unmarshal_fds guide_proto (cr_NewData (guide_request ''v1'' ''v1'' (-1))) = Inr guide_v1"
    by (simp_all add: guide_request_def guide_proto_def)
  obtain sce where run:
    "IdentifySchemaChange guide_proto (\<lambda>_ ks. ks) ''e1'' 0 (guide_request ''v1'' ''v1'' (-1)) = Inr sce"
    by (simp add: IdentifySchemaChange_def GetDescriptorSet_def Let_def guide_request_def guide_proto_def)
  from unchanged_reports_nothing [OF run dec guide_ok guide_unique] run show ?thesis by simp
qed

text \<open>
  \<open>IdentifySchemaChange\<close> fails in exactly three cases, each with its own error: no previous
  data, previous data that does not decode, current data that does not decode.
\<close>

theorem identify_errors:
  "IdentifySchemaChange P ords eventId now req =
     (if cr_OldData req = [] then Inl (ErrString ''previous schema data is nil'')
      else if \<exists>e. unmarshal_fds P (cr_OldData req) = Inl e
      then Inl (ErrString ''unable to get file descriptor set from previous schema data'')
      else if \<exists>e. unmarshal_fds P (cr_NewData req) = Inl e
      then Inl (ErrString ''unable to get file descriptor set from current schema data'')
      else Inr (add_impacted (getReverseDependencies (projr (unmarshal_fds P (cr_NewData req))))
             (effective_depth (cr_Depth req))
             (setDirectlyImpactedSchemasAndFields P ords (projr (unmarshal_fds P (cr_NewData req)))
                (projr (unmarshal_fds P (cr_OldData req))) (new_event eventId now req))
             (schema_updates P (projr (unmarshal_fds P (cr_NewData req)))
                (projr (unmarshal_fds P (cr_OldData req))))))"
  by (cases "unmarshal_fds P (cr_OldData req)"; cases "unmarshal_fds P (cr_NewData req)")
    (simp_all add: IdentifySchemaChange_def GetDescriptorSet_def Let_def add_impacted_def
      setDirectly_updated new_event_def)

section \<open>The fields reported for one message\<close>

text \<open>
  When the deprecation of the message itself did not change, the reported names are: every
  field of the new message that is new, or differs from the old field of its name in type or
  deprecation, and the name of every enum nested in the new message, changed or not.
\<close>

theorem impacted_message_fields:
  assumes "perm_order ord" and "opt_md_deprecated old = get_deprecated (md_options new)"
  shows "set (GetImpactedMessageFields P ord old new) =
     {k. \<exists>f. last_named fd_name (md_field new) k = Some f \<and>
        (case first_named fd_name (opt_md_field old) k of
           None \<Rightarrow> True
         | Some f' \<Rightarrow> fd_type f' \<noteq> fd_type f \<or>
             get_deprecated (fd_options f') \<noteq> get_deprecated (fd_options f))} \<union>
     ed_name ` set (md_enum_type new)"
proof -
  have "IsMessageFieldChanged f' f \<longleftrightarrow> fd_type f' \<noteq> fd_type f \<or>
      get_deprecated (fd_options f') \<noteq> get_deprecated (fd_options f)"
    if "first_named fd_name (opt_md_field old) k = Some f'" "last_named fd_name (md_field new) k = Some f"
    for k f' f
  proof -
    have "fd_name f' = k" "fd_name f = k"
      using that by (auto simp: first_named_def last_named_def find_Some_iff)
    then show ?thesis by (simp add: IsMessageFieldChanged_def IsMessageFieldDeprecated_def)
  qed
  then have "new_or_changed fd_name IsMessageFieldChanged (opt_md_field old) (md_field new) k \<longleftrightarrow>
      (\<exists>f. last_named fd_name (md_field new) k = Some f \<and>
        (case first_named fd_name (opt_md_field old) k of None \<Rightarrow> True
         | Some f' \<Rightarrow> fd_type f' \<noteq> fd_type f \<or>
             get_deprecated (fd_options f') \<noteq> get_deprecated (fd_options f)))" for k
    by (auto simp: new_or_changed_def split: option.splits)
  then have "{k. new_or_changed fd_name IsMessageFieldChanged (opt_md_field old) (md_field new) k} =
      {k. \<exists>f. last_named fd_name (md_field new) k = Some f \<and>
        (case first_named fd_name (opt_md_field old) k of None \<Rightarrow> True
         | Some f' \<Rightarrow> fd_type f' \<noteq> fd_type f \<or>
             get_deprecated (fd_options f') \<noteq> get_deprecated (fd_options f))}"
    by (rule Collect_cong)
  then show ?thesis unfolding impacted_fields_set [OF assms] by (rule arg_cong)
qed

definition user_old :: DescriptorProto where
  "user_old = mk_message ''User'' [mk_field ''id'' 9 [], mk_field ''age'' 5 []] [mk_enum ''Role'' [''ADMIN'']]"

definition user_new :: DescriptorProto where
  "user_new = mk_message ''User'' [mk_field ''id'' 5 [], mk_field ''mail'' 9 []] [mk_enum ''Role'' [''ADMIN'']]"

lemmas user_defs = user_old_def user_new_def guide_defs opt_getters get_deprecated_def

theorem impacted_message_fields_witness:
  "set (GetImpactedMessageFields guide_proto rev (Some user_old) user_new) = {''id'', ''mail'', ''Role''}"
  by (subst impacted_message_fields [OF perm_order_rev])
    (auto simp: user_defs last_named_def first_named_def)

text \<open>
  \<open>GetImpactedEnumFieldInsideMessage\<close> returns every enum nested in the new message exactly
  once, whatever the old message holds: an unchanged enum stays in the map of new enums, since an
  entry is deleted only when it is reported, and the last loop then reports it.
\<close>

theorem nested_enums_all_reported:
  assumes "perm_order ord"
  shows "set (GetImpactedEnumFieldInsideMessage P ord old new) = ed_name ` set (md_enum_type new) \<and>
    distinct (GetImpactedEnumFieldInsideMessage P ord old new)"
  using impacted_enums_all [OF assms] by simp

theorem nested_enums_all_reported_witness:
  "set (GetImpactedEnumFieldInsideMessage guide_proto rev (Some user_old) user_old) = {''Role''}"
  using nested_enums_all_reported [OF perm_order_rev, of guide_proto "Some user_old" user_old]
  by (simp add: user_defs)

text \<open>
  A removed field is never reported among the updated fields of its message, although the
  guide says that the check covers deleted fields.
\<close>

theorem removed_field_not_reported:
  assumes "perm_order ord" and "opt_md_deprecated (Some old) = get_deprecated (md_options new)"
    and "k \<in> fd_name ` set (md_field old)" and "k \<notin> fd_name ` set (md_field new)"
    and "k \<notin> ed_name ` set (md_enum_type new)"
  shows "k \<notin> set (GetImpactedMessageFields P ord (Some old) new)"
  using assms last_named_None [of fd_name "md_field new" k]
  unfolding impacted_fields_set [OF assms(1,2)] by (simp add: new_or_changed_def)

theorem removed_field_not_reported_witness:
  "''age'' \<in> fd_name ` set (md_field user_old) \<and>
   ''age'' \<notin> set (GetImpactedMessageFields guide_proto rev (Some user_old) user_new)"
  using removed_field_not_reported [OF perm_order_rev, of user_old user_new "''age''" guide_proto]
  by (simp add: user_defs)

text \<open>
  A field whose message type, number or label changed but whose kind and deprecation did not
  counts as unchanged: neither the type name nor the rest of the field is compared.
\<close>

theorem field_type_name_ignored:
  "\<not> IsMessageFieldChanged f (f\<lparr>fd_type_name := tn, fd_rest := r\<rparr>)"
  by (simp add: IsMessageFieldChanged_def IsMessageFieldDeprecated_def)

text \<open>
  A message that is new and already deprecated is reported with the empty string as its only
  updated field, because the nil old message is compared and named.
\<close>

theorem new_deprecated_message_blank_field:
  assumes "get_deprecated (md_options new)"
  shows "GetImpactedMessageFields P ord None new = [[]]"
  using assms by (simp add: GetImpactedMessageFields_def opt_getters)

theorem new_deprecated_message_blank_field_witness:
  "GetImpactedMessageFields guide_proto rev None
     (DescriptorProto ''M'' [mk_field ''id'' 5 []] [] [] (Some \<lparr>deprecated = Some True\<rparr>) []) = [[]]"
  by (rule new_deprecated_message_blank_field) (simp add: get_deprecated_def)

text \<open>
  For an enum present in both versions, with its deprecation unchanged, the reported names
  are the values that are new or changed in deprecation, qualified by the enum's name.
\<close>

theorem impacted_enum_values:
  assumes "perm_order ord" and "get_deprecated (ed_options old) = get_deprecated (ed_options new)"
    and "ed_name old = ed_name new"
  shows "set (GetImpactedEnumFields ord (Some old) new) =
     (\<lambda>k. ed_name new @ ''.'' @ k) `
       {k. new_or_changed ev_name IsEnumFieldChanged (ed_value old) (ed_value new) k}"
  using impacted_values_set [of ord "Some old" new] assms by (simp add: opt_getters)

theorem impacted_enum_values_witness:
  "set (GetImpactedEnumFields rev (Some (mk_enum ''Role'' [''ADMIN''])) (mk_enum ''Role'' [''ADMIN'', ''DEV'']))
     = {''Role.DEV''}"
proof -
  have "{k. new_or_changed ev_name IsEnumFieldChanged (ed_value (mk_enum ''Role'' [''ADMIN'']))
      (ed_value (mk_enum ''Role'' [''ADMIN'', ''DEV''])) k} = {''DEV''}"
    by (auto simp: new_or_changed_def guide_defs last_named_def first_named_def IsEnumFieldChanged_def
        IsEnumFieldDeprecated_def)
  then show ?thesis
    by (subst impacted_enum_values [OF perm_order_rev]) (simp_all add: guide_defs)
qed

end
