(* ===== verification/Lineage.thy ===== *)
theory Lineage
  imports Descriptors Go_Map Level_Search Change_Detector
begin

text \<open>
  Lineage of a type in a schema, \<open>core/schema/lineage.go\<close>: the forward and reverse dependency
  maps over all messages (nested ones included), the roots that a type name matches, the
  level-by-level walk that records levels and paths, and \<open>computeLineage\<close>. \<open>allFQNs\<close> is
  ranged over, so the roots come in an order given as an argument.
\<close>

section \<open>Data\<close>

type_synonym LineageDirection = string

definition LineageDirectionBoth :: LineageDirection where "LineageDirectionBoth = ''both''"
definition LineageDirectionDownstream :: LineageDirection where
  "LineageDirectionDownstream = ''downstream''"
definition LineageDirectionUpstream :: LineageDirection where "LineageDirectionUpstream = ''upstream''"

lemmas direction_defs =
  LineageDirectionBoth_def LineageDirectionDownstream_def LineageDirectionUpstream_def

record RootSchemaRef =
  rs_NamespaceID :: string
  rs_SchemaID :: string
  rs_TypeName :: string

record LineageSchema =
  ls_NamespaceID :: string
  ls_SchemaID :: string
  ls_TypeName :: string
  ls_Level :: go_int
  ls_Path :: "string list"

record LineageSummary =
  lsum_DownstreamCount :: go_int
  lsum_UpstreamCount :: go_int
  lsum_TotalCount :: go_int

record LineageResponse =
  lr_RootSchema :: RootSchemaRef
  lr_Direction :: LineageDirection
  lr_Downstream :: "LineageSchema list"
  lr_Upstream :: "LineageSchema list"
  lr_Summary :: LineageSummary

record bfsNode =
  bn_fqn :: string
  bn_level :: go_int
  bn_path :: "string list"

record item =
  it_name :: string
  it_path :: "string list"

section \<open>Direction\<close>

definition NormalizeLineageDirection :: "LineageDirection \<Rightarrow> LineageDirection res" where
  "NormalizeLineageDirection direction =
     (if direction = [] \<or> direction = LineageDirectionBoth then Inr LineageDirectionBoth
      else if direction = LineageDirectionDownstream then Inr LineageDirectionDownstream
      else if direction = LineageDirectionUpstream then Inr LineageDirectionUpstream
      else Inl (ErrString (''invalid direction: '' @ go_quote direction)))"

section \<open>Dependency maps\<close>

definition field_deps :: "string \<Rightarrow> depmap \<times> depmap \<Rightarrow> FieldDescriptorProto \<Rightarrow> depmap \<times> depmap" where
  "field_deps fqn deps field =
     (case field_dependency field of
        None \<Rightarrow> deps
      | Some dep \<Rightarrow> (add_dependency fqn dep (fst deps), add_dependency dep fqn (snd deps)))"

fun buildDepsFromMsg :: "string \<Rightarrow> DescriptorProto \<Rightarrow> depmap \<times> depmap \<Rightarrow> depmap \<times> depmap" where
  "buildDepsFromMsg pre msg deps =
     (let fqn = pre @ ''.'' @ md_name msg
      in foldl (\<lambda>deps nested. buildDepsFromMsg fqn nested deps)
           (foldl (field_deps fqn) deps (md_field msg)) (md_nested_type msg))"

declare buildDepsFromMsg.simps [simp del]

lemma buildDepsFromMsg_eval [code]:
  "buildDepsFromMsg pre (DescriptorProto name fds nests enums opts other) deps =
     (let fqn = pre @ ''.'' @ name
      in foldl (\<lambda>deps nested. buildDepsFromMsg fqn nested deps) (foldl (field_deps fqn) deps fds) nests)"
  by (simp add: buildDepsFromMsg.simps [of pre])

definition buildDependencyMaps :: "FileDescriptorSet \<Rightarrow> depmap \<times> depmap" where
  "buildDependencyMaps fds =
     foldl (\<lambda>deps fd. foldl (\<lambda>deps msg. buildDepsFromMsg (fl_package fd) msg deps) deps (fl_message_type fd))
       ((\<lambda>_. []), (\<lambda>_. [])) fds"

section \<open>Roots\<close>

definition add_fqn :: "unit gomap \<Rightarrow> string \<Rightarrow> unit gomap" where
  "add_fqn out fqn = gm_set fqn () out"

fun collectFQNs :: "string \<Rightarrow> DescriptorProto \<Rightarrow> unit gomap \<Rightarrow> unit gomap" where
  "collectFQNs pre msg out =
     (let fqn = pre @ ''.'' @ md_name msg;
          out1 = add_fqn out fqn;
          out2 = foldl (\<lambda>out enm. add_fqn out (fqn @ ''.'' @ ed_name enm)) out1 (md_enum_type msg)
      in foldl (\<lambda>out nested. collectFQNs fqn nested out) out2 (md_nested_type msg))"

declare collectFQNs.simps [simp del]

lemma collectFQNs_eval [code]:
  "collectFQNs pre (DescriptorProto name fds nests enums opts other) out =
     (let fqn = pre @ ''.'' @ name;
          out1 = add_fqn out fqn;
          out2 = foldl (\<lambda>out enm. add_fqn out (fqn @ ''.'' @ ed_name enm)) out1 enums
      in foldl (\<lambda>out nested. collectFQNs fqn nested out) out2 nests)"
  by (simp add: collectFQNs.simps [of pre])

definition all_fqns :: "FileDescriptorSet \<Rightarrow> unit gomap" where
  "all_fqns fds =
     foldl (\<lambda>out fd.
         foldl (\<lambda>out enm. add_fqn out (fl_package fd @ ''.'' @ ed_name enm))
           (foldl (\<lambda>out msg. collectFQNs (fl_package fd) msg out) out (fl_message_type fd))
           (fl_enum_type fd))
       gm_empty fds"

definition findRootFQNs :: "range_order \<Rightarrow> FileDescriptorSet \<Rightarrow> string \<Rightarrow> string list" where
  "findRootFQNs ord fds schemaName =
     filter (\<lambda>fqn. fqn = schemaName \<or> has_suffix fqn (''.'' @ schemaName))
       (ord (gm_keys (all_fqns fds)))"

section \<open>The walk\<close>

text \<open>
  The two nested loops of one level: for each element of the queue, for each of its relations not
  yet visited, a result and an element of the next queue.
\<close>

fun walk_relations ::
  "string list \<Rightarrow> go_int \<Rightarrow> item \<Rightarrow> boolmap \<Rightarrow> item list \<Rightarrow> bfsNode list
   \<Rightarrow> boolmap \<times> item list \<times> bfsNode list" where
  "walk_relations [] level cur visited nextQueue results = (visited, nextQueue, results)"
| "walk_relations (relation # rest) level cur visited nextQueue results =
     (if visited relation then walk_relations rest level cur visited nextQueue results
      else
        let newPath = it_path cur @ [relation]
        in walk_relations rest level cur (visited(relation := True))
             (nextQueue @ [\<lparr>it_name = relation, it_path = newPath\<rparr>])
             (results @ [\<lparr>bn_fqn = relation, bn_level = level, bn_path = newPath\<rparr>]))"

fun walk_level ::
  "depmap \<Rightarrow> item list \<Rightarrow> go_int \<Rightarrow> boolmap \<Rightarrow> item list \<Rightarrow> bfsNode list
   \<Rightarrow> boolmap \<times> item list \<times> bfsNode list" where
  "walk_level graph [] level visited nextQueue results = (visited, nextQueue, results)"
| "walk_level graph (cur # queue) level visited nextQueue results =
     (case walk_relations (graph (it_name cur)) level cur visited nextQueue results of
        (visited', nextQueue', results') \<Rightarrow> walk_level graph queue level visited' nextQueue' results')"

function walk_loop ::
  "depmap \<Rightarrow> go_int \<Rightarrow> go_int \<Rightarrow> item list \<Rightarrow> boolmap \<Rightarrow> bfsNode list \<Rightarrow> bfsNode list" where
  "walk_loop graph maxLevel level queue visited results =
     (if queue \<noteq> [] \<and> level < maxLevel
      then case walk_level graph queue (level + 1) visited [] results of
             (visited', nextQueue, results') \<Rightarrow>
               walk_loop graph maxLevel (level + 1) nextQueue visited' results'
      else results)"
  by pat_completeness auto
termination
  by (relation "measure (\<lambda>(graph, maxLevel, level, queue, visited, results). nat (maxLevel - level))") auto

declare walk_loop.simps [simp del]

definition walkLineage :: "depmap \<Rightarrow> string \<Rightarrow> go_int \<Rightarrow> bfsNode list" where
  "walkLineage graph rootFQN maxLevel =
     walk_loop graph maxLevel 0 [\<lparr>it_name = rootFQN, it_path = [rootFQN]\<rparr>]
       ((\<lambda>_. False)(rootFQN := True)) []"

section \<open>The response\<close>

definition convertLineageNodes :: "string \<Rightarrow> string \<Rightarrow> bfsNode list \<Rightarrow> LineageSchema list" where
  "convertLineageNodes namespaceID schemaID nodes =
     map (\<lambda>node. \<lparr>ls_NamespaceID = namespaceID, ls_SchemaID = schemaID, ls_TypeName = bn_fqn node,
                  ls_Level = bn_level node, ls_Path = bn_path node\<rparr>) nodes"

text \<open>The filter against the nodes already listed for an earlier root.\<close>

fun filter_seen :: "bfsNode list \<Rightarrow> boolmap \<Rightarrow> bfsNode list \<times> boolmap" where
  "filter_seen [] seen = ([], seen)"
| "filter_seen (node # nodes) seen =
     (if seen (bn_fqn node) then filter_seen nodes seen
      else let (filtered, seen') = filter_seen nodes (seen(bn_fqn node := True))
           in (node # filtered, seen'))"

text \<open>The loop body for one root and one of the two directions.\<close>

definition visit_root ::
  "depmap \<Rightarrow> string \<Rightarrow> string \<Rightarrow> go_int \<Rightarrow> bool \<Rightarrow> boolmap \<times> LineageSchema list \<Rightarrow> string
   \<Rightarrow> boolmap \<times> LineageSchema list" where
  "visit_root graph namespaceID schemaID level requested acc rootFQN =
     (if requested
      then let nodes = walkLineage graph rootFQN level;
               (filtered, seen) = filter_seen nodes (fst acc)
           in (seen, snd acc @ convertLineageNodes namespaceID schemaID filtered)
      else acc)"

definition computeLineage ::
  "proto_api \<Rightarrow> range_order \<Rightarrow> bytes \<Rightarrow> string \<Rightarrow> string \<Rightarrow> string \<Rightarrow> go_int \<Rightarrow> LineageDirection
   \<Rightarrow> LineageResponse res" where
  "computeLineage P ord data namespaceID schemaID rootType level direction0 =
     bind_res (GetDescriptorSet P data) (\<lambda>fds.
     bind_res (NormalizeLineageDirection direction0) (\<lambda>direction.
       let (forwardDeps, reverseDeps) = buildDependencyMaps fds;
           roots = findRootFQNs ord fds rootType;
           (down, up) = foldl (\<lambda>(down, up) rootFQN.
               (visit_root reverseDeps namespaceID schemaID level
                  (direction = LineageDirectionBoth \<or> direction = LineageDirectionDownstream) down rootFQN,
                visit_root forwardDeps namespaceID schemaID level
                  (direction = LineageDirectionBoth \<or> direction = LineageDirectionUpstream) up rootFQN))
             (((\<lambda>_. False), []), ((\<lambda>_. False), [])) roots
       in Inr \<lparr>lr_RootSchema = \<lparr>rs_NamespaceID = namespaceID, rs_SchemaID = schemaID, rs_TypeName = rootType\<rparr>,
               lr_Direction = direction,
               lr_Downstream = snd down, lr_Upstream = snd up,
               lr_Summary = \<lparr>lsum_DownstreamCount = int (length (snd down)),
                             lsum_UpstreamCount = int (length (snd up)),
                             lsum_TotalCount = int (length (snd down)) + int (length (snd up))\<rparr>\<rparr>))"

end
