(* ===== verification/Lineage_Props.thy ===== *)
theory Lineage_Props
  imports Lineage Change_Detector_Search
begin

text \<open>
  Lemmas on the lineage component: the edges of the two dependency maps, the second interpretation
  of the contract \<open>level_search\<close> (one level of \<open>walkLineage\<close>), the levels and paths of
  its results, the roots found for a type name, and the merge over several roots.
\<close>

section \<open>Dependency maps\<close>

text \<open>Every message of a file set with its full name, nested messages below their parent.\<close>

fun nested_messages :: "string \<Rightarrow> DescriptorProto \<Rightarrow> (string \<times> DescriptorProto) list" where
  "nested_messages pre msg =
     (let fqn = pre @ ''.'' @ md_name msg
      in (fqn, msg) # concat (map (nested_messages fqn) (md_nested_type msg)))"

declare nested_messages.simps [simp del]

lemma nested_messages_eval:
  "nested_messages pre (DescriptorProto name fds nests enums opts other) =
     (let fqn = pre @ ''.'' @ name
      in (fqn, DescriptorProto name fds nests enums opts other) # concat (map (nested_messages fqn) nests))"
  by (simp add: nested_messages.simps [of pre])

definition fds_messages :: "FileDescriptorSet \<Rightarrow> (string \<times> DescriptorProto) list" where
  "fds_messages fds =
     concat (map (\<lambda>fd. concat (map (nested_messages (fl_package fd)) (fl_message_type fd))) fds)"

definition field_edges :: "string \<times> DescriptorProto \<Rightarrow> (string \<times> string) list" where
  "field_edges nm = concat (map (\<lambda>f. case field_dependency f of None \<Rightarrow> [] | Some d \<Rightarrow> [(fst nm, d)])
     (md_field (snd nm)))"

lemma field_edges_pair:
  "concat (map (\<lambda>f. case field_dependency f of None \<Rightarrow> [] | Some d \<Rightarrow> [(u, d)]) (md_field m)) =
     field_edges (u, m)"
  unfolding field_edges_def fst_conv snd_conv ..

definition add_edge :: "depmap \<times> depmap \<Rightarrow> string \<times> string \<Rightarrow> depmap \<times> depmap" where
  "add_edge deps e = (add_dependency (fst e) (snd e) (fst deps), add_dependency (snd e) (fst e) (snd deps))"

lemma foldl_field_deps:
  "foldl (field_deps fqn) deps fs = foldl add_edge deps
     (concat (map (\<lambda>f. case field_dependency f of None \<Rightarrow> [] | Some d \<Rightarrow> [(fqn, d)]) fs))"
proof (induction fs arbitrary: deps)
  case (Cons f fs)
  then show ?case
    by (cases "field_dependency f") (simp_all del: field_dependency_edge add: field_deps_def add_edge_def)
qed simp

lemma buildDepsFromMsg_edges:
  "buildDepsFromMsg pre msg deps =
     foldl add_edge deps (concat (map field_edges (nested_messages pre msg)))"
proof (induction pre msg deps rule: buildDepsFromMsg.induct)
  case (1 pre msg deps)
  let ?fqn = "pre @ ''.'' @ md_name msg"
  have "foldl (\<lambda>deps nested. buildDepsFromMsg ?fqn nested deps) d (md_nested_type msg) =
    foldl (\<lambda>deps nested. foldl add_edge deps (concat (map field_edges (nested_messages ?fqn nested)))) d
      (md_nested_type msg)" for d
    by (rule foldl_cong) (simp_all add: "1.IH")
  then show ?case
    unfolding buildDepsFromMsg.simps [of pre] nested_messages.simps [of pre]
    by (simp add: Let_def foldl_field_deps field_edges_pair foldl_concat_map)
qed

definition all_edges :: "FileDescriptorSet \<Rightarrow> (string \<times> string) list" where
  "all_edges fds = concat (map field_edges (fds_messages fds))"

lemma buildDependencyMaps_edges:
  "buildDependencyMaps fds = foldl add_edge ((\<lambda>_. []), (\<lambda>_. [])) (all_edges fds)"
  unfolding buildDependencyMaps_def all_edges_def fds_messages_def
  by (simp add: buildDepsFromMsg_edges foldl_concat_map)

lemma foldl_add_edge:
  "fst (foldl add_edge deps es) u = fst deps u @ map snd (filter (\<lambda>e. fst e = u) es) \<and>
   snd (foldl add_edge deps es) v = snd deps v @ map fst (filter (\<lambda>e. snd e = v) es)"
  by (induction es arbitrary: deps) (auto simp: add_edge_def add_dependency_def)

lemma forward_edges: "fst (buildDependencyMaps fds) u = map snd (filter (\<lambda>e. fst e = u) (all_edges fds))"
  using foldl_add_edge by (simp add: buildDependencyMaps_edges)

lemma reverse_edges: "snd (buildDependencyMaps fds) v = map fst (filter (\<lambda>e. snd e = v) (all_edges fds))"
  using foldl_add_edge by (simp add: buildDependencyMaps_edges)

lemma in_all_edges:
  "(u, v) \<in> set (all_edges fds) \<longleftrightarrow>
     (\<exists>m. (u, m) \<in> set (fds_messages fds) \<and> (\<exists>f\<in>set (md_field m). field_edge f v))"
proof -
  have "(u, v) \<in> set (field_edges nm) \<longleftrightarrow> fst nm = u \<and> (\<exists>f\<in>set (md_field (snd nm)). field_edge f v)" for nm
    unfolding field_edges_def field_dependency_edge [symmetric]
    by (auto split: option.splits simp del: field_dependency_edge intro!: bexI)
  moreover have "(u, v) \<in> set (all_edges fds) \<longleftrightarrow> (\<exists>nm\<in>set (fds_messages fds). (u, v) \<in> set (field_edges nm))"
    by (simp add: all_edges_def)
  ultimately show ?thesis by (simp add: Bex_def split_paired_Ex)
qed

lemma in_forward: "v \<in> set (fst (buildDependencyMaps fds) u) \<longleftrightarrow> (u, v) \<in> set (all_edges fds)"
  by (force simp: forward_edges)

lemma in_reverse: "u \<in> set (snd (buildDependencyMaps fds) v) \<longleftrightarrow> (u, v) \<in> set (all_edges fds)"
  by (force simp: reverse_edges)

text \<open>A walk in one map is the same walk backwards in the other.\<close>

lemma walk_Suc_left: "walk g r (Suc n) v \<longleftrightarrow> (\<exists>u. u \<in> set (g r) \<and> walk g u n v)"
proof (induction n arbitrary: v)
  case (Suc n)
  have "walk g r (Suc (Suc n)) v \<longleftrightarrow> (\<exists>w. walk g r (Suc n) w \<and> v \<in> set (g w))" by simp
  also have "\<dots> \<longleftrightarrow> (\<exists>u. u \<in> set (g r) \<and> walk g u (Suc n) v)"
    unfolding Suc by auto
  finally show ?case .
qed simp

lemma walk_converse:
  assumes "\<And>u v. v \<in> set (g u) \<longleftrightarrow> u \<in> set (h v)"
  shows "walk g u n v \<longleftrightarrow> walk h v n u"
proof (induction n arbitrary: v)
  case (Suc n)
  have "walk g u (Suc n) v \<longleftrightarrow> (\<exists>w. walk h w n u \<and> w \<in> set (h v))" by (simp add: Suc assms)
  also have "\<dots> \<longleftrightarrow> walk h v (Suc n) u" by (auto simp del: walk.simps simp: walk_Suc_left)
  finally show ?case .
qed auto

lemma within_converse:
  assumes "\<And>u v. v \<in> set (g u) \<longleftrightarrow> u \<in> set (h v)"
  shows "v \<in> within g u n \<longleftrightarrow> u \<in> within h v n"
  by (simp add: within_def walk_converse [OF assms])

section \<open>One level of the walk\<close>

definition step_item :: "item \<Rightarrow> string \<Rightarrow> item" where
  "step_item cur r = \<lparr>it_name = r, it_path = it_path cur @ [r]\<rparr>"

definition item_node :: "go_int \<Rightarrow> item \<Rightarrow> bfsNode" where
  "item_node level i = \<lparr>bn_fqn = it_name i, bn_level = level, bn_path = it_path i\<rparr>"

lemma item_sel [simp]:
  "it_name (step_item cur r) = r" "it_path (step_item cur r) = it_path cur @ [r]"
  "bn_fqn (item_node l i) = it_name i" "bn_level (item_node l i) = l" "bn_path (item_node l i) = it_path i"
  by (simp_all add: step_item_def item_node_def)

lemma walk_relations_push_new:
  "walk_relations ns level cur vis nq res =
     (case push_new ns vis of (new, vis') \<Rightarrow>
        (vis', nq @ map (step_item cur) new, res @ map (\<lambda>r. item_node level (step_item cur r)) new))"
  by (induction ns arbitrary: vis nq res)
    (simp_all add: step_item_def item_node_def Let_def case_prod_unfold)

text \<open>The queue of the next level, as a function of the current one.\<close>

fun next_items :: "depmap \<Rightarrow> item list \<Rightarrow> boolmap \<Rightarrow> item list \<times> boolmap" where
  "next_items g [] vis = ([], vis)"
| "next_items g (cur # q) vis =
     (case push_new (g (it_name cur)) vis of (new, vis1) \<Rightarrow>
        (case next_items g q vis1 of (rest, vis2) \<Rightarrow> (map (step_item cur) new @ rest, vis2)))"

lemma walk_level_next:
  "walk_level g q level vis nq res =
     (case next_items g q vis of (q', vis') \<Rightarrow> (vis', nq @ q', res @ map (item_node level) q'))"
  by (induction q arbitrary: vis nq res) (simp_all add: walk_relations_push_new case_prod_unfold)

lemma next_items_expand:
  "next_items g q vis = (q', vis') \<Longrightarrow> expand g (map it_name q) vis = (map it_name q', vis')"
  by (induction q arbitrary: vis q' vis') (auto simp: o_def Let_def split: prod.splits)

interpretation lineage: level_search "map it_name" next_items
  by unfold_locales (rule next_items_expand)

section \<open>Paths\<close>

fun edges_ok :: "depmap \<Rightarrow> string list \<Rightarrow> bool" where
  "edges_ok g (u # v # us) \<longleftrightarrow> v \<in> set (g u) \<and> edges_ok g (v # us)"
| "edges_ok g us \<longleftrightarrow> True"

text \<open>A path from \<open>r\<close> to \<open>v\<close> of \<open>n\<close> edges of the map.\<close>

definition path_ok :: "depmap \<Rightarrow> string \<Rightarrow> nat \<Rightarrow> string \<Rightarrow> string list \<Rightarrow> bool" where
  "path_ok g r n v p \<longleftrightarrow> length p = Suc n \<and> hd p = r \<and> last p = v \<and> edges_ok g p"

lemma edges_ok_snoc: "p \<noteq> [] \<Longrightarrow> edges_ok g (p @ [v]) \<longleftrightarrow> edges_ok g p \<and> v \<in> set (g (last p))"
  by (induction g p rule: edges_ok.induct) auto

lemma path_ok_snoc:
  "path_ok g r n u p \<Longrightarrow> v \<in> set (g u) \<Longrightarrow> path_ok g r (Suc n) v (p @ [v])"
  using edges_ok_snoc [of p g v] by (cases "p = []") (auto simp: path_ok_def)

definition items_ok :: "depmap \<Rightarrow> string \<Rightarrow> nat \<Rightarrow> item list \<Rightarrow> bool" where
  "items_ok g r n q \<longleftrightarrow> list_all (\<lambda>i. path_ok g r n (it_name i) (it_path i)) q"

lemma next_items_ok:
  "items_ok g r n q \<Longrightarrow> next_items g q vis = (q', vis') \<Longrightarrow> items_ok g r (Suc n) q'"
proof (induction q arbitrary: vis q' vis')
  case (Cons cur q)
  obtain new v1 where p: "push_new (g (it_name cur)) vis = (new, v1)" by fastforce
  obtain rest v2 where m: "next_items g q v1 = (rest, v2)" by fastforce
  have q': "q' = map (step_item cur) new @ rest" using Cons.prems(2) p m by simp
  have "items_ok g r (Suc n) rest" using Cons.IH [OF _ m] Cons.prems(1) by (simp add: items_ok_def)
  moreover have "items_ok g r (Suc n) (map (step_item cur) new)"
    using Cons.prems(1) push_new_spec(1) [OF p] by (auto simp: items_ok_def list_all_iff intro: path_ok_snoc)
  ultimately show ?case by (simp add: q' items_ok_def)
qed (simp add: items_ok_def)

section \<open>The whole walk\<close>

text \<open>What a node of the result says: its level is its distance and its path a shortest one.\<close>

definition node_ok :: "depmap \<Rightarrow> string \<Rightarrow> go_int \<Rightarrow> bfsNode \<Rightarrow> bool" where
  "node_ok g r maxLevel node \<longleftrightarrow>
     1 \<le> bn_level node \<and> bn_level node \<le> maxLevel \<and>
     bn_fqn node \<in> at_dist g r (nat (bn_level node)) \<and>
     path_ok g r (nat (bn_level node)) (bn_fqn node) (bn_path node)"

definition walk_inv :: "depmap \<Rightarrow> string \<Rightarrow> nat \<Rightarrow> bfsNode list \<Rightarrow> bool" where
  "walk_inv g r n res \<longleftrightarrow>
     bn_fqn ` set res = within g r n - {r} \<and> distinct (map bn_fqn res) \<and>
     sorted (map bn_level res) \<and> (\<forall>node\<in>set res. node_ok g r (int n) node)"

lemma node_ok_mono: "node_ok g r m node \<Longrightarrow> m \<le> n \<Longrightarrow> node_ok g r n node"
  by (auto simp: node_ok_def)

lemma at_dist_Suc_not_root: "r \<notin> at_dist g r (Suc n)"
  using at_dist_unique [of r g r "Suc n" 0] by auto

lemma walk_inv_level:
  assumes "walk_inv g r n res" and "level_inv g r (Suc n) (map it_name q) vis" and "items_ok g r (Suc n) q"
  shows "walk_inv g r (Suc n) (res @ map (item_node (int n + 1)) q)"
proof -
  have q: "it_name ` set q = at_dist g r (Suc n)" and dq: "distinct (map it_name q)"
    using assms(2) by (simp_all add: level_inv_def)
  have fr: "at_dist g r (Suc n) \<inter> within g r n = {}" by (auto simp: at_dist_Suc)
  have "bn_fqn ` set (res @ map (item_node (int n + 1)) q) = within g r (Suc n) - {r}"
    using assms(1) q at_dist_Suc_not_root [of r g n] by (auto simp: walk_inv_def within_Suc image_Un image_image)
  moreover have "distinct (map bn_fqn (res @ map (item_node (int n + 1)) q))"
  proof -
    have "bn_fqn ` set res \<inter> it_name ` set q = {}"
      using assms(1) fr unfolding q walk_inv_def by blast
    then show ?thesis using assms(1) dq by (simp add: walk_inv_def o_def image_image)
  qed
  moreover have "sorted (map bn_level (res @ map (item_node (int n + 1)) q))"
  proof -
    have "sorted (map (bn_level \<circ> item_node (int n + 1)) q)" by (simp add: o_def sorted_map)
    moreover have "bn_level a \<le> int n + 1" if "a \<in> set res" for a
      using assms(1) that by (force simp: walk_inv_def node_ok_def)
    ultimately show ?thesis using assms(1) by (auto simp: walk_inv_def sorted_append)
  qed
  moreover have "node_ok g r (int (Suc n)) node" if mem: "node \<in> set (res @ map (item_node (int n + 1)) q)" for node
  proof (cases "node \<in> set res")
    case True
    then have "node_ok g r (int n) node" using assms(1) by (simp add: walk_inv_def)
    then show ?thesis by (rule node_ok_mono) simp
  next
    case False
    then obtain i where i: "i \<in> set q" "node = item_node (int n + 1) i" using mem by auto
    have "nat (int n + 1) = Suc n" by simp
    moreover have "it_name i \<in> at_dist g r (Suc n)" using i(1) q by blast
    moreover have "path_ok g r (Suc n) (it_name i) (it_path i)"
      using assms(3) i(1) by (simp add: items_ok_def list_all_iff)
    ultimately show ?thesis by (simp add: i(2) node_ok_def)
  qed
  ultimately show ?thesis by (simp add: walk_inv_def)
qed

lemma walk_loop_inv:
  assumes "level = int n" and "level_inv g r n (map it_name q) vis" and "items_ok g r n q" and "walk_inv g r n res"
  shows "walk_inv g r (max n (nat maxLevel)) (walk_loop g maxLevel level q vis res)"
  using assms
proof (induction g maxLevel level q vis res arbitrary: n rule: walk_loop.induct)
  case (1 g maxLevel level q vis res)
  show ?case
  proof (cases "q \<noteq> [] \<and> level < maxLevel")
    case False
    then have stop: "walk_loop g maxLevel level q vis res = res" by (subst walk_loop.simps) auto
    show ?thesis
    proof (cases "q = []")
      case True
      then have e: "at_dist g r n = {}" using "1.prems"(2) by (simp add: level_inv_def)
      have "walk_inv g r m res" if "n \<le> m" for m
        using "1.prems"(4) within_at_dist_empty [OF e that] that
        by (auto simp: walk_inv_def intro: node_ok_mono)
      then show ?thesis by (simp add: stop)
    next
      case False
      with \<open>\<not> (q \<noteq> [] \<and> level < maxLevel)\<close> "1.prems"(1) have "max n (nat maxLevel) = n" by auto
      then show ?thesis using "1.prems"(4) by (simp add: stop)
    qed
  next
    case True
    obtain q' v' where p: "next_items g q vis = (q', v')" by fastforce
    have lv: "walk_level g q (level + 1) vis [] res = (v', q', res @ map (item_node (level + 1)) q')"
      by (simp add: walk_level_next p)
    have inv: "level_inv g r (Suc n) (map it_name q') v'" by (rule lineage.level_inv_pass [OF "1.prems"(2) p])
    have ok: "items_ok g r (Suc n) q'" by (rule next_items_ok [OF "1.prems"(3) p])
    have "walk_inv g r (Suc n) (res @ map (item_node (level + 1)) q')"
      using walk_inv_level [OF "1.prems"(4) inv ok] "1.prems"(1) by simp
    then have "walk_inv g r (max (Suc n) (nat maxLevel))
      (walk_loop g maxLevel (level + 1) q' v' (res @ map (item_node (level + 1)) q'))"
      using "1.IH" [OF True lv [symmetric] refl _ inv ok] "1.prems"(1) by simp
    moreover have "max (Suc n) (nat maxLevel) = max n (nat maxLevel)" using True "1.prems"(1) by auto
    ultimately show ?thesis using True lv by (subst walk_loop.simps) simp
  qed
qed

lemma walkLineage_inv: "walk_inv g r (nat maxLevel) (walkLineage g r maxLevel)"
proof -
  have "walk_inv g r 0 []" by (simp add: walk_inv_def)
  moreover have "items_ok g r 0 [\<lparr>it_name = r, it_path = [r]\<rparr>]" by (simp add: items_ok_def path_ok_def)
  ultimately show ?thesis
    unfolding walkLineage_def using walk_loop_inv [of 0 0] level_inv_init [of g r] by simp
qed

section \<open>Roots\<close>

definition fqns_of :: "string \<times> DescriptorProto \<Rightarrow> string list" where
  "fqns_of nm = fst nm # map (\<lambda>e. fst nm @ ''.'' @ ed_name e) (md_enum_type (snd nm))"

lemma fqns_of_pair: "u # map (\<lambda>e. u @ ''.'' @ ed_name e) (md_enum_type m) = fqns_of (u, m)"
  unfolding fqns_of_def fst_conv snd_conv ..

lemma collectFQNs_names:
  "collectFQNs pre msg out = foldl add_fqn out (concat (map fqns_of (nested_messages pre msg)))"
proof (induction pre msg out rule: collectFQNs.induct)
  case (1 pre msg out)
  let ?fqn = "pre @ ''.'' @ md_name msg"
  have "foldl (\<lambda>out nested. collectFQNs ?fqn nested out) d (md_nested_type msg) =
    foldl (\<lambda>out nested. foldl add_fqn out (concat (map fqns_of (nested_messages ?fqn nested)))) d
      (md_nested_type msg)" for d
    by (rule foldl_cong) (simp_all add: "1.IH")
  moreover have "foldl (\<lambda>out enm. add_fqn out (?fqn @ ''.'' @ ed_name enm)) (add_fqn out ?fqn) (md_enum_type msg) =
    foldl add_fqn out (fqns_of (?fqn, msg))"
    by (simp add: fqns_of_def foldl_map)
  ultimately show ?case
    unfolding collectFQNs.simps [of pre] nested_messages.simps [of pre]
    by (simp add: Let_def foldl_concat_map)
qed

text \<open>The names a file set declares: its messages and enums, nested ones included.\<close>

definition declared_names :: "FileDescriptorSet \<Rightarrow> string set" where
  "declared_names fds =
     (\<Union>nm\<in>set (fds_messages fds). set (fqns_of nm)) \<union>
     (\<Union>fd\<in>set fds. (\<lambda>e. fl_package fd @ ''.'' @ ed_name e) ` set (fl_enum_type fd))"

lemma keys_add_fqns: "set (gm_keys (foldl add_fqn out ns)) = set ns \<union> set (gm_keys out)"
  using gm.keys_foldl_put [of "\<lambda>x. x" "\<lambda>x. ()" out ns] by (simp add: add_fqn_def [abs_def])

lemma inv_add_fqns: "gm_inv out \<Longrightarrow> gm_inv (foldl add_fqn out ns)"
  using gm.inv_foldl_put [of out "\<lambda>x. x" "\<lambda>x. ()" ns] by (simp add: add_fqn_def [abs_def])

definition fqn_list :: "FileDescriptorSet \<Rightarrow> string list" where
  "fqn_list fds = concat (map (\<lambda>fd.
     concat (map (\<lambda>msg. concat (map fqns_of (nested_messages (fl_package fd) msg))) (fl_message_type fd)) @
     map (\<lambda>e. fl_package fd @ ''.'' @ ed_name e) (fl_enum_type fd)) fds)"

lemma all_fqns_list: "all_fqns fds = foldl add_fqn gm_empty (fqn_list fds)"
  unfolding all_fqns_def fqn_list_def by (simp add: collectFQNs_names foldl_concat_map foldl_map)

lemma set_fqn_list: "set (fqn_list fds) = declared_names fds"
  by (auto simp: fqn_list_def declared_names_def fds_messages_def)

lemma keys_all_fqns: "set (gm_keys (all_fqns fds)) = declared_names fds"
  unfolding all_fqns_list keys_add_fqns set_fqn_list by (simp add: gm.set_keys)

lemma distinct_all_fqns: "distinct (gm_keys (all_fqns fds))"
  by (simp add: all_fqns_list gm.distinct_keys inv_add_fqns)

definition matches_name :: "string \<Rightarrow> string \<Rightarrow> bool" where
  "matches_name t fqn \<longleftrightarrow> fqn = t \<or> has_suffix fqn (''.'' @ t)"

lemma findRootFQNs_set:
  "perm_order ord \<Longrightarrow> set (findRootFQNs ord fds t) = {fqn \<in> declared_names fds. matches_name t fqn}"
  by (auto simp: findRootFQNs_def matches_name_def keys_all_fqns)

lemma findRootFQNs_distinct: "perm_order ord \<Longrightarrow> distinct (findRootFQNs ord fds t)"
  by (simp add: findRootFQNs_def distinct_all_fqns)

section \<open>Several roots\<close>

lemma filter_seen_spec:
  assumes "filter_seen nodes seen = (filtered, seen')"
  shows "bn_fqn ` set filtered = bn_fqn ` set nodes - marked seen \<and> distinct (map bn_fqn filtered) \<and>
    set filtered \<subseteq> set nodes \<and> marked seen' = marked seen \<union> bn_fqn ` set nodes"
  using assms
proof (induction nodes seen arbitrary: filtered seen' rule: filter_seen.induct)
  case (2 node nodes seen)
  obtain f1 s1 where p: "filter_seen nodes (seen(bn_fqn node := True)) = (f1, s1)" by fastforce
  show ?case
  proof (cases "seen (bn_fqn node)")
    case True
    then show ?thesis using "2.IH"(1) [OF True] "2.prems" by auto
  next
    case False
    then have "filtered = node # f1" "seen' = s1" using "2.prems" p by auto
    then show ?thesis using "2.IH"(2) [OF False p] False by auto
  qed
qed simp

text \<open>The nodes that the loop over the roots keeps, for one direction.\<close>

fun collect_roots ::
  "depmap \<Rightarrow> go_int \<Rightarrow> string list \<Rightarrow> boolmap \<Rightarrow> bfsNode list" where
  "collect_roots graph level [] seen = []"
| "collect_roots graph level (rootFQN # roots) seen =
     (let (filtered, seen') = filter_seen (walkLineage graph rootFQN level) seen
      in filtered @ collect_roots graph level roots seen')"

lemma collect_roots_spec:
  "bn_fqn ` set (collect_roots g l roots seen) =
     (\<Union>r\<in>set roots. within g r (nat l) - {r}) - marked seen \<and>
   distinct (map bn_fqn (collect_roots g l roots seen)) \<and>
   set (collect_roots g l roots seen) \<subseteq> (\<Union>r\<in>set roots. set (walkLineage g r l))"
proof (induction roots arbitrary: seen)
  case (Cons r roots)
  obtain f s where p: "filter_seen (walkLineage g r l) seen = (f, s)" by fastforce
  have w: "bn_fqn ` set (walkLineage g r l) = within g r (nat l) - {r}"
    using walkLineage_inv by (simp add: walk_inv_def)
  have f: "bn_fqn ` set f = within g r (nat l) - {r} - marked seen" "distinct (map bn_fqn f)"
    "set f \<subseteq> set (walkLineage g r l)" "marked s = marked seen \<union> (within g r (nat l) - {r})"
    using filter_seen_spec [OF p] unfolding w by auto
  note IH = Cons.IH [of s]
  have eq: "collect_roots g l (r # roots) seen = f @ collect_roots g l roots s" by (simp add: p)
  have "bn_fqn ` set f \<inter> bn_fqn ` set (collect_roots g l roots s) = {}"
    using IH f(1, 4) by blast
  then have "distinct (map bn_fqn (f @ collect_roots g l roots s))" using IH f(2) by simp
  moreover have "bn_fqn ` set (f @ collect_roots g l roots s) =
      (\<Union>r\<in>set (r # roots). within g r (nat l) - {r}) - marked seen"
    using IH f(1, 4) by (simp add: image_Un) blast
  ultimately show ?case unfolding eq using IH f(3) by (simp add: le_supI2 le_supI1)
qed simp

lemma convert_names: "map ls_TypeName (convertLineageNodes ns sc nodes) = map bn_fqn nodes"
  by (simp add: convertLineageNodes_def)

lemma convert_length [simp]: "length (convertLineageNodes ns sc nodes) = length nodes"
  by (simp add: convertLineageNodes_def)

lemma foldl_pair:
  "foldl (\<lambda>p x. (f (fst p) x, g (snd p) x)) p xs = (foldl f (fst p) xs, foldl g (snd p) xs)"
  by (induction xs arbitrary: p) simp_all

lemma visit_roots:
  "snd (foldl (visit_root g ns sc l req) (seen, out) roots) =
     out @ (if req then convertLineageNodes ns sc (collect_roots g l roots seen) else [])"
  by (induction roots arbitrary: seen out)
    (auto simp: visit_root_def convertLineageNodes_def Let_def split: prod.splits)

definition lineage_response ::
  "string \<Rightarrow> string \<Rightarrow> string \<Rightarrow> LineageDirection \<Rightarrow> LineageSchema list \<Rightarrow> LineageSchema list \<Rightarrow> LineageResponse" where
  "lineage_response ns sc t dir down up =
     \<lparr>lr_RootSchema = \<lparr>rs_NamespaceID = ns, rs_SchemaID = sc, rs_TypeName = t\<rparr>, lr_Direction = dir,
      lr_Downstream = down, lr_Upstream = up,
      lr_Summary = \<lparr>lsum_DownstreamCount = int (length down), lsum_UpstreamCount = int (length up),
                    lsum_TotalCount = int (length down) + int (length up)\<rparr>\<rparr>"

text \<open>The response for one direction: the nodes of all roots, or nothing when it is not asked for.\<close>

definition side ::
  "depmap \<Rightarrow> string \<Rightarrow> string \<Rightarrow> go_int \<Rightarrow> string list \<Rightarrow> bool \<Rightarrow> LineageSchema list" where
  "side g ns sc l roots req =
     (if req then convertLineageNodes ns sc (collect_roots g l roots (\<lambda>_. False)) else [])"

lemma computeLineage_sides:
  "computeLineage P ord data ns sc t l direction =
     (case unmarshal_fds P data of Inl e \<Rightarrow> Inl e
      | Inr fds \<Rightarrow> (case NormalizeLineageDirection direction of Inl e \<Rightarrow> Inl e
         | Inr dir \<Rightarrow> Inr (lineage_response ns sc t dir
             (side (snd (buildDependencyMaps fds)) ns sc l (findRootFQNs ord fds t)
                (dir = LineageDirectionBoth \<or> dir = LineageDirectionDownstream))
             (side (fst (buildDependencyMaps fds)) ns sc l (findRootFQNs ord fds t)
                (dir = LineageDirectionBoth \<or> dir = LineageDirectionUpstream)))))"
proof -
  have "snd (foldl (visit_root g ns sc l req) ((\<lambda>_. False), []) roots) = side g ns sc l roots req"
    for g req roots by (simp add: visit_roots side_def)
  then show ?thesis
    unfolding computeLineage_def GetDescriptorSet_def bind_res_def lineage_response_def
      case_prod_unfold foldl_pair Let_def
    by (cases "unmarshal_fds P data"; cases "NormalizeLineageDirection direction") simp_all
qed

lemma NormalizeLineageDirection_cases:
  "NormalizeLineageDirection d = Inr dir \<Longrightarrow>
     dir = LineageDirectionBoth \<or> dir = LineageDirectionDownstream \<or> dir = LineageDirectionUpstream"
  by (auto simp: NormalizeLineageDirection_def split: if_splits)

lemma side_names:
  "ls_TypeName ` set (side g ns sc l roots req) =
     (if req then \<Union>r\<in>set roots. within g r (nat l) - {r} else {})"
  "distinct (map ls_TypeName (side g ns sc l roots req))"
proof -
  have "ls_TypeName ` set (convertLineageNodes ns sc nodes) = bn_fqn ` set nodes" for nodes
    using convert_names [of ns sc nodes] by (metis set_map)
  then show "ls_TypeName ` set (side g ns sc l roots req) =
     (if req then \<Union>r\<in>set roots. within g r (nat l) - {r} else {})"
    using collect_roots_spec [of g l roots "\<lambda>_. False"] by (simp add: side_def marked_def)
  show "distinct (map ls_TypeName (side g ns sc l roots req))"
    using collect_roots_spec [of g l roots "\<lambda>_. False"] by (simp add: side_def convert_names)
qed

lemma length_side: "int (length (side g ns sc l roots req)) = int (card (ls_TypeName ` set (side g ns sc l roots req)))"
  using distinct_card [OF side_names(2) [of g ns sc l roots req]] by simp

end
