(* ===== verification/Lineage_Claims.thy ===== *)
theory Lineage_Claims
  imports Lineage_Props Change_Detector_Claims
begin

text \<open>
  The properties of the lineage component, on the guide's schema and on a schema with two
  messages of one name and a nested message.
\<close>

section \<open>The walk\<close>

lemma walkLineage_names: "bn_fqn ` set (walkLineage g r l) = within g r (nat l) - {r}"
  using walkLineage_inv by (simp add: walk_inv_def)

text \<open>
  \<open>walkLineage\<close> returns each type within \<open>maxLevel\<close> steps of the root other than
  the root itself, once, nearest first; the level of a node is its distance and its path a shortest
  path of the dependency map, from the root to the type.
\<close>

theorem walk_lineage_exact:
  "bn_fqn ` set (walkLineage g r l) = within g r (nat l) - {r} \<and>
   distinct (map bn_fqn (walkLineage g r l)) \<and> sorted (map bn_level (walkLineage g r l)) \<and>
   list_all (node_ok g r l) (walkLineage g r l)"
proof (cases "0 \<le> l")
  case True
  then show ?thesis using walkLineage_inv [of g r l] by (simp add: walk_inv_def list_all_iff)
next
  case False
  then have "walkLineage g r l = []" by (simp add: walkLineage_def walk_loop.simps)
  then show ?thesis using False by simp
qed

text \<open>
  C32. The walk and the change detector's search agree on one dependency map: the detector's
  answer is the root and the types the walk lists.
\<close>

theorem walk_agrees_with_detector:
  assumes "0 \<le> l"
  shows "set (getDependentImpactedSchemas g r l) = insert r (bn_fqn ` set (walkLineage g r l))"
proof -
  have "r \<in> within g r (nat l)" by (auto simp: within_def intro: exI [of _ 0])
  then show ?thesis by (auto simp: set_getDependentImpactedSchemas assms walkLineage_names)
qed

theorem walk_agrees_with_detector_witness:
  "set (getDependentImpactedSchemas (getReverseDependencies guide_v2) ''t.Address'' 2) =
     insert ''t.Address'' (bn_fqn ` set (walkLineage (getReverseDependencies guide_v2) ''t.Address'' 2))"
  by (rule walk_agrees_with_detector) simp

section \<open>The dependency maps\<close>

text \<open>
  The two dependency maps hold the fields' type names, over nested messages too, and are
  converse to each other, so that a type is downstream of another within \<open>n\<close> levels exactly
  when the other is upstream of it.
\<close>

theorem upstream_downstream_dual:
  "(v \<in> set (fst (buildDependencyMaps fds) u)) =
     (\<exists>m. (u, m) \<in> set (fds_messages fds) \<and> list_ex (\<lambda>f. field_edge f v) (md_field m)) \<and>
   (u \<in> bn_fqn ` set (walkLineage (snd (buildDependencyMaps fds)) v l)) =
     (v \<in> bn_fqn ` set (walkLineage (fst (buildDependencyMaps fds)) u l))"
proof -
  have "v \<in> set (fst (buildDependencyMaps fds) u) \<longleftrightarrow> u \<in> set (snd (buildDependencyMaps fds) v)" for u v
    by (simp add: in_forward in_reverse)
  note c = within_converse [of "fst (buildDependencyMaps fds)", OF this]
  then show ?thesis
    by (auto simp: walkLineage_names in_forward in_all_edges list_ex_iff)
qed

text \<open>A message whose nested message uses another one.\<close>

definition nested_fds :: FileDescriptorSet where
  "nested_fds = [mk_file ''t'' [mk_message ''Item'' [] [],
     DescriptorProto ''Order'' [mk_field ''line'' 11 ''.t.Order.Line'']
       [mk_message ''Line'' [mk_field ''item'' 11 ''.t.Item''] []] [] None []]]"

text \<open>
  Every dependency the change detector sees is one that lineage sees, but a dependency from a
  nested message is one the detector does not see: of a type used in \<open>Order.Line\<close> the
  detector reports no dependent at any depth, while lineage lists \<open>Order.Line\<close> and
  \<open>Order\<close>.
\<close>

theorem detector_misses_nested_dependents:
  "set (getReverseDependencies fds d) \<subseteq> set (snd (buildDependencyMaps fds) d) \<and>
   getDependentImpactedSchemas (getReverseDependencies nested_fds) ''t.Item'' 10 = [''t.Item''] \<and>
   map bn_fqn (walkLineage (snd (buildDependencyMaps nested_fds)) ''t.Item'' 10) =
     [''t.Order.Line'', ''t.Order'']"
proof (intro conjI)
  show "set (getReverseDependencies fds d) \<subseteq> set (snd (buildDependencyMaps fds) d)"
  proof
    fix u
    assume "u \<in> set (getReverseDependencies fds d)"
    then obtain fd m f where m: "fd \<in> set fds" "m \<in> set (fl_message_type fd)"
      "u = fl_package fd @ ''.'' @ md_name m" "f \<in> set (md_field m)" "field_edge f d"
      by (auto simp: getReverseDependencies_iff)
    have "(u, m) \<in> set (nested_messages (fl_package fd) m)"
      by (simp add: m(3) nested_messages.simps [of "fl_package fd"] Let_def)
    then have "(u, m) \<in> set (fds_messages fds)" using m(1, 2) by (auto simp: fds_messages_def)
    then show "u \<in> set (snd (buildDependencyMaps fds) d)" using m(4, 5) by (auto simp: in_reverse in_all_edges)
  qed
qed code_simp+

section \<open>The response\<close>

definition matching_roots :: "FileDescriptorSet \<Rightarrow> string \<Rightarrow> string set" where
  "matching_roots fds t = {fqn \<in> declared_names fds. matches_name t fqn}"

definition listed :: "depmap \<Rightarrow> string set \<Rightarrow> nat \<Rightarrow> string set" where
  "listed g roots n = (\<Union>r\<in>roots. within g r n - {r})"

text \<open>
  C7. \<open>computeLineage\<close> succeeds on every descriptor set and direction that decode, and its
  response lists, for the requested direction, exactly the types within \<open>level\<close> steps of one
  of the declared types the name matches (in full or by its last components), each once; a
  direction not requested is empty, and the summary counts what is listed.
\<close>

theorem lineage_exact:
  assumes "perm_order ord" and "unmarshal_fds P data = Inr fds"
    and "NormalizeLineageDirection direction = Inr dir"
  shows "\<exists>resp. computeLineage P ord data ns sc t l direction = Inr resp \<and> lr_Direction resp = dir \<and>
    ls_TypeName ` set (lr_Downstream resp) =
      (if dir = LineageDirectionUpstream then {}
       else listed (snd (buildDependencyMaps fds)) (matching_roots fds t) (nat l)) \<and>
    distinct (map ls_TypeName (lr_Downstream resp)) \<and>
    ls_TypeName ` set (lr_Upstream resp) =
      (if dir = LineageDirectionDownstream then {}
       else listed (fst (buildDependencyMaps fds)) (matching_roots fds t) (nat l)) \<and>
    distinct (map ls_TypeName (lr_Upstream resp)) \<and>
    lsum_DownstreamCount (lr_Summary resp) = int (card (ls_TypeName ` set (lr_Downstream resp))) \<and>
    lsum_UpstreamCount (lr_Summary resp) = int (card (ls_TypeName ` set (lr_Upstream resp))) \<and>
    lsum_TotalCount (lr_Summary resp) =
      lsum_DownstreamCount (lr_Summary resp) + lsum_UpstreamCount (lr_Summary resp)"
proof -
  have "set (findRootFQNs ord fds t) = matching_roots fds t"
    by (simp add: findRootFQNs_set assms(1) matching_roots_def)
  then show ?thesis
    using NormalizeLineageDirection_cases [OF assms(3)]
    by (auto simp: computeLineage_sides assms(2, 3) lineage_response_def side_names length_side listed_def
        direction_defs)
qed

theorem lineage_exact_witness:
  "\<exists>resp. computeLineage guide_proto rev ''v2'' ''quickstart'' ''example'' ''Friend'' 1 ''both'' = Inr resp \<and>
     ls_TypeName ` set (lr_Downstream resp) = listed (snd (buildDependencyMaps guide_v2)) {''t.Friend''} 1 \<and>
     lsum_DownstreamCount (lr_Summary resp) = int (card (ls_TypeName ` set (lr_Downstream resp)))"
proof -
  have d: "unmarshal_fds guide_proto ''v2'' = Inr guide_v2" by (simp add: guide_proto_def)
  have n: "NormalizeLineageDirection ''both'' = Inr LineageDirectionBoth"
    by (simp add: NormalizeLineageDirection_def direction_defs)
  have "matching_roots guide_v2 ''Friend'' = {''t.Friend''}"
    by (auto simp: matching_roots_def declared_names_def matches_name_def has_suffix_def fqns_of_def
        fds_messages_def nested_messages_eval guide_defs)
  then show ?thesis
    using lineage_exact [OF perm_order_rev d n, of "''quickstart''" "''example''" "''Friend''" 1]
    by (auto simp: direction_defs)
qed

text \<open>
  \<open>computeLineage\<close> fails exactly when the schema bytes do not decode, with the decoder's
  error, or when the direction is none of the empty string and the three known ones, naming it.
\<close>

theorem lineage_errors:
  "(computeLineage P ord data ns sc t l direction = Inl e) =
     (unmarshal_fds P data = Inl e \<or>
      (\<exists>fds. unmarshal_fds P data = Inr fds) \<and>
      direction \<notin> {[], ''both'', ''downstream'', ''upstream''} \<and>
      e = ErrString (''invalid direction: '' @ go_quote direction))"
  by (auto simp: computeLineage_sides NormalizeLineageDirection_def direction_defs split: sum.splits if_splits)

text \<open>
  Two messages named \<open>A\<close>, one used by the other: from the root \<open>p.A\<close> the type
  \<open>p.X\<close> is one step away, from \<open>q.A\<close> two.
\<close>

definition two_roots :: FileDescriptorSet where
  "two_roots = [mk_file ''p'' [mk_message ''A'' [mk_field ''q'' 11 ''.q.A''] [],
       mk_message ''X'' [mk_field ''a'' 11 ''.p.A''] []],
     mk_file ''q'' [mk_message ''A'' [] []]]"

definition two_roots_proto :: proto_api where
  "two_roots_proto = \<lparr>unmarshal_fds = (\<lambda>d. Inr two_roots), equal_message = (\<lambda>a b. a = b),
     equal_enum = (\<lambda>a b. a = b)\<rparr>"

definition listed_level :: "range_order \<Rightarrow> string \<Rightarrow> (string \<times> go_int) list res" where
  "listed_level ord t = bind_res (computeLineage two_roots_proto ord [] ''n'' ''s'' t 5 ''downstream'')
     (\<lambda>resp. Inr (map (\<lambda>s. (ls_TypeName s, ls_Level s)) (lr_Downstream resp)))"

text \<open>
  When several types match the name, the level (and path) reported for a type depends on the
  order in which Go happens to iterate the map of names: with one order \<open>p.X\<close> is listed at
  level 1, with another at level 2, in the response to the same request.
\<close>

theorem lineage_level_depends_on_order:
  "perm_order (\<lambda>ks. ks) \<and> perm_order rev \<and>
   listed_level (\<lambda>ks. ks) ''A'' = Inr [(''p.X'', 1), (''p.A'', 1)] \<and>
   listed_level rev ''A'' = Inr [(''p.A'', 1), (''p.X'', 2)]"
proof (intro conjI)
  show "listed_level (\<lambda>ks. ks) ''A'' = Inr [(''p.X'', 1), (''p.A'', 1)]" by code_simp
  show "listed_level rev ''A'' = Inr [(''p.A'', 1), (''p.X'', 2)]" by code_simp
qed (rule perm_order_id perm_order_rev)+

end
