(* ===== verification/Proto_Compat.thy ===== *)
theory Proto_Compat
  imports Go_Errors
begin

text \<open>
  The protobuf compatibility checker, \<open>formats/protobuf/{compatibility,error,utils}.go\<close>.

  The descriptors of \<open>protoreflect\<close> and the registry of \<open>protoregistry\<close> belong to the
  protobuf library: a descriptor is a record of what the checker reads of it, and what the library
  computes (a registry's lookup, \<open>Has\<close> of the reserved ranges and names, \<open>ByNumber\<close>,
  \<open>ByName\<close>, the \<open>String\<close> methods) is a field of the parameter \<open>reflect_api\<close> or
  of the registry value. The documented behaviour of these is \<open>reflect_ok\<close> and
  \<open>registry_ok\<close>.
\<close>

section \<open>Descriptors\<close>

record FieldDescriptor =
  f_Name :: string
  f_JSONName :: string
  f_Number :: int
  f_Cardinality :: int
  f_Kind :: int
  f_Message :: string
  f_Enum :: string
  f_FullName :: string
  f_Path :: string

record EnumValueDescriptor =
  val_Name :: string
  val_FullName :: string
  val_Number :: int

record EnumDescriptor =
  enum_FullName :: string
  enum_Path :: string
  enum_ReservedRanges :: "(int \<times> int) list"
  enum_ReservedNames :: "string list"
  enum_Values :: "EnumValueDescriptor list"

datatype MessageDescriptor = MessageDescriptor
  (msg_FullName: string)
  (msg_Path: string)
  (msg_Syntax: int)
  (msg_ParentSyntax: int)
  (msg_ReservedRanges: "(int \<times> int) list")
  (msg_ReservedNames: "string list")
  (msg_Fields: "FieldDescriptor list")
  (msg_Enums: "EnumDescriptor list")
  (msg_Messages: "MessageDescriptor list")

record FileDescriptor =
  file_Messages :: "MessageDescriptor list"
  file_Enums :: "EnumDescriptor list"

datatype found = FoundMessage MessageDescriptor | FoundEnum EnumDescriptor | FoundOther

record Files =
  files_range :: "FileDescriptor list"
  files_find :: "string \<Rightarrow> found option"

definition MessageKind :: int where "MessageKind = 11"
definition EnumKind :: int where "EnumKind = 14"

record reflect_api =
  ranges_Has :: "(int \<times> int) list \<Rightarrow> int \<Rightarrow> bool"
  enum_ranges_Has :: "(int \<times> int) list \<Rightarrow> int \<Rightarrow> bool"
  names_Has :: "string list \<Rightarrow> string \<Rightarrow> bool"
  fields_ByNumber :: "FieldDescriptor list \<Rightarrow> int \<Rightarrow> FieldDescriptor option"
  values_ByName :: "EnumValueDescriptor list \<Rightarrow> string \<Rightarrow> EnumValueDescriptor option"
  cardinality_IsValid :: "int \<Rightarrow> bool"
  cardinality_String :: "int \<Rightarrow> string"
  kind_String :: "int \<Rightarrow> string"
  syntax_String :: "int \<Rightarrow> string"

lemma nested_message_size [termination_simp]: "size_list size (msg_Messages m) < size m"
  by (cases m) simp

section \<open>Traversals (utils.go)\<close>

text \<open>
  A callback updates the caller's state and says whether to go on; \<open>forEachMessage\<close> visits a
  message before the messages nested in it.
\<close>

fun forEachMessage ::
  "MessageDescriptor list \<Rightarrow> (MessageDescriptor \<Rightarrow> 's \<Rightarrow> 's \<times> bool) \<Rightarrow> 's \<Rightarrow> 's" where
  "forEachMessage [] f s = s"
| "forEachMessage (msg # msgs) f s =
     (case f msg s of
        (s', continue) \<Rightarrow>
          if \<not> continue then s'
          else forEachMessage msgs f (forEachMessage (msg_Messages msg) f s'))"

fun eachEnum :: "EnumDescriptor list \<Rightarrow> (EnumDescriptor \<Rightarrow> 's \<Rightarrow> 's \<times> bool) \<Rightarrow> 's \<Rightarrow> 's" where
  "eachEnum [] f s = s"
| "eachEnum (e # es) f s = (case f e s of (s', continue) \<Rightarrow> if \<not> continue then s' else eachEnum es f s')"

definition forEachEnum :: "FileDescriptor \<Rightarrow> (EnumDescriptor \<Rightarrow> 's \<Rightarrow> 's \<times> bool) \<Rightarrow> 's \<Rightarrow> 's" where
  "forEachEnum fd f s =
     forEachMessage (file_Messages fd) (\<lambda>msg s. (eachEnum (msg_Enums msg) f s, True))
       (eachEnum (file_Enums fd) f s)"

fun forEachField :: "FieldDescriptor list \<Rightarrow> (FieldDescriptor \<Rightarrow> 's \<Rightarrow> 's \<times> bool) \<Rightarrow> 's \<Rightarrow> 's" where
  "forEachField [] f s = s"
| "forEachField (fd # fds) f s =
     (case f fd s of (s', continue) \<Rightarrow> if \<not> continue then s' else forEachField fds f s')"

text \<open>\<open>Files.RangeFiles\<close> calls its argument on each file while it returns true.\<close>

fun RangeFiles :: "FileDescriptor list \<Rightarrow> (FileDescriptor \<Rightarrow> 's \<Rightarrow> 's \<times> bool) \<Rightarrow> 's \<Rightarrow> 's" where
  "RangeFiles [] f s = s"
| "RangeFiles (fd # fds) f s =
     (case f fd s of (s', continue) \<Rightarrow> if \<not> continue then s' else RangeFiles fds f s')"

definition getMessageFromFile :: "FileDescriptor \<Rightarrow> string list" where
  "getMessageFromFile fd = forEachMessage (file_Messages fd) (\<lambda>msg ms. (ms @ [msg_FullName msg], True)) []"

definition getFieldsFromFile :: "FileDescriptor \<Rightarrow> string list" where
  "getFieldsFromFile fd = forEachMessage (file_Messages fd)
     (\<lambda>msg fs. (forEachField (msg_Fields msg) (\<lambda>fd fs. (fs @ [f_FullName fd], True)) fs, True)) []"

definition getAllMessages :: "Files \<Rightarrow> string list" where
  "getAllMessages s = RangeFiles (files_range s) (\<lambda>fd ms. (ms @ getMessageFromFile fd, True)) []"

definition getAllFields :: "Files \<Rightarrow> string list" where
  "getAllFields s = RangeFiles (files_range s) (\<lambda>fd fs. (fs @ getFieldsFromFile fd, True)) []"

definition getMessage :: "Files \<Rightarrow> string \<Rightarrow> MessageDescriptor option" where
  "getMessage files fullName =
     (case files_find files fullName of Some (FoundMessage m) \<Rightarrow> Some m | _ \<Rightarrow> None)"

definition getEnum :: "Files \<Rightarrow> string \<Rightarrow> EnumDescriptor option" where
  "getEnum files fullName =
     (case files_find files fullName of Some (FoundEnum e) \<Rightarrow> Some e | _ \<Rightarrow> None)"

section \<open>Differences\<close>

definition backwardCompatibility :: "diffKind list" where
  "backwardCompatibility =
     [messageDelete, nonInclusivereservedRange, nonInclusiceReservedNames, fieldDelete, fieldNameChange,
      fieldLabelchange, fieldKindChange, fieldTypeChange, enumDelete, enumValueDelete,
      enumValueNumberChange, syntaxChange]"

definition forwardCompatibility :: "diffKind list" where
  "forwardCompatibility =
     [messageDelete, nonInclusivereservedRange, nonInclusiceReservedNames, fieldNameChange,
      fieldLabelchange, fieldKindChange, fieldTypeChange, fieldDeleteWithoutReservedNumber,
      fieldDeleteWithoutReservedName, enumDelete, enumValueDeleteWithoutReservedNumber,
      enumValueDeleteWithoutReservedName, enumValueNumberChange, syntaxChange]"

definition fullCompatibility :: "diffKind list" where
  "fullCompatibility =
     [messageDelete, nonInclusivereservedRange, nonInclusiceReservedNames, fieldNameChange,
      fieldLabelchange, fieldKindChange, fieldTypeChange, fieldDelete, enumDelete, enumValueDelete,
      enumValueNumberChange, syntaxChange]"

fun contains :: "diffKind \<Rightarrow> diffKind list \<Rightarrow> bool" where
  "contains d [] = False"
| "contains d (v # others) = (if v = d then True else contains d others)"

definition add_diff :: "diffKind \<Rightarrow> string \<Rightarrow> string \<Rightarrow> compatibilityErr \<Rightarrow> compatibilityErr" where
  "add_diff kind path msg c =
     (if contains kind (ce_notAllowed c) \<and> msg \<noteq> []
      then c\<lparr>ce_diffs := ce_diffs c @ [\<lparr>d_kind = kind, d_msg = path @ '': '' @ msg\<rparr>]\<rparr>
      else c)"

definition isEmpty :: "compatibilityErr \<Rightarrow> bool" where
  "isEmpty c \<longleftrightarrow> length (ce_diffs c) = 0"

definition quoted :: "string \<Rightarrow> string" where
  "quoted s = [char_of (34 :: nat)] @ s @ [char_of (34 :: nat)]"

definition range_msg :: "int \<Rightarrow> int \<Rightarrow> string" where
  "range_msg start e = ''previous reserved range ('' @ show_int start @ '', '' @ show_int e @
     '') is not inclusive of current range''"

definition compareFields ::
  "reflect_api \<Rightarrow> FieldDescriptor \<Rightarrow> FieldDescriptor \<Rightarrow> compatibilityErr \<Rightarrow> compatibilityErr" where
  "compareFields A currentField prevField diffs0 =
     (let name = f_Name prevField;
          path = f_Path prevField;
          diffs1 = (if f_JSONName prevField \<noteq> f_JSONName currentField
            then add_diff fieldNameChange path (''JSON field name changed from '' @ quoted (f_JSONName prevField) @
                   '' to '' @ quoted (f_JSONName currentField)) diffs0
            else diffs0);
          diffs2 = (if cardinality_IsValid A (f_Cardinality prevField) \<and>
               cardinality_String A (f_Cardinality prevField) \<noteq> cardinality_String A (f_Cardinality currentField)
            then add_diff fieldLabelchange path (''field '' @ quoted name @ '' label changed from '' @
                   quoted (cardinality_String A (f_Cardinality prevField)) @ '' to '' @
                   quoted (cardinality_String A (f_Cardinality currentField))) diffs1
            else diffs1)
      in if f_Kind prevField \<noteq> f_Kind currentField
         then add_diff fieldKindChange path (''field '' @ quoted name @ '' kind changed from '' @
                quoted (kind_String A (f_Kind prevField)) @ '' to '' @
                quoted (kind_String A (f_Kind currentField))) diffs2
         else
           let diffs3 = (if f_Kind prevField = MessageKind \<and> f_Message prevField \<noteq> f_Message currentField
                 then add_diff fieldTypeChange path (''field '' @ quoted name @ '' type changed from '' @
                        quoted (f_Message prevField) @ '' to '' @ quoted (f_Message currentField)) diffs2
                 else diffs2)
           in (if f_Kind prevField = EnumKind \<and> f_Enum prevField \<noteq> f_Enum currentField
               then add_diff fieldTypeChange path (''field '' @ quoted name @ '' type changed from '' @
                      quoted (f_Enum prevField) @ '' to '' @ quoted (f_Enum currentField)) diffs3
               else diffs3))"

definition compare_message_range ::
  "reflect_api \<Rightarrow> MessageDescriptor \<Rightarrow> compatibilityErr \<Rightarrow> int \<times> int \<Rightarrow> compatibilityErr" where
  "compare_message_range A current diffs prevRange =
     (case prevRange of (start, e) \<Rightarrow>
        if \<not> (ranges_Has A (msg_ReservedRanges current) start \<and>
              ranges_Has A (msg_ReservedRanges current) (e - 1))
        then add_diff nonInclusivereservedRange (msg_Path current) (range_msg start e) diffs
        else diffs)"

definition removed_name_msg :: "string \<Rightarrow> string" where
  "removed_name_msg prevName = ''previous reserved name '' @ quoted prevName @ '' is removed''"

definition compare_message_name ::
  "reflect_api \<Rightarrow> MessageDescriptor \<Rightarrow> compatibilityErr \<Rightarrow> string \<Rightarrow> compatibilityErr" where
  "compare_message_name A current diffs prevName =
     (if \<not> names_Has A (msg_ReservedNames current) prevName
      then add_diff nonInclusiceReservedNames (msg_Path current) (removed_name_msg prevName) diffs
      else diffs)"

definition compare_message_field ::
  "reflect_api \<Rightarrow> MessageDescriptor \<Rightarrow> MessageDescriptor \<Rightarrow> compatibilityErr \<Rightarrow> FieldDescriptor \<Rightarrow> compatibilityErr" where
  "compare_message_field A current prev diffs prevField =
     (case fields_ByNumber A (msg_Fields current) (f_Number prevField) of
        None \<Rightarrow>
          let diffs1 = add_diff fieldDelete (msg_Path prev)
                (''field '' @ quoted (f_Name prevField) @ '' is deleted'') diffs;
              diffs2 = (if \<not> ranges_Has A (msg_ReservedRanges current) (f_Number prevField)
                then add_diff fieldDeleteWithoutReservedNumber (msg_Path prev)
                  (''field '' @ quoted (f_Name prevField) @ '' with number '' @
                     quoted (show_int (f_Number prevField)) @ '' is not marked as reserved after the delete'') diffs1
                else diffs1)
          in (if \<not> names_Has A (msg_ReservedNames current) (f_Name prevField)
              then add_diff fieldDeleteWithoutReservedName (msg_Path prev)
                (''field '' @ quoted (f_Name prevField) @ '' not marked as reserved after the delete'') diffs2
              else diffs2)
      | Some currentField \<Rightarrow> compareFields A currentField prevField diffs)"

definition compareMessages ::
  "reflect_api \<Rightarrow> MessageDescriptor \<Rightarrow> MessageDescriptor \<Rightarrow> compatibilityErr \<Rightarrow> compatibilityErr" where
  "compareMessages A current prev diffs =
     foldl (compare_message_field A current prev)
       (foldl (compare_message_name A current)
          (foldl (compare_message_range A current) diffs (msg_ReservedRanges prev))
          (msg_ReservedNames prev))
       (msg_Fields prev)"

definition compare_enum_range ::
  "reflect_api \<Rightarrow> EnumDescriptor \<Rightarrow> compatibilityErr \<Rightarrow> int \<times> int \<Rightarrow> compatibilityErr" where
  "compare_enum_range A current diffs prevRange =
     (case prevRange of (start, e) \<Rightarrow>
        if \<not> (enum_ranges_Has A (enum_ReservedRanges current) start \<and>
              enum_ranges_Has A (enum_ReservedRanges current) e)
        then if start = e
             then add_diff nonInclusivereservedRange (enum_Path current)
               (''previous reserved number ('' @ show_int start @ '') is not inclusive of current range'') diffs
             else add_diff nonInclusivereservedRange (enum_Path current) (range_msg start e) diffs
        else diffs)"

definition compare_enum_name ::
  "reflect_api \<Rightarrow> EnumDescriptor \<Rightarrow> compatibilityErr \<Rightarrow> string \<Rightarrow> compatibilityErr" where
  "compare_enum_name A current diffs prevName =
     (if \<not> names_Has A (enum_ReservedNames current) prevName
      then add_diff nonInclusiceReservedNames (enum_Path current) (removed_name_msg prevName) diffs
      else diffs)"

definition compare_enum_value ::
  "reflect_api \<Rightarrow> EnumDescriptor \<Rightarrow> EnumDescriptor \<Rightarrow> compatibilityErr \<Rightarrow> EnumValueDescriptor \<Rightarrow> compatibilityErr" where
  "compare_enum_value A current prev diffs prevValue =
     (case values_ByName A (enum_Values current) (val_Name prevValue) of
        None \<Rightarrow>
          let diffs1 = add_diff enumValueDelete (enum_Path prev)
                (''enum value '' @ quoted (val_Name prevValue) @ '' with number '' @
                   quoted (show_int (val_Number prevValue)) @ '' is deleted from '' @ quoted (enum_FullName prev)) diffs;
              diffs2 = (if \<not> enum_ranges_Has A (enum_ReservedRanges current) (val_Number prevValue)
                then add_diff enumValueDeleteWithoutReservedNumber (enum_Path prev)
                  (''enum value '' @ quoted (val_Name prevValue) @ '' with number '' @
                     quoted (show_int (val_Number prevValue)) @ '' is not marked as reserved after the delete'') diffs1
                else diffs1)
          in (if \<not> names_Has A (enum_ReservedNames current) (val_Name prevValue)
              then add_diff enumValueDeleteWithoutReservedName (enum_Path prev)
                (''enum value '' @ quoted (val_Name prevValue) @ '' name not marked as reserved after the delete'') diffs2
              else diffs2)
      | Some currentValue \<Rightarrow>
          (if val_Number prevValue \<noteq> val_Number currentValue
           then add_diff enumValueNumberChange (enum_Path prev)
             (''enum value number for '' @ quoted (val_FullName prevValue) @ '' changed from '' @
                quoted (show_int (val_Number prevValue)) @ '' to '' @ quoted (show_int (val_Number currentValue))) diffs
           else diffs))"

definition compareEnums ::
  "reflect_api \<Rightarrow> EnumDescriptor \<Rightarrow> EnumDescriptor \<Rightarrow> compatibilityErr \<Rightarrow> compatibilityErr" where
  "compareEnums A current prev diffs =
     foldl (compare_enum_value A current prev)
       (foldl (compare_enum_name A current)
          (foldl (compare_enum_range A current) diffs (enum_ReservedRanges prev))
          (enum_ReservedNames prev))
       (enum_Values prev)"

text \<open>The comparison is with \<open>prev.Parent()\<close>, the message says \<open>prev.ParentFile()\<close>.\<close>

definition compareSyntax ::
  "reflect_api \<Rightarrow> MessageDescriptor \<Rightarrow> MessageDescriptor \<Rightarrow> compatibilityErr \<Rightarrow> compatibilityErr" where
  "compareSyntax A current prev diffs =
     (if msg_Syntax current \<noteq> msg_ParentSyntax prev
      then add_diff syntaxChange (msg_Path current)
        (''syntax changed from '' @ quoted (syntax_String A (msg_Syntax prev)) @ '' to '' @
           quoted (syntax_String A (msg_Syntax current))) diffs
      else diffs)"

definition check_message ::
  "reflect_api \<Rightarrow> Files \<Rightarrow> MessageDescriptor \<Rightarrow> compatibilityErr \<Rightarrow> compatibilityErr \<times> bool" where
  "check_message A current prevMsg diffs =
     (case getMessage current (msg_FullName prevMsg) of
        None \<Rightarrow> (add_diff messageDelete (msg_Path prevMsg) (quoted (msg_FullName prevMsg) @ '' is removed'') diffs, True)
      | Some currentMsg \<Rightarrow>
          (compareMessages A currentMsg prevMsg (compareSyntax A currentMsg prevMsg diffs), True))"

definition check_enum ::
  "reflect_api \<Rightarrow> Files \<Rightarrow> EnumDescriptor \<Rightarrow> compatibilityErr \<Rightarrow> compatibilityErr \<times> bool" where
  "check_enum A current ed diffs =
     (case getEnum current (enum_FullName ed) of
        None \<Rightarrow> (add_diff enumDelete (enum_Path ed) (''enum '' @ quoted (enum_FullName ed) @ '' deleted'') diffs, True)
      | Some currentEnum \<Rightarrow> (compareEnums A currentEnum ed diffs, True))"

definition compareSchemas ::
  "reflect_api \<Rightarrow> Files \<Rightarrow> Files \<Rightarrow> diffKind list \<Rightarrow> go_error option" where
  "compareSchemas A current prev notAllowedChanges =
     (let diffs = RangeFiles (files_range prev)
            (\<lambda>fd diffs. (forEachEnum fd (check_enum A current)
                           (forEachMessage (file_Messages fd) (check_message A current) diffs), True))
            \<lparr>ce_notAllowed = notAllowedChanges, ce_diffs = []\<rparr>
      in if isEmpty diffs then None else Some (CompatErr diffs))"

end
