(* ===== verification/Proto_Compat_Props.thy ===== *)
theory Proto_Compat_Props
  imports Proto_Compat
begin

text \<open>
  Lemmas on the compatibility checker: a specification of what a difference of each kind is
  (\<open>differs\<close>), a small calculus of the kinds that a step may add (\<open>adds\<close>), and the proof
  that the checker reports exactly the kinds that differ.
\<close>

section \<open>Traversals\<close>

fun all_messages :: "MessageDescriptor list \<Rightarrow> MessageDescriptor list" where
  "all_messages [] = []"
| "all_messages (m # ms) = m # all_messages (msg_Messages m) @ all_messages ms"

definition all_enums :: "FileDescriptor \<Rightarrow> EnumDescriptor list" where
  "all_enums fd = file_Enums fd @ concat (map msg_Enums (all_messages (file_Messages fd)))"

lemma forEachMessage_foldl:
  assumes "\<And>m s. f m s = (g m s, True)"
  shows "forEachMessage msgs f s = foldl (\<lambda>s m. g m s) s (all_messages msgs)"
proof (induction msgs arbitrary: s rule: all_messages.induct)
  case (2 m ms)
  then show ?case by (simp add: assms)
qed simp

lemma eachEnum_foldl:
  assumes "\<And>e s. f e s = (g e s, True)"
  shows "eachEnum es f s = foldl (\<lambda>s e. g e s) s es"
  by (induction es arbitrary: s) (simp_all add: assms)

lemma forEachEnum_foldl:
  assumes "\<And>e s. f e s = (g e s, True)"
  shows "forEachEnum fd f s = foldl (\<lambda>s e. g e s) s (all_enums fd)"
proof -
  have "forEachMessage msgs (\<lambda>msg s. (eachEnum (msg_Enums msg) f s, True)) s =
    foldl (\<lambda>s e. g e s) s (concat (map msg_Enums (all_messages msgs)))" for msgs s
    by (simp add: forEachMessage_foldl [where g = "\<lambda>msg. eachEnum (msg_Enums msg) f"]
        eachEnum_foldl [OF assms] foldl_concat_map)
  then show ?thesis by (simp add: forEachEnum_def all_enums_def eachEnum_foldl [OF assms])
qed

lemma RangeFiles_foldl:
  assumes "\<And>fd s. f fd s = (g fd s, True)"
  shows "RangeFiles fds f s = foldl (\<lambda>s fd. g fd s) s fds"
  by (induction fds arbitrary: s) (simp_all add: assms)

section \<open>The kinds a step adds\<close>

definition kinds :: "compatibilityErr \<Rightarrow> diffKind set" where
  "kinds c = d_kind ` set (ce_diffs c)"

lemma contains_iff [simp]: "contains k ks \<longleftrightarrow> k \<in> set ks"
  by (induction ks) auto

lemma notAllowed_add_diff [simp]: "ce_notAllowed (add_diff k p msg c) = ce_notAllowed c"
  by (simp add: add_diff_def)

lemma kinds_add_diff [simp]:
  "k \<in> kinds (add_diff k' p msg c) \<longleftrightarrow> k \<in> kinds c \<or> k = k' \<and> k \<in> set (ce_notAllowed c) \<and> msg \<noteq> []"
  by (auto simp: add_diff_def kinds_def)

text \<open>
  \<open>adds D f\<close>: the step \<open>f\<close> keeps the list of kinds that are not allowed, and adds
  the kinds of that list that satisfy \<open>D\<close>.
\<close>

definition adds :: "(diffKind \<Rightarrow> bool) \<Rightarrow> (compatibilityErr \<Rightarrow> compatibilityErr) \<Rightarrow> bool" where
  "adds D f \<longleftrightarrow> (\<forall>c. ce_notAllowed (f c) = ce_notAllowed c \<and>
     (\<forall>k. k \<in> kinds (f c) \<longleftrightarrow> k \<in> kinds c \<or> k \<in> set (ce_notAllowed c) \<and> D k))"

lemma adds_comp: "adds D f \<Longrightarrow> adds E g \<Longrightarrow> adds (\<lambda>k. D k \<or> E k) (\<lambda>c. g (f c))"
  by (auto simp: adds_def)

lemma adds_eq: "adds D f \<Longrightarrow> (\<And>k. D k \<longleftrightarrow> E k) \<Longrightarrow> adds E f"
  by (simp add: adds_def)

lemma adds_foldl:
  assumes "\<And>x. adds (D x) (\<lambda>c. f c x)"
  shows "adds (\<lambda>k. \<exists>x\<in>set xs. D x k) (\<lambda>c. foldl f c xs)"
proof (induction xs)
  case (Cons x xs)
  have "adds (\<lambda>k. D x k \<or> (\<exists>x\<in>set xs. D x k)) (\<lambda>c. foldl f (f c x) xs)"
    by (rule adds_comp [OF assms Cons])
  then show ?case by simp
qed (simp add: adds_def)

lemma adds_foldl_after:
  assumes "adds E g" and "\<And>x. adds (D x) (\<lambda>c. f c x)"
  shows "adds (\<lambda>k. E k \<or> (\<exists>x\<in>set xs. D x k)) (\<lambda>c. foldl f (g c) xs)"
  using assms(1) adds_foldl [OF assms(2)] by (rule adds_comp)

section \<open>What each kind of difference means\<close>

fun field_differs :: "reflect_api \<Rightarrow> FieldDescriptor \<Rightarrow> FieldDescriptor \<Rightarrow> diffKind \<Rightarrow> bool" where
  "field_differs A cur prev fieldNameChange \<longleftrightarrow> f_JSONName prev \<noteq> f_JSONName cur"
| "field_differs A cur prev fieldLabelchange \<longleftrightarrow> cardinality_IsValid A (f_Cardinality prev) \<and>
     cardinality_String A (f_Cardinality prev) \<noteq> cardinality_String A (f_Cardinality cur)"
| "field_differs A cur prev fieldKindChange \<longleftrightarrow> f_Kind prev \<noteq> f_Kind cur"
| "field_differs A cur prev fieldTypeChange \<longleftrightarrow> f_Kind prev = f_Kind cur \<and>
     (f_Kind prev = MessageKind \<and> f_Message prev \<noteq> f_Message cur \<or>
      f_Kind prev = EnumKind \<and> f_Enum prev \<noteq> f_Enum cur)"
| "field_differs A cur prev _ \<longleftrightarrow> False"

text \<open>
  A difference of a field of the previous message: the number is gone (and then not reserved, the
  name not reserved), or the field that has the number now differs.
\<close>

fun deleted_field_differs :: "reflect_api \<Rightarrow> MessageDescriptor \<Rightarrow> FieldDescriptor \<Rightarrow> diffKind \<Rightarrow> bool" where
  "deleted_field_differs A cur f fieldDelete \<longleftrightarrow> True"
| "deleted_field_differs A cur f fieldDeleteWithoutReservedNumber \<longleftrightarrow>
     \<not> ranges_Has A (msg_ReservedRanges cur) (f_Number f)"
| "deleted_field_differs A cur f fieldDeleteWithoutReservedName \<longleftrightarrow>
     \<not> names_Has A (msg_ReservedNames cur) (f_Name f)"
| "deleted_field_differs A cur f _ \<longleftrightarrow> False"

definition member_differs :: "reflect_api \<Rightarrow> MessageDescriptor \<Rightarrow> FieldDescriptor \<Rightarrow> diffKind \<Rightarrow> bool" where
  "member_differs A cur f k =
     (case fields_ByNumber A (msg_Fields cur) (f_Number f) of
        None \<Rightarrow> deleted_field_differs A cur f k
      | Some f' \<Rightarrow> field_differs A f' f k)"

definition message_differs :: "reflect_api \<Rightarrow> MessageDescriptor \<Rightarrow> MessageDescriptor \<Rightarrow> diffKind \<Rightarrow> bool" where
  "message_differs A cur prev k \<longleftrightarrow>
     k = syntaxChange \<and> msg_Syntax cur \<noteq> msg_ParentSyntax prev \<or>
     k = nonInclusivereservedRange \<and> (\<exists>(a, b)\<in>set (msg_ReservedRanges prev).
       \<not> (ranges_Has A (msg_ReservedRanges cur) a \<and> ranges_Has A (msg_ReservedRanges cur) (b - 1))) \<or>
     k = nonInclusiceReservedNames \<and> (\<exists>n\<in>set (msg_ReservedNames prev).
       \<not> names_Has A (msg_ReservedNames cur) n) \<or>
     (\<exists>f\<in>set (msg_Fields prev). member_differs A cur f k)"

fun deleted_value_differs :: "reflect_api \<Rightarrow> EnumDescriptor \<Rightarrow> EnumValueDescriptor \<Rightarrow> diffKind \<Rightarrow> bool" where
  "deleted_value_differs A cur v enumValueDelete \<longleftrightarrow> True"
| "deleted_value_differs A cur v enumValueDeleteWithoutReservedNumber \<longleftrightarrow>
     \<not> enum_ranges_Has A (enum_ReservedRanges cur) (val_Number v)"
| "deleted_value_differs A cur v enumValueDeleteWithoutReservedName \<longleftrightarrow>
     \<not> names_Has A (enum_ReservedNames cur) (val_Name v)"
| "deleted_value_differs A cur v _ \<longleftrightarrow> False"

definition value_differs :: "reflect_api \<Rightarrow> EnumDescriptor \<Rightarrow> EnumValueDescriptor \<Rightarrow> diffKind \<Rightarrow> bool" where
  "value_differs A cur v k =
     (case values_ByName A (enum_Values cur) (val_Name v) of
        None \<Rightarrow> deleted_value_differs A cur v k
      | Some v' \<Rightarrow> k = enumValueNumberChange \<and> val_Number v \<noteq> val_Number v')"

definition enum_differs :: "reflect_api \<Rightarrow> EnumDescriptor \<Rightarrow> EnumDescriptor \<Rightarrow> diffKind \<Rightarrow> bool" where
  "enum_differs A cur prev k \<longleftrightarrow>
     k = nonInclusivereservedRange \<and> (\<exists>(a, b)\<in>set (enum_ReservedRanges prev).
       \<not> (enum_ranges_Has A (enum_ReservedRanges cur) a \<and> enum_ranges_Has A (enum_ReservedRanges cur) b)) \<or>
     k = nonInclusiceReservedNames \<and> (\<exists>n\<in>set (enum_ReservedNames prev).
       \<not> names_Has A (enum_ReservedNames cur) n) \<or>
     (\<exists>v\<in>set (enum_Values prev). value_differs A cur v k)"

definition message_lost :: "reflect_api \<Rightarrow> Files \<Rightarrow> MessageDescriptor \<Rightarrow> diffKind \<Rightarrow> bool" where
  "message_lost A cur m k =
     (case getMessage cur (msg_FullName m) of
        None \<Rightarrow> k = messageDelete
      | Some m' \<Rightarrow> message_differs A m' m k)"

definition enum_lost :: "reflect_api \<Rightarrow> Files \<Rightarrow> EnumDescriptor \<Rightarrow> diffKind \<Rightarrow> bool" where
  "enum_lost A cur e k =
     (case getEnum cur (enum_FullName e) of
        None \<Rightarrow> k = enumDelete
      | Some e' \<Rightarrow> enum_differs A e' e k)"

text \<open>A difference of kind \<open>k\<close> between two file sets: some message or enum of the old one has it.\<close>

definition differs :: "reflect_api \<Rightarrow> Files \<Rightarrow> Files \<Rightarrow> diffKind \<Rightarrow> bool" where
  "differs A cur prev k \<longleftrightarrow>
     (\<exists>fd\<in>set (files_range prev).
        (\<exists>m\<in>set (all_messages (file_Messages fd)). message_lost A cur m k) \<or>
        (\<exists>e\<in>set (all_enums fd). enum_lost A cur e k))"

section \<open>The checker adds the kinds that differ\<close>

lemma quoted_nonempty [simp]: "quoted s \<noteq> []"
  by (simp add: quoted_def)

lemma msg_nonempty [simp]: "range_msg a b \<noteq> []" "removed_name_msg n \<noteq> []"
  by (simp_all add: range_msg_def removed_name_msg_def)

lemma adds_compareFields: "adds (field_differs A cur prev) (compareFields A cur prev)"
  unfolding adds_def
proof (intro allI conjI)
  fix c k
  show "ce_notAllowed (compareFields A cur prev c) = ce_notAllowed c"
    by (simp add: compareFields_def Let_def)
  show "k \<in> kinds (compareFields A cur prev c) \<longleftrightarrow>
      k \<in> kinds c \<or> k \<in> set (ce_notAllowed c) \<and> field_differs A cur prev k"
    by (cases k) (simp_all add: compareFields_def Let_def, auto)
qed

lemma adds_message_range:
  "adds (\<lambda>k. k = nonInclusivereservedRange \<and> (case r of (a, b) \<Rightarrow>
       \<not> (ranges_Has A (msg_ReservedRanges cur) a \<and> ranges_Has A (msg_ReservedRanges cur) (b - 1))))
     (\<lambda>c. compare_message_range A cur c r)"
  by (auto simp: adds_def compare_message_range_def split: prod.split)

lemma adds_message_name:
  "adds (\<lambda>k. k = nonInclusiceReservedNames \<and> \<not> names_Has A (msg_ReservedNames cur) n)
     (\<lambda>c. compare_message_name A cur c n)"
  by (auto simp: adds_def compare_message_name_def)

lemma adds_message_field: "adds (member_differs A cur f) (\<lambda>c. compare_message_field A cur prev c f)"
proof (cases "fields_ByNumber A (msg_Fields cur) (f_Number f)")
  case None
  have "k \<in> kinds (compare_message_field A cur prev c f) \<longleftrightarrow>
      k \<in> kinds c \<or> k \<in> set (ce_notAllowed c) \<and> deleted_field_differs A cur f k" for k c
    using None by (cases k) (simp_all add: compare_message_field_def Let_def)
  then show ?thesis using None by (simp add: adds_def compare_message_field_def member_differs_def Let_def)
next
  case (Some f')
  then show ?thesis
    using adds_compareFields [of A f' f] by (simp add: compare_message_field_def member_differs_def [abs_def])
qed

lemma adds_compareMessages:
  "adds (\<lambda>k. message_differs A cur prev k) (\<lambda>c. compareMessages A cur prev (compareSyntax A cur prev c))"
proof -
  have syn: "adds (\<lambda>k. k = syntaxChange \<and> msg_Syntax cur \<noteq> msg_ParentSyntax prev) (compareSyntax A cur prev)"
    by (auto simp: adds_def compareSyntax_def)
  show ?thesis
    unfolding compareMessages_def
    using adds_foldl_after [OF adds_foldl_after [OF adds_foldl_after [OF syn adds_message_range]
          adds_message_name] adds_message_field]
    by (rule adds_eq) (auto simp: message_differs_def)
qed

lemma adds_enum_range:
  "adds (\<lambda>k. k = nonInclusivereservedRange \<and> (case r of (a, b) \<Rightarrow>
       \<not> (enum_ranges_Has A (enum_ReservedRanges cur) a \<and> enum_ranges_Has A (enum_ReservedRanges cur) b)))
     (\<lambda>c. compare_enum_range A cur c r)"
  by (auto simp: adds_def compare_enum_range_def split: prod.split)

lemma adds_enum_name:
  "adds (\<lambda>k. k = nonInclusiceReservedNames \<and> \<not> names_Has A (enum_ReservedNames cur) n)
     (\<lambda>c. compare_enum_name A cur c n)"
  by (auto simp: adds_def compare_enum_name_def)

lemma adds_enum_value: "adds (value_differs A cur v) (\<lambda>c. compare_enum_value A cur prev c v)"
proof (cases "values_ByName A (enum_Values cur) (val_Name v)")
  case None
  have "k \<in> kinds (compare_enum_value A cur prev c v) \<longleftrightarrow>
      k \<in> kinds c \<or> k \<in> set (ce_notAllowed c) \<and> deleted_value_differs A cur v k" for k c
    using None by (cases k) (simp_all add: compare_enum_value_def Let_def)
  then show ?thesis using None by (simp add: adds_def compare_enum_value_def value_differs_def Let_def)
next
  case (Some v')
  then show ?thesis by (auto simp: adds_def compare_enum_value_def value_differs_def)
qed

lemma adds_compareEnums: "adds (\<lambda>k. enum_differs A cur prev k) (compareEnums A cur prev)"
  unfolding compareEnums_def [abs_def]
  using adds_foldl_after [OF adds_foldl_after [OF adds_foldl [OF adds_enum_range] adds_enum_name] adds_enum_value]
  by (rule adds_eq) (auto simp: enum_differs_def)

lemma adds_check_message: "adds (message_lost A cur m) (\<lambda>c. fst (check_message A cur m c))"
proof (cases "getMessage cur (msg_FullName m)")
  case None
  then show ?thesis by (auto simp: adds_def check_message_def message_lost_def)
next
  case (Some m')
  then show ?thesis
    using adds_compareMessages [of A m' m] by (simp add: check_message_def message_lost_def [abs_def])
qed

lemma adds_check_enum: "adds (enum_lost A cur e) (\<lambda>c. fst (check_enum A cur e c))"
proof (cases "getEnum cur (enum_FullName e)")
  case None
  then show ?thesis by (auto simp: adds_def check_enum_def enum_lost_def)
next
  case (Some e')
  then show ?thesis
    using adds_compareEnums [of A e' e] by (simp add: check_enum_def enum_lost_def [abs_def])
qed

text \<open>The state at the end of the comparison.\<close>

definition compare_all :: "reflect_api \<Rightarrow> Files \<Rightarrow> Files \<Rightarrow> compatibilityErr \<Rightarrow> compatibilityErr" where
  "compare_all A current prev c = RangeFiles (files_range prev)
     (\<lambda>fd diffs. (forEachEnum fd (check_enum A current)
        (forEachMessage (file_Messages fd) (check_message A current) diffs), True)) c"

lemma adds_compare_all: "adds (differs A cur prev) (compare_all A cur prev)"
proof -
  have m: "forEachMessage ms (check_message A cur) c =
      foldl (\<lambda>c m. fst (check_message A cur m c)) c (all_messages ms)" for ms c
    by (rule forEachMessage_foldl) (simp add: check_message_def split: option.split)
  have e: "forEachEnum fd (check_enum A cur) c = foldl (\<lambda>c e. fst (check_enum A cur e c)) c (all_enums fd)" for fd c
    by (rule forEachEnum_foldl) (simp add: check_enum_def split: option.split)
  have all: "compare_all A cur prev = (\<lambda>c. foldl (\<lambda>c fd.
      foldl (\<lambda>c e. fst (check_enum A cur e c))
        (foldl (\<lambda>c m. fst (check_message A cur m c)) c (all_messages (file_Messages fd))) (all_enums fd))
      c (files_range prev))"
    by (rule ext, unfold compare_all_def, subst RangeFiles_foldl [OF refl]) (simp add: m e)
  show ?thesis
    unfolding all
    using adds_foldl [OF adds_foldl_after [OF adds_foldl [OF adds_check_message] adds_check_enum]]
    by (rule adds_eq) (simp add: differs_def)
qed

lemma compare_all_kinds:
  "kinds (compare_all A cur prev \<lparr>ce_notAllowed = ks, ce_diffs = []\<rparr>) = {k \<in> set ks. differs A cur prev k}"
  using adds_compare_all [of A cur prev] unfolding adds_def by (intro set_eqI) (simp add: kinds_def [of "\<lparr>ce_notAllowed = ks, ce_diffs = []\<rparr>"])

lemma compareSchemas_kinds:
  "compareSchemas A cur prev ks =
     (if \<exists>k\<in>set ks. differs A cur prev k
      then Some (CompatErr (compare_all A cur prev \<lparr>ce_notAllowed = ks, ce_diffs = []\<rparr>)) else None)"
proof -
  let ?c = "compare_all A cur prev \<lparr>ce_notAllowed = ks, ce_diffs = []\<rparr>"
  have "isEmpty ?c \<longleftrightarrow> kinds ?c = {}"
    by (simp add: isEmpty_def kinds_def)
  then have "isEmpty ?c \<longleftrightarrow> \<not> (\<exists>k\<in>set ks. differs A cur prev k)"
    unfolding compare_all_kinds by auto
  then show ?thesis by (simp add: compareSchemas_def Let_def flip: compare_all_def)
qed

end
