(* ===== verification/Schema_Types.thy ===== *)
theory Schema_Types
  imports Change_Detector
begin

text \<open>
  The value types that the services, the repositories and the API exchange:
  \<open>core/schema/schema.go\<close>, \<open>core/namespace/namespace.go\<close>, \<open>core/search/search.go\<close>
  and \<open>NotificationEvent\<close> of \<open>core/changedetector/change_detector.go\<close>, with the helpers of
  \<open>core/schema/utils.go\<close>. Times are integers.
\<close>

record Metadata =
  meta_Authority :: string
  meta_Format :: string
  meta_Compatibility :: string
  meta_SourceURL :: string

record SchemaInfo =
  si_ID :: string
  si_Version :: int32
  si_Location :: string

record SchemaFile =
  sf_ID :: string
  sf_Types :: "string list"
  sf_Fields :: "string list"
  sf_Data :: bytes

record UpdateSchemaRequest =
  us_Namespace :: string
  us_Schema :: string
  us_Metadata :: Metadata
  us_SchemaFile :: SchemaFile

record Schema =
  sch_Name :: string
  sch_Format :: string
  sch_Compatibility :: string
  sch_Authority :: string
  sch_SourceURL :: string

record Namespace =
  ns_ID :: string
  ns_Format :: string
  ns_Compatibility :: string
  ns_Description :: string
  ns_CreatedAt :: int
  ns_UpdatedAt :: int

record NotificationEvent =
  ne_ID :: string
  ne_Type :: string
  ne_EventTime :: int
  ne_NamespaceID :: string
  ne_SchemaID :: int32
  ne_VersionID :: string
  ne_Success :: bool
  ne_CreatedAt :: int
  ne_UpdatedAt :: int

record SearchRequest =
  sr_NamespaceID :: string
  sr_SchemaID :: string
  sr_Query :: string
  sr_History :: bool
  sr_VersionID :: int32

record SearchHits =
  sh_Fields :: "string list"
  sh_Types :: "string list"
  sh_Path :: string
  sh_NamespaceID :: string
  sh_SchemaID :: string
  sh_VersionID :: int32

definition empty_metadata :: Metadata where
  "empty_metadata = \<lparr>meta_Authority = [], meta_Format = [], meta_Compatibility = [], meta_SourceURL = []\<rparr>"

definition empty_namespace :: Namespace where
  "empty_namespace = \<lparr>ns_ID = [], ns_Format = [], ns_Compatibility = [], ns_Description = [],
     ns_CreatedAt = 0, ns_UpdatedAt = 0\<rparr>"

definition empty_event :: NotificationEvent where
  "empty_event = \<lparr>ne_ID = [], ne_Type = [], ne_EventTime = 0, ne_NamespaceID = [], ne_SchemaID = 0,
     ne_VersionID = [], ne_Success = False, ne_CreatedAt = 0, ne_UpdatedAt = 0\<rparr>"

fun getNonEmpty :: "string list \<Rightarrow> string" where
  "getNonEmpty [] = []"
| "getNonEmpty (a # args) = (if a \<noteq> [] then a else getNonEmpty args)"

definition schemaKeyFunc :: "string \<Rightarrow> string \<Rightarrow> int32 \<Rightarrow> string" where
  "schemaKeyFunc nsName schema version = nsName @ ''-'' @ schema @ ''-'' @ show_int version"

end
