(* ===== verification/Formats.thy ===== *)
theory Formats
  imports Proto_Compat_Props Schema_Types
begin

text \<open>
  The three schema formats behind the \<open>ParsedSchema\<close> interface, \<open>formats/*\<close>, the provider
  that picks one (\<open>core/schema/provider\<close>), and the strategies of
  \<open>core/schema/compatibility.go\<close>. The protobuf, Avro, JSON Schema, UUID and \<open>multierr\<close>
  libraries are the fields of \<open>format_api\<close>.
\<close>

section \<open>What is used of the libraries\<close>

type_synonym avro_schema = string
type_synonym json_value = string

record format_api =
  reflect :: reflect_api
  proto :: proto_api
  proto_NewFiles :: "FileDescriptorSet \<Rightarrow> Files res"
  proto_Marshal :: "FileDescriptorSet \<Rightarrow> bytes"
  avro_Parse :: "bytes \<Rightarrow> avro_schema res"
  avro_Fingerprint :: "avro_schema \<Rightarrow> bytes"
  avro_Compatible :: "avro_schema \<Rightarrow> avro_schema \<Rightarrow> go_error option"
  json_Unmarshal :: "bytes \<Rightarrow> json_value res"
  json_Validate :: "json_value \<Rightarrow> go_error option"
  uuid_SHA1 :: "bytes \<Rightarrow> string"
  multierr_Combine :: "go_error option list \<Rightarrow> go_error option"

section \<open>Parsed schemas\<close>

datatype ParsedSchema =
    ProtoSchema Files bool bytes
  | AvroSchema bytes avro_schema
  | JsonSchema bytes

definition protobufFormat :: string where "protobufFormat = ''FORMAT_PROTOBUF''"
definition avroFormat :: string where "avroFormat = ''FORMAT_AVRO''"
definition jsonFormat :: string where "jsonFormat = ''FORMAT_JSON''"

lemmas format_defs = protobufFormat_def avroFormat_def jsonFormat_def

text \<open>The method of each type, then the method of the interface.\<close>

definition proto_Format :: string where [simp]: "proto_Format = protobufFormat"
definition avro_Format :: string where [simp]: "avro_Format = avroFormat"
definition json_Format :: string where [simp]: "json_Format = jsonFormat"

fun Format :: "ParsedSchema \<Rightarrow> string" where
  "Format (ProtoSchema files isValid data) = proto_Format"
| "Format (AvroSchema data sc) = avro_Format"
| "Format (JsonSchema data) = json_Format"

definition proto_GetCanonicalValue :: "format_api \<Rightarrow> Files \<Rightarrow> bytes \<Rightarrow> SchemaFile" where
  [simp]: "proto_GetCanonicalValue F files data =
     \<lparr>sf_ID = uuid_SHA1 F data, sf_Types = getAllMessages files, sf_Fields = getAllFields files, sf_Data = data\<rparr>"

definition avro_GetCanonicalValue :: "format_api \<Rightarrow> bytes \<Rightarrow> avro_schema \<Rightarrow> SchemaFile" where
  [simp]: "avro_GetCanonicalValue F data sc =
     \<lparr>sf_ID = uuid_SHA1 F (avro_Fingerprint F sc), sf_Types = [], sf_Fields = [], sf_Data = data\<rparr>"

definition json_GetCanonicalValue :: "format_api \<Rightarrow> bytes \<Rightarrow> SchemaFile" where
  [simp]: "json_GetCanonicalValue F data = \<lparr>sf_ID = uuid_SHA1 F data, sf_Types = [], sf_Fields = [], sf_Data = data\<rparr>"

fun GetCanonicalValue :: "format_api \<Rightarrow> ParsedSchema \<Rightarrow> SchemaFile" where
  "GetCanonicalValue F (ProtoSchema files isValid data) = proto_GetCanonicalValue F files data"
| "GetCanonicalValue F (AvroSchema data sc) = avro_GetCanonicalValue F data sc"
| "GetCanonicalValue F (JsonSchema data) = json_GetCanonicalValue F data"

section \<open>Compatibility\<close>

text \<open>\<open>verify\<close> of the protobuf schema: the previous files, or an error for another format.\<close>

definition proto_verify :: "ParsedSchema \<Rightarrow> Files res" where
  "proto_verify against =
     (case against of
        ProtoSchema files isValid data \<Rightarrow> Inr files
      | _ \<Rightarrow> Inl (ErrString ''different schema formats''))"

definition avro_verify :: "ParsedSchema \<Rightarrow> avro_schema res" where
  "avro_verify against =
     (case against of
        AvroSchema data sc \<Rightarrow> Inr sc
      | _ \<Rightarrow> Inl (HTTPStatusErr 400 (ErrString (''current and prev schema formats('' @ avroFormat @ '', '' @
               Format against @ '') are different''))))"

definition proto_compare :: "format_api \<Rightarrow> Files \<Rightarrow> ParsedSchema \<Rightarrow> diffKind list \<Rightarrow> go_error option" where
  "proto_compare F files against ks =
     (case proto_verify against of
        Inl e \<Rightarrow> Some e
      | Inr prev \<Rightarrow> compareSchemas (reflect F) files prev ks)"

definition proto_IsBackwardCompatible :: "format_api \<Rightarrow> Files \<Rightarrow> ParsedSchema \<Rightarrow> go_error option" where
  [simp]: "proto_IsBackwardCompatible F files against = proto_compare F files against backwardCompatibility"

definition avro_IsBackwardCompatible :: "format_api \<Rightarrow> avro_schema \<Rightarrow> ParsedSchema \<Rightarrow> go_error option" where
  [simp]: "avro_IsBackwardCompatible F sc against =
     (case avro_verify against of
        Inl e \<Rightarrow> Some e
      | Inr prev \<Rightarrow> avro_Compatible F sc prev)"

definition json_IsBackwardCompatible :: "format_api \<Rightarrow> ParsedSchema \<Rightarrow> go_error option" where
  [simp]: "json_IsBackwardCompatible F against = Some (ErrString ''Not implemented'')"

fun IsBackwardCompatible :: "format_api \<Rightarrow> ParsedSchema \<Rightarrow> ParsedSchema \<Rightarrow> go_error option" where
  "IsBackwardCompatible F (ProtoSchema files isValid data) against = proto_IsBackwardCompatible F files against"
| "IsBackwardCompatible F (AvroSchema data sc) against = avro_IsBackwardCompatible F sc against"
| "IsBackwardCompatible F (JsonSchema data) against = json_IsBackwardCompatible F against"

definition proto_IsForwardCompatible :: "format_api \<Rightarrow> Files \<Rightarrow> ParsedSchema \<Rightarrow> go_error option" where
  [simp]: "proto_IsForwardCompatible F files against = proto_compare F files against forwardCompatibility"

definition avro_IsForwardCompatible :: "format_api \<Rightarrow> ParsedSchema \<Rightarrow> ParsedSchema \<Rightarrow> go_error option" where
  [simp]: "avro_IsForwardCompatible F s against = IsBackwardCompatible F against s"

definition json_IsForwardCompatible :: "format_api \<Rightarrow> ParsedSchema \<Rightarrow> ParsedSchema \<Rightarrow> go_error option" where
  [simp]: "json_IsForwardCompatible F s against = IsBackwardCompatible F against s"

fun IsForwardCompatible :: "format_api \<Rightarrow> ParsedSchema \<Rightarrow> ParsedSchema \<Rightarrow> go_error option" where
  "IsForwardCompatible F (ProtoSchema files isValid data) against = proto_IsForwardCompatible F files against"
| "IsForwardCompatible F (AvroSchema data sc) against = avro_IsForwardCompatible F (AvroSchema data sc) against"
| "IsForwardCompatible F (JsonSchema data) against = json_IsForwardCompatible F (JsonSchema data) against"

definition proto_IsFullCompatible :: "format_api \<Rightarrow> Files \<Rightarrow> ParsedSchema \<Rightarrow> go_error option" where
  [simp]: "proto_IsFullCompatible F files against = proto_compare F files against fullCompatibility"

definition avro_IsFullCompatible :: "format_api \<Rightarrow> ParsedSchema \<Rightarrow> ParsedSchema \<Rightarrow> go_error option" where
  [simp]: "avro_IsFullCompatible F s against =
     (let forwardErr = IsForwardCompatible F s against;
          backwardErr = IsBackwardCompatible F s against
      in multierr_Combine F [forwardErr, backwardErr])"

definition json_IsFullCompatible :: "format_api \<Rightarrow> ParsedSchema \<Rightarrow> ParsedSchema \<Rightarrow> go_error option" where
  [simp]: "json_IsFullCompatible F s against =
     (let forwardErr = IsForwardCompatible F s against;
          backwardErr = IsBackwardCompatible F s against
      in multierr_Combine F [forwardErr, backwardErr])"

fun IsFullCompatible :: "format_api \<Rightarrow> ParsedSchema \<Rightarrow> ParsedSchema \<Rightarrow> go_error option" where
  "IsFullCompatible F (ProtoSchema files isValid data) against = proto_IsFullCompatible F files against"
| "IsFullCompatible F (AvroSchema data sc) against = avro_IsFullCompatible F (AvroSchema data sc) against"
| "IsFullCompatible F (JsonSchema data) against = json_IsFullCompatible F (JsonSchema data) against"

section \<open>Parsing\<close>

definition getRegistry :: "format_api \<Rightarrow> bytes \<Rightarrow> (FileDescriptorSet \<times> Files) res" where
  "getRegistry F data =
     (case unmarshal_fds (proto F) data of
        Inl err \<Rightarrow> Inl (ErrWrap (''descriptor set file is not valid. '' @ error_text err) err)
      | Inr fds \<Rightarrow>
          (case proto_NewFiles F fds of
             Inl err \<Rightarrow> Inl (ErrWrap (''file is not fully contained descriptor file. hint: generate file '' @
               ''descriptorset with --include_imports option. '' @ error_text err) err)
           | Inr files \<Rightarrow> Inr (fds, files)))"

definition proto_GetParsedSchema :: "format_api \<Rightarrow> bytes \<Rightarrow> ParsedSchema res" where
  "proto_GetParsedSchema F data =
     bind_res (getRegistry F data) (\<lambda>(fds, files).
       Inr (ProtoSchema files True (proto_Marshal F fds)))"

definition avro_ParseSchema :: "format_api \<Rightarrow> bytes \<Rightarrow> ParsedSchema res" where
  "avro_ParseSchema F data =
     (case avro_Parse F data of
        Inl err \<Rightarrow> Inl (HTTPStatusErr 400 err)
      | Inr sc \<Rightarrow> Inr (AvroSchema data sc))"

definition json_GetParsedSchema :: "format_api \<Rightarrow> bytes \<Rightarrow> ParsedSchema res" where
  "json_GetParsedSchema F data =
     (case json_Unmarshal F data of
        Inl err \<Rightarrow> Inl (HTTPStatusErr 400 err)
      | Inr v \<Rightarrow>
          (case json_Validate F v of
             Some err \<Rightarrow> Inl (HTTPStatusErr 400 err)
           | None \<Rightarrow> Inr (JsonSchema data)))"

text \<open>The mapper of \<open>NewSchemaProvider\<close> and \<open>ParseSchema\<close>.\<close>

definition NewSchemaProvider :: "format_api \<Rightarrow> (bytes \<Rightarrow> ParsedSchema res) gomap" where
  "NewSchemaProvider F =
     gm_set ''FORMAT_JSON'' (json_GetParsedSchema F)
       (gm_set ''FORMAT_AVRO'' (avro_ParseSchema F)
         (gm_set ''FORMAT_PROTOBUF'' (proto_GetParsedSchema F) gm_empty))"

definition ParseSchema :: "(bytes \<Rightarrow> ParsedSchema res) gomap \<Rightarrow> string \<Rightarrow> bytes \<Rightarrow> ParsedSchema res" where
  "ParseSchema mapper format data =
     (case gm_get mapper format of
        Some fn \<Rightarrow> fn data
      | None \<Rightarrow> Inl (ErrString ''unknown schema''))"

section \<open>Strategies (core/schema/compatibility.go)\<close>

type_synonym ValidationStrategy = "ParsedSchema \<Rightarrow> ParsedSchema \<Rightarrow> go_error option"
type_synonym CompatibilityFn = "ParsedSchema \<Rightarrow> ParsedSchema list \<Rightarrow> go_error option"

definition validateLatest :: "ValidationStrategy \<Rightarrow> CompatibilityFn" where
  "validateLatest strategy ps1 ps2 = (case ps2 of [] \<Rightarrow> None | prev # _ \<Rightarrow> strategy ps1 prev)"

definition validateAll :: "format_api \<Rightarrow> ValidationStrategy \<Rightarrow> CompatibilityFn" where
  "validateAll F strategy ps1 ps2 =
     foldl (\<lambda>err prev. multierr_Combine F [err, strategy ps1 prev]) None ps2"

definition backwardStrategy :: "format_api \<Rightarrow> ValidationStrategy" where
  "backwardStrategy F current prev = IsBackwardCompatible F current prev"

definition forwardStrategy :: "format_api \<Rightarrow> ValidationStrategy" where
  "forwardStrategy F current prev = IsForwardCompatible F current prev"

definition fullStrategy :: "format_api \<Rightarrow> ValidationStrategy" where
  "fullStrategy F current prev = IsFullCompatible F current prev"

definition defaultCompatibilityFn :: CompatibilityFn where
  "defaultCompatibilityFn current prevs = None"

definition getCompatibilityChecker :: "format_api \<Rightarrow> string \<Rightarrow> CompatibilityFn" where
  "getCompatibilityChecker F compatibility =
     (if compatibility = ''COMPATIBILITY_BACKWARD'' then validateLatest (backwardStrategy F)
      else if compatibility = ''COMPATIBILITY_BACKWARD_TRANSITIVE'' then validateAll F (backwardStrategy F)
      else if compatibility = ''COMPATIBILITY_FORWARD'' then validateLatest (forwardStrategy F)
      else if compatibility = ''COMPATIBILITY_FORWARD_TRANSITIVE'' then validateAll F (forwardStrategy F)
      else if compatibility = ''COMPATIBILITY_FULL'' then validateLatest (fullStrategy F)
      else if compatibility = ''COMPATIBILITY_FULL_TRANSITIVE'' then validateAll F (fullStrategy F)
      else defaultCompatibilityFn)"

section \<open>Documented behaviour of the libraries\<close>

text \<open>
  A reserved range of a message holds the numbers from its start up to, excluding, its end; one of
  an enum includes its end. \<open>ByNumber\<close> and \<open>ByName\<close> return the element of the list with
  that number, that name, if there is one.
\<close>

definition reflect_ok :: "reflect_api \<Rightarrow> bool" where
  "reflect_ok A \<longleftrightarrow>
     (\<forall>rs n. ranges_Has A rs n \<longleftrightarrow> (\<exists>(a, b)\<in>set rs. a \<le> n \<and> n < b)) \<and>
     (\<forall>rs n. enum_ranges_Has A rs n \<longleftrightarrow> (\<exists>(a, b)\<in>set rs. a \<le> n \<and> n \<le> b)) \<and>
     (\<forall>ns n. names_Has A ns n \<longleftrightarrow> n \<in> set ns) \<and>
     (\<forall>fs n. fields_ByNumber A fs n = find (\<lambda>f. f_Number f = n) fs) \<and>
     (\<forall>vs n. values_ByName A vs n = find (\<lambda>v. val_Name v = n) vs)"

text \<open>
  What \<open>protodesc.NewFiles\<close> checks before it returns a registry: a declared message or enum is
  what its full name finds, field numbers and enum value names do not repeat within their parent,
  ranges are not empty, and a message has its file's syntax.
\<close>

definition message_ok :: "Files \<Rightarrow> MessageDescriptor \<Rightarrow> bool" where
  "message_ok files m \<longleftrightarrow>
     files_find files (msg_FullName m) = Some (FoundMessage m) \<and>
     msg_ParentSyntax m = msg_Syntax m \<and> distinct (map f_Number (msg_Fields m)) \<and>
     (\<forall>(a, b)\<in>set (msg_ReservedRanges m). a < b)"

definition enum_ok :: "Files \<Rightarrow> EnumDescriptor \<Rightarrow> bool" where
  "enum_ok files e \<longleftrightarrow>
     files_find files (enum_FullName e) = Some (FoundEnum e) \<and> distinct (map val_Name (enum_Values e)) \<and>
     (\<forall>(a, b)\<in>set (enum_ReservedRanges e). a \<le> b)"

definition registry_ok :: "Files \<Rightarrow> bool" where
  "registry_ok files \<longleftrightarrow>
     (\<forall>fd\<in>set (files_range files). (\<forall>m\<in>set (all_messages (file_Messages fd)). message_ok files m) \<and>
        (\<forall>e\<in>set (all_enums fd). enum_ok files e))"

text \<open>\<open>multierr.Combine\<close>: nil exactly when every argument is, a single error is kept.\<close>

definition combine_ok :: "(go_error option list \<Rightarrow> go_error option) \<Rightarrow> bool" where
  "combine_ok comb \<longleftrightarrow> (\<forall>es. comb es = None \<longleftrightarrow> (\<forall>e\<in>set es. e = None)) \<and>
     (\<forall>e. comb [None, e] = e)"

end
