(* ===== verification/Formats_Claims.thy ===== *)
theory Formats_Claims
  imports Formats
begin

text \<open>
  The properties of the compatibility checker, with a concrete registry of two messages and an
  enum for the witnesses.
\<close>

section \<open>Concrete inputs\<close>

definition demo_reflect :: reflect_api where
  "demo_reflect = \<lparr>ranges_Has = (\<lambda>rs n. list_ex (\<lambda>(a, b). a \<le> n \<and> n < b) rs),
     enum_ranges_Has = (\<lambda>rs n. list_ex (\<lambda>(a, b). a \<le> n \<and> n \<le> b) rs),
     names_Has = (\<lambda>ns n. n \<in> set ns),
     fields_ByNumber = (\<lambda>fs n. find (\<lambda>f. f_Number f = n) fs),
     values_ByName = (\<lambda>vs n. find (\<lambda>v. val_Name v = n) vs),
     cardinality_IsValid = (\<lambda>c. 1 \<le> c \<and> c \<le> 3),
     cardinality_String = (\<lambda>c. if c = 3 then ''repeated'' else if c = 2 then ''required'' else ''optional''),
     kind_String = show_int, syntax_String = show_int\<rparr>"

lemma demo_reflect_ok: "reflect_ok demo_reflect"
  by (auto simp: reflect_ok_def demo_reflect_def list_ex_iff)

definition demo_field :: "string \<Rightarrow> int \<Rightarrow> FieldDescriptor" where
  "demo_field n i = \<lparr>f_Name = n, f_JSONName = n, f_Number = i, f_Cardinality = 1, f_Kind = 9, f_Message = [],
     f_Enum = [], f_FullName = ''t.User.'' @ n, f_Path = ''1.proto''\<rparr>"

definition demo_message :: "(int \<times> int) list \<Rightarrow> string list \<Rightarrow> FieldDescriptor list \<Rightarrow> MessageDescriptor" where
  "demo_message rs ns fs = MessageDescriptor ''t.User'' ''1.proto'' 3 3 rs ns fs [] []"

definition demo_enum :: EnumDescriptor where
  "demo_enum = \<lparr>enum_FullName = ''t.Role'', enum_Path = ''1.proto'', enum_ReservedRanges = [(7, 9)],
     enum_ReservedNames = [], enum_Values = [\<lparr>val_Name = ''ADMIN'', val_FullName = ''t.ADMIN'', val_Number = 0\<rparr>]\<rparr>"

definition demo_files :: "MessageDescriptor \<Rightarrow> Files" where
  "demo_files m = \<lparr>files_range = [\<lparr>file_Messages = [m], file_Enums = [demo_enum]\<rparr>],
     files_find = (\<lambda>n. if n = ''t.User'' then Some (FoundMessage m)
       else if n = ''t.Role'' then Some (FoundEnum demo_enum) else None)\<rparr>"

definition user_two :: MessageDescriptor where
  "user_two = demo_message [(5, 8)] [] [demo_field ''id'' 1, demo_field ''name'' 2]"

definition user_one :: MessageDescriptor where
  "user_one = demo_message [(2, 3), (5, 8)] [''name''] [demo_field ''id'' 1]"

lemmas demo_defs = demo_field_def demo_message_def demo_enum_def demo_files_def user_two_def user_one_def

lemma demo_registry_ok: "registry_ok (demo_files user_two)"
  by (simp add: demo_defs registry_ok_def message_ok_def enum_ok_def all_enums_def)

definition demo_format :: format_api where
  "demo_format = \<lparr>reflect = demo_reflect, proto = \<lparr>unmarshal_fds = (\<lambda>d. Inr []), equal_message = (=), equal_enum = (=)\<rparr>, proto_NewFiles = (\<lambda>fds. Inr (demo_files user_two)),
     proto_Marshal = (\<lambda>fds. []), avro_Parse = Inr, avro_Fingerprint = (\<lambda>s. s),
     avro_Compatible = (\<lambda>a b. None), json_Unmarshal = Inr, json_Validate = (\<lambda>v. None), uuid_SHA1 = (\<lambda>s. s),
     multierr_Combine = (\<lambda>es. case filter (\<lambda>e. e \<noteq> None) es of [] \<Rightarrow> None | [e] \<Rightarrow> e
       | es' \<Rightarrow> Some (MultiErr (map the es')))\<rparr>"

section \<open>The verdict\<close>

text \<open>
  C1. A protobuf schema is accepted under a compatibility mode exactly when no message or enum of
  the previous schema shows a difference of a kind that the mode disallows, \<open>differs\<close> saying
  for each kind what such a difference is; nested messages and enums count.
\<close>

theorem proto_compat_exact:
  "(IsBackwardCompatible F (ProtoSchema cur v d) (ProtoSchema prev v' d') = None) =
     (\<not> list_ex (differs (reflect F) cur prev) backwardCompatibility) \<and>
   (IsForwardCompatible F (ProtoSchema cur v d) (ProtoSchema prev v' d') = None) =
     (\<not> list_ex (differs (reflect F) cur prev) forwardCompatibility) \<and>
   (IsFullCompatible F (ProtoSchema cur v d) (ProtoSchema prev v' d') = None) =
     (\<not> list_ex (differs (reflect F) cur prev) fullCompatibility)"
  by (simp add: proto_compare_def proto_verify_def compareSchemas_kinds list_ex_iff)

text \<open>
  When the comparison fails, its error is a compatibility error that maps to the gRPC code
  \<open>InvalidArgument\<close> with the joined messages, and it reports the kinds that the mode disallows
  and that differ: all of them, and no others.
\<close>

theorem proto_compat_error:
  assumes "compareSchemas A cur prev ks = Some err"
  shows "\<exists>c. err = CompatErr c \<and> d_kind ` set (ce_diffs c) = {k \<in> set ks. differs A cur prev k} \<and>
    grpc_status err = Some (Code_InvalidArgument, join (map d_msg (ce_diffs c)) '';'')"
proof -
  from assms have "err = CompatErr (compare_all A cur prev \<lparr>ce_notAllowed = ks, ce_diffs = []\<rparr>)"
    by (simp add: compareSchemas_kinds split: if_splits)
  then show ?thesis using compare_all_kinds by (auto simp: kinds_def compat_error_text_def)
qed

theorem proto_compat_error_witness:
  "\<exists>c. compareSchemas demo_reflect (demo_files user_one) (demo_files user_two) backwardCompatibility =
       Some (CompatErr c) \<and>
     d_kind ` set (ce_diffs c) =
       {k \<in> set backwardCompatibility. differs demo_reflect (demo_files user_one) (demo_files user_two) k}"
proof -
  have ne: "compareSchemas demo_reflect (demo_files user_one) (demo_files user_two) backwardCompatibility \<noteq> None"
    by (simp add: compareSchemas_def demo_defs demo_reflect_def backwardCompatibility_def check_message_def
        getMessage_def compareMessages_def compare_message_field_def compareFields_def compareSyntax_def
        compare_message_range_def compare_message_name_def forEachEnum_def check_enum_def getEnum_def
        compareEnums_def compare_enum_range_def compare_enum_value_def isEmpty_def add_diff_def range_msg_def Let_def)
  then obtain e where e:
    "compareSchemas demo_reflect (demo_files user_one) (demo_files user_two) backwardCompatibility = Some e" by blast
  from proto_compat_error [OF e] e show ?thesis by auto
qed

text \<open>A missing reservation is reported only beside the deletion it belongs to.\<close>

definition deletion_of :: "diffKind \<Rightarrow> diffKind" where
  "deletion_of k =
     (if k = fieldDeleteWithoutReservedNumber \<or> k = fieldDeleteWithoutReservedName then fieldDelete
      else if k = enumValueDeleteWithoutReservedNumber \<or> k = enumValueDeleteWithoutReservedName
      then enumValueDelete else k)"

lemma member_deletion: "member_differs A m f k \<Longrightarrow> member_differs A m f (deletion_of k)"
  by (cases k) (auto simp: member_differs_def deletion_of_def split: option.splits)

lemma value_deletion: "value_differs A e v k \<Longrightarrow> value_differs A e v (deletion_of k)"
  by (cases k) (auto simp: value_differs_def deletion_of_def split: option.splits)

lemma deletion_fixed: "k \<in> {syntaxChange, nonInclusivereservedRange, nonInclusiceReservedNames, messageDelete, enumDelete}
    \<Longrightarrow> deletion_of k = k"
  by (auto simp: deletion_of_def)

lemma message_deletion: "message_differs A c m k \<Longrightarrow> message_differs A c m (deletion_of k)"
proof (cases "\<exists>f\<in>set (msg_Fields m). member_differs A c f k")
  case True
  then show ?thesis using member_deletion [of A c _ k] unfolding message_differs_def by blast
next
  case False
  moreover assume d: "message_differs A c m k"
  ultimately have "deletion_of k = k" by (intro deletion_fixed) (auto simp: message_differs_def)
  with d show ?thesis by simp
qed

lemma enum_deletion: "enum_differs A c e k \<Longrightarrow> enum_differs A c e (deletion_of k)"
proof (cases "\<exists>v\<in>set (enum_Values e). value_differs A c v k")
  case True
  then show ?thesis using value_deletion [of A c _ k] unfolding enum_differs_def by blast
next
  case False
  moreover assume d: "enum_differs A c e k"
  ultimately have "deletion_of k = k" by (intro deletion_fixed) (auto simp: enum_differs_def)
  with d show ?thesis by simp
qed

lemma message_lost_deletion: "message_lost A c m k \<Longrightarrow> message_lost A c m (deletion_of k)"
  using message_deletion by (auto simp: message_lost_def deletion_fixed split: option.splits)

lemma enum_lost_deletion: "enum_lost A c e k \<Longrightarrow> enum_lost A c e (deletion_of k)"
  using enum_deletion by (auto simp: enum_lost_def deletion_fixed split: option.splits)

lemma differs_deletion: "differs A cur prev k \<Longrightarrow> differs A cur prev (deletion_of k)"
  unfolding differs_def using message_lost_deletion enum_lost_deletion by blast

lemma backward_full: "set fullCompatibility = set backwardCompatibility"
  by (auto simp: fullCompatibility_def backwardCompatibility_def)

lemma forward_deletion: "k \<in> set forwardCompatibility \<Longrightarrow> deletion_of k \<in> set backwardCompatibility"
  by (auto simp: forwardCompatibility_def backwardCompatibility_def deletion_of_def)

text \<open>
  C26. Full compatibility accepts exactly what backward compatibility accepts, and backward
  compatibility accepts nothing that forward compatibility refuses: forward compatibility only
  relaxes deletions, when number and name are reserved.
\<close>

theorem proto_mode_hierarchy:
  "(IsFullCompatible F (ProtoSchema cur v d) (ProtoSchema prev v' d') = None) =
     (IsBackwardCompatible F (ProtoSchema cur v d) (ProtoSchema prev v' d') = None) \<and>
   (IsBackwardCompatible F (ProtoSchema cur v d) (ProtoSchema prev v' d') = None \<longrightarrow>
    IsForwardCompatible F (ProtoSchema cur v d) (ProtoSchema prev v' d') = None)"
proof -
  have "\<exists>k\<in>set backwardCompatibility. differs (reflect F) cur prev k"
    if "k \<in> set forwardCompatibility" "differs (reflect F) cur prev k" for k
    using forward_deletion [OF that(1)] differs_deletion [OF that(2)] by blast
  then show ?thesis
    by (auto simp: proto_compare_def proto_verify_def compareSchemas_kinds backward_full)
qed

lemma demo_forward:
  "compareSchemas demo_reflect (demo_files user_two) (demo_files user_two) ks = None"
  by (simp add: compareSchemas_def demo_defs demo_reflect_def check_message_def
        getMessage_def compareMessages_def compare_message_field_def compareFields_def compareSyntax_def
        compare_message_range_def compare_message_name_def forEachEnum_def check_enum_def getEnum_def
        compareEnums_def compare_enum_range_def compare_enum_value_def isEmpty_def MessageKind_def EnumKind_def Let_def)

theorem proto_mode_hierarchy_witness:
  "IsForwardCompatible demo_format (ProtoSchema (demo_files user_two) True []) (ProtoSchema (demo_files user_two) True []) = None"
proof -
  have "IsBackwardCompatible demo_format (ProtoSchema (demo_files user_two) True []) (ProtoSchema (demo_files user_two) True []) = None"
    by (simp add: proto_compare_def proto_verify_def demo_format_def demo_forward)
  then show ?thesis using proto_mode_hierarchy by blast
qed

section \<open>Reflexivity\<close>

lemma find_distinct: "distinct (map f xs) \<Longrightarrow> x \<in> set xs \<Longrightarrow> find (\<lambda>y. f y = f x) xs = Some x"
  by (induction xs) (auto simp: image_iff)

lemma reflect_okD:
  assumes "reflect_ok A"
  shows "ranges_Has A rs n \<longleftrightarrow> (\<exists>(a, b)\<in>set rs. a \<le> n \<and> n < b)"
    and "enum_ranges_Has A rs n \<longleftrightarrow> (\<exists>(a, b)\<in>set rs. a \<le> n \<and> n \<le> b)"
    and "names_Has A ns s \<longleftrightarrow> s \<in> set ns"
    and "fields_ByNumber A fs n = find (\<lambda>f. f_Number f = n) fs"
    and "values_ByName A vs s = find (\<lambda>v. val_Name v = s) vs"
  using assms unfolding reflect_ok_def by blast+

lemma message_self:
  assumes "reflect_ok A" and "message_ok files m"
  shows "\<not> message_lost A files m k"
proof -
  note R = reflect_okD [OF assms(1)]
  have "\<not> member_differs A m f k" if "f \<in> set (msg_Fields m)" for f
  proof -
    have "fields_ByNumber A (msg_Fields m) (f_Number f) = Some f"
      unfolding R(4) using assms(2) that by (simp add: message_ok_def find_distinct)
    then show ?thesis by (cases k) (simp_all add: member_differs_def)
  qed
  moreover have "ranges_Has A (msg_ReservedRanges m) a \<and> ranges_Has A (msg_ReservedRanges m) (b - 1)"
    if r: "(a, b) \<in> set (msg_ReservedRanges m)" for a b
  proof -
    have "a < b" using assms(2) r by (auto simp: message_ok_def)
    then show ?thesis unfolding R(1) using r by (auto intro!: bexI [of _ "(a, b)"])
  qed
  moreover have "names_Has A (msg_ReservedNames m) n" if "n \<in> set (msg_ReservedNames m)" for n
    using that by (simp add: R(3))
  moreover have "msg_Syntax m = msg_ParentSyntax m" using assms(2) by (simp add: message_ok_def)
  ultimately have "\<not> message_differs A m m k" unfolding message_differs_def by blast
  then show ?thesis using assms(2) by (simp add: message_lost_def getMessage_def message_ok_def)
qed

lemma enum_self:
  assumes "reflect_ok A" and "enum_ok files e"
  shows "\<not> enum_lost A files e k"
proof -
  note R = reflect_okD [OF assms(1)]
  have "\<not> value_differs A e v k" if "v \<in> set (enum_Values e)" for v
  proof -
    have "values_ByName A (enum_Values e) (val_Name v) = Some v"
      unfolding R(5) using assms(2) that by (simp add: enum_ok_def find_distinct)
    then show ?thesis by (simp add: value_differs_def)
  qed
  moreover have "enum_ranges_Has A (enum_ReservedRanges e) a \<and> enum_ranges_Has A (enum_ReservedRanges e) b"
    if r: "(a, b) \<in> set (enum_ReservedRanges e)" for a b
  proof -
    have "a \<le> b" using assms(2) r by (auto simp: enum_ok_def)
    then show ?thesis unfolding R(2) using r by (auto intro!: bexI [of _ "(a, b)"])
  qed
  moreover have "names_Has A (enum_ReservedNames e) n" if "n \<in> set (enum_ReservedNames e)" for n
    using that by (simp add: R(3))
  ultimately have "\<not> enum_differs A e e k" unfolding enum_differs_def by blast
  then show ?thesis using assms(2) by (simp add: enum_lost_def getEnum_def enum_ok_def)
qed

text \<open>
  A protobuf schema is compatible with itself under every mode: uploading the same schema
  again is never refused by the checker.
\<close>

theorem proto_compat_reflexive:
  assumes "reflect_ok (reflect F)" and "registry_ok files"
  shows "IsBackwardCompatible F (ProtoSchema files v d) (ProtoSchema files v' d') = None \<and>
    IsForwardCompatible F (ProtoSchema files v d) (ProtoSchema files v' d') = None \<and>
    IsFullCompatible F (ProtoSchema files v d) (ProtoSchema files v' d') = None"
proof -
  have "\<not> differs (reflect F) files files k" for k
    using assms(2) message_self [OF assms(1)] enum_self [OF assms(1)]
    unfolding differs_def registry_ok_def by blast
  then show ?thesis by (simp add: proto_compare_def proto_verify_def compareSchemas_kinds)
qed

theorem proto_compat_reflexive_witness:
  "IsFullCompatible demo_format (ProtoSchema (demo_files user_two) True []) (ProtoSchema (demo_files user_two) True []) = None"
  using proto_compat_reflexive [of demo_format "demo_files user_two" True "[]" True "[]"] demo_reflect_ok demo_registry_ok
  by (simp add: demo_format_def)

section \<open>Reserved ranges\<close>

definition range_old :: MessageDescriptor where
  "range_old = demo_message [(5, 10)] [] [demo_field ''id'' 1]"

definition range_new :: MessageDescriptor where
  "range_new = demo_message [(5, 6), (9, 10)] [] [demo_field ''id'' 1, demo_field ''city'' 7]"

text \<open>
  Of a reserved range only its two end numbers are looked up: a schema that frees the numbers
  between them is accepted as backward, forward and fully compatible, although the range is not
  included in the reserved numbers any more.
\<close>

theorem reserved_gap_accepted:
  "reflect_ok demo_reflect \<and> registry_ok (demo_files range_old) \<and> registry_ok (demo_files range_new) \<and>
   ranges_Has demo_reflect (msg_ReservedRanges range_old) 7 \<and>
   \<not> ranges_Has demo_reflect (msg_ReservedRanges range_new) 7 \<and>
   compareSchemas demo_reflect (demo_files range_new) (demo_files range_old) backwardCompatibility = None \<and>
   compareSchemas demo_reflect (demo_files range_new) (demo_files range_old) forwardCompatibility = None \<and>
   compareSchemas demo_reflect (demo_files range_new) (demo_files range_old) fullCompatibility = None"
proof (intro conjI)
  have c: "compareSchemas demo_reflect (demo_files range_new) (demo_files range_old) ks = None" for ks
    by (simp add: compareSchemas_def demo_defs range_old_def range_new_def demo_reflect_def check_message_def
        getMessage_def compareMessages_def compare_message_field_def compareFields_def compareSyntax_def
        compare_message_range_def compare_message_name_def forEachEnum_def check_enum_def getEnum_def
        compareEnums_def compare_enum_range_def compare_enum_value_def isEmpty_def MessageKind_def EnumKind_def Let_def)
  show "compareSchemas demo_reflect (demo_files range_new) (demo_files range_old) backwardCompatibility = None"
    "compareSchemas demo_reflect (demo_files range_new) (demo_files range_old) forwardCompatibility = None"
    "compareSchemas demo_reflect (demo_files range_new) (demo_files range_old) fullCompatibility = None"
    by (rule c)+
  show "reflect_ok demo_reflect" by (rule demo_reflect_ok)
qed (simp_all add: demo_defs range_old_def range_new_def registry_ok_def message_ok_def enum_ok_def
  all_enums_def demo_reflect_def)

end
