(* ===== verification/Go_Fmt.thy ===== *)
theory Go_Fmt
  imports Go_Prelude
begin

text \<open>
  \<open>fmt.Sprintf\<close> on a format string that is not a literal (the database layer formats with
  stored names as format strings): the verbs \<open>s\<close>, \<open>d\<close>, \<open>v\<close>, \<open>t\<close> and
  \<open>q\<close> without flags or width, a missing or surplus argument, a bad verb. \<open>rune_string\<close> is
  Go's conversion of an integer to a string, the UTF-8 encoding of a code point.
\<close>

datatype fmt_arg = FStr string | FInt32 int | FBool bool

fun arg_type :: "fmt_arg \<Rightarrow> string" where
  "arg_type (FStr s) = ''string''"
| "arg_type (FInt32 i) = ''int32''"
| "arg_type (FBool b) = ''bool''"

fun arg_value :: "fmt_arg \<Rightarrow> string" where
  "arg_value (FStr s) = s"
| "arg_value (FInt32 i) = show_int i"
| "arg_value (FBool b) = (if b then ''true'' else ''false'')"

fun accepts :: "char \<Rightarrow> fmt_arg \<Rightarrow> bool" where
  "accepts c (FStr s) \<longleftrightarrow> c \<in> {CHR ''s'', CHR ''v'', CHR ''q''}"
| "accepts c (FInt32 i) \<longleftrightarrow> c \<in> {CHR ''d'', CHR ''v''}"
| "accepts c (FBool b) \<longleftrightarrow> c \<in> {CHR ''t'', CHR ''v''}"

definition pct :: char where "pct = CHR 0x25"

definition fmt_one :: "char \<Rightarrow> fmt_arg \<Rightarrow> string" where
  "fmt_one c a =
     (if accepts c a then (if c = CHR ''q'' then go_quote (arg_value a) else arg_value a)
      else pct # ''!'' @ [c] @ ''('' @ arg_type a @ ''='' @ arg_value a @ '')'')"

definition fmt_extra :: "fmt_arg list \<Rightarrow> string" where
  "fmt_extra args =
     (if args = [] then []
      else pct # ''!(EXTRA '' @ join (map (\<lambda>a. arg_type a @ ''='' @ arg_value a) args) '', '' @ '')'')"

fun Sprintf :: "string \<Rightarrow> fmt_arg list \<Rightarrow> string" where
  "Sprintf [] args = fmt_extra args"
| "Sprintf [c] args = (if c = pct then pct # ''!(NOVERB)'' @ fmt_extra args else c # fmt_extra args)"
| "Sprintf (c # v # cs) args =
     (if c \<noteq> pct then c # Sprintf (v # cs) args
      else if v = pct then pct # Sprintf cs args
      else case args of
             [] \<Rightarrow> pct # ''!'' @ [v] @ ''(MISSING)'' @ Sprintf cs []
           | a # args' \<Rightarrow> fmt_one v a @ Sprintf cs args')"

lemma Sprintf_plain: "pct \<notin> set s \<Longrightarrow> Sprintf s args = s @ fmt_extra args"
  by (induction s args rule: Sprintf.induct) auto

definition utf8 :: "nat \<Rightarrow> string" where
  "utf8 n =
     (if n < 0x80 then [char_of n]
      else if n < 0x800 then [char_of (0xC0 + n div 64), char_of (0x80 + n mod 64)]
      else if n < 0x10000
      then [char_of (0xE0 + n div 4096), char_of (0x80 + n div 64 mod 64), char_of (0x80 + n mod 64)]
      else [char_of (0xF0 + n div 262144), char_of (0x80 + n div 4096 mod 64),
            char_of (0x80 + n div 64 mod 64), char_of (0x80 + n mod 64)])"

definition rune_string :: "int \<Rightarrow> string" where
  "rune_string i =
     (if i < 0 \<or> 0x10FFFF < i \<or> (0xD800 \<le> i \<and> i \<le> 0xDFFF) then utf8 0xFFFD else utf8 (nat i))"

end
