(* ===== verification/Postgres.thy ===== *)
theory Postgres
  imports Go_Errors Go_Fmt Schema_Types
begin

text \<open>
  The database layer, \<open>internal/store/postgres\<close>: the tables that the migrations create, and the
  repositories of schemas, namespaces, notification events and search, statement by statement. A
  statement can fail: \<open>fault env i\<close> is the error of the operation's statement number \<open>i\<close>
  (the connection, a timeout), counted in the order the code issues them, so that a theorem for
  every \<open>env\<close> covers every failure. A statement that fails changes nothing, and a transaction
  that does not commit changes nothing but the sequence.
\<close>

section \<open>Tables\<close>

record schema_row =
  s_id :: int
  s_name :: string
  s_authority :: "string option"
  s_format :: "string option"
  s_compatibility :: "string option"
  s_namespace_id :: string
  s_source_url :: "string option"

record version_row =
  v_id :: string
  v_version :: int
  v_schema_id :: int
  v_commit_sha :: "string option"

record file_row =
  sfr_id :: string
  sfr_types :: "string list"
  sfr_fields :: "string list"
  sfr_data :: bytes

record db =
  namespaces :: "Namespace list"
  schemas :: "schema_row list"
  versions :: "version_row list"
  schema_files :: "file_row list"
  versions_schema_files :: "(string \<times> string) list"
  notification_events :: "NotificationEvent list"
  schemas_id_seq :: int

definition empty_db :: db where
  "empty_db = \<lparr>namespaces = [], schemas = [], versions = [], schema_files = [],
     versions_schema_files = [], notification_events = [], schemas_id_seq = 1\<rparr>"

record env =
  fault :: "nat \<Rightarrow> go_error option"
  now :: int

definition COALESCE :: "string option \<Rightarrow> string \<Rightarrow> string" where
  "COALESCE v d = (case v of None \<Rightarrow> d | Some s \<Rightarrow> s)"

text \<open>\<open>QueryRow(...).Scan\<close>: the first row, or \<open>pgx.ErrNoRows\<close>.\<close>

definition query_row :: "env \<Rightarrow> nat \<Rightarrow> 'a list \<Rightarrow> 'a res" where
  "query_row env i rows =
     (case fault env i of
        Some e \<Rightarrow> Inl e
      | None \<Rightarrow> (case rows of [] \<Rightarrow> Inl PgxErrNoRows | r # _ \<Rightarrow> Inr r))"

text \<open>\<open>pgxscan.Get\<close>: exactly one row; \<open>pgxscan.Select\<close>: all of them.\<close>

definition scan_get :: "env \<Rightarrow> nat \<Rightarrow> 'a list \<Rightarrow> 'a res" where
  "scan_get env i rows =
     (case fault env i of
        Some e \<Rightarrow> Inl e
      | None \<Rightarrow> (case rows of
            [] \<Rightarrow> Inl PgxErrNoRows
          | [r] \<Rightarrow> Inr r
          | _ \<Rightarrow> Inl (ErrExt (''scany: expected 1 row, got: '' @ show_nat (length rows)))))"

definition scan_select :: "env \<Rightarrow> nat \<Rightarrow> 'a list \<Rightarrow> 'a list res" where
  "scan_select env i rows = (case fault env i of Some e \<Rightarrow> Inl e | None \<Rightarrow> Inr rows)"

definition wrap_res :: "'a res \<Rightarrow> string \<Rightarrow> 'a res" where
  "wrap_res r name = (case r of Inl e \<Rightarrow> Inl (wrap_err e name) | Inr a \<Rightarrow> Inr a)"

section \<open>Queries on schemas and versions\<close>

text \<open>The common table expression \<open>schema_id\<close>; used as a scalar, NULL when it has no row.\<close>

definition schema_id_cte :: "string \<Rightarrow> string \<Rightarrow> db \<Rightarrow> int list" where
  "schema_id_cte ns sc db =
     [s_id s. s \<leftarrow> schemas db, n \<leftarrow> namespaces db, ns_ID n = s_namespace_id s \<and> ns_ID n = ns \<and> s_name s = sc]"

definition scalar :: "'a list \<Rightarrow> 'a option" where
  "scalar rows = (case rows of [] \<Rightarrow> None | r # _ \<Rightarrow> Some r)"

definition schema_versions :: "int \<Rightarrow> db \<Rightarrow> version_row list" where
  "schema_versions sid db = filter (\<lambda>v. v_schema_id v = sid) (versions db)"

text \<open>\<open>SELECT COALESCE((SELECT MAX(version) ...), 0)\<close>\<close>

definition max_version :: "int option \<Rightarrow> db \<Rightarrow> int" where
  "max_version sid db =
     (case sid of
        None \<Rightarrow> 0
      | Some i \<Rightarrow> (case map v_version (schema_versions i db) of [] \<Rightarrow> 0 | v # vs \<Rightarrow> foldl max v vs))"

definition getSchemaVersionByID :: "string \<Rightarrow> db \<Rightarrow> int list" where
  "getSchemaVersionByID versionID db = map v_version (filter (\<lambda>v. v_id v = versionID) (versions db))"

definition getLatestVersionIDFromSchemaNameQuery :: "string \<Rightarrow> string \<Rightarrow> db \<Rightarrow> int list" where
  "getLatestVersionIDFromSchemaNameQuery ns sc db = [max_version (scalar (schema_id_cte ns sc db)) db]"

definition getVersionIDFromSchemaNameQuery :: "string \<Rightarrow> string \<Rightarrow> int32 \<Rightarrow> db \<Rightarrow> string list" where
  "getVersionIDFromSchemaNameQuery ns sc version db =
     map v_id (filter (\<lambda>v. v_version v = version \<and> Some (v_schema_id v) = scalar (schema_id_cte ns sc db))
       (versions db))"

definition getSchemaDataByVersionID :: "string \<Rightarrow> db \<Rightarrow> bytes list" where
  "getSchemaDataByVersionID versionID db =
     [sfr_data sf. sf \<leftarrow> schema_files db, vsf \<leftarrow> versions_schema_files db, snd vsf = sfr_id sf,
        v \<leftarrow> versions db, v_id v = fst vsf \<and> v_id v = versionID]"

definition schema_rows :: "string \<Rightarrow> string \<Rightarrow> db \<Rightarrow> schema_row list" where
  "schema_rows ns sc db = filter (\<lambda>s. s_namespace_id s = ns \<and> s_name s = sc) (schemas db)"

definition getSchemaMetaQuery :: "string \<Rightarrow> string \<Rightarrow> db \<Rightarrow> Metadata list" where
  "getSchemaMetaQuery ns sc db =
     map (\<lambda>s. \<lparr>meta_Authority = COALESCE (s_authority s) [], meta_Format = COALESCE (s_format s) [],
               meta_Compatibility = COALESCE (s_compatibility s) [], meta_SourceURL = COALESCE (s_source_url s) []\<rparr>)
       (schema_rows ns sc db)"

definition updateSchemaMetaQuery :: "string \<Rightarrow> string \<Rightarrow> string \<Rightarrow> db \<Rightarrow> db \<times> Metadata list" where
  "updateSchemaMetaQuery ns sc cm db =
     (let db' = db\<lparr>schemas := map (\<lambda>s. if s_namespace_id s = ns \<and> s_name s = sc
                    then s\<lparr>s_compatibility := Some cm\<rparr> else s) (schemas db)\<rparr>
      in (db', map (\<lambda>s. \<lparr>meta_Authority = COALESCE (s_authority s) [], meta_Format = COALESCE (s_format s) [],
               meta_Compatibility = COALESCE (s_compatibility s) [], meta_SourceURL = []\<rparr>)
            (schema_rows ns sc db')))"

text \<open>
  \<open>schemaListQuery\<close> reads \<open>format\<close>, \<open>source_url\<close> and \<open>compatibility\<close> without
  \<open>COALESCE\<close>; the driver cannot scan NULL into a string.
\<close>

definition scan_string :: "string option \<Rightarrow> string res" where
  "scan_string v = (case v of Some s \<Rightarrow> Inr s
     | None \<Rightarrow> Inl (ErrExt ''cannot scan NULL into *string''))"

definition list_row :: "schema_row \<Rightarrow> Schema res" where
  "list_row s =
     bind_res (scan_string (s_format s)) (\<lambda>fmt.
     bind_res (scan_string (s_source_url s)) (\<lambda>url.
     bind_res (scan_string (s_compatibility s)) (\<lambda>cm.
       Inr \<lparr>sch_Name = s_name s, sch_Format = fmt, sch_Compatibility = cm,
            sch_Authority = COALESCE (s_authority s) [], sch_SourceURL = url\<rparr>)))"

fun scan_rows :: "('a \<Rightarrow> 'b res) \<Rightarrow> 'a list \<Rightarrow> 'b list res" where
  "scan_rows f [] = Inr []"
| "scan_rows f (r # rs) = bind_res (f r) (\<lambda>x. bind_res (scan_rows f rs) (\<lambda>xs. Inr (x # xs)))"

definition listVersionsQuery :: "string \<Rightarrow> string \<Rightarrow> db \<Rightarrow> int list" where
  "listVersionsQuery ns sc db =
     [v_version v. v \<leftarrow> versions db, s \<leftarrow> schemas db,
        s_id s = v_schema_id v \<and> s_namespace_id s = ns \<and> s_name s = sc]"

section \<open>Statements that change the tables\<close>

definition duplicate :: "string \<Rightarrow> go_error" where
  "duplicate name = PgErr ''23505'' (''duplicate key value violates unique constraint '' @ name)"

definition foreign_key :: "string \<Rightarrow> go_error" where
  "foreign_key name = PgErr ''23503'' (''insert or update violates foreign key constraint '' @ name)"

text \<open>
  \<open>schemaInsertQuery\<close>: the sequence advances even when the row exists; the conflict action only
  touches \<open>updated_at\<close>.
\<close>

definition schemaInsertQuery :: "string \<Rightarrow> string \<Rightarrow> Metadata \<Rightarrow> db \<Rightarrow> db \<times> int res" where
  "schemaInsertQuery name ns meta db =
     (let sid = schemas_id_seq db; db1 = db\<lparr>schemas_id_seq := sid + 1\<rparr>
      in case filter (\<lambda>s. s_name s = name \<and> s_namespace_id s = ns) (schemas db1) of
           s # _ \<Rightarrow> (db1, Inr (s_id s))
         | [] \<Rightarrow>
             if ns \<notin> set (map ns_ID (namespaces db1)) then (db1, Inl (foreign_key ''fk_schemas_namespace_id''))
             else (db1\<lparr>schemas := schemas db1 @ [\<lparr>s_id = sid, s_name = name, s_authority = None,
                         s_format = Some (meta_Format meta), s_compatibility = Some (meta_Compatibility meta),
                         s_namespace_id = ns, s_source_url = Some (meta_SourceURL meta)\<rparr>]\<rparr>, Inr sid))"

text \<open>
  \<open>versionInsertQuery\<close>: one statement that computes the next number, inserts the version, the file
  (unless there is one with its id) and the row that connects them.
\<close>

definition versionInsertQuery :: "int \<Rightarrow> string \<Rightarrow> string \<Rightarrow> SchemaFile \<Rightarrow> db \<Rightarrow> db \<times> int res" where
  "versionInsertQuery sid versionID commitSHA file db =
     (let version = max_version (Some sid) db + 1
      in if versionID \<in> set (map v_id (versions db)) then (db, Inl (duplicate ''schema_id_unique''))
         else (db\<lparr>versions := versions db @ [\<lparr>v_id = versionID, v_version = version, v_schema_id = sid,
                                v_commit_sha = Some commitSHA\<rparr>],
                  schema_files := (if sf_ID file \<in> set (map sfr_id (schema_files db)) then schema_files db
                     else schema_files db @ [\<lparr>sfr_id = sf_ID file, sfr_types = sf_Types file,
                            sfr_fields = sf_Fields file, sfr_data = sf_Data file\<rparr>]),
                  versions_schema_files := versions_schema_files db @ [(versionID, sf_ID file)]\<rparr>,
               Inr version))"

text \<open>Deleting rows cascades along the foreign keys.\<close>

definition cascade_versions :: "(version_row \<Rightarrow> bool) \<Rightarrow> db \<Rightarrow> db" where
  "cascade_versions gone db =
     (let dead = map v_id (filter gone (versions db))
      in db\<lparr>versions := filter (\<lambda>v. \<not> gone v) (versions db),
            versions_schema_files := filter (\<lambda>m. fst m \<notin> set dead) (versions_schema_files db)\<rparr>)"

definition cascade_schemas :: "(schema_row \<Rightarrow> bool) \<Rightarrow> db \<Rightarrow> db" where
  "cascade_schemas gone db =
     (let dead = map s_id (filter gone (schemas db))
      in cascade_versions (\<lambda>v. v_schema_id v \<in> set dead) (db\<lparr>schemas := filter (\<lambda>s. \<not> gone s) (schemas db)\<rparr>))"

definition deleteSchemaQuery :: "string \<Rightarrow> string \<Rightarrow> db \<Rightarrow> db" where
  "deleteSchemaQuery ns sc db = cascade_schemas (\<lambda>s. s_namespace_id s = ns \<and> s_name s = sc) db"

definition deleteVersionQuery :: "string \<Rightarrow> string \<Rightarrow> int32 \<Rightarrow> db \<Rightarrow> db" where
  "deleteVersionQuery ns sc version db =
     (let ids = [v_id v. v \<leftarrow> versions db, s \<leftarrow> schemas db, s_id s = v_schema_id v \<and>
                   s_namespace_id s = ns \<and> s_name s = sc \<and> v_version v = version]
      in cascade_versions (\<lambda>v. Some (v_id v) = scalar ids) db)"

definition deleteOrphanedData :: "db \<Rightarrow> db" where
  "deleteOrphanedData db =
     db\<lparr>schema_files := filter (\<lambda>f. sfr_id f \<in> set (map snd (versions_schema_files db))) (schema_files db)\<rparr>"

definition namespaceDeleteQuery :: "string \<Rightarrow> db \<Rightarrow> db" where
  "namespaceDeleteQuery i db =
     cascade_schemas (\<lambda>s. s_namespace_id s = i) (db\<lparr>namespaces := filter (\<lambda>n. ns_ID n \<noteq> i) (namespaces db)\<rparr>)"

text \<open>\<open>Exec\<close> of statement \<open>i\<close>.\<close>

definition exec :: "env \<Rightarrow> nat \<Rightarrow> (db \<Rightarrow> db) \<Rightarrow> db \<Rightarrow> db \<times> go_error option" where
  "exec env i stmt db = (case fault env i of Some e \<Rightarrow> (db, Some e) | None \<Rightarrow> (stmt db, None))"

end
