(* ===== verification/Repositories.thy ===== *)
theory Repositories
  imports Postgres
begin

text \<open>
  The methods of the four repositories of \<open>internal/store/postgres\<close>, each a function of the
  statement environment and the tables. The numbers of the statements count from 0 in the order in
  which the method issues them.
\<close>

definition stmt :: "env \<Rightarrow> nat \<Rightarrow> (db \<Rightarrow> db \<times> 'a res) \<Rightarrow> db \<Rightarrow> db \<times> 'a res" where
  "stmt env i f db = (case fault env i of Some e \<Rightarrow> (db, Inl e) | None \<Rightarrow> f db)"

section \<open>Schemas (schema_repository.go)\<close>

text \<open>
  \<open>BeginFunc\<close>: statement 0 begins, the last one commits. The body's result variable
  (\<open>version\<close>) keeps its value when the commit fails.
\<close>

definition rolled_back :: "db \<Rightarrow> db \<Rightarrow> db" where
  "rolled_back db db' = db\<lparr>schemas_id_seq := schemas_id_seq db'\<rparr>"

definition BeginFunc ::
  "env \<Rightarrow> nat \<Rightarrow> (db \<Rightarrow> db \<times> int32 \<times> go_error option) \<Rightarrow> db \<Rightarrow> db \<times> int32 \<times> go_error option" where
  "BeginFunc env commit f db =
     (case fault env 0 of
        Some e \<Rightarrow> (db, 0, Some e)
      | None \<Rightarrow>
          (case f db of
             (db', version, Some e) \<Rightarrow> (rolled_back db db', version, Some e)
           | (db', version, None) \<Rightarrow>
               (case fault env commit of
                  Some e \<Rightarrow> (rolled_back db db', version, Some e)
                | None \<Rightarrow> (db', version, None))))"

definition create_tx ::
  "env \<Rightarrow> UpdateSchemaRequest \<Rightarrow> string \<Rightarrow> string \<Rightarrow> db \<Rightarrow> db \<times> int32 \<times> go_error option" where
  "create_tx env request versionID commitSHA db =
     (case query_row env 1 (getSchemaVersionByID versionID db) of
        Inr version \<Rightarrow> (db, version, None)
      | Inl vErr \<Rightarrow>
          if \<not> errors_is vErr Is_pgx_ErrNoRows then (db, 0, Some vErr)
          else
            (case stmt env 2 (schemaInsertQuery (us_Schema request) (us_Namespace request) (us_Metadata request)) db of
               (db1, Inl e) \<Rightarrow> (db1, 0, Some e)
             | (db1, Inr schemaID) \<Rightarrow>
                 (case stmt env 3 (versionInsertQuery schemaID versionID commitSHA (us_SchemaFile request)) db1 of
                    (db2, Inl e) \<Rightarrow> (db2, 0, Some e)
                  | (db2, Inr version) \<Rightarrow> (db2, version, None))))"

definition SchemaRepository_Create ::
  "env \<Rightarrow> UpdateSchemaRequest \<Rightarrow> string \<Rightarrow> string \<Rightarrow> db \<Rightarrow> db \<times> int32 \<times> go_error option" where
  "SchemaRepository_Create env request versionID commitSHA db =
     (case BeginFunc env 4 (create_tx env request versionID commitSHA) db of
        (db', version, err) \<Rightarrow>
          (db', version, wrapError err (''create schema failed for '' @ us_Schema request @ '' under'' @ us_Namespace request)))"

definition SchemaRepository_Get :: "env \<Rightarrow> string \<Rightarrow> string \<Rightarrow> int32 \<Rightarrow> db \<Rightarrow> bytes res" where
  "SchemaRepository_Get env namespaceId schemaName versionNumber db =
     (let name = ''Get schema for '' @ namespaceId @ '' - '' @ schemaName
      in case query_row env 0 (getVersionIDFromSchemaNameQuery namespaceId schemaName versionNumber db) of
           Inl e \<Rightarrow> Inl (wrap_err e name)
         | Inr versionID \<Rightarrow> wrap_res (query_row env 1 (getSchemaDataByVersionID versionID db)) name)"

definition SchemaRepository_GetLatestVersion :: "env \<Rightarrow> string \<Rightarrow> string \<Rightarrow> db \<Rightarrow> int32 res" where
  "SchemaRepository_GetLatestVersion env namespaceId schemaName db =
     wrap_res (query_row env 0 (getLatestVersionIDFromSchemaNameQuery namespaceId schemaName db))
       (''Latest version for '' @ namespaceId @ '' - '' @ schemaName)"

definition SchemaRepository_GetMetadata :: "env \<Rightarrow> string \<Rightarrow> string \<Rightarrow> db \<Rightarrow> Metadata res" where
  "SchemaRepository_GetMetadata env namespace sc db =
     wrap_res (scan_get env 0 (getSchemaMetaQuery namespace sc db)) ''meta''"

definition SchemaRepository_UpdateMetadata ::
  "env \<Rightarrow> string \<Rightarrow> string \<Rightarrow> Metadata \<Rightarrow> db \<Rightarrow> db \<times> Metadata res" where
  "SchemaRepository_UpdateMetadata env namespace sc meta db =
     (case fault env 0 of
        Some e \<Rightarrow> (db, Inl (wrap_err e ''meta''))
      | None \<Rightarrow>
          (case updateSchemaMetaQuery namespace sc (meta_Compatibility meta) db of
             (db', rows) \<Rightarrow> (db', wrap_res (scan_get env 0 rows) ''meta'')))"

definition SchemaRepository_List :: "env \<Rightarrow> string \<Rightarrow> db \<Rightarrow> Schema list res" where
  "SchemaRepository_List env namespaceID db =
     wrap_res (bind_res (scan_select env 0 (filter (\<lambda>s. s_namespace_id s = namespaceID) (schemas db)))
       (scan_rows list_row)) ''List schemas''"

definition SchemaRepository_Delete :: "env \<Rightarrow> string \<Rightarrow> string \<Rightarrow> db \<Rightarrow> db \<times> go_error option" where
  "SchemaRepository_Delete env ns sc db =
     (case exec env 0 (deleteSchemaQuery ns sc) db of
        (db1, err) \<Rightarrow> (fst (exec env 1 deleteOrphanedData db1), wrapError err ''delete schema''))"

definition SchemaRepository_ListVersions :: "env \<Rightarrow> string \<Rightarrow> string \<Rightarrow> db \<Rightarrow> int32 list res" where
  "SchemaRepository_ListVersions env ns sc db =
     wrap_res (scan_select env 0 (listVersionsQuery ns sc db)) ''versions''"

definition SchemaRepository_DeleteVersion ::
  "env \<Rightarrow> string \<Rightarrow> string \<Rightarrow> int32 \<Rightarrow> db \<Rightarrow> db \<times> go_error option" where
  "SchemaRepository_DeleteVersion env ns sc version db =
     (case exec env 0 (deleteVersionQuery ns sc version) db of
        (db1, err) \<Rightarrow> (fst (exec env 1 deleteOrphanedData db1), wrapError err ''delete version''))"

text \<open>\<open>string(schemaID)\<close> is the character with that code, and it is used as the format.\<close>

definition SchemaRepository_GetVersionCommitSHA :: "env \<Rightarrow> int32 \<Rightarrow> int32 \<Rightarrow> db \<Rightarrow> string res" where
  "SchemaRepository_GetVersionCommitSHA env schemaID version db =
     wrap_res (scan_get env 0 (map (\<lambda>v. COALESCE (v_commit_sha v) [])
         (filter (\<lambda>v. v_version v = version \<and> v_schema_id v = schemaID) (versions db))))
       (Sprintf (rune_string schemaID) [FInt32 version])"

definition SchemaRepository_GetSchemaID :: "env \<Rightarrow> string \<Rightarrow> string \<Rightarrow> db \<Rightarrow> int32 res" where
  "SchemaRepository_GetSchemaID env ns sc db =
     wrap_res (scan_get env 0 (map s_id (schema_rows ns sc db))) sc"

section \<open>Namespaces (namespace_repository.go)\<close>

definition NamespaceRepository_Create :: "env \<Rightarrow> Namespace \<Rightarrow> db \<Rightarrow> db \<times> Namespace res" where
  "NamespaceRepository_Create env ns db =
     (case stmt env 0 (\<lambda>db.
             if ns_ID ns \<in> set (map ns_ID (namespaces db)) then (db, Inl (duplicate ''namespaces_pkey''))
             else let row = ns\<lparr>ns_CreatedAt := now env, ns_UpdatedAt := now env\<rparr>
                  in (db\<lparr>namespaces := namespaces db @ [row]\<rparr>, Inr row)) db of
        (db', r) \<Rightarrow> (db', wrap_res r (ns_ID ns)))"

definition namespaceUpdateQuery :: "int \<Rightarrow> Namespace \<Rightarrow> db \<Rightarrow> db \<times> Namespace list" where
  "namespaceUpdateQuery t ns db =
     (let db' = db\<lparr>namespaces := map (\<lambda>n. if ns_ID n = ns_ID ns
            then n\<lparr>ns_Format := ns_Format ns, ns_Compatibility := ns_Compatibility ns,
                   ns_Description := ns_Description ns, ns_UpdatedAt := t\<rparr> else n) (namespaces db)\<rparr>
      in (db', filter (\<lambda>n. ns_ID n = ns_ID ns) (namespaces db')))"

definition NamespaceRepository_Update :: "env \<Rightarrow> Namespace \<Rightarrow> db \<Rightarrow> db \<times> Namespace res" where
  "NamespaceRepository_Update env ns db =
     (case fault env 0 of
        Some e \<Rightarrow> (db, Inl (wrap_err e (ns_ID ns)))
      | None \<Rightarrow>
          (case namespaceUpdateQuery (now env) ns db of
             (db', rows) \<Rightarrow> (db', wrap_res (scan_get env 0 rows) (ns_ID ns))))"

definition NamespaceRepository_Get :: "env \<Rightarrow> string \<Rightarrow> db \<Rightarrow> Namespace res" where
  "NamespaceRepository_Get env i db =
     wrap_res (scan_get env 0 (filter (\<lambda>n. ns_ID n = i) (namespaces db))) i"

definition NamespaceRepository_Delete :: "env \<Rightarrow> string \<Rightarrow> db \<Rightarrow> db \<times> go_error option" where
  "NamespaceRepository_Delete env i db =
     (case exec env 0 (namespaceDeleteQuery i) db of
        (db1, err) \<Rightarrow> (fst (exec env 1 deleteOrphanedData db1), wrapError err i))"

definition NamespaceRepository_List :: "env \<Rightarrow> db \<Rightarrow> Namespace list res" where
  "NamespaceRepository_List env db =
     wrap_res (scan_select env 0 (map (\<lambda>n. empty_namespace\<lparr>ns_ID := ns_ID n, ns_Format := ns_Format n,
         ns_Compatibility := ns_Compatibility n\<rparr>) (namespaces db))) []"

section \<open>Notification events (notification_event_repository.go)\<close>

definition NotificationEventRepository_Create :: "env \<Rightarrow> NotificationEvent \<Rightarrow> db \<Rightarrow> db \<times> NotificationEvent res" where
  "NotificationEventRepository_Create env event db =
     (case stmt env 0 (\<lambda>db.
             if ne_ID event \<in> set (map ne_ID (notification_events db))
             then (db, Inl (duplicate ''notification_events_pkey''))
             else let row = event\<lparr>ne_CreatedAt := now env, ne_UpdatedAt := now env\<rparr>
                  in (db\<lparr>notification_events := notification_events db @ [row]\<rparr>, Inr row)) db of
        (db', r) \<Rightarrow> (db', wrap_res r (Sprintf (ne_NamespaceID event) [FInt32 (ne_SchemaID event), FStr (ne_VersionID event)])))"

definition NotificationEventRepository_GetByNameSpaceSchemaVersionAndSuccess ::
  "env \<Rightarrow> string \<Rightarrow> int32 \<Rightarrow> string \<Rightarrow> bool \<Rightarrow> db \<Rightarrow> NotificationEvent res" where
  "NotificationEventRepository_GetByNameSpaceSchemaVersionAndSuccess env ns schemaID versionID success db =
     wrap_res (scan_get env 0 (filter (\<lambda>e. ne_NamespaceID e = ns \<and> ne_SchemaID e = schemaID \<and>
         ne_VersionID e = versionID \<and> ne_Success e = success) (notification_events db)))
       (Sprintf ns [FInt32 schemaID, FStr versionID, FBool success])"

definition notificationEventsUpdateQuery :: "int \<Rightarrow> string \<Rightarrow> bool \<Rightarrow> db \<Rightarrow> db \<times> NotificationEvent list" where
  "notificationEventsUpdateQuery t i success db =
     (let db' = db\<lparr>notification_events := map (\<lambda>e. if ne_ID e = i
            then e\<lparr>ne_Success := success, ne_UpdatedAt := t\<rparr> else e) (notification_events db)\<rparr>
      in (db', filter (\<lambda>e. ne_ID e = i) (notification_events db')))"

definition NotificationEventRepository_Update :: "env \<Rightarrow> string \<Rightarrow> bool \<Rightarrow> db \<Rightarrow> db \<times> NotificationEvent res" where
  "NotificationEventRepository_Update env i success db =
     (case fault env 0 of
        Some e \<Rightarrow> (db, Inl (wrap_err e i))
      | None \<Rightarrow>
          (case notificationEventsUpdateQuery (now env) i success db of
             (db', rows) \<Rightarrow> (db', wrap_res (scan_get env 0 rows) i)))"

section \<open>Search (search_repository.go)\<close>

text \<open>
  The path expression is built by concatenation; parsing it and evaluating it is the database's
  \<open>jsonpath\<close>, a parameter: an error, or the filter it denotes on an array of strings.
\<close>

type_synonym jsonpath = "string \<Rightarrow> (string list \<Rightarrow> string list) res"

definition search_path :: "string \<Rightarrow> string" where
  "search_path query = ''$[*] ? (@ like_regex '' @ [char_of (34 :: nat)] @ query @ [char_of (34 :: nat)] @
     '' flag '' @ [char_of (34 :: nat)] @ ''i'' @ [char_of (34 :: nat)] @ '')''"

text \<open>\<open>x = COALESCE(NULLIF(arg, ''), x)\<close>\<close>

definition matches_or_empty :: "string \<Rightarrow> string \<Rightarrow> bool" where
  "matches_or_empty arg x \<longleftrightarrow> (if arg = [] then True else x = arg)"

definition search_hit :: "(string list \<Rightarrow> string list) \<Rightarrow> file_row \<Rightarrow> version_row \<Rightarrow> schema_row \<Rightarrow> SearchHits" where
  "search_hit flt sf v s =
     \<lparr>sh_Fields = flt (sfr_fields sf), sh_Types = flt (sfr_types sf), sh_Path = [], sh_NamespaceID = s_namespace_id s,
      sh_SchemaID = s_name s, sh_VersionID = v_version v\<rparr>"

definition searchAllQuery :: "(string list \<Rightarrow> string list) \<Rightarrow> SearchRequest \<Rightarrow> db \<Rightarrow> SearchHits list" where
  "searchAllQuery flt req db =
     [search_hit flt sf v s. sf \<leftarrow> schema_files db, vsf \<leftarrow> versions_schema_files db, sfr_id sf = snd vsf,
        v \<leftarrow> versions db, fst vsf = v_id v, s \<leftarrow> schemas db, s_id s = v_schema_id v,
        n \<leftarrow> namespaces db, s_namespace_id s = ns_ID n \<and>
        matches_or_empty (sr_NamespaceID req) (ns_ID n) \<and> matches_or_empty (sr_SchemaID req) (s_name s) \<and>
        (sr_VersionID req = 0 \<or> v_version v = sr_VersionID req) \<and>
        (flt (sfr_fields sf) \<noteq> [] \<or> flt (sfr_types sf) \<noteq> [])]"

text \<open>The rows of the table expression \<open>latest_version\<close>: a schema with its largest version.\<close>

definition latest_version :: "SearchRequest \<Rightarrow> db \<Rightarrow> (schema_row \<times> int) list" where
  "latest_version req db =
     [(s, max_version (Some (s_id s)) db). s \<leftarrow> schemas db, schema_versions (s_id s) db \<noteq> [],
        n \<leftarrow> namespaces db, s_namespace_id s = ns_ID n \<and>
        matches_or_empty (sr_NamespaceID req) (ns_ID n) \<and> matches_or_empty (sr_SchemaID req) (s_name s)]"

definition searchLatestQuery :: "(string list \<Rightarrow> string list) \<Rightarrow> SearchRequest \<Rightarrow> db \<Rightarrow> SearchHits list" where
  "searchLatestQuery flt req db =
     [search_hit flt sf v (fst lv). sf \<leftarrow> schema_files db, vsf \<leftarrow> versions_schema_files db, sfr_id sf = snd vsf,
        v \<leftarrow> versions db, fst vsf = v_id v, lv \<leftarrow> latest_version req db,
        v_schema_id v = s_id (fst lv) \<and> v_version v = snd lv \<and>
        (flt (sfr_fields sf) \<noteq> [] \<or> flt (sfr_types sf) \<noteq> [])]"

definition SearchRepository_Search :: "jsonpath \<Rightarrow> env \<Rightarrow> SearchRequest \<Rightarrow> db \<Rightarrow> SearchHits list res" where
  "SearchRepository_Search J env req db =
     bind_res (J (search_path (sr_Query req))) (\<lambda>flt. scan_select env 0 (searchAllQuery flt req db))"

definition SearchRepository_SearchLatest :: "jsonpath \<Rightarrow> env \<Rightarrow> SearchRequest \<Rightarrow> db \<Rightarrow> SearchHits list res" where
  "SearchRepository_SearchLatest J env req db =
     bind_res (J (search_path (sr_Query req))) (\<lambda>flt. scan_select env 0 (searchLatestQuery flt req db))"

end
