(* ===== verification/Store_Props.thy ===== *)
theory Store_Props
  imports Repositories
begin

text \<open>
  Lemmas on the database layer: the integrity of the tables and its preservation by every statement,
  and the abstract view of the tables as a map from namespace, schema name and version number to the
  stored bytes, with what each repository method does to the view.
\<close>

section \<open>Integrity\<close>

definition keys_ok :: "db \<Rightarrow> bool" where
  "keys_ok db \<longleftrightarrow>
     distinct (map ns_ID (namespaces db)) \<and>
     distinct (map s_id (schemas db)) \<and>
     distinct (map (\<lambda>s. (s_namespace_id s, s_name s)) (schemas db)) \<and>
     distinct (map v_id (versions db)) \<and>
     distinct (map (\<lambda>v. (v_schema_id v, v_version v)) (versions db)) \<and>
     distinct (map sfr_id (schema_files db)) \<and>
     distinct (map ne_ID (notification_events db))"

definition links_ok :: "db \<Rightarrow> bool" where
  "links_ok db \<longleftrightarrow>
     (\<forall>s\<in>set (schemas db). s_namespace_id s \<in> ns_ID ` set (namespaces db) \<and> s_id s < schemas_id_seq db) \<and>
     (\<forall>v\<in>set (versions db). v_schema_id v \<in> s_id ` set (schemas db) \<and> 1 \<le> v_version v) \<and>
     (\<forall>m\<in>set (versions_schema_files db). snd m \<in> sfr_id ` set (schema_files db)) \<and>
     map fst (versions_schema_files db) = map v_id (versions db)"

definition db_inv :: "db \<Rightarrow> bool" where
  "db_inv db \<longleftrightarrow> keys_ok db \<and> links_ok db"

lemma db_inv_empty: "db_inv empty_db"
  by (simp add: db_inv_def keys_ok_def links_ok_def empty_db_def)

lemma db_inv_seq: "db_inv db \<Longrightarrow> schemas_id_seq db \<le> n \<Longrightarrow> db_inv (db\<lparr>schemas_id_seq := n\<rparr>)"
  by (force simp: db_inv_def keys_ok_def links_ok_def)

lemma foldl_max: "foldl max (v :: int) vs = Max (set (v # vs))"
proof -
  have "(\<lambda>x s. max s x) = (max :: int \<Rightarrow> int \<Rightarrow> int)" by (intro ext) (rule max.commute)
  then show ?thesis by (simp add: Max.set_eq_fold foldl_conv_fold del: list.set)
qed

lemma max_version_bound:
  assumes "v \<in> set (versions db)" and "v_schema_id v = sid"
  shows "v_version v \<le> max_version (Some sid) db"
proof -
  have "v_version v \<in> set (map v_version (schema_versions sid db))"
    using assms by (auto simp: schema_versions_def)
  then show ?thesis
    by (cases "map v_version (schema_versions sid db)") (auto simp: max_version_def foldl_max)
qed

lemma max_version_nonneg: "links_ok db \<Longrightarrow> 0 \<le> max_version sid db"
proof (cases sid)
  case (Some i)
  assume l: "links_ok db"
  show ?thesis
  proof (cases "map v_version (schema_versions i db)")
    case (Cons v vs)
    then have "v \<in> v_version ` set (versions db)"
      by (metis filter_is_subset image_mono list.set_intros(1) list.set_map schema_versions_def subsetD)
    then have "1 \<le> v" using l by (auto simp: links_ok_def)
    moreover have "v \<le> max_version sid db" using Some Cons by (simp add: max_version_def foldl_max)
    ultimately show ?thesis by simp
  qed (simp add: Some max_version_def)
qed (simp add: max_version_def)

lemma max_version_in:
  assumes "schema_versions sid db \<noteq> []"
  shows "\<exists>v\<in>set (versions db). v_schema_id v = sid \<and> v_version v = max_version (Some sid) db"
proof -
  obtain w ws where w: "map v_version (schema_versions sid db) = w # ws" using assms by (cases "schema_versions sid db") auto
  have "max_version (Some sid) db = Max (set (map v_version (schema_versions sid db)))"
    using w by (simp add: max_version_def foldl_max)
  also have "\<dots> \<in> set (map v_version (schema_versions sid db))" using w by (intro Max_in) auto
  finally show ?thesis by (auto simp: schema_versions_def)
qed

section \<open>Statements keep the integrity\<close>

lemma filter_keys: "distinct (map f xs) \<Longrightarrow> distinct (map f (filter P xs))"
  by (rule distinct_map_filter)

lemma vsf_filter:
  assumes "map fst ms = map v_id vs" and "distinct (map v_id vs)"
  shows "map fst (filter (\<lambda>m. fst m \<notin> set (map v_id (filter gone vs))) ms) = map v_id (filter (\<lambda>v. \<not> gone v) vs)"
proof -
  have dead: "v_id v \<in> set (map v_id (filter gone vs)) \<longleftrightarrow> gone v" if "v \<in> set vs" for v
    using that assms(2) by (auto simp: distinct_map inj_on_def)
  have "map fst (filter (\<lambda>m. fst m \<notin> set (map v_id (filter gone vs))) ms) =
      filter (\<lambda>i. i \<notin> set (map v_id (filter gone vs))) (map fst ms)"
    by (simp add: filter_map o_def)
  also have "\<dots> = map v_id (filter (\<lambda>v. v_id v \<notin> set (map v_id (filter gone vs))) vs)"
    by (simp only: assms(1) filter_map o_def)
  also have "\<dots> = map v_id (filter (\<lambda>v. \<not> gone v) vs)"
    using dead by (metis (mono_tags, lifting) filter_cong)
  finally show ?thesis .
qed

lemma cascade_versions_inv: "db_inv db \<Longrightarrow> db_inv (cascade_versions gone db)"
  using vsf_filter [of "versions_schema_files db" "versions db" gone]
  by (auto simp: db_inv_def keys_ok_def links_ok_def cascade_versions_def Let_def filter_keys)

lemma cascade_schemas_inv:
  assumes "keys_ok db" and "\<And>s. s \<in> set (schemas db) \<Longrightarrow> \<not> gone s \<Longrightarrow> s_namespace_id s \<in> ns_ID ` set (namespaces db)"
    and "\<And>s. s \<in> set (schemas db) \<Longrightarrow> s_id s < schemas_id_seq db"
    and "\<And>v. v \<in> set (versions db) \<Longrightarrow> v_schema_id v \<in> s_id ` set (schemas db) \<and> 1 \<le> v_version v"
    and "\<And>m. m \<in> set (versions_schema_files db) \<Longrightarrow> snd m \<in> sfr_id ` set (schema_files db)"
    and "map fst (versions_schema_files db) = map v_id (versions db)"
  shows "db_inv (cascade_schemas gone db)"
proof -
  let ?dead = "set (map s_id (filter gone (schemas db)))"
  have v: "v_schema_id v \<in> s_id ` {s \<in> set (schemas db). \<not> gone s}"
    if "v \<in> set (versions db)" "v_schema_id v \<notin> ?dead" for v
    using assms(4) [OF that(1)] that(2) by auto
  have "distinct (map v_id (versions db))" using assms(1) by (simp add: keys_ok_def)
  note f = vsf_filter [OF assms(6) this, of "\<lambda>v. v_schema_id v \<in> ?dead"]
  have "keys_ok (cascade_schemas gone db)"
    using assms(1) by (simp add: keys_ok_def cascade_schemas_def cascade_versions_def Let_def filter_keys)
  moreover have "links_ok (cascade_schemas gone db)"
    using assms(2,3,4,5) v f by (simp add: links_ok_def cascade_schemas_def cascade_versions_def Let_def)
  ultimately show ?thesis by (simp add: db_inv_def)
qed

lemma deleteSchemaQuery_inv: "db_inv db \<Longrightarrow> db_inv (deleteSchemaQuery ns sc db)"
  unfolding deleteSchemaQuery_def by (rule cascade_schemas_inv) (auto simp: db_inv_def links_ok_def)

lemma namespaceDeleteQuery_inv: "db_inv db \<Longrightarrow> db_inv (namespaceDeleteQuery i db)"
  unfolding namespaceDeleteQuery_def
  by (rule cascade_schemas_inv) (auto simp: db_inv_def links_ok_def keys_ok_def filter_keys)

lemma deleteVersionQuery_inv: "db_inv db \<Longrightarrow> db_inv (deleteVersionQuery ns sc ver db)"
  by (simp add: deleteVersionQuery_def Let_def cascade_versions_inv)

lemma deleteOrphanedData_inv: "db_inv db \<Longrightarrow> db_inv (deleteOrphanedData db)"
  by (force simp: db_inv_def keys_ok_def links_ok_def deleteOrphanedData_def filter_keys)

lemma exec_inv: "db_inv db \<Longrightarrow> db_inv (f db) \<Longrightarrow> db_inv (fst (exec env i f db))"
  by (simp add: exec_def split: option.split)

lemma schemaInsertQuery_inv:
  assumes "db_inv db" and "schemaInsertQuery name ns meta db = (db', r)"
  shows "db_inv db'"
proof (cases "filter (\<lambda>s. s_name s = name \<and> s_namespace_id s = ns) (schemas db) = [] \<and>
    ns \<in> set (map ns_ID (namespaces db))")
  case False
  then have "db' = db\<lparr>schemas_id_seq := schemas_id_seq db + 1\<rparr>"
    using assms(2) by (auto simp: schemaInsertQuery_def Let_def split: list.splits if_splits)
  then show ?thesis using db_inv_seq [OF assms(1)] by simp
next
  case True
  then have db': "db' = db\<lparr>schemas_id_seq := schemas_id_seq db + 1,
      schemas := schemas db @ [\<lparr>s_id = schemas_id_seq db, s_name = name, s_authority = None,
        s_format = Some (meta_Format meta), s_compatibility = Some (meta_Compatibility meta),
        s_namespace_id = ns, s_source_url = Some (meta_SourceURL meta)\<rparr>]\<rparr>"
    using assms(2) by (auto simp: schemaInsertQuery_def Let_def split: if_splits)
  have new: "\<And>s. s \<in> set (schemas db) \<Longrightarrow> \<not> (s_name s = name \<and> s_namespace_id s = ns)"
    using True by (auto simp: filter_empty_conv)
  have seq: "\<And>s. s \<in> set (schemas db) \<Longrightarrow> s_id s < schemas_id_seq db"
    using assms(1) by (auto simp: db_inv_def links_ok_def)
  have "keys_ok db'" using assms(1) new seq unfolding db' by (force simp: db_inv_def keys_ok_def)
  moreover have "links_ok db'"
    using assms(1) True seq unfolding db' by (force simp: db_inv_def links_ok_def)
  ultimately show ?thesis by (simp add: db_inv_def)
qed

lemma schemaInsertQuery_id:
  assumes "db_inv db" and "schemaInsertQuery name ns meta db = (db', Inr sid)"
  shows "\<exists>s\<in>set (schemas db'). s_id s = sid \<and> s_name s = name \<and> s_namespace_id s = ns"
  using assms(2)
  by (auto simp: schemaInsertQuery_def Let_def filter_eq_Cons_iff split: list.splits if_splits)

lemma versionInsertQuery_inv:
  assumes "db_inv db" and "sid \<in> s_id ` set (schemas db)"
    and "versionInsertQuery sid vid sha file db = (db', r)"
  shows "db_inv db'"
proof (cases "vid \<in> set (map v_id (versions db))")
  case True
  then show ?thesis using assms(1,3) by (simp add: versionInsertQuery_def)
next
  case False
  have fresh: "(sid, max_version (Some sid) db + 1) \<notin> (\<lambda>v. (v_schema_id v, v_version v)) ` set (versions db)"
    using max_version_bound [of _ db sid] by force
  have nonneg: "0 \<le> max_version (Some sid) db"
    using assms(1) by (simp add: db_inv_def max_version_nonneg)
  have db': "db' = db\<lparr>versions := versions db @ [\<lparr>v_id = vid, v_version = max_version (Some sid) db + 1,
        v_schema_id = sid, v_commit_sha = Some sha\<rparr>],
      schema_files := (if sf_ID file \<in> set (map sfr_id (schema_files db)) then schema_files db
        else schema_files db @ [\<lparr>sfr_id = sf_ID file, sfr_types = sf_Types file,
          sfr_fields = sf_Fields file, sfr_data = sf_Data file\<rparr>]),
      versions_schema_files := versions_schema_files db @ [(vid, sf_ID file)]\<rparr>"
    using assms(3) False by (simp add: versionInsertQuery_def Let_def)
  have "keys_ok db'" using assms(1) False fresh unfolding db' by (auto simp: db_inv_def keys_ok_def)
  moreover have "links_ok db'"
    using assms(1,2) nonneg unfolding db' by (auto simp: db_inv_def links_ok_def)
  ultimately show ?thesis by (simp add: db_inv_def)
qed

section \<open>Repository methods keep the integrity\<close>

lemma schemaInsertQuery_seq:
  "schemaInsertQuery name ns meta db = (db', r) \<Longrightarrow> schemas_id_seq db' = schemas_id_seq db + 1"
  by (auto simp: schemaInsertQuery_def Let_def split: list.splits if_splits)

lemma versionInsertQuery_seq:
  "versionInsertQuery sid vid sha file db = (db', r) \<Longrightarrow> schemas_id_seq db' = schemas_id_seq db"
  by (auto simp: versionInsertQuery_def Let_def split: if_splits)

lemma create_tx_inv:
  assumes "db_inv db" and "create_tx env req vid sha db = (db', version, err)"
  shows "db_inv db' \<and> schemas_id_seq db \<le> schemas_id_seq db'"
proof (cases "query_row env 1 (getSchemaVersionByID vid db)")
  case (Inr v)
  then show ?thesis using assms by (simp add: create_tx_def)
next
  case (Inl e)
  obtain db1 r1 where i: "stmt env 2 (schemaInsertQuery (us_Schema req) (us_Namespace req) (us_Metadata req)) db = (db1, r1)"
    by fastforce
  have 1: "db_inv db1 \<and> schemas_id_seq db \<le> schemas_id_seq db1 \<and>
      (\<forall>sid. r1 = Inr sid \<longrightarrow> sid \<in> s_id ` set (schemas db1))"
    using i assms(1) schemaInsertQuery_inv [OF assms(1)] schemaInsertQuery_id [OF assms(1)] schemaInsertQuery_seq
    by (fastforce simp: stmt_def split: option.splits)
  show ?thesis
  proof (cases r1)
    case (Inl e1)
    then show ?thesis using assms i 1 \<open>query_row _ _ _ = _\<close>
      by (auto simp: create_tx_def split: if_splits)
  next
    case (Inr sid)
    obtain db2 r2 where j: "stmt env 3 (versionInsertQuery sid vid sha (us_SchemaFile req)) db1 = (db2, r2)" by fastforce
    have "db_inv db2 \<and> schemas_id_seq db1 \<le> schemas_id_seq db2"
      using j 1 Inr versionInsertQuery_inv [of db1 sid] versionInsertQuery_seq
      by (fastforce simp: stmt_def split: option.splits)
    then show ?thesis using assms i j 1 Inr Inl
      by (auto simp: create_tx_def split: if_splits sum.splits)
  qed
qed

lemma rolled_back_inv: "db_inv db \<Longrightarrow> schemas_id_seq db \<le> schemas_id_seq db' \<Longrightarrow> db_inv (rolled_back db db')"
  by (simp add: rolled_back_def db_inv_seq)

lemma SchemaRepository_Create_inv:
  assumes "db_inv db" and "SchemaRepository_Create env req vid sha db = (db', version, err)"
  shows "db_inv db'"
proof -
  obtain d v e where c: "create_tx env req vid sha db = (d, v, e)" by (cases "create_tx env req vid sha db") auto
  note t = create_tx_inv [OF assms(1) c]
  then have "db_inv (rolled_back db d)" using assms(1) by (intro rolled_back_inv) auto
  then show ?thesis
    using assms c t by (auto simp: SchemaRepository_Create_def BeginFunc_def split: option.splits)
qed

end
