(* ===== verification/Store_View.thy ===== *)
theory Store_View
  imports Store_Props
begin

text \<open>
  The abstract view of the database: \<open>stored db\<close> maps namespace, schema name and version
  number to the bytes, \<open>latest db\<close> is the latest version number (0 for none). The lemmas say what
  the queries read of the view and how the methods change it.
\<close>

section \<open>The view\<close>

type_synonym version_key = "string \<times> string \<times> int32"

definition stored :: "db \<Rightarrow> version_key \<Rightarrow> bytes option" where
  "stored db k =
     (case k of (ns, sc, ver) \<Rightarrow>
        (case scalar (getVersionIDFromSchemaNameQuery ns sc ver db) of
           None \<Rightarrow> None
         | Some vid \<Rightarrow> scalar (getSchemaDataByVersionID vid db)))"

definition latest :: "db \<Rightarrow> string \<Rightarrow> string \<Rightarrow> int32" where
  "latest db ns sc = max_version (scalar (schema_id_cte ns sc db)) db"

definition live :: "db \<Rightarrow> string \<Rightarrow> string \<Rightarrow> version_row \<Rightarrow> bool" where
  "live db ns sc v \<longleftrightarrow> v \<in> set (versions db) \<and>
     (\<exists>s\<in>set (schemas db). s_id s = v_schema_id v \<and> s_namespace_id s = ns \<and> s_name s = sc)"

definition content :: "db \<Rightarrow> string \<Rightarrow> bytes \<Rightarrow> bool" where
  "content db vid d \<longleftrightarrow> (\<exists>f\<in>set (schema_files db). (vid, sfr_id f) \<in> set (versions_schema_files db) \<and> sfr_data f = d)"

lemma scalar_unique:
  assumes "\<And>x y. x \<in> set xs \<Longrightarrow> y \<in> set xs \<Longrightarrow> x = y"
  shows "scalar xs = Some x \<longleftrightarrow> x \<in> set xs"
  using assms by (cases xs) (auto simp: scalar_def)

lemma scalar_simps [simp]: "scalar [] = None" "scalar (x # xs) = Some x"
  by (simp_all add: scalar_def)

lemma distinct_map_eq: "distinct (map f xs) \<Longrightarrow> x \<in> set xs \<Longrightarrow> y \<in> set xs \<Longrightarrow> f x = f y \<Longrightarrow> x = y"
  by (auto simp: distinct_map inj_on_def)

lemma db_inv_keys:
  assumes "db_inv db"
  shows "distinct (map s_id (schemas db))" "distinct (map (\<lambda>s. (s_namespace_id s, s_name s)) (schemas db))"
    "distinct (map v_id (versions db))" "distinct (map (\<lambda>v. (v_schema_id v, v_version v)) (versions db))"
    "distinct (map sfr_id (schema_files db))" "distinct (map ns_ID (namespaces db))"
  using assms by (simp_all add: db_inv_def keys_ok_def)

lemma db_inv_links:
  assumes "db_inv db"
  shows "s \<in> set (schemas db) \<Longrightarrow> s_namespace_id s \<in> ns_ID ` set (namespaces db)"
    "v \<in> set (versions db) \<Longrightarrow> v_schema_id v \<in> s_id ` set (schemas db)"
    "v \<in> set (versions db) \<Longrightarrow> 1 \<le> v_version v"
    "m \<in> set (versions_schema_files db) \<Longrightarrow> snd m \<in> sfr_id ` set (schema_files db)"
    "map fst (versions_schema_files db) = map v_id (versions db)"
  using assms by (simp_all add: db_inv_def links_ok_def)

lemma same_schema:
  "db_inv db \<Longrightarrow> s \<in> set (schemas db) \<Longrightarrow> t \<in> set (schemas db) \<Longrightarrow>
     s_namespace_id s = s_namespace_id t \<Longrightarrow> s_name s = s_name t \<Longrightarrow> s = t"
  using distinct_map_eq [OF db_inv_keys(2)] by simp

lemma scalar_schema_id:
  assumes "db_inv db"
  shows "scalar (schema_id_cte ns sc db) = Some i \<longleftrightarrow>
    (\<exists>s\<in>set (schemas db). s_id s = i \<and> s_namespace_id s = ns \<and> s_name s = sc)"
proof -
  have set: "set (schema_id_cte ns sc db) = {s_id s |s. s \<in> set (schemas db) \<and> s_namespace_id s = ns \<and> s_name s = sc}"
    using db_inv_links(1) [OF assms] by (fastforce simp: schema_id_cte_def)
  then have "scalar (schema_id_cte ns sc db) = Some i \<longleftrightarrow> i \<in> set (schema_id_cte ns sc db)"
    by (intro scalar_unique) (auto dest: same_schema [OF assms])
  then show ?thesis unfolding set by auto
qed

lemma scalar_version_id:
  assumes "db_inv db"
  shows "scalar (getVersionIDFromSchemaNameQuery ns sc ver db) = Some vid \<longleftrightarrow>
    (\<exists>v. live db ns sc v \<and> v_version v = ver \<and> v_id v = vid)"
proof -
  have set: "set (getVersionIDFromSchemaNameQuery ns sc ver db) = {v_id v |v. live db ns sc v \<and> v_version v = ver}"
    by (auto simp: getVersionIDFromSchemaNameQuery_def live_def scalar_schema_id [OF assms] eq_commute [of "Some _"])
  have uniq: "v = w" if "live db ns sc v" "live db ns sc w" "v_version v = v_version w" for v w
  proof -
    have "v_schema_id v = v_schema_id w" using that by (auto simp: live_def dest: same_schema [OF assms])
    then show ?thesis using that distinct_map_eq [OF db_inv_keys(4) [OF assms]] by (simp add: live_def)
  qed
  have "scalar (getVersionIDFromSchemaNameQuery ns sc ver db) = Some vid \<longleftrightarrow>
      vid \<in> set (getVersionIDFromSchemaNameQuery ns sc ver db)"
    by (intro scalar_unique) (use uniq in \<open>auto simp: set\<close>)
  then show ?thesis unfolding set by auto
qed

lemma content_unique:
  assumes "db_inv db" "content db vid d" "content db vid d'"
  shows "d = d'"
proof -
  have "distinct (map fst (versions_schema_files db))"
    by (simp add: db_inv_links(5) [OF assms(1)] db_inv_keys(3) [OF assms(1)])
  then have "f = g" if "(vid, f) \<in> set (versions_schema_files db)" "(vid, g) \<in> set (versions_schema_files db)" for f g
    using that by (metis distinct_map_eq fst_conv snd_conv)
  then show ?thesis
    using assms(2,3) distinct_map_eq [OF db_inv_keys(5) [OF assms(1)]] unfolding content_def by metis
qed

lemma scalar_data:
  assumes "db_inv db" and "vid \<in> v_id ` set (versions db)"
  shows "scalar (getSchemaDataByVersionID vid db) = Some d \<longleftrightarrow> content db vid d"
proof -
  have set: "set (getSchemaDataByVersionID vid db) = {d. content db vid d}"
    using assms(2) by (fastforce simp: getSchemaDataByVersionID_def content_def)
  then have "scalar (getSchemaDataByVersionID vid db) = Some d \<longleftrightarrow> d \<in> set (getSchemaDataByVersionID vid db)"
    by (intro scalar_unique) (auto intro: content_unique [OF assms(1)])
  then show ?thesis by (simp add: set)
qed

lemma content_exists:
  assumes "db_inv db" and "v \<in> set (versions db)"
  shows "\<exists>d. content db (v_id v) d"
proof -
  have "v_id v \<in> fst ` set (versions_schema_files db)"
    using assms(2) by (metis db_inv_links(5) [OF assms(1)] image_eqI list.set_map)
  then obtain f where m: "(v_id v, f) \<in> set (versions_schema_files db)" by auto
  with db_inv_links(4) [OF assms(1) m] show ?thesis by (auto simp: content_def)
qed

lemma stored_iff:
  assumes "db_inv db"
  shows "stored db (ns, sc, ver) = Some d \<longleftrightarrow> (\<exists>v. live db ns sc v \<and> v_version v = ver \<and> content db (v_id v) d)"
proof (cases "scalar (getVersionIDFromSchemaNameQuery ns sc ver db)")
  case None
  then have "\<not> (\<exists>v. live db ns sc v \<and> v_version v = ver)"
    using scalar_version_id [OF assms, of ns sc ver] by auto
  with None show ?thesis by (auto simp: stored_def)
next
  case (Some vid)
  then obtain v where v: "live db ns sc v" "v_version v = ver" "v_id v = vid"
    by (auto simp: scalar_version_id [OF assms])
  have "v_id w = vid" if "live db ns sc w" "v_version w = ver" for w
    using that scalar_version_id [OF assms, of ns sc ver "v_id w"] Some by auto
  then show ?thesis using v Some scalar_data [OF assms, of vid d]
    by (auto simp: stored_def live_def)
qed

lemma stored_None_iff:
  assumes "db_inv db"
  shows "stored db (ns, sc, ver) = None \<longleftrightarrow> \<not> (\<exists>v. live db ns sc v \<and> v_version v = ver)"
proof -
  have "stored db (ns, sc, ver) \<noteq> None \<longleftrightarrow> (\<exists>v. live db ns sc v \<and> v_version v = ver)"
    using stored_iff [OF assms] content_exists [OF assms] by (auto simp: live_def) metis+
  then show ?thesis by auto
qed

lemma stored_eqI:
  assumes "db_inv db" "db_inv db'"
    and "\<And>v. live db ns sc v \<and> v_version v = ver \<longleftrightarrow> live db' ns sc v \<and> v_version v = ver"
    and "\<And>v d. live db ns sc v \<Longrightarrow> v_version v = ver \<Longrightarrow> content db (v_id v) d = content db' (v_id v) d"
  shows "stored db (ns, sc, ver) = stored db' (ns, sc, ver)"
proof (rule option.expand)
  show "(stored db (ns, sc, ver) = None) = (stored db' (ns, sc, ver) = None)"
    by (simp add: stored_None_iff assms(1,2) assms(3))
next
  assume "stored db (ns, sc, ver) \<noteq> None"
  then obtain d where d: "stored db (ns, sc, ver) = Some d" by blast
  then have "stored db' (ns, sc, ver) = Some d"
    using assms(3,4) unfolding stored_iff [OF assms(1)] stored_iff [OF assms(2)] by metis
  with d show "the (stored db (ns, sc, ver)) = the (stored db' (ns, sc, ver))" by simp
qed

section \<open>The latest version\<close>

lemma latest_bound:
  assumes "db_inv db" and "live db ns sc v"
  shows "v_version v \<le> latest db ns sc"
proof -
  have "scalar (schema_id_cte ns sc db) = Some (v_schema_id v)"
    using assms(2) by (auto simp: live_def scalar_schema_id [OF assms(1)])
  then show ?thesis using assms(2) by (simp add: latest_def live_def max_version_bound)
qed

lemma latest_cases:
  assumes "db_inv db"
  shows "latest db ns sc = 0 \<and> (\<forall>v. \<not> live db ns sc v) \<or> (\<exists>v. live db ns sc v \<and> v_version v = latest db ns sc)"
proof (cases "\<exists>v. live db ns sc v")
  case True
  then obtain v s where v: "v \<in> set (versions db)" "s \<in> set (schemas db)" "s_id s = v_schema_id v"
    "s_namespace_id s = ns" "s_name s = sc" by (auto simp: live_def)
  have i: "scalar (schema_id_cte ns sc db) = Some (s_id s)" using v by (auto simp: scalar_schema_id [OF assms])
  have "schema_versions (s_id s) db \<noteq> []" using v by (auto simp: schema_versions_def filter_empty_conv)
  from max_version_in [OF this] obtain w where w: "w \<in> set (versions db)" "v_schema_id w = s_id s"
    "v_version w = latest db ns sc" using i by (auto simp: latest_def)
  then have "live db ns sc w" using v by (auto simp: live_def)
  with w(3) show ?thesis by blast
next
  case False
  have "latest db ns sc = 0"
  proof (cases "scalar (schema_id_cte ns sc db)")
    case (Some i)
    then have "schema_versions i db = []"
      using False by (fastforce simp: scalar_schema_id [OF assms] live_def schema_versions_def filter_empty_conv)
    then show ?thesis using Some by (simp add: latest_def max_version_def)
  qed (simp add: latest_def max_version_def)
  with False show ?thesis by simp
qed

lemma stored_above_latest: "db_inv db \<Longrightarrow> latest db ns sc < ver \<Longrightarrow> stored db (ns, sc, ver) = None"
  using latest_bound by (fastforce simp: stored_None_iff)

text \<open>A new entry one above the latest is then the latest.\<close>

lemma latest_after_new:
  assumes "db_inv db" and "db_inv db'" and "ver = latest db ns sc + 1" and "stored db' = (stored db)((ns, sc, ver) \<mapsto> d)"
  shows "latest db' ns sc = ver"
proof -
  have le: "v \<le> ver" if "stored db' (ns, sc, v) \<noteq> None" for v
  proof (cases "v = ver")
    case False
    then have "\<not> latest db ns sc < v" using that stored_above_latest [OF assms(1), of ns sc v] assms(4) by auto
    then show ?thesis using assms(3) by simp
  qed simp
  have "stored db' (ns, sc, ver) \<noteq> None" using assms(4) by simp
  then have ge: "ver \<le> latest db' ns sc" using stored_above_latest [OF assms(2), of ns sc ver] by force
  have "1 \<le> ver" using assms(3) max_version_nonneg [of db] assms(1) by (simp add: latest_def db_inv_def)
  then have "latest db' ns sc \<noteq> 0" using ge by simp
  then have "stored db' (ns, sc, latest db' ns sc) \<noteq> None"
    using latest_cases [OF assms(2), of ns sc] stored_None_iff [OF assms(2)] by auto
  with le ge show ?thesis by (simp add: order_antisym)
qed

section \<open>What the reading methods return\<close>

definition no_fault :: "env \<Rightarrow> bool" where "no_fault env \<longleftrightarrow> (\<forall>i. fault env i = None)"

lemma query_row_ok: "no_fault env \<Longrightarrow>
    query_row env i rows = (case scalar rows of None \<Rightarrow> Inl PgxErrNoRows | Some r \<Rightarrow> Inr r)"
  by (cases rows) (simp_all add: query_row_def no_fault_def scalar_def)

lemma SchemaRepository_Get_view:
  assumes "db_inv db" and "no_fault env"
  shows "SchemaRepository_Get env ns sc ver db =
    (case stored db (ns, sc, ver) of
       Some d \<Rightarrow> Inr d
     | None \<Rightarrow> Inl (wrap_err PgxErrNoRows (''Get schema for '' @ ns @ '' - '' @ sc)))"
  by (simp add: SchemaRepository_Get_def stored_def query_row_ok [OF assms(2)] wrap_res_def split: option.split)

lemma SchemaRepository_GetLatestVersion_view:
  "no_fault env \<Longrightarrow> SchemaRepository_GetLatestVersion env ns sc db = Inr (latest db ns sc)"
  by (simp add: SchemaRepository_GetLatestVersion_def getLatestVersionIDFromSchemaNameQuery_def latest_def
      query_row_def no_fault_def wrap_res_def)

end
