(* ===== verification/Store_Effects.thy ===== *)
theory Store_Effects
  imports Store_View
begin

text \<open>
  How the methods that change the tables change the view: a created version is one new entry, a
  deleted version or schema takes away its entries and nothing else.
\<close>

section \<open>Inserting\<close>

definition file_data :: "db \<Rightarrow> SchemaFile \<Rightarrow> bytes" where
  "file_data db file =
     (case find (\<lambda>f. sfr_id f = sf_ID file) (schema_files db) of Some f \<Rightarrow> sfr_data f | None \<Rightarrow> sf_Data file)"

lemma schemaInsertQuery_view:
  assumes "db_inv db" and "schemaInsertQuery name ns meta db = (db1, Inr sid)"
  shows "live db1 = live db" and "content db1 = content db" and "versions db1 = versions db"
    and "schema_files db1 = schema_files db" and "max_version (Some sid) db1 = latest db ns name"
proof -
  have fresh: "v_schema_id v \<noteq> schemas_id_seq db" if "v \<in> set (versions db)" for v
    using assms(1) that by (force simp: db_inv_def links_ok_def)
  have mv: "max_version i db1 = max_version i db" for i
    using assms(2) by (auto simp: schemaInsertQuery_def Let_def max_version_def schema_versions_def
        split: list.splits if_splits option.splits)
  show "versions db1 = versions db" "content db1 = content db" "schema_files db1 = schema_files db"
    using assms(2) by (auto simp: schemaInsertQuery_def Let_def content_def fun_eq_iff split: list.splits if_splits)
  show "live db1 = live db"
    using assms(2)
    by (auto simp: schemaInsertQuery_def Let_def live_def fun_eq_iff split: list.splits if_splits) (metis fresh)+
  show "max_version (Some sid) db1 = latest db ns name"
  proof (cases "\<exists>s\<in>set (schemas db). s_namespace_id s = ns \<and> s_name s = name")
    case True
    then obtain t ts where t: "filter (\<lambda>s. s_name s = name \<and> s_namespace_id s = ns) (schemas db) = t # ts"
      by (cases "filter (\<lambda>s. s_name s = name \<and> s_namespace_id s = ns) (schemas db)") (auto simp: filter_empty_conv)
    then have m: "t \<in> set (schemas db) \<and> s_name t = name \<and> s_namespace_id t = ns" by (auto simp: filter_eq_Cons_iff)
    have "sid = s_id t" using assms(2) t by (simp add: schemaInsertQuery_def Let_def)
    moreover have "scalar (schema_id_cte ns name db) = Some (s_id t)"
      using m by (auto simp: scalar_schema_id [OF assms(1)])
    ultimately show ?thesis by (simp add: latest_def mv)
  next
    case False
    then have e: "filter (\<lambda>s. s_name s = name \<and> s_namespace_id s = ns) (schemas db) = []"
      by (auto simp: filter_empty_conv)
    then have "sid = schemas_id_seq db" using assms(2) by (auto simp: schemaInsertQuery_def Let_def split: if_splits)
    then have "max_version (Some sid) db = 0"
      using fresh by (simp add: max_version_def schema_versions_def)
    moreover have "scalar (schema_id_cte ns name db) = None"
      using False scalar_schema_id [OF assms(1), of ns name] by (metis not_None_eq)
    then have "latest db ns name = 0" by (simp add: latest_def max_version_def)
    ultimately show ?thesis by (simp add: mv)
  qed
qed

lemma versionInsertQuery_view:
  assumes inv: "db_inv db" and s: "\<exists>s\<in>set (schemas db). s_id s = sid \<and> s_namespace_id s = ns \<and> s_name s = sc"
    and ins: "versionInsertQuery sid vid sha file db = (db', Inr version)"
  shows "version = max_version (Some sid) db + 1"
    and "vid \<notin> v_id ` set (versions db)"
    and "stored db' = (stored db)((ns, sc, version) \<mapsto> file_data db file)"
proof -
  show ver: "version = max_version (Some sid) db + 1" and fresh: "vid \<notin> v_id ` set (versions db)"
    using ins by (auto simp: versionInsertQuery_def Let_def split: if_splits)
  define new where "new = \<lparr>v_id = vid, v_version = version, v_schema_id = sid, v_commit_sha = Some sha\<rparr>"
  have fields: "versions db' = versions db @ [new]" "schemas db' = schemas db"
    using ins by (auto simp: versionInsertQuery_def Let_def new_def split: if_splits)
  have sid: "sid \<in> s_id ` set (schemas db)" using s by auto
  have inv': "db_inv db'" by (rule versionInsertQuery_inv [OF inv sid ins])
  have live': "live db' a b v \<longleftrightarrow> live db a b v \<or> v = new \<and> a = ns \<and> b = sc" for a b v
  proof -
    have "s_namespace_id t = ns \<and> s_name t = sc" if "t \<in> set (schemas db)" "s_id t = sid" for t
      using that s distinct_map_eq [OF db_inv_keys(1) [OF inv]] by metis
    then have "(\<exists>t\<in>set (schemas db). s_id t = sid \<and> s_namespace_id t = a \<and> s_name t = b) \<longleftrightarrow> a = ns \<and> b = sc"
      using s by blast
    moreover have "v_schema_id new = sid" by (simp add: new_def)
    ultimately show ?thesis by (auto simp: live_def fields)
  qed
  have old: "content db' i d = content db i d" if "i \<in> v_id ` set (versions db)" for i d
  proof -
    have refs: "f \<in> sfr_id ` set (schema_files db)" if "(i, f) \<in> set (versions_schema_files db)" for f
      using db_inv_links(4) [OF inv that] by simp
    have "i \<noteq> vid" using that fresh by auto
    then have vsf: "(i, f) \<in> set (versions_schema_files db') \<longleftrightarrow> (i, f) \<in> set (versions_schema_files db)" for f
      using ins fresh by (auto simp: versionInsertQuery_def Let_def)
    have files: "(\<forall>f\<in>set (schema_files db). f \<in> set (schema_files db')) \<and>
        (\<forall>f\<in>set (schema_files db'). f \<in> set (schema_files db) \<or>
          sfr_id f \<notin> sfr_id ` set (schema_files db))"
      using ins fresh
      by (cases "sf_ID file \<in> sfr_id ` set (schema_files db)") (auto simp: versionInsertQuery_def Let_def)
    show ?thesis unfolding content_def vsf using files refs by blast
  qed
  have data: "content db' vid (file_data db file)"
  proof (cases "find (\<lambda>f. sfr_id f = sf_ID file) (schema_files db)")
    case None
    then have "sf_ID file \<notin> set (map sfr_id (schema_files db))" by (auto simp: find_None_iff)
    then show ?thesis using ins fresh None
      by (auto simp: versionInsertQuery_def Let_def content_def file_data_def)
  next
    case (Some f)
    then have "f \<in> set (schema_files db)" "sfr_id f = sf_ID file" by (auto simp: find_Some_iff)
    then show ?thesis using ins fresh Some
      by (auto simp: versionInsertQuery_def Let_def content_def file_data_def image_iff)
  qed
  show "stored db' = (stored db)((ns, sc, version) \<mapsto> file_data db file)"
  proof
    fix k :: version_key
    obtain a b c where k: "k = (a, b, c)" by (cases k)
    show "stored db' k = ((stored db)((ns, sc, version) \<mapsto> file_data db file)) k"
    proof (cases "k = (ns, sc, version)")
      case True
      have "live db' ns sc new" "v_version new = version" "v_id new = vid" using live' by (auto simp: new_def)
      with data have "stored db' (ns, sc, version) = Some (file_data db file)"
        unfolding stored_iff [OF inv'] by metis
      then show ?thesis by (simp add: True)
    next
      case False
      have "stored db' (a, b, c) = stored db (a, b, c)"
        by (rule stored_eqI [OF inv' inv]) (use False live' old in \<open>auto simp: k new_def live_def\<close>)
      then show ?thesis using False by (auto simp: k)
    qed
  qed
qed

lemma SchemaRepository_Create_view:
  assumes inv: "db_inv db" and c: "SchemaRepository_Create env req vid sha db = (db', version, None)"
  defines "ns \<equiv> us_Namespace req" and "sc \<equiv> us_Schema req"
  shows "db' = db \<and> (\<exists>v\<in>set (versions db). v_id v = vid \<and> v_version v = version) \<or>
    vid \<notin> v_id ` set (versions db) \<and> version = latest db ns sc + 1 \<and>
    stored db' = (stored db)((ns, sc, version) \<mapsto> file_data db (us_SchemaFile req))"
proof -
  have tx: "create_tx env req vid sha db = (db', version, None)"
    using c by (auto simp: SchemaRepository_Create_def BeginFunc_def wrapError_def split: option.splits prod.splits)
  show ?thesis
  proof (cases "query_row env 1 (getSchemaVersionByID vid db)")
    case (Inr v)
    then have "db' = db" "v = version" using tx by (auto simp: create_tx_def)
    moreover have "v \<in> set (getSchemaVersionByID vid db)"
      using Inr by (auto simp: query_row_def split: option.splits list.splits)
    ultimately show ?thesis by (auto simp: getSchemaVersionByID_def)
  next
    case (Inl e)
    obtain db1 sid where i: "schemaInsertQuery sc ns (us_Metadata req) db = (db1, Inr sid)"
      and j: "versionInsertQuery sid vid sha (us_SchemaFile req) db1 = (db', Inr version)"
      using tx Inl by (auto simp: create_tx_def stmt_def ns_def sc_def split: if_splits sum.splits prod.splits option.splits)
    note v1 = schemaInsertQuery_view [OF inv i]
    have inv1: "db_inv db1" by (rule schemaInsertQuery_inv [OF inv i])
    have s: "\<exists>s\<in>set (schemas db1). s_id s = sid \<and> s_namespace_id s = ns \<and> s_name s = sc"
      using schemaInsertQuery_id [OF inv i] by auto
    note v2 = versionInsertQuery_view [OF inv1 s j]
    have "stored db1 = stored db"
    proof
      fix k :: version_key
      obtain a b c where k: "k = (a, b, c)" by (cases k)
      have "stored db1 (a, b, c) = stored db (a, b, c)"
        by (rule stored_eqI [OF inv1 inv]) (simp_all add: v1(1,2))
      then show "stored db1 k = stored db k" by (simp add: k)
    qed
    moreover have "file_data db1 f = file_data db f" for f by (simp add: file_data_def v1(4))
    ultimately show ?thesis using v1 v2 by simp
  qed
qed

text \<open>After a successful \<open>Create\<close> the version id has its row, and as long as the row is there, the id is found.\<close>

lemma SchemaRepository_Create_row:
  assumes "SchemaRepository_Create env req vid sha db = (db', version, None)"
  shows "\<exists>v\<in>set (versions db'). v_id v = vid \<and> v_version v = version"
proof -
  have tx: "create_tx env req vid sha db = (db', version, None)"
    using assms by (auto simp: SchemaRepository_Create_def BeginFunc_def wrapError_def split: option.splits prod.splits)
  show ?thesis
  proof (cases "query_row env 1 (getSchemaVersionByID vid db)")
    case (Inr v)
    then have "db' = db" "v = version" "v \<in> set (getSchemaVersionByID vid db)"
      using tx by (auto simp: create_tx_def query_row_def split: option.splits list.splits)
    then show ?thesis by (auto simp: getSchemaVersionByID_def)
  next
    case (Inl e)
    then obtain sid db1 where "versionInsertQuery sid vid sha (us_SchemaFile req) db1 = (db', Inr version)"
      using tx by (auto simp: create_tx_def stmt_def split: if_splits sum.splits prod.splits option.splits)
    then show ?thesis by (auto simp: versionInsertQuery_def Let_def split: if_splits)
  qed
qed

lemma SchemaRepository_Create_again:
  assumes "db_inv db" and "v \<in> set (versions db)" and "SchemaRepository_Create env req (v_id v) sha db = (db', version, None)"
  shows "db' = db \<and> version = v_version v"
  using SchemaRepository_Create_view [OF assms(1,3)] assms(2) distinct_map_eq [OF db_inv_keys(3) [OF assms(1)]] by force

lemma SchemaRepository_Create_failed:
  assumes "SchemaRepository_Create env req vid sha db = (db', version, Some err)"
  shows "\<exists>n. db' = db\<lparr>schemas_id_seq := n\<rparr>"
proof -
  have "db' = db \<or> (\<exists>d. db' = rolled_back db d)"
    using assms by (auto simp: SchemaRepository_Create_def BeginFunc_def wrapError_def split: option.splits prod.splits)
  moreover have "db = db\<lparr>schemas_id_seq := schemas_id_seq db\<rparr>" by simp
  ultimately show ?thesis by (metis rolled_back_def)
qed

lemma stored_seq [simp]: "stored (db\<lparr>schemas_id_seq := n\<rparr>) = stored db"
proof -
  have "getSchemaDataByVersionID vid (db\<lparr>schemas_id_seq := n\<rparr>) = getSchemaDataByVersionID vid db" for vid
    by (simp add: getSchemaDataByVersionID_def cong: if_cong)
  then show ?thesis
    by (simp add: fun_eq_iff stored_def getVersionIDFromSchemaNameQuery_def schema_id_cte_def cong: option.case_cong)
qed

section \<open>Deleting\<close>

lemma content_filter:
  assumes "set (versions_schema_files db') = {m \<in> set (versions_schema_files db). P (fst m)}" and "P vid"
    and "schema_files db' = schema_files db"
  shows "content db' vid d = content db vid d"
  using assms by (simp add: content_def)

text \<open>A deletion of schemas by namespace and name, together with a change of the namespaces.\<close>

lemma cascade_schemas_view:
  assumes inv: "db_inv db" and inv': "db_inv (cascade_schemas gone (db\<lparr>namespaces := N\<rparr>))"
    and gone: "\<And>s. gone s \<longleftrightarrow> P (s_namespace_id s) (s_name s)"
  shows "stored (cascade_schemas gone (db\<lparr>namespaces := N\<rparr>)) = (\<lambda>(a, b, c). if P a b then None else stored db (a, b, c))"
proof
  fix k :: version_key
  obtain a b c where k: "k = (a, b, c)" by (cases k)
  let ?db' = "cascade_schemas gone (db\<lparr>namespaces := N\<rparr>)"
  have live': "live ?db' x y v \<longleftrightarrow> live db x y v \<and> \<not> P x y" for x y v
    by (auto simp: live_def gone cascade_schemas_def cascade_versions_def Let_def
        dest: distinct_map_eq [OF db_inv_keys(1) [OF inv]])
  have con: "content ?db' (v_id v) d = content db (v_id v) d" if "v \<in> set (versions ?db')" for v d
  proof (rule content_filter)
    show "set (versions_schema_files ?db') = {m \<in> set (versions_schema_files db).
        fst m \<notin> v_id ` {w \<in> set (versions db). w \<notin> set (versions ?db')}}"
      by (auto simp: cascade_schemas_def cascade_versions_def Let_def)
    show "v_id v \<notin> v_id ` {w \<in> set (versions db). w \<notin> set (versions ?db')}"
      using that distinct_map_eq [OF db_inv_keys(3) [OF inv]]
      by (auto simp: cascade_schemas_def cascade_versions_def Let_def)
  qed (simp add: cascade_schemas_def cascade_versions_def Let_def)
  show "stored ?db' k = (\<lambda>(a, b, c). if P a b then None else stored db (a, b, c)) k"
  proof (cases "P a b")
    case True
    then show ?thesis using live' by (simp add: k stored_None_iff [OF inv'])
  next
    case False
    have "stored ?db' (a, b, c) = stored db (a, b, c)"
    proof (rule stored_eqI [OF inv' inv])
      show "live ?db' a b v \<and> v_version v = c \<longleftrightarrow> live db a b v \<and> v_version v = c" for v
        using False live' by auto
      show "live ?db' a b v \<Longrightarrow> content ?db' (v_id v) d = content db (v_id v) d" for v d
        by (rule con) (simp add: live_def)
    qed
    with False show ?thesis by (auto simp: k)
  qed
qed

lemma deleteSchemaQuery_view:
  assumes inv: "db_inv db"
  shows "stored (deleteSchemaQuery ns sc db) = (\<lambda>(a, b, c). if a = ns \<and> b = sc then None else stored db (a, b, c))"
  using cascade_schemas_view [OF inv, of "\<lambda>s. s_namespace_id s = ns \<and> s_name s = sc" "namespaces db" "\<lambda>a b. a = ns \<and> b = sc"]
    deleteSchemaQuery_inv [OF inv, of ns sc] by (simp add: deleteSchemaQuery_def)

lemma namespaceDeleteQuery_view:
  assumes inv: "db_inv db"
  shows "stored (namespaceDeleteQuery i db) = (\<lambda>(a, b, c). if a = i then None else stored db (a, b, c))"
  using cascade_schemas_view [OF inv, of "\<lambda>s. s_namespace_id s = i" "filter (\<lambda>n. ns_ID n \<noteq> i) (namespaces db)" "\<lambda>a b. a = i"]
    namespaceDeleteQuery_inv [OF inv, of i] by (simp add: namespaceDeleteQuery_def)

lemma deleteVersionQuery_view:
  assumes inv: "db_inv db"
  shows "stored (deleteVersionQuery ns sc ver db) = (stored db)((ns, sc, ver) := None)"
proof
  fix k :: version_key
  obtain a b c where k: "k = (a, b, c)" by (cases k)
  let ?db' = "deleteVersionQuery ns sc ver db"
  have inv': "db_inv ?db'" by (rule deleteVersionQuery_inv [OF inv])
  let ?ids = "[v_id v. v \<leftarrow> versions db, s \<leftarrow> schemas db, s_id s = v_schema_id v \<and>
      s_namespace_id s = ns \<and> s_name s = sc \<and> v_version v = ver]"
  have ids: "set ?ids = {v_id v |v. live db ns sc v \<and> v_version v = ver}" by (auto simp: live_def)
  have "scalar ?ids = Some i \<longleftrightarrow> i \<in> set ?ids" for i
    using scalar_version_id [OF inv, of ns sc ver] by (intro scalar_unique, unfold ids) (auto, metis option.inject)
  then have gone: "Some (v_id v) = scalar ?ids \<longleftrightarrow> live db ns sc v \<and> v_version v = ver"
    if "v \<in> set (versions db)" for v
    using that distinct_map_eq [OF db_inv_keys(3) [OF inv]] unfolding ids eq_commute [of "Some _"]
    by (auto simp: live_def)
  have vs: "set (versions ?db') = {v \<in> set (versions db). \<not> (live db ns sc v \<and> v_version v = ver)}"
    using gone by (auto simp: deleteVersionQuery_def cascade_versions_def Let_def simp del: scalar_simps)
  have rest: "schemas ?db' = schemas db" "schema_files ?db' = schema_files db"
    by (simp_all add: deleteVersionQuery_def cascade_versions_def Let_def)
  have live': "live ?db' x y v \<longleftrightarrow> live db x y v \<and> \<not> (live db ns sc v \<and> v_version v = ver)" for x y v
    by (auto simp: live_def vs rest)
  have con: "content ?db' (v_id v) d = content db (v_id v) d" if "v \<in> set (versions ?db')" for v d
  proof (rule content_filter)
    show "set (versions_schema_files ?db') = {m \<in> set (versions_schema_files db).
        fst m \<notin> v_id ` {w \<in> set (versions db). w \<notin> set (versions ?db')}}"
      unfolding vs using gone by (auto simp: deleteVersionQuery_def cascade_versions_def Let_def)
    show "v_id v \<notin> v_id ` {w \<in> set (versions db). w \<notin> set (versions ?db')}"
      using that distinct_map_eq [OF db_inv_keys(3) [OF inv]] unfolding vs by auto
  qed (rule rest)
  have other: "x = ns \<and> y = sc" if "live db x y v" "live db ns sc v" for x y v
    using that by (auto simp: live_def dest: distinct_map_eq [OF db_inv_keys(1) [OF inv]])
  show "stored ?db' k = ((stored db)((ns, sc, ver) := None)) k"
  proof (cases "k = (ns, sc, ver)")
    case True
    then show ?thesis using live' by (simp add: stored_None_iff [OF inv'])
  next
    case False
    have "stored ?db' (a, b, c) = stored db (a, b, c)"
    proof (rule stored_eqI [OF inv' inv])
      show "live ?db' a b v \<and> v_version v = c \<longleftrightarrow> live db a b v \<and> v_version v = c" for v
        using False live' other by (auto simp: k)
      show "live ?db' a b v \<Longrightarrow> content ?db' (v_id v) d = content db (v_id v) d" for v d
        by (rule con) (simp add: live_def)
    qed
    with False show ?thesis by (auto simp: k)
  qed
qed

lemma deleteOrphanedData_view:
  assumes inv: "db_inv db"
  shows "stored (deleteOrphanedData db) = stored db"
proof
  fix k :: version_key
  obtain a b c where k: "k = (a, b, c)" by (cases k)
  have "stored (deleteOrphanedData db) (a, b, c) = stored db (a, b, c)"
    by (rule stored_eqI [OF deleteOrphanedData_inv [OF inv] inv])
      (force simp: live_def content_def deleteOrphanedData_def)+
  then show "stored (deleteOrphanedData db) k = stored db k" by (simp add: k)
qed

lemma exec_orphans_view: "db_inv db \<Longrightarrow> stored (fst (exec env i deleteOrphanedData db)) = stored db"
  by (simp add: exec_def deleteOrphanedData_view split: option.split)

lemma SchemaRepository_Delete_view:
  assumes "db_inv db" and "SchemaRepository_Delete env ns sc db = (db', err)"
  shows "stored db' = (if err = None then (\<lambda>(a, b, c). if a = ns \<and> b = sc then None else stored db (a, b, c))
     else stored db)"
  using assms exec_orphans_view [OF assms(1)] exec_orphans_view [OF deleteSchemaQuery_inv [OF assms(1)]]
  by (auto simp: SchemaRepository_Delete_def exec_def [of _ 0] wrapError_def deleteSchemaQuery_view split: option.splits)

lemma SchemaRepository_DeleteVersion_view:
  assumes "db_inv db" and "SchemaRepository_DeleteVersion env ns sc ver db = (db', err)"
  shows "stored db' = (if err = None then (stored db)((ns, sc, ver) := None) else stored db)"
  using assms exec_orphans_view [OF assms(1)] exec_orphans_view [OF deleteVersionQuery_inv [OF assms(1)]]
  by (auto simp: SchemaRepository_DeleteVersion_def exec_def [of _ 0] wrapError_def deleteVersionQuery_view split: option.splits)

text \<open>Deleting a namespace takes its schemas along.\<close>

lemma NamespaceRepository_Delete_view:
  assumes "db_inv db" and "NamespaceRepository_Delete env i db = (db', err)"
  shows "stored db' = (if err = None then (\<lambda>(a, b, c). if a = i then None else stored db (a, b, c)) else stored db)"
  using assms exec_orphans_view [OF assms(1)] exec_orphans_view [OF namespaceDeleteQuery_inv [OF assms(1)]]
  by (auto simp: NamespaceRepository_Delete_def exec_def [of _ 0] wrapError_def namespaceDeleteQuery_view split: option.splits)

text \<open>The view depends on the versions, the files and the keys of the schemas only.\<close>

lemma stored_same_rows:
  assumes "db_inv db" and "db_inv db'"
    and s: "map (\<lambda>s. (s_id s, s_namespace_id s, s_name s)) (schemas db') =
      map (\<lambda>s. (s_id s, s_namespace_id s, s_name s)) (schemas db)"
    and v: "versions db' = versions db" "schema_files db' = schema_files db"
      "versions_schema_files db' = versions_schema_files db"
  shows "stored db' = stored db"
proof
  fix k :: version_key
  obtain a b c where k: "k = (a, b, c)" by (cases k)
  have img: "(i, x, y) \<in> (\<lambda>s. (s_id s, s_namespace_id s, s_name s)) ` set (schemas db') \<longleftrightarrow>
      (i, x, y) \<in> (\<lambda>s. (s_id s, s_namespace_id s, s_name s)) ` set (schemas db)" for i x y
    using arg_cong [OF s, of set] by simp
  have "live db' x y w \<longleftrightarrow> live db x y w" for x y w
    using img [of "v_schema_id w" x y] by (simp add: live_def v image_iff) metis
  then have "stored db' (a, b, c) = stored db (a, b, c)"
    by (intro stored_eqI [OF assms(2,1)]) (simp_all add: content_def v)
  then show "stored db' k = stored db k" by (simp add: k)
qed

end
