(* ===== verification/Store_Claims.thy ===== *)
theory Store_Claims
  imports Store_Effects
begin

text \<open>
  The properties of the database layer: integrity in every reachable state, whatever statements
  fail, and the effect of creating and deleting on what can be read back.
\<close>

section \<open>Reachable states\<close>

text \<open>One call of a method that writes, with any arguments and any failures.\<close>

inductive db_step :: "db \<Rightarrow> db \<Rightarrow> bool" where
  create: "SchemaRepository_Create env req vid sha db = (db', version, err) \<Longrightarrow> db_step db db'"
| update_metadata: "SchemaRepository_UpdateMetadata env ns sc meta db = (db', r) \<Longrightarrow> db_step db db'"
| delete: "SchemaRepository_Delete env ns sc db = (db', err) \<Longrightarrow> db_step db db'"
| delete_version: "SchemaRepository_DeleteVersion env ns sc ver db = (db', err) \<Longrightarrow> db_step db db'"
| namespace_create: "NamespaceRepository_Create env n db = (db', r) \<Longrightarrow> db_step db db'"
| namespace_update: "NamespaceRepository_Update env n db = (db', r) \<Longrightarrow> db_step db db'"
| namespace_delete: "NamespaceRepository_Delete env i db = (db', err) \<Longrightarrow> db_step db db'"
| event_create: "NotificationEventRepository_Create env ev db = (db', r) \<Longrightarrow> db_step db db'"
| event_update: "NotificationEventRepository_Update env i ok db = (db', r) \<Longrightarrow> db_step db db'"

inductive_cases db_stepE: "db_step db db'"

text \<open>The integrity depends on the rows' keys only.\<close>

lemma db_inv_cong:
  assumes "db_inv db" and n: "map ns_ID (namespaces db') = map ns_ID (namespaces db)"
    and s: "map (\<lambda>s. (s_id s, s_namespace_id s, s_name s)) (schemas db') =
      map (\<lambda>s. (s_id s, s_namespace_id s, s_name s)) (schemas db)"
    and e: "map ne_ID (notification_events db') = map ne_ID (notification_events db)"
    and "versions db' = versions db" "schema_files db' = schema_files db"
    and "versions_schema_files db' = versions_schema_files db" "schemas_id_seq db' = schemas_id_seq db"
  shows "db_inv db'"
proof -
  have ids: "map s_id (schemas db') = map s_id (schemas db)"
    using arg_cong [OF s, of "map fst"] by (simp add: o_def)
  have names: "map (\<lambda>s. (s_namespace_id s, s_name s)) (schemas db') = map (\<lambda>s. (s_namespace_id s, s_name s)) (schemas db)"
    using arg_cong [OF s, of "map snd"] by (simp add: o_def)
  have sets: "ns_ID ` set (namespaces db') = ns_ID ` set (namespaces db)" "s_id ` set (schemas db') = s_id ` set (schemas db)"
    using arg_cong [OF n, of set] arg_cong [OF ids, of set] by simp_all
  have "(\<lambda>s. (s_id s, s_namespace_id s, s_name s)) ` set (schemas db') =
      (\<lambda>s. (s_id s, s_namespace_id s, s_name s)) ` set (schemas db)"
    using arg_cong [OF s, of set] by simp
  note img = this
  have t: "\<exists>t\<in>set (schemas db). s_id s = s_id t \<and> s_namespace_id s = s_namespace_id t" if "s \<in> set (schemas db')" for s
  proof -
    from that have "(s_id s, s_namespace_id s, s_name s) \<in> (\<lambda>s. (s_id s, s_namespace_id s, s_name s)) ` set (schemas db')"
      by (rule imageI)
    then show ?thesis unfolding img by auto
  qed
  have "s_namespace_id s \<in> ns_ID ` set (namespaces db) \<and> s_id s < schemas_id_seq db" if m: "s \<in> set (schemas db')" for s
  proof -
    obtain t where "t \<in> set (schemas db)" "s_id s = s_id t" "s_namespace_id s = s_namespace_id t" using t [OF m] by blast
    then show ?thesis using assms(1) by (simp add: db_inv_def links_ok_def)
  qed
  then have "links_ok db'"
    using assms(1) unfolding db_inv_def links_ok_def sets assms(5-8) by blast
  moreover have "keys_ok db'"
    using assms(1) unfolding db_inv_def keys_ok_def n ids names e assms(5-8) by blast
  ultimately show ?thesis by (simp add: db_inv_def)
qed

lemma UpdateMetadata_inv:
  assumes "db_inv db" and "SchemaRepository_UpdateMetadata env ns sc meta db = (db', r)"
  shows "db_inv db'"
  using assms(2) by (auto simp: SchemaRepository_UpdateMetadata_def updateSchemaMetaQuery_def Let_def assms(1)
      intro!: db_inv_cong [OF assms(1)] split: option.splits)

lemma two_execs_inv:
  "db_inv db \<Longrightarrow> db_inv (f db) \<Longrightarrow> db_inv (fst (exec env 1 deleteOrphanedData (fst (exec env 0 f db))))"
  by (intro exec_inv deleteOrphanedData_inv) (simp_all add: exec_inv)

lemma namespace_methods_inv:
  assumes "db_inv db"
  shows "db_inv (fst (NamespaceRepository_Create env n db))" "db_inv (fst (NamespaceRepository_Update env n db))"
proof -
  show "db_inv (fst (NamespaceRepository_Create env n db))"
    using assms by (auto simp: NamespaceRepository_Create_def stmt_def Let_def db_inv_def keys_ok_def links_ok_def
        split: option.split)
  show "db_inv (fst (NamespaceRepository_Update env n db))"
    by (auto simp: NamespaceRepository_Update_def namespaceUpdateQuery_def Let_def assms
        intro!: db_inv_cong [OF assms] split: option.split)
qed

lemma event_methods_inv:
  assumes "db_inv db"
  shows "db_inv (fst (NotificationEventRepository_Create env ev db))" "db_inv (fst (NotificationEventRepository_Update env i ok db))"
proof -
  show "db_inv (fst (NotificationEventRepository_Create env ev db))"
    using assms by (auto simp: NotificationEventRepository_Create_def stmt_def Let_def db_inv_def keys_ok_def links_ok_def
        split: option.split)
  show "db_inv (fst (NotificationEventRepository_Update env i ok db))"
    by (auto simp: NotificationEventRepository_Update_def notificationEventsUpdateQuery_def Let_def assms
        intro!: db_inv_cong [OF assms] split: option.split)
qed

lemma db_step_inv: "db_step db db' \<Longrightarrow> db_inv db \<Longrightarrow> db_inv db'"
proof (induction rule: db_step.induct)
  case (delete env ns sc db db' err)
  then show ?case using two_execs_inv [of db "deleteSchemaQuery ns sc" env] deleteSchemaQuery_inv
    by (auto simp: SchemaRepository_Delete_def split: prod.splits)
next
  case (delete_version env ns sc ver db db' err)
  then show ?case using two_execs_inv [of db "deleteVersionQuery ns sc ver" env] deleteVersionQuery_inv
    by (auto simp: SchemaRepository_DeleteVersion_def split: prod.splits)
next
  case (namespace_delete env i db db' err)
  then show ?case using two_execs_inv [of db "namespaceDeleteQuery i" env] namespaceDeleteQuery_inv
    by (auto simp: NamespaceRepository_Delete_def split: prod.splits)
qed (use SchemaRepository_Create_inv UpdateMetadata_inv namespace_methods_inv event_methods_inv in
    \<open>blast | metis fst_conv\<close>)+

text \<open>Creating or changing a namespace and changing metadata leave the view.\<close>

lemma NamespaceRepository_Create_view: "db_inv db \<Longrightarrow> stored (fst (NamespaceRepository_Create env n db)) = stored db"
  by (rule stored_same_rows [OF _ namespace_methods_inv(1)])
    (simp_all add: NamespaceRepository_Create_def stmt_def Let_def split: option.split prod.split)

lemma NamespaceRepository_Update_view: "db_inv db \<Longrightarrow> stored (fst (NamespaceRepository_Update env n db)) = stored db"
  by (rule stored_same_rows [OF _ namespace_methods_inv(2)])
    (simp_all add: NamespaceRepository_Update_def namespaceUpdateQuery_def Let_def split: option.split)

lemma UpdateMetadata_view:
  assumes "db_inv db" and "SchemaRepository_UpdateMetadata env ns sc meta db = (db', r)"
  shows "stored db' = stored db"
  by (rule stored_same_rows [OF assms(1) UpdateMetadata_inv [OF assms]])
    (use assms(2) in \<open>auto simp: SchemaRepository_UpdateMetadata_def updateSchemaMetaQuery_def Let_def split: option.splits\<close>)

section \<open>Concrete states\<close>

definition quiet :: env where "quiet = \<lparr>fault = (\<lambda>i. None), now = 0\<rparr>"

lemma quiet_no_fault: "no_fault quiet"
  by (simp add: no_fault_def quiet_def)

definition demo_ns :: "string \<Rightarrow> Namespace" where
  "demo_ns i = empty_namespace\<lparr>ns_ID := i, ns_Format := ''FORMAT_PROTOBUF'', ns_Compatibility := ''COMPATIBILITY_BACKWARD''\<rparr>"

definition demo_db :: db where "demo_db = empty_db\<lparr>namespaces := [demo_ns ''n'']\<rparr>"

definition demo_update :: "string \<Rightarrow> string \<Rightarrow> UpdateSchemaRequest" where
  "demo_update sc d = \<lparr>us_Namespace = ''n'', us_Schema = sc, us_Metadata = empty_metadata,
     us_SchemaFile = \<lparr>sf_ID = d, sf_Types = [], sf_Fields = [], sf_Data = d\<rparr>\<rparr>"

lemmas demo_store = demo_ns_def demo_db_def demo_update_def quiet_def empty_db_def empty_namespace_def empty_metadata_def

lemma demo_db_inv: "db_inv demo_db"
  by (simp add: demo_store db_inv_def keys_ok_def links_ok_def)

lemma demo_db_step: "db_step empty_db demo_db"
  by (rule namespace_create [of quiet "demo_ns ''n''" _ _ "Inr (demo_ns ''n'')"])
    (simp add: NamespaceRepository_Create_def stmt_def wrap_res_def demo_store Let_def)

section \<open>Properties\<close>

text \<open>
  C2. In every state that the repositories can reach, with statements failing anywhere, the tables are
  consistent: ids and names are unique, version numbers are positive and unique within a schema,
  every version, schema and file link points to an existing row, and every version has exactly one
  file.
\<close>

theorem store_integrity:
  assumes "db_step\<^sup>*\<^sup>* empty_db db"
  shows "db_inv db"
  using assms by (induction rule: rtranclp_induct) (simp_all add: db_inv_empty db_step_inv)

theorem store_integrity_witness: "db_inv demo_db"
  by (rule store_integrity, rule r_into_rtranclp, rule demo_db_step)

text \<open>
  C6. A successful \<open>Create\<close> either finds the version id, changes nothing and returns the number
  stored under it, or adds exactly one version, whose number is the schema's latest plus one: it is
  then the latest, reading it returns the stored file, and everything readable before is unchanged.
\<close>

theorem create_adds_one_version:
  assumes "db_inv db" and "no_fault env'"
    and "SchemaRepository_Create env req vid sha db = (db', version, None)"
  shows "db' = db \<and> (\<exists>v\<in>set (versions db). v_id v = vid \<and> v_version v = version) \<or>
    vid \<notin> v_id ` set (versions db) \<and>
    version = latest db (us_Namespace req) (us_Schema req) + 1 \<and>
    SchemaRepository_GetLatestVersion env' (us_Namespace req) (us_Schema req) db' = Inr version \<and>
    SchemaRepository_Get env' (us_Namespace req) (us_Schema req) version db' = Inr (file_data db (us_SchemaFile req)) \<and>
    (\<forall>k. k \<noteq> (us_Namespace req, us_Schema req, version) \<longrightarrow> stored db' k = stored db k)"
proof -
  have inv': "db_inv db'" by (rule SchemaRepository_Create_inv [OF assms(1,3)])
  note view = SchemaRepository_Create_view [OF assms(1,3)]
  show ?thesis
  proof (cases "vid \<in> v_id ` set (versions db)")
    case True
    then show ?thesis using view by blast
  next
    case False
    then have new: "version = latest db (us_Namespace req) (us_Schema req) + 1"
      "stored db' = (stored db)((us_Namespace req, us_Schema req, version) \<mapsto> file_data db (us_SchemaFile req))"
      using view by auto
    let ?ns = "us_Namespace req" and ?sc = "us_Schema req"
    have "latest db' ?ns ?sc = version" by (rule latest_after_new [OF assms(1) inv' new])
    then show ?thesis
      using False new by (simp add: SchemaRepository_Get_view [OF inv' assms(2)]
          SchemaRepository_GetLatestVersion_view [OF assms(2)])
  qed
qed

lemma demo_create: "SchemaRepository_Create quiet (demo_update ''s'' ''d'') ''v1'' ''c'' demo_db =
    (fst (SchemaRepository_Create quiet (demo_update ''s'' ''d'') ''v1'' ''c'' demo_db), 1, None)"
  by (simp add: SchemaRepository_Create_def BeginFunc_def create_tx_def query_row_def stmt_def demo_store wrapError_def
      getSchemaVersionByID_def schemaInsertQuery_def versionInsertQuery_def max_version_def schema_versions_def Let_def)

theorem create_adds_one_version_witness:
  "SchemaRepository_Get quiet ''n'' ''s'' 1
     (fst (SchemaRepository_Create quiet (demo_update ''s'' ''d'') ''v1'' ''c'' demo_db)) = Inr ''d''"
proof -
  have "versions demo_db = []" "us_Namespace (demo_update ''s'' ''d'') = ''n''" "us_Schema (demo_update ''s'' ''d'') = ''s''"
    "file_data demo_db (us_SchemaFile (demo_update ''s'' ''d'')) = ''d''"
    by (simp_all add: demo_store file_data_def)
  then show ?thesis
    using create_adds_one_version [OF demo_db_inv quiet_no_fault demo_create] by auto
qed





text \<open>
  \<open>List\<close> reads \<open>source_url\<close> without \<open>COALESCE\<close>: one schema row from before the
  migration that added the column (its value is NULL) makes listing its whole namespace fail, while
  \<open>GetMetadata\<close> of that schema works.
\<close>

theorem list_fails_on_old_row:
  assumes "no_fault env" and "filter (\<lambda>s. s_namespace_id s = ns) (schemas db) = xs @ s # ys" and "s_source_url s = None"
    and "schema_rows ns (s_name s) db = [s]"
  shows "(\<exists>e. SchemaRepository_List env ns db = Inl e) \<and>
    (\<exists>m. SchemaRepository_GetMetadata env ns (s_name s) db = Inr m \<and> meta_SourceURL m = [])"
proof
  have "\<exists>e. scan_rows list_row (xs @ s # ys) = Inl e"
  proof (induction xs)
    case Nil
    have "\<exists>e. list_row s = Inl e"
      using assms(3) by (cases "s_format s") (auto simp: list_row_def scan_string_def)
    then show ?case by auto
  next
    case (Cons x xs)
    then show ?case by (cases "list_row x") auto
  qed
  then show "\<exists>e. SchemaRepository_List env ns db = Inl e"
    using assms(1,2) by (auto simp: SchemaRepository_List_def scan_select_def no_fault_def wrap_res_def)
  show "\<exists>m. SchemaRepository_GetMetadata env ns (s_name s) db = Inr m \<and> meta_SourceURL m = []"
    using assms(1,3,4) by (simp add: SchemaRepository_GetMetadata_def getSchemaMetaQuery_def scan_get_def no_fault_def
        wrap_res_def COALESCE_def)
qed

definition old_row :: schema_row where
  "old_row = \<lparr>s_id = 1, s_name = ''s'', s_authority = None, s_format = Some ''f'', s_compatibility = Some ''c'',
     s_namespace_id = ''n'', s_source_url = None\<rparr>"

theorem list_fails_on_old_row_witness:
  "\<exists>e. SchemaRepository_List quiet ''n'' (demo_db\<lparr>schemas := [old_row]\<rparr>) = Inl e"
  using list_fails_on_old_row [of quiet "''n''" "demo_db\<lparr>schemas := [old_row]\<rparr>" "[]" old_row "[]"]
  by (simp add: quiet_no_fault old_row_def schema_rows_def)

end
