(* ===== verification/Go_IO.thy ===== *)
theory Go_IO
  imports Go_Errors
begin

text \<open>
  Calls that read and change the outside world: a state, in, and the new state with a value or an
  error, out. \<open>bind_io\<close> is a call followed by the early return of \<open>if err != nil\<close>;
  \<open>catch_io\<close> continues in both cases. Also \<open>strconv.ParseInt(s, 10, 32)\<close> with its error.
\<close>

type_synonym ('s, 'a) io = "'s \<Rightarrow> 's \<times> 'a res"

definition return_io :: "'a \<Rightarrow> ('s, 'a) io" where "return_io a = (\<lambda>s. (s, Inr a))"

definition fail_io :: "go_error \<Rightarrow> ('s, 'a) io" where "fail_io e = (\<lambda>s. (s, Inl e))"

definition lift_io :: "'a res \<Rightarrow> ('s, 'a) io" where "lift_io r = (\<lambda>s. (s, r))"

definition bind_io :: "('s, 'a) io \<Rightarrow> ('a \<Rightarrow> ('s, 'b) io) \<Rightarrow> ('s, 'b) io" where
  "bind_io m f = (\<lambda>s. case m s of (s', Inl e) \<Rightarrow> (s', Inl e) | (s', Inr a) \<Rightarrow> f a s')"

definition catch_io :: "('s, 'a) io \<Rightarrow> ('a res \<Rightarrow> ('s, 'b) io) \<Rightarrow> ('s, 'b) io" where
  "catch_io m f = (\<lambda>s. case m s of (s', r) \<Rightarrow> f r s')"

text \<open>An error translated on the way out.\<close>

definition map_err_io :: "(go_error \<Rightarrow> go_error) \<Rightarrow> ('s, 'a) io \<Rightarrow> ('s, 'a) io" where
  "map_err_io h m = (\<lambda>s. case m s of (s', Inl e) \<Rightarrow> (s', Inl (h e)) | (s', Inr a) \<Rightarrow> (s', Inr a))"

lemma io_simps [simp]:
  "return_io a s = (s, Inr a)" "fail_io e s = (s, Inl e)" "lift_io r s = (s, r)"
  by (simp_all add: return_io_def fail_io_def lift_io_def)

lemma bind_io_Inr: "bind_io m f s = (s2, Inr b) \<longleftrightarrow> (\<exists>s1 a. m s = (s1, Inr a) \<and> f a s1 = (s2, Inr b))"
  by (auto simp: bind_io_def split: prod.splits sum.splits)

lemma bind_io_eval:
  "m s = (s1, Inr a) \<Longrightarrow> bind_io m f s = f a s1"
  "m s = (s1, Inl e) \<Longrightarrow> bind_io m f s = (s1, Inl e)"
  by (simp_all add: bind_io_def)

lemma map_err_io_Inr [simp]: "map_err_io h m s = (s', Inr a) \<longleftrightarrow> m s = (s', Inr a)"
  by (auto simp: map_err_io_def split: prod.splits sum.splits)

text \<open>A property of the state that every call keeps.\<close>

definition keeps :: "('s \<Rightarrow> bool) \<Rightarrow> ('s, 'a) io \<Rightarrow> bool" where
  "keeps I m \<longleftrightarrow> (\<forall>s. I s \<longrightarrow> I (fst (m s)))"

lemma keeps_return [intro]: "keeps I (return_io a)" "keeps I (fail_io e)" "keeps I (lift_io r)"
  by (simp_all add: keeps_def)

lemma keeps_bind [intro]: "keeps I m \<Longrightarrow> (\<And>a. keeps I (f a)) \<Longrightarrow> keeps I (bind_io m f)"
  by (fastforce simp: keeps_def bind_io_def split: prod.splits sum.splits)

lemma keeps_catch [intro]: "keeps I m \<Longrightarrow> (\<And>r. keeps I (f r)) \<Longrightarrow> keeps I (catch_io m f)"
  by (fastforce simp: keeps_def catch_io_def split: prod.splits)

lemma keeps_map_err [intro]: "keeps I m \<Longrightarrow> keeps I (map_err_io h m)"
  by (fastforce simp: keeps_def map_err_io_def split: prod.splits sum.splits)

section \<open>\<open>strconv.ParseInt(s, 10, 32)\<close>\<close>

definition is_digit :: "char \<Rightarrow> bool" where "is_digit c \<longleftrightarrow> char_digit c \<noteq> None"

text \<open>
  The digits are read from the left and the range error comes as soon as they exceed 32 bits, even
  before a character that is not a digit.
\<close>

definition ParseInt_error :: "string \<Rightarrow> string" where
  "ParseInt_error s =
     (let body = (case s of [] \<Rightarrow> [] | c # cs \<Rightarrow> if c = CHR ''-'' \<or> c = CHR ''+'' then cs else s);
          digits = takeWhile is_digit body;
          too_big = (case read_nat digits of None \<Rightarrow> False | Some n \<Rightarrow> 2 ^ 32 \<le> n)
      in ''strconv.ParseInt: parsing '' @ go_quote s @
         (if too_big then '': value out of range''
          else if read_int s = None then '': invalid syntax'' else '': value out of range''))"

definition ParseInt32 :: "string \<Rightarrow> int32 res" where
  "ParseInt32 s = (case parse_int32 s of Some i \<Rightarrow> Inr i | None \<Rightarrow> Inl (ErrString (ParseInt_error s)))"

end
