(* ===== verification/Schema_Service.thy ===== *)
theory Schema_Service
  imports Go_IO Formats Lineage
begin

text \<open>
  The schema service, \<open>core/schema/service.go\<close>. The Go interfaces it depends on
  (\<open>Repository\<close>, \<open>NamespaceService\<close>, \<open>Cache\<close>, \<open>ChangeDetectorService\<close>,
  \<open>Producer\<close>, \<open>NotificationEventRepository\<close>, \<open>Provider\<close>) are records of functions on
  a state \<open>'s\<close>, the world outside the service. New Relic segments and log lines are left out:
  nothing reads them.
\<close>

section \<open>Interfaces\<close>

record 's Repository =
  repo_Create :: "UpdateSchemaRequest \<Rightarrow> string \<Rightarrow> string \<Rightarrow> 's \<Rightarrow> 's \<times> int32 \<times> go_error option"
  repo_List :: "string \<Rightarrow> ('s, Schema list) io"
  repo_ListVersions :: "string \<Rightarrow> string \<Rightarrow> ('s, int32 list) io"
  repo_Get :: "string \<Rightarrow> string \<Rightarrow> int32 \<Rightarrow> ('s, bytes) io"
  repo_GetLatestVersion :: "string \<Rightarrow> string \<Rightarrow> ('s, int32) io"
  repo_GetMetadata :: "string \<Rightarrow> string \<Rightarrow> ('s, Metadata) io"
  repo_UpdateMetadata :: "string \<Rightarrow> string \<Rightarrow> Metadata \<Rightarrow> ('s, Metadata) io"
  repo_Delete :: "string \<Rightarrow> string \<Rightarrow> 's \<Rightarrow> 's \<times> go_error option"
  repo_DeleteVersion :: "string \<Rightarrow> string \<Rightarrow> int32 \<Rightarrow> 's \<Rightarrow> 's \<times> go_error option"
  repo_GetSchemaID :: "string \<Rightarrow> string \<Rightarrow> ('s, int32) io"
  repo_GetVersionCommitSHA :: "int32 \<Rightarrow> int32 \<Rightarrow> ('s, string) io"

record 's Cache =
  cache_Get :: "string \<Rightarrow> 's \<Rightarrow> 's \<times> bytes option"
  cache_Set :: "string \<Rightarrow> bytes \<Rightarrow> int \<Rightarrow> 's \<Rightarrow> 's \<times> bool"

record 's NotificationEventRepository =
  notif_Create :: "NotificationEvent \<Rightarrow> ('s, NotificationEvent) io"
  notif_Update :: "string \<Rightarrow> bool \<Rightarrow> ('s, NotificationEvent) io"
  notif_GetByNameSpaceSchemaVersionAndSuccess ::
    "string \<Rightarrow> int32 \<Rightarrow> string \<Rightarrow> bool \<Rightarrow> ('s, NotificationEvent) io"

record SchemaChangeConfig =
  cfg_KafkaTopic :: string
  cfg_Depth :: int32
  cfg_Enable :: bool

record 's Service =
  provider :: "string \<Rightarrow> bytes \<Rightarrow> ParsedSchema res"
  repo :: "'s Repository"
  cache :: "'s Cache"
  namespace_Get :: "string \<Rightarrow> ('s, Namespace) io"
  identify :: "ChangeRequest \<Rightarrow> ('s, SchemaChangedEvent) io"
  producer_Write :: "string \<Rightarrow> SchemaChangedEvent \<Rightarrow> 's \<Rightarrow> 's \<times> go_error option"
  event_String :: "SchemaChangedEvent \<Rightarrow> string"
  config :: SchemaChangeConfig
  notificationEventRepo :: "'s NotificationEventRepository"
  formats :: format_api
  roots_order :: range_order

definition EventTypeSchemaChange :: string where "EventTypeSchemaChange = ''SCHEMA_CHANGE_EVENT''"

section \<open>Reading\<close>

definition cachedGetSchema :: "'s Service \<Rightarrow> string \<Rightarrow> string \<Rightarrow> int32 \<Rightarrow> ('s, bytes) io" where
  "cachedGetSchema S nsName schemaName version s =
     (let key = schemaKeyFunc nsName schemaName version
      in case cache_Get (cache S) key s of
           (s1, Some val) \<Rightarrow> (s1, Inr val)
         | (s1, None) \<Rightarrow>
             (case repo_Get (repo S) nsName schemaName version s1 of
                (s2, Inl err) \<Rightarrow> (s2, Inl err)
              | (s2, Inr data) \<Rightarrow>
                  (fst (cache_Set (cache S) key data (int (length data)) s2), Inr data)))"

definition withMetadata ::
  "'s Service \<Rightarrow> string \<Rightarrow> string \<Rightarrow> ('s, bytes) io \<Rightarrow> ('s, Metadata \<times> bytes) io" where
  "withMetadata S namespace schemaName getData =
     bind_io (repo_GetMetadata (repo S) namespace schemaName) (\<lambda>meta.
     bind_io getData (\<lambda>data. return_io (meta, data)))"

definition Service_Get :: "'s Service \<Rightarrow> string \<Rightarrow> string \<Rightarrow> int32 \<Rightarrow> ('s, Metadata \<times> bytes) io" where
  "Service_Get S namespace schemaName version =
     withMetadata S namespace schemaName (cachedGetSchema S namespace schemaName version)"

definition GetLatest :: "'s Service \<Rightarrow> string \<Rightarrow> string \<Rightarrow> ('s, Metadata \<times> bytes) io" where
  "GetLatest S namespace schemaName =
     bind_io (repo_GetLatestVersion (repo S) namespace schemaName) (\<lambda>version.
       Service_Get S namespace schemaName version)"

definition getVersionCommitSHA :: "'s Service \<Rightarrow> int32 \<Rightarrow> int32 \<Rightarrow> ('s, string) io" where
  "getVersionCommitSHA S schemaID version = repo_GetVersionCommitSHA (repo S) schemaID version"

definition Service_Delete :: "'s Service \<Rightarrow> string \<Rightarrow> string \<Rightarrow> 's \<Rightarrow> 's \<times> go_error option" where
  "Service_Delete S namespace schemaName = repo_Delete (repo S) namespace schemaName"

definition Service_DeleteVersion ::
  "'s Service \<Rightarrow> string \<Rightarrow> string \<Rightarrow> int32 \<Rightarrow> 's \<Rightarrow> 's \<times> go_error option" where
  "Service_DeleteVersion S namespace schemaName version = repo_DeleteVersion (repo S) namespace schemaName version"

definition Service_GetMetadata :: "'s Service \<Rightarrow> string \<Rightarrow> string \<Rightarrow> ('s, Metadata) io" where
  "Service_GetMetadata S namespace schemaName = repo_GetMetadata (repo S) namespace schemaName"

definition Service_UpdateMetadata :: "'s Service \<Rightarrow> string \<Rightarrow> string \<Rightarrow> Metadata \<Rightarrow> ('s, Metadata) io" where
  "Service_UpdateMetadata S namespace schemaName meta = repo_UpdateMetadata (repo S) namespace schemaName meta"

definition Service_List :: "'s Service \<Rightarrow> string \<Rightarrow> ('s, Schema list) io" where
  "Service_List S namespaceID = repo_List (repo S) namespaceID"

definition Service_ListVersions :: "'s Service \<Rightarrow> string \<Rightarrow> string \<Rightarrow> ('s, int32 list) io" where
  "Service_ListVersions S namespaceID schemaName = repo_ListVersions (repo S) namespaceID schemaName"

section \<open>Compatibility\<close>

definition checkCompatibility ::
  "'s Service \<Rightarrow> string \<Rightarrow> string \<Rightarrow> string \<Rightarrow> string \<Rightarrow> ParsedSchema \<Rightarrow> 's \<Rightarrow> 's \<times> go_error option" where
  "checkCompatibility S nsName schemaName format compatibility current s =
     (case GetLatest S nsName schemaName s of
        (s1, Inl err) \<Rightarrow> (s1, if errors_is err (Is_storage noRows) then None else Some err)
      | (s1, Inr (prevMeta, prevSchemaData)) \<Rightarrow>
          (case provider S (meta_Format prevMeta) prevSchemaData of
             Inl err \<Rightarrow> (s1, Some err)
           | Inr prevSchema \<Rightarrow>
               (s1, getCompatibilityChecker (formats S) compatibility current [prevSchema])))"

definition CheckCompatibility ::
  "'s Service \<Rightarrow> string \<Rightarrow> string \<Rightarrow> string \<Rightarrow> bytes \<Rightarrow> 's \<Rightarrow> 's \<times> go_error option" where
  "CheckCompatibility S nsName schemaName compatibility0 data s =
     (case namespace_Get S nsName s of
        (s1, Inl err) \<Rightarrow> (s1, Some err)
      | (s1, Inr ns) \<Rightarrow>
          let compatibility = getNonEmpty [compatibility0, ns_Compatibility ns]
          in case provider S (ns_Format ns) data of
               Inl err \<Rightarrow> (s1, Some err)
             | Inr parsedSchema \<Rightarrow>
                 checkCompatibility S nsName schemaName (ns_Format ns) compatibility parsedSchema s1)"

section \<open>Creating\<close>

definition getIDforSchema :: "format_api \<Rightarrow> string \<Rightarrow> string \<Rightarrow> string \<Rightarrow> string" where
  "getIDforSchema F ns schema dataUUID = uuid_SHA1 F (ns @ ''-'' @ schema @ ''-'' @ dataUUID)"

definition empty_info :: SchemaInfo where
  "empty_info = \<lparr>si_ID = [], si_Version = 0, si_Location = []\<rparr>"

definition schema_location :: "string \<Rightarrow> string \<Rightarrow> int32 \<Rightarrow> string" where
  "schema_location ns sc version =
     ''/v1beta1/namespaces/'' @ ns @ ''/schemas/'' @ sc @ ''/versions/'' @ show_int version"

text \<open>
  What \<open>Create\<close> does once the checks have passed, and the request that it hands to a new
  goroutine, if any.
\<close>

definition store_version ::
  "'s Service \<Rightarrow> string \<Rightarrow> string \<Rightarrow> Metadata \<Rightarrow> string \<Rightarrow> string \<Rightarrow> ParsedSchema \<Rightarrow> bytes \<Rightarrow> string
   \<Rightarrow> 's \<Rightarrow> 's \<times> SchemaInfo \<times> go_error option \<times> ChangeRequest option" where
  "store_version S nsName schemaName metadata format compatibility parsedSchema data commitSHA s =
     (let sf = GetCanonicalValue (formats S) parsedSchema;
          mergedMetadata = \<lparr>meta_Authority = [], meta_Format = format, meta_Compatibility = compatibility,
                            meta_SourceURL = meta_SourceURL metadata\<rparr>;
          versionID = getIDforSchema (formats S) nsName schemaName (sf_ID sf)
      in case GetLatest S nsName schemaName s of
           (s1, latest) \<Rightarrow>
             (case repo_Create (repo S) \<lparr>us_Namespace = nsName, us_Schema = schemaName,
                     us_Metadata = mergedMetadata, us_SchemaFile = sf\<rparr> versionID commitSHA s1 of
                (s2, version, err) \<Rightarrow>
                  let spawned = (if cfg_Enable (config S)
                        then (case latest of
                                Inr (_, prevSchemaData) \<Rightarrow> Some
                                  \<lparr>cr_NamespaceID = nsName, cr_SchemaName = schemaName, cr_Version = version,
                                   cr_VersionID = versionID, cr_OldData = prevSchemaData, cr_NewData = data,
                                   cr_Depth = cfg_Depth (config S), cr_SourceURL = meta_SourceURL metadata,
                                   cr_CommitSHA = commitSHA\<rparr>
                              | Inl err2 \<Rightarrow> None)
                        else None)
                  in (s2, \<lparr>si_ID = versionID, si_Version = version,
                           si_Location = schema_location nsName schemaName version\<rparr>, err, spawned)))"

definition Service_Create ::
  "'s Service \<Rightarrow> string \<Rightarrow> string \<Rightarrow> Metadata \<Rightarrow> bytes \<Rightarrow> string
   \<Rightarrow> 's \<Rightarrow> 's \<times> SchemaInfo \<times> go_error option \<times> ChangeRequest option" where
  "Service_Create S nsName schemaName metadata data commitSHA s =
     (case namespace_Get S nsName s of
        (s1, Inl err) \<Rightarrow> (s1, empty_info, Some err, None)
      | (s1, Inr ns) \<Rightarrow>
          let format = getNonEmpty [meta_Format metadata, ns_Format ns];
              compatibility = getNonEmpty [meta_Compatibility metadata, ns_Compatibility ns]
          in case provider S format data of
               Inl err \<Rightarrow> (s1, empty_info, Some err, None)
             | Inr parsedSchema \<Rightarrow>
                 (case checkCompatibility S nsName schemaName format compatibility parsedSchema s1 of
                    (s2, Some err) \<Rightarrow> (s2, empty_info, Some err, None)
                  | (s2, None) \<Rightarrow>
                      store_version S nsName schemaName metadata format compatibility parsedSchema data commitSHA s2))"

section \<open>Change notification\<close>

definition createNotificationEvent :: "SchemaChangedEvent \<Rightarrow> ChangeRequest \<Rightarrow> int32 \<Rightarrow> bool \<Rightarrow> NotificationEvent" where
  "createNotificationEvent sce request schemaID success =
     \<lparr>ne_ID = sce_EventId sce, ne_Type = EventTypeSchemaChange, ne_EventTime = sce_EventTimestamp sce,
      ne_NamespaceID = cr_NamespaceID request, ne_SchemaID = schemaID, ne_VersionID = cr_VersionID request,
      ne_Success = success, ne_CreatedAt = 0, ne_UpdatedAt = 0\<rparr>"

definition insert_failed :: "string \<Rightarrow> ChangeRequest \<Rightarrow> go_error \<Rightarrow> go_error" where
  "insert_failed verb request err = ErrString (''unable to '' @ verb @ '' event for namesapce '' @ cr_NamespaceID request @
     '' , schema '' @ cr_SchemaName request @ '' and version '' @ show_int (cr_Version request) @
     '' in DB, got error: '' @ error_text err)"

definition sendNotification ::
  "'s Service \<Rightarrow> SchemaChangedEvent \<Rightarrow> ChangeRequest \<Rightarrow> int32 \<Rightarrow> 's \<Rightarrow> 's \<times> go_error option" where
  "sendNotification S sce request schemaID s =
     (if length (sce_UpdatedSchemas sce) > 0
      then
        let notificationEvent = createNotificationEvent sce request schemaID False
        in case notif_Create (notificationEventRepo S) notificationEvent s of
             (s1, Inl err) \<Rightarrow> (s1, Some (insert_failed ''insert'' request err))
           | (s1, Inr _) \<Rightarrow>
               let schemaChangeTopic = cfg_KafkaTopic (config S)
               in (case producer_Write S schemaChangeTopic sce s1 of
                     (s2, Some err) \<Rightarrow> (s2, Some (ErrString (''unable to push message to Kafka topic '' @
                         schemaChangeTopic @ '' for schema change event '' @ event_String S sce @ '': '' @ error_text err)))
                   | (s2, None) \<Rightarrow>
                       (case notif_Update (notificationEventRepo S) (ne_ID notificationEvent) True s2 of
                          (s3, Inl err) \<Rightarrow> (s3, Some (insert_failed ''insert'' request err))
                        | (s3, Inr _) \<Rightarrow> (s3, None)))
      else (s, None))"

definition request_text :: "ChangeRequest \<Rightarrow> string" where
  "request_text request = ''namespace : '' @ cr_NamespaceID request @ '', schema: '' @ cr_SchemaName request @
     '', version: '' @ show_int (cr_Version request)"

text \<open>With an error the repository returns the zero event beside it.\<close>

definition identifySchemaChange :: "'s Service \<Rightarrow> ChangeRequest \<Rightarrow> 's \<Rightarrow> 's \<times> go_error option" where
  "identifySchemaChange S request s =
     (case repo_GetSchemaID (repo S) (cr_NamespaceID request) (cr_SchemaName request) s of
        (s1, Inl err) \<Rightarrow> (s1, Some (ErrString (''got error while getting schema ID from DB '' @ error_text err)))
      | (s1, Inr schemaID) \<Rightarrow>
          (case notif_GetByNameSpaceSchemaVersionAndSuccess (notificationEventRepo S) (cr_NamespaceID request)
                  schemaID (cr_VersionID request) True s1 of
             (s2, prev) \<Rightarrow>
               let prevEvent = (case prev of Inl _ \<Rightarrow> empty_event | Inr ev \<Rightarrow> ev);
                   failed = (case prev of Inl err \<Rightarrow> if errors_is err Is_pgx_ErrNoRows then None else Some err
                                        | Inr _ \<Rightarrow> None)
               in (case failed of
                     Some err \<Rightarrow> (s2, Some (ErrString (''got error while fetching previous notification event status for for '' @
                       request_text request @ '', '' @ error_text err)))
                   | None \<Rightarrow>
                       if ne_ID prevEvent \<noteq> []
                       then (case notif_Update (notificationEventRepo S) (ne_ID prevEvent) True s2 of
                               (s3, Inl err) \<Rightarrow> (s3, Some (insert_failed ''update'' request err))
                             | (s3, Inr _) \<Rightarrow> (s3, None))
                       else
                         (case identify S request s2 of
                            (s3, Inl err) \<Rightarrow> (s3, Some (ErrString (''got error while identifying schema change for '' @
                              request_text request @ '', '' @ error_text err)))
                          | (s3, Inr sce) \<Rightarrow> sendNotification S sce request schemaID s3))))"

definition identifySchemaChangeWithContext ::
  "'s Service \<Rightarrow> go_error option \<Rightarrow> ChangeRequest \<Rightarrow> 's \<Rightarrow> 's \<times> go_error option" where
  "identifySchemaChangeWithContext S ctx_Err request s =
     (case ctx_Err of Some err \<Rightarrow> (s, Some err) | None \<Rightarrow> identifySchemaChange S request s)"

section \<open>Detecting a change between two versions\<close>

definition from_version :: "string \<Rightarrow> int32 res" where
  "from_version fromVersion =
     (if fromVersion = [] then Inr 0
      else case ParseInt32 fromVersion of
        Inl err \<Rightarrow> Inl (ErrString (''invalid fromVersion format - '' @ error_text err))
      | Inr v \<Rightarrow> if v < 1 then Inl (ErrString ''fromVersion should be greater than or equal to 1'') else Inr v)"

definition to_version :: "string \<Rightarrow> int32 res" where
  "to_version toVersion =
     (if toVersion = [] then Inr 0
      else case ParseInt32 toVersion of
        Inl err \<Rightarrow> Inl (ErrString (''invalid toVersion format - '' @ error_text err))
      | Inr v \<Rightarrow> if v \<le> 1 then Inl (ErrString ''toVersion should be greater than 1'') else Inr v)"

definition ValidateVersions ::
  "'s Service \<Rightarrow> string \<Rightarrow> string \<Rightarrow> string \<Rightarrow> string \<Rightarrow> ('s, int32 \<times> int32) io" where
  "ValidateVersions S namespace schemaName fromVersion toVersion =
     bind_io (lift_io (from_version fromVersion)) (\<lambda>fromVer.
     bind_io (lift_io (to_version toVersion)) (\<lambda>toVer.
     bind_io
       (if toVersion = []
        then bind_io (map_err_io (\<lambda>err. ErrString (''error getting latest version - '' @ error_text err))
                        (repo_GetLatestVersion (repo S) namespace schemaName)) (\<lambda>toVer.
               if toVer = 1 then fail_io (ErrString (''only one version exists for schema - '' @ schemaName))
               else return_io toVer)
        else return_io toVer) (\<lambda>toVer.
       let fromVer = (if fromVersion = [] then toVer - 1 else fromVer)
       in if fromVer \<ge> toVer then fail_io (ErrString (CHR 0x27 # ''from'' @ CHR 0x27 # '' should be less than '' @ CHR 0x27 # ''to'' @ [CHR 0x27]))
          else return_io (fromVer, toVer))))"

definition DetectSchemaChange ::
  "'s Service \<Rightarrow> string \<Rightarrow> string \<Rightarrow> string \<Rightarrow> string \<Rightarrow> string \<Rightarrow> ('s, SchemaChangedEvent) io" where
  "DetectSchemaChange S namespace schemaName fromVersion toVersion depth0 =
     bind_io (ValidateVersions S namespace schemaName fromVersion toVersion) (\<lambda>(fromVer, toVer).
       let depth = (if depth0 = [] then ''-1'' else depth0);
           data_error = (\<lambda>v err. ErrString (''error getting data for version '' @ show_int v @ '' - '' @ error_text err))
       in case ParseInt32 depth of
            Inl err \<Rightarrow> fail_io (ErrString (''invalid depth - '' @ depth))
          | Inr depth32 \<Rightarrow>
              bind_io (map_err_io (data_error fromVer) (Service_Get S namespace schemaName fromVer)) (\<lambda>(_, fromVerData).
              bind_io (map_err_io (data_error toVer) (Service_Get S namespace schemaName toVer)) (\<lambda>(_, toVerData).
              bind_io (map_err_io (\<lambda>err. ErrString (''errot getting source url '' @ error_text err))
                         (Service_GetMetadata S namespace schemaName)) (\<lambda>metadata.
              bind_io (map_err_io (\<lambda>err. ErrString (''got error while getting schema ID from DB '' @ error_text err))
                         (repo_GetSchemaID (repo S) namespace schemaName)) (\<lambda>schemaID.
              catch_io (getVersionCommitSHA S schemaID toVer) (\<lambda>sha.
                let commitSHA = (case sha of Inl err \<Rightarrow> [] | Inr c \<Rightarrow> c);
                    req = \<lparr>cr_NamespaceID = namespace, cr_SchemaName = schemaName, cr_Version = toVer,
                           cr_VersionID = [], cr_OldData = fromVerData, cr_NewData = toVerData,
                           cr_Depth = depth32, cr_SourceURL = meta_SourceURL metadata, cr_CommitSHA = commitSHA\<rparr>
                in bind_io (map_err_io (\<lambda>err. ErrString (''got error while identifying schema change for '' @
                               request_text req @ '', '' @ error_text err)) (identify S req)) (\<lambda>sce.
                     (\<lambda>s. case sendNotification S sce req schemaID s of
                            (s', Some err) \<Rightarrow> (s', Inl err)
                          | (s', None) \<Rightarrow> (s', Inr sce)))))))))"

section \<open>Lineage\<close>

definition GetLineage ::
  "'s Service \<Rightarrow> string \<Rightarrow> string \<Rightarrow> string \<Rightarrow> go_int \<Rightarrow> LineageDirection \<Rightarrow> ('s, LineageResponse) io" where
  "GetLineage S namespaceID schemaID rootType level0 direction =
     (let level = (if level0 \<le> 0 then 10 else level0)
      in bind_io (map_err_io (\<lambda>err. ErrWrap (''error fetching latest schema for '' @ namespaceID @ ''/'' @ schemaID @
                    '': '' @ error_text err) err) (GetLatest S namespaceID schemaID)) (\<lambda>(_, data).
           lift_io (computeLineage (proto (formats S)) (roots_order S) data namespaceID schemaID rootType level direction)))"

end
