(* ===== verification/Service_World.thy ===== *)
theory Service_World
  imports Schema_Service Store_Claims
begin

text \<open>
  The service on its real neighbours: the repositories of \<open>internal/store/postgres\<close>, a cache in
  memory that may drop what it is given, the change detector, and a message queue. The state
  \<open>world\<close> holds the tables, the failures of the database calls and of the queue still to come,
  the cache, and the messages sent. The two locales are the contracts that the service's reads rely on:
  what a repository returns and keeps, and what a cache may return.
\<close>

section \<open>The world\<close>

record world =
  w_db :: db
  w_envs :: "nat \<Rightarrow> env"
  w_cache :: "(string \<times> bytes) list"
  w_keep :: "string \<Rightarrow> bool"
  w_queue :: "nat \<Rightarrow> go_error option"
  w_sent :: "(string \<times> SchemaChangedEvent) list"
  w_ids :: "nat \<Rightarrow> string"

text \<open>A call of the database takes the next environment.\<close>

definition next_env :: "world \<Rightarrow> world" where
  "next_env w = w\<lparr>w_envs := (\<lambda>i. w_envs w (Suc i))\<rparr>"

definition pg_read :: "(env \<Rightarrow> db \<Rightarrow> 'a res) \<Rightarrow> (world, 'a) io" where
  "pg_read f w = (next_env w, f (w_envs w 0) (w_db w))"

definition pg_write :: "(env \<Rightarrow> db \<Rightarrow> db \<times> 'a) \<Rightarrow> world \<Rightarrow> world \<times> 'a" where
  "pg_write f w = (case f (w_envs w 0) (w_db w) of (db', r) \<Rightarrow> ((next_env w)\<lparr>w_db := db'\<rparr>, r))"

definition pg_Repository :: "world Repository" where
  "pg_Repository = \<lparr>
     repo_Create = (\<lambda>request versionID commitSHA. pg_write (\<lambda>env. SchemaRepository_Create env request versionID commitSHA)),
     repo_List = (\<lambda>ns. pg_read (\<lambda>env. SchemaRepository_List env ns)),
     repo_ListVersions = (\<lambda>ns sc. pg_read (\<lambda>env. SchemaRepository_ListVersions env ns sc)),
     repo_Get = (\<lambda>ns sc v. pg_read (\<lambda>env. SchemaRepository_Get env ns sc v)),
     repo_GetLatestVersion = (\<lambda>ns sc. pg_read (\<lambda>env. SchemaRepository_GetLatestVersion env ns sc)),
     repo_GetMetadata = (\<lambda>ns sc. pg_read (\<lambda>env. SchemaRepository_GetMetadata env ns sc)),
     repo_UpdateMetadata = (\<lambda>ns sc m. pg_write (\<lambda>env. SchemaRepository_UpdateMetadata env ns sc m)),
     repo_Delete = (\<lambda>ns sc. pg_write (\<lambda>env. SchemaRepository_Delete env ns sc)),
     repo_DeleteVersion = (\<lambda>ns sc v. pg_write (\<lambda>env. SchemaRepository_DeleteVersion env ns sc v)),
     repo_GetSchemaID = (\<lambda>ns sc. pg_read (\<lambda>env. SchemaRepository_GetSchemaID env ns sc)),
     repo_GetVersionCommitSHA = (\<lambda>i v. pg_read (\<lambda>env. SchemaRepository_GetVersionCommitSHA env i v))\<rparr>"

definition pg_NotificationEventRepository :: "world NotificationEventRepository" where
  "pg_NotificationEventRepository = \<lparr>
     notif_Create = (\<lambda>ev. pg_write (\<lambda>env. NotificationEventRepository_Create env ev)),
     notif_Update = (\<lambda>i ok. pg_write (\<lambda>env. NotificationEventRepository_Update env i ok)),
     notif_GetByNameSpaceSchemaVersionAndSuccess = (\<lambda>ns i v ok.
       pg_read (\<lambda>env. NotificationEventRepository_GetByNameSpaceSchemaVersionAndSuccess env ns i v ok))\<rparr>"

definition mem_Cache :: "world Cache" where
  "mem_Cache = \<lparr>
     cache_Get = (\<lambda>key w. (w, map_of (w_cache w) key)),
     cache_Set = (\<lambda>key val cost w. if w_keep w key then (w\<lparr>w_cache := (key, val) # w_cache w\<rparr>, True) else (w, False))\<rparr>"

definition queue_Write :: "string \<Rightarrow> SchemaChangedEvent \<Rightarrow> world \<Rightarrow> world \<times> go_error option" where
  "queue_Write topic sce w =
     (let w' = w\<lparr>w_queue := (\<lambda>i. w_queue w (Suc i))\<rparr>
      in case w_queue w 0 of
           Some err \<Rightarrow> (w', Some err)
         | None \<Rightarrow> (w'\<lparr>w_sent := w_sent w @ [(topic, sce)]\<rparr>, None))"

definition detector :: "proto_api \<Rightarrow> (string \<Rightarrow> range_order) \<Rightarrow> ChangeRequest \<Rightarrow> (world, SchemaChangedEvent) io" where
  "detector P ords request w =
     (w\<lparr>w_ids := (\<lambda>i. w_ids w (Suc i))\<rparr>, IdentifySchemaChange P ords (w_ids w 0) (now (w_envs w 0)) request)"

definition service ::
  "format_api \<Rightarrow> (string \<Rightarrow> range_order) \<Rightarrow> range_order \<Rightarrow> SchemaChangeConfig \<Rightarrow> world Service" where
  "service F ords ord cfg = \<lparr>
     provider = ParseSchema (NewSchemaProvider F), repo = pg_Repository, cache = mem_Cache,
     namespace_Get = (\<lambda>i. pg_read (\<lambda>env. NamespaceRepository_Get env i)),
     identify = detector (proto F) ords, producer_Write = queue_Write, event_String = (\<lambda>sce. sce_EventId sce),
     config = cfg, notificationEventRepo = pg_NotificationEventRepository, formats = F, roots_order = ord\<rparr>"

lemma service_sel [simp]:
  "repo (service F ords ord cfg) = pg_Repository" "cache (service F ords ord cfg) = mem_Cache"
  "config (service F ords ord cfg) = cfg" "formats (service F ords ord cfg) = F"
  "notificationEventRepo (service F ords ord cfg) = pg_NotificationEventRepository"
  "producer_Write (service F ords ord cfg) = queue_Write"
  "provider (service F ords ord cfg) = ParseSchema (NewSchemaProvider F)"
  "namespace_Get (service F ords ord cfg) = (\<lambda>i. pg_read (\<lambda>env. NamespaceRepository_Get env i))"
  "identify (service F ords ord cfg) = detector (proto F) ords"
  by (simp_all add: service_def)

section \<open>Contracts\<close>

text \<open>
  A repository with a view of its versions: a read changes neither the view nor the invariant and
  returns what the view holds, and \<open>Create\<close> only adds.
\<close>

locale version_store =
  fixes R :: "'s Repository"
    and view :: "'s \<Rightarrow> version_key \<Rightarrow> bytes option"
    and inv :: "'s \<Rightarrow> bool"
  assumes get_sound: "inv s \<Longrightarrow> repo_Get R ns sc v s = (s', Inr d) \<Longrightarrow> view s (ns, sc, v) = Some d"
    and get_keeps: "inv s \<Longrightarrow> repo_Get R ns sc v s = (s', r) \<Longrightarrow> inv s' \<and> view s' = view s"
    and latest_keeps: "inv s \<Longrightarrow> repo_GetLatestVersion R ns sc s = (s', l) \<Longrightarrow> inv s' \<and> view s' = view s"
    and meta_keeps: "inv s \<Longrightarrow> repo_GetMetadata R ns sc s = (s', m) \<Longrightarrow> inv s' \<and> view s' = view s"
    and create_adds: "inv s \<Longrightarrow> repo_Create R req vid sha s = (s', version, err) \<Longrightarrow>
      inv s' \<and> view s \<subseteq>\<^sub>m view s'"

text \<open>A cache: it returns entries it was given, and looking up adds none.\<close>

locale lossy_cache =
  fixes C :: "'s Cache"
    and entries :: "'s \<Rightarrow> (string \<times> bytes) set"
  assumes hit: "cache_Get C key s = (s', Some val) \<Longrightarrow> (key, val) \<in> entries s"
    and get_entries: "cache_Get C key s = (s', r) \<Longrightarrow> entries s' \<subseteq> entries s"
    and set_entries: "cache_Set C key val cost s = (s', ok) \<Longrightarrow> entries s' \<subseteq> insert (key, val) (entries s)"

text \<open>
  Both, beside each other, with the naming rule that keeps the cache's keys apart: \<open>named\<close> holds
  of the versions for which the key determines the version.
\<close>

locale cached_store = version_store R view inv + lossy_cache C entries
  for R :: "'s Repository" and view :: "'s \<Rightarrow> version_key \<Rightarrow> bytes option" and inv :: "'s \<Rightarrow> bool"
    and C :: "'s Cache" and entries :: "'s \<Rightarrow> (string \<times> bytes) set" +
  fixes named :: "version_key \<Rightarrow> bool"
  assumes cache_view: "cache_Get C key s = (s', r) \<Longrightarrow> view s' = view s \<and> (inv s' \<longleftrightarrow> inv s)"
    and set_view: "cache_Set C key val cost s = (s', ok) \<Longrightarrow> view s' = view s \<and> (inv s' \<longleftrightarrow> inv s)"
    and repo_entries: "repo_Get R ns sc v s = (s', g) \<Longrightarrow> entries s' = entries s"
    and latest_entries: "repo_GetLatestVersion R ns sc s = (s', l) \<Longrightarrow> entries s' = entries s"
    and meta_entries: "repo_GetMetadata R ns sc s = (s', m) \<Longrightarrow> entries s' = entries s"
    and create_entries: "repo_Create R req vid sha s = (s', version, err) \<Longrightarrow> entries s' = entries s"
    and key_inj: "named (ns, sc, v) \<Longrightarrow> named (ns', sc', v') \<Longrightarrow>
      schemaKeyFunc ns sc v = schemaKeyFunc ns' sc' v' \<Longrightarrow> (ns, sc, v) = (ns', sc', v')"
begin

text \<open>Every entry of the cache is what is stored under the version its key names.\<close>

definition coherent :: "'s \<Rightarrow> bool" where
  "coherent s \<longleftrightarrow> inv s \<and> (\<forall>key d. (key, d) \<in> entries s \<longrightarrow>
     (\<exists>ns sc v. named (ns, sc, v) \<and> key = schemaKeyFunc ns sc v \<and> view s (ns, sc, v) = Some d))"

lemma coherent_mono:
  assumes "coherent s" and "inv s'" and "entries s' \<subseteq> entries s" and "view s \<subseteq>\<^sub>m view s'"
  shows "coherent s'"
proof -
  have "view s' k = Some d" if "view s k = Some d" for k d
  proof -
    have "k \<in> dom (view s)" using that by blast
    then show ?thesis using assms(4) that by (metis map_le_def)
  qed
  then show ?thesis using assms(1-3) unfolding coherent_def by blast
qed

lemma cached_read:
  assumes "repo T = R" and "cache T = C" and coh: "coherent s" and n: "named (ns, sc, v)"
    and r: "cachedGetSchema T ns sc v s = (s', r)"
  shows "coherent s' \<and> view s' = view s \<and> (\<forall>d. r = Inr d \<longrightarrow> view s (ns, sc, v) = Some d)"
proof -
  obtain s1 hit' where g: "cache_Get C (schemaKeyFunc ns sc v) s = (s1, hit')" by fastforce
  have v1: "view s1 = view s" "inv s1" using cache_view [OF g] coh by (auto simp: coherent_def)
  have c1: "coherent s1" by (rule coherent_mono [OF coh v1(2) get_entries [OF g]]) (simp add: v1(1))
  show ?thesis
  proof (cases hit')
    case (Some d)
    then obtain ns' sc' v' where "named (ns', sc', v')" "schemaKeyFunc ns sc v = schemaKeyFunc ns' sc' v'"
      "view s (ns', sc', v') = Some d"
      using hit [of "schemaKeyFunc ns sc v" s s1 d] g coh unfolding coherent_def by blast
    then have "view s (ns, sc, v) = Some d" using key_inj [OF n] by auto
    then show ?thesis using r g Some c1 v1 assms(1,2) by (auto simp: cachedGetSchema_def Let_def)
  next
    case None
    obtain s2 r2 where g2: "repo_Get R ns sc v s1 = (s2, r2)" by fastforce
    have v2: "view s2 = view s" "inv s2" using get_keeps [OF v1(2) g2] v1 by auto
    have c2: "coherent s2"
      by (rule coherent_mono [OF c1 v2(2)]) (simp_all add: repo_entries [OF g2] v1 v2)
    show ?thesis
    proof (cases r2)
      case (Inl e)
      then show ?thesis using r g g2 None c2 v2 assms(1,2) by (auto simp: cachedGetSchema_def Let_def)
    next
      case (Inr d)
      obtain s3 ok where g3: "cache_Set C (schemaKeyFunc ns sc v) d (int (length d)) s2 = (s3, ok)" by fastforce
      have d: "view s (ns, sc, v) = Some d" using get_sound [OF v1(2), of ns sc v s2 d] g2 Inr v1 by simp
      have v3: "view s3 = view s" "inv s3" using set_view [OF g3] v2 by auto
      have "coherent s3"
        using c2 set_entries [OF g3] n d v2 v3 unfolding coherent_def by (metis insertE prod.inject subsetD)
      then show ?thesis using r g g2 g3 None Inr d v3 assms(1,2) by (auto simp add: cachedGetSchema_def Let_def)
    qed
  qed
qed

lemma service_read:
  assumes T: "repo T = R" "cache T = C" and coh: "coherent s" and n: "named (ns, sc, v)"
    and r: "Service_Get T ns sc v s = (s', r)"
  shows "coherent s' \<and> view s' = view s \<and> (\<forall>m d. r = Inr (m, d) \<longrightarrow> view s (ns, sc, v) = Some d)"
proof -
  obtain s1 m where g: "repo_GetMetadata R ns sc s = (s1, m)" by fastforce
  have v1: "view s1 = view s" "inv s1" using meta_keeps [OF _ g] coh by (auto simp: coherent_def)
  have c1: "coherent s1" by (rule coherent_mono [OF coh v1(2)]) (simp_all add: meta_entries [OF g] v1)
  show ?thesis
  proof (cases m)
    case (Inl e)
    then show ?thesis using r g c1 v1 T by (auto simp: Service_Get_def withMetadata_def bind_io_def)
  next
    case (Inr meta)
    obtain s2 d where g2: "cachedGetSchema T ns sc v s1 = (s2, d)" by fastforce
    have "s' = s2 \<and> r = (case d of Inl e \<Rightarrow> Inl e | Inr b \<Rightarrow> Inr (meta, b))"
      using r g g2 Inr T by (auto simp: Service_Get_def withMetadata_def bind_io_def split: sum.splits)
    then show ?thesis using cached_read [OF T c1 n g2] v1 by (auto split: sum.splits)
  qed
qed

lemma create_coherent:
  assumes "coherent s" and c: "repo_Create R req vid sha s = (s', version, err)"
  shows "coherent s'"
proof -
  have i: "inv s" using assms(1) by (simp add: coherent_def)
  show ?thesis
    by (rule coherent_mono [OF assms(1)]) (use create_adds [OF i c] create_entries [OF c] in auto)
qed

end

section \<open>The contracts hold of the model\<close>

definition w_view :: "world \<Rightarrow> version_key \<Rightarrow> bytes option" where "w_view w = stored (w_db w)"

definition w_inv :: "world \<Rightarrow> bool" where "w_inv w \<longleftrightarrow> db_inv (w_db w)"

definition w_entries :: "world \<Rightarrow> (string \<times> bytes) set" where "w_entries w = set (w_cache w)"

text \<open>A namespace without a dash and a version number that is not negative.\<close>

definition dash_free :: "version_key \<Rightarrow> bool" where
  "dash_free k = (case k of (ns, sc, v) \<Rightarrow> CHR ''-'' \<notin> set ns \<and> 0 \<le> v)"

lemma world_sel [simp]:
  "w_db (next_env w) = w_db w" "w_cache (next_env w) = w_cache w" "w_sent (next_env w) = w_sent w"
  by (simp_all add: next_env_def)

lemma pg_write_world:
  "pg_write f w = (w', r) \<Longrightarrow> \<exists>db'. f (w_envs w 0) (w_db w) = (db', r) \<and> w_db w' = db' \<and> w_cache w' = w_cache w \<and> w_sent w' = w_sent w"
  by (auto simp: pg_write_def split: prod.splits)

lemma SchemaRepository_Get_sound:
  assumes "db_inv db" and "SchemaRepository_Get env ns sc v db = Inr d"
  shows "stored db (ns, sc, v) = Some d"
  using assms(2) by (auto simp: SchemaRepository_Get_def query_row_def wrap_res_def stored_def scalar_def
      split: sum.splits option.splits list.splits)

lemma create_map_le:
  assumes "db_inv db" and "SchemaRepository_Create env req vid sha db = (db', version, err)"
  shows "stored db \<subseteq>\<^sub>m stored db'"
proof (cases err)
  case (Some e)
  then obtain n where "db' = db\<lparr>schemas_id_seq := n\<rparr>"
    using SchemaRepository_Create_failed [of env req vid sha db db' version e] assms(2) by auto
  then show ?thesis by simp
next
  case None
  then have c: "SchemaRepository_Create env req vid sha db = (db', version, None)" using assms(2) by simp
  have "stored db (us_Namespace req, us_Schema req, latest db (us_Namespace req) (us_Schema req) + 1) = None"
    by (rule stored_above_latest [OF assms(1)]) simp
  with SchemaRepository_Create_view [OF assms(1) c] show ?thesis by (auto simp: map_le_def)
qed

lemma show_nat_digits: "c \<in> set (show_nat n) \<Longrightarrow> c \<noteq> CHR ''-''"
proof (induction n rule: show_nat.induct)
  case (1 n)
  have d: "digit_char d \<noteq> CHR ''-''" if "d < 10" for d
  proof
    assume "digit_char d = CHR ''-''"
    then have "of_char (digit_char d) = (45 :: nat)" by simp
    then show False using that by (simp add: digit_char_def)
  qed
  show ?case
  proof (cases "n < 10")
    case True
    then show ?thesis using 1(2) d by (simp add: show_nat.simps [of n])
  next
    case False
    have "c = digit_char (n mod 10) \<or> c \<in> set (show_nat (n div 10))"
      using 1(2) False by (subst (asm) show_nat.simps) auto
    then show ?thesis using 1(1) [OF False] d [of "n mod 10"] by auto
  qed
qed

lemma split_first: "x \<notin> set a \<Longrightarrow> x \<notin> set b \<Longrightarrow> a @ x # c = b @ x # d \<Longrightarrow> a = b \<and> c = d"
  by (induction a arbitrary: b) (auto simp: Cons_eq_append_conv append_eq_Cons_conv)

lemma split_last: "x \<notin> set c \<Longrightarrow> x \<notin> set d \<Longrightarrow> a @ x # c = b @ x # d \<Longrightarrow> a = b \<and> c = d"
  using split_first [of x "rev c" "rev d" "rev a" "rev b"] by (metis append.assoc append_Cons append_Nil
      rev.simps(2) rev_append rev_rev_ident set_rev)

lemma schemaKey_inj:
  assumes "dash_free (ns, sc, v)" and "dash_free (ns', sc', v')"
    and "schemaKeyFunc ns sc v = schemaKeyFunc ns' sc' v'"
  shows "(ns, sc, v) = (ns', sc', v')"
proof -
  have 1: "ns = ns' \<and> sc @ CHR ''-'' # show_int v = sc' @ CHR ''-'' # show_int v'"
    using assms split_first [of "CHR ''-''" ns ns'] by (simp add: schemaKeyFunc_def dash_free_def)
  have digits: "CHR ''-'' \<notin> set (show_int i)" if "0 \<le> i" for i
    using that show_nat_digits by (auto simp: show_int_def)
  have nonneg: "0 \<le> v" "0 \<le> v'" using assms by (simp_all add: dash_free_def)
  from split_last [OF digits [OF nonneg(1)] digits [OF nonneg(2)] 1 [THEN conjunct2]]
  show ?thesis using 1 by simp
qed

interpretation pg: cached_store pg_Repository w_view w_inv mem_Cache w_entries dash_free
proof unfold_locales
  fix s s' :: world and ns sc v d
  assume "w_inv s" "repo_Get pg_Repository ns sc v s = (s', Inr d)"
  then show "w_view s (ns, sc, v) = Some d"
    by (auto simp: pg_Repository_def pg_read_def w_inv_def w_view_def intro: SchemaRepository_Get_sound)
next
  fix s s' :: world and req vid sha version err
  assume i: "w_inv s" and c: "repo_Create pg_Repository req vid sha s = (s', version, err)"
  then obtain db' where db': "SchemaRepository_Create (w_envs s 0) req vid sha (w_db s) = (db', version, err)" "w_db s' = db'"
    using pg_write_world [of "\<lambda>env. SchemaRepository_Create env req vid sha" s s' "(version, err)"]
    by (auto simp: pg_Repository_def)
  show "w_inv s' \<and> w_view s \<subseteq>\<^sub>m w_view s'"
    using SchemaRepository_Create_inv [OF _ db'(1)] create_map_le [OF _ db'(1)] i
    by (simp add: w_inv_def w_view_def db'(2))
next
  fix s s' :: world and req vid sha version err
  assume "repo_Create pg_Repository req vid sha s = (s', version, err)"
  then show "w_entries s' = w_entries s"
    using pg_write_world [of "\<lambda>env. SchemaRepository_Create env req vid sha" s s' "(version, err)"]
    by (auto simp: pg_Repository_def w_entries_def)
next
  fix ns sc v ns' sc' v'
  assume "dash_free (ns, sc, v)" "dash_free (ns', sc', v')" "schemaKeyFunc ns sc v = schemaKeyFunc ns' sc' v'"
  then show "(ns, sc, v) = (ns', sc', v')" by (rule schemaKey_inj)
qed (auto simp: pg_Repository_def mem_Cache_def pg_read_def w_inv_def w_view_def w_entries_def split: if_splits dest: map_of_SomeD)

end
