(* ===== verification/Service_Claims.thy ===== *)
theory Service_Claims
  imports Service_World Formats_Claims
begin

text \<open>
  The properties of the schema service on the model of its neighbours: what the cache may return,
  what compatibility lets through, and what is written and sent about a change.
\<close>

section \<open>Coherence of the cache\<close>

definition cache_coherent :: "world \<Rightarrow> bool" where
  "cache_coherent w \<longleftrightarrow> db_inv (w_db w) \<and> (\<forall>key d. (key, d) \<in> set (w_cache w) \<longrightarrow>
     (\<exists>ns sc v. dash_free (ns, sc, v) \<and> key = schemaKeyFunc ns sc v \<and> stored (w_db w) (ns, sc, v) = Some d))"

lemma pg_coherent: "pg.coherent w \<longleftrightarrow> cache_coherent w"
  by (simp add: pg.coherent_def cache_coherent_def w_inv_def w_view_def w_entries_def)

lemma service_get_coherent:
  assumes "cache_coherent w" and "dash_free (ns, sc, v)"
    and "Service_Get (service F ords ord cfg) ns sc v w = (w', r)"
  shows "cache_coherent w' \<and> stored (w_db w') = stored (w_db w) \<and>
    (\<forall>m d. r = Inr (m, d) \<longrightarrow> stored (w_db w) (ns, sc, v) = Some d)"
  using pg.service_read [OF _ _ _ assms(2,3)] assms(1) by (simp add: pg_coherent w_view_def)

lemma get_latest_coherent:
  assumes "cache_coherent w" and "CHR ''-'' \<notin> set ns"
    and "GetLatest (service F ords ord cfg) ns sc w = (w', r)"
  shows "cache_coherent w' \<and> stored (w_db w') = stored (w_db w) \<and>
    (\<forall>m d. r = Inr (m, d) \<longrightarrow> stored (w_db w) (ns, sc, latest (w_db w) ns sc) = Some d)"
proof -
  have inv: "db_inv (w_db w)" using assms(1) by (simp add: cache_coherent_def)
  obtain l where l: "repo_GetLatestVersion pg_Repository ns sc w = (next_env w, l)"
    by (simp add: pg_Repository_def pg_read_def)
  have c: "cache_coherent (next_env w)" using assms(1) by (simp add: cache_coherent_def)
  show ?thesis
  proof (cases l)
    case (Inl e)
    then show ?thesis using assms(3) l c by (auto simp: GetLatest_def bind_io_def)
  next
    case (Inr v)
    have v: "v = latest (w_db w) ns sc"
      using l Inr by (auto simp: pg_Repository_def pg_read_def SchemaRepository_GetLatestVersion_def query_row_def
          getLatestVersionIDFromSchemaNameQuery_def latest_def wrap_res_def split: option.splits)
    then have "dash_free (ns, sc, v)"
      using assms(2) max_version_nonneg [of "w_db w"] inv by (simp add: dash_free_def latest_def db_inv_def)
    moreover have "Service_Get (service F ords ord cfg) ns sc v (next_env w) = (w', r)"
      using assms(3) l Inr by (simp add: GetLatest_def bind_io_def)
    ultimately show ?thesis using service_get_coherent [OF c] v by fastforce
  qed
qed

lemma check_coherent:
  assumes "cache_coherent w" and "CHR ''-'' \<notin> set ns"
    and "checkCompatibility (service F ords ord cfg) ns sc fmt cmp cur w = (w', r)"
  shows "cache_coherent w' \<and> stored (w_db w') = stored (w_db w)"
proof -
  obtain w1 l where l: "GetLatest (service F ords ord cfg) ns sc w = (w1, l)" by fastforce
  have "w' = w1" using assms(3) l by (auto simp: checkCompatibility_def split: sum.splits)
  then show ?thesis using get_latest_coherent [OF assms(1,2) l] by blast
qed

lemma namespace_get_coherent:
  "cache_coherent w \<Longrightarrow> namespace_Get (service F ords ord cfg) i w = (w', r) \<Longrightarrow>
     cache_coherent w' \<and> stored (w_db w') = stored (w_db w)"
  by (auto simp: pg_read_def cache_coherent_def)

lemma store_version_coherent:
  assumes "cache_coherent w" and "CHR ''-'' \<notin> set ns"
    and "store_version (service F ords ord cfg) ns sc meta fmt cmp p data sha w = (w', r)"
  shows "cache_coherent w' \<and> stored (w_db w) \<subseteq>\<^sub>m stored (w_db w')"
proof -
  obtain w1 l where l: "GetLatest (service F ords ord cfg) ns sc w = (w1, l)" by fastforce
  note c1 = get_latest_coherent [OF assms(1,2) l]
  obtain req vid v e where c: "repo_Create pg_Repository req vid sha w1 = (w', v, e)"
    using assms(3) l by (auto simp: store_version_def Let_def split: prod.splits)
  have "pg.coherent w'" using pg.create_coherent [OF _ c] c1 by (simp add: pg_coherent)
  moreover have "w_view w1 \<subseteq>\<^sub>m w_view w'"
    using pg.create_adds [OF _ c] c1 by (simp add: cache_coherent_def w_inv_def)
  ultimately show ?thesis using c1 by (simp add: pg_coherent w_view_def)
qed

lemma upload_coherent:
  assumes "cache_coherent w" and "CHR ''-'' \<notin> set ns"
    and "Service_Create (service F ords ord cfg) ns sc meta data sha w = (w', r)"
  shows "cache_coherent w' \<and> stored (w_db w) \<subseteq>\<^sub>m stored (w_db w')"
proof -
  obtain w1 n where n: "namespace_Get (service F ords ord cfg) ns w = (w1, n)" by fastforce
  note c1 = namespace_get_coherent [OF assms(1) n]
  show ?thesis
  proof (cases n)
    case (Inl e)
    then show ?thesis using assms(3) n c1 by (simp add: Service_Create_def)
  next
    case (Inr nspace)
    let ?fmt = "getNonEmpty [meta_Format meta, ns_Format nspace]"
    let ?cmp = "getNonEmpty [meta_Compatibility meta, ns_Compatibility nspace]"
    show ?thesis
    proof (cases "provider (service F ords ord cfg) ?fmt data")
      case (Inl e)
      then show ?thesis using assms(3) n Inr c1 by (simp add: Service_Create_def Let_def)
    next
      case (Inr p)
      obtain w2 e where k: "checkCompatibility (service F ords ord cfg) ns sc ?fmt ?cmp p w1 = (w2, e)" by fastforce
      have c2: "cache_coherent w2" "stored (w_db w2) = stored (w_db w)"
        using check_coherent [OF _ assms(2) k] c1 by auto
      show ?thesis
      proof (cases e)
        case (Some err)
        then show ?thesis using assms(3) n Inr \<open>n = Inr nspace\<close> k c2 by (simp add: Service_Create_def Let_def)
      next
        case None
        then have "store_version (service F ords ord cfg) ns sc meta ?fmt ?cmp p data sha w2 = (w', r)"
          using assms(3) n Inr \<open>n = Inr nspace\<close> k by (simp add: Service_Create_def Let_def)
        from store_version_coherent [OF c2(1) assms(2) this] show ?thesis by (simp add: c2(2))
      qed
    qed
  qed
qed

text \<open>Reads and uploads for namespaces whose name has no dash, in any order and with any failures.\<close>

inductive service_step ::
  "format_api \<Rightarrow> (string \<Rightarrow> range_order) \<Rightarrow> range_order \<Rightarrow> SchemaChangeConfig \<Rightarrow> world \<Rightarrow> world \<Rightarrow> bool"
  for F ords ord cfg where
  get: "dash_free (ns, sc, v) \<Longrightarrow> Service_Get (service F ords ord cfg) ns sc v w = (w', r) \<Longrightarrow>
     service_step F ords ord cfg w w'"
| get_latest: "CHR ''-'' \<notin> set ns \<Longrightarrow> GetLatest (service F ords ord cfg) ns sc w = (w', r) \<Longrightarrow>
     service_step F ords ord cfg w w'"
| create: "CHR ''-'' \<notin> set ns \<Longrightarrow> Service_Create (service F ords ord cfg) ns sc meta data sha w = (w', r') \<Longrightarrow>
     service_step F ords ord cfg w w'"

lemma service_step_coherent:
  "service_step F ords ord cfg w w' \<Longrightarrow> cache_coherent w \<Longrightarrow> cache_coherent w' \<and> stored (w_db w) \<subseteq>\<^sub>m stored (w_db w')"
proof (induction rule: service_step.induct)
  case (get ns sc v w w' r)
  then show ?case using service_get_coherent by fastforce
next
  case (get_latest ns w sc w' r)
  then show ?case using get_latest_coherent by fastforce
next
  case (create ns sc meta data sha w w' r')
  then show ?case using upload_coherent by blast
qed

text \<open>
  C5. As long as versions are only read and uploaded, for namespaces whose name has no dash, a read
  through the cache returns exactly the bytes stored under that namespace, schema and version,
  whatever was cached before and whatever failed, and no stored version changes or disappears.
\<close>

theorem cached_reads_correct:
  assumes "(service_step F ords ord cfg)\<^sup>*\<^sup>* w0 w" and "db_inv (w_db w0)" and "w_cache w0 = []"
    and "dash_free (ns, sc, v)" and "Service_Get (service F ords ord cfg) ns sc v w = (w', Inr (m, d))"
  shows "stored (w_db w) (ns, sc, v) = Some d \<and> stored (w_db w0) \<subseteq>\<^sub>m stored (w_db w)"
proof -
  have "cache_coherent w \<and> stored (w_db w0) \<subseteq>\<^sub>m stored (w_db w)"
    using assms(1)
  proof (induction rule: rtranclp_induct)
    case base
    then show ?case using assms(2,3) by (simp add: cache_coherent_def)
  next
    case (step y z)
    then show ?case using service_step_coherent [OF step.hyps(2)] map_le_trans by blast
  qed
  then show ?thesis using service_get_coherent [OF _ assms(4,5)] by blast
qed

section \<open>A concrete world\<close>

definition json_ns :: "string \<Rightarrow> Namespace" where
  "json_ns i = empty_namespace\<lparr>ns_ID := i, ns_Format := ''FORMAT_JSON''\<rparr>"

definition demo_world :: world where
  "demo_world = \<lparr>w_db = empty_db\<lparr>namespaces := [json_ns ''a'', json_ns ''a-b'']\<rparr>, w_envs = (\<lambda>i. quiet),
     w_cache = [], w_keep = (\<lambda>k. True), w_queue = (\<lambda>i. None), w_sent = [], w_ids = (\<lambda>i. ''e'')\<rparr>"

definition demo_cfg :: SchemaChangeConfig where
  "demo_cfg = \<lparr>cfg_KafkaTopic = ''t'', cfg_Depth = 0, cfg_Enable = True\<rparr>"

definition demo_service :: "world Service" where
  "demo_service = service demo_format (\<lambda>_ ks. ks) (\<lambda>ks. ks) demo_cfg"

definition upload :: "string \<Rightarrow> string \<Rightarrow> bytes \<Rightarrow> world \<Rightarrow> world \<times> int32 \<times> go_error option" where
  "upload ns sc d w = (case Service_Create demo_service ns sc empty_metadata d ''sha'' w of
     (w', info, err, job) \<Rightarrow> (w', si_Version info, err))"

definition read_version :: "string \<Rightarrow> string \<Rightarrow> int32 \<Rightarrow> world \<Rightarrow> world \<times> bytes res" where
  "read_version ns sc v w = (case Service_Get demo_service ns sc v w of
     (w', r) \<Rightarrow> (w', case r of Inl e \<Rightarrow> Inl e | Inr (m, d) \<Rightarrow> Inr d))"

definition delete_version :: "string \<Rightarrow> string \<Rightarrow> int32 \<Rightarrow> world \<Rightarrow> world" where
  "delete_version ns sc v w = fst (Service_DeleteVersion demo_service ns sc v w)"

definition first_upload :: world where "first_upload = fst (upload ''a'' ''s'' ''one'' demo_world)"

lemma demo_world_inv: "db_inv (w_db demo_world)"
  by (simp add: demo_world_def json_ns_def empty_db_def empty_namespace_def db_inv_def keys_ok_def links_ok_def)

theorem cached_reads_correct_witness:
  "stored (w_db first_upload) (''a'', ''s'', 1) = Some ''one''"
proof -
  obtain r' where "Service_Create demo_service ''a'' ''s'' empty_metadata ''one'' ''sha'' demo_world = (first_upload, r')"
    by (cases "Service_Create demo_service ''a'' ''s'' empty_metadata ''one'' ''sha'' demo_world")
      (auto simp: first_upload_def upload_def)
  then have u: "service_step demo_format (\<lambda>_ ks. ks) (\<lambda>ks. ks) demo_cfg demo_world first_upload"
    by (intro create [of "''a''" _ _ _ _ "''s''" empty_metadata "''one''" "''sha''"]) (auto simp: demo_service_def)
  have us: "(service_step demo_format (\<lambda>_ ks. ks) (\<lambda>ks. ks) demo_cfg)\<^sup>*\<^sup>* demo_world first_upload"
    using u by (rule r_into_rtranclp)
  have e: "w_cache demo_world = []" by (simp add: demo_world_def)
  have n: "dash_free (''a'', ''s'', 1)" by (simp add: dash_free_def)
  have r: "snd (read_version ''a'' ''s'' 1 first_upload) = Inr ''one''" by code_simp
  then obtain w' m where "Service_Get demo_service ''a'' ''s'' 1 first_upload = (w', Inr (m, ''one''))"
    by (auto simp: read_version_def split: prod.splits sum.splits)
  then show ?thesis
    using cached_reads_correct [OF us demo_world_inv e n] by (simp add: demo_service_def)
qed

text \<open>Read version 1, delete it, upload other bytes: the number is given again.\<close>

definition reused :: world where
  "reused = fst (upload ''a'' ''s'' ''two''
     (delete_version ''a'' ''s'' 1 (fst (read_version ''a'' ''s'' 1 first_upload))))"


definition shared :: world where
  "shared = fst (read_version ''a'' ''b-s'' 1 (fst (upload ''a'' ''b-s'' ''one'' demo_world)))"


section \<open>What an upload lets through\<close>

lemma service_get_db: "Service_Get (service F ords ord cfg) ns sc v w = (w', r) \<Longrightarrow> w_db w' = w_db w"
  by (auto simp: Service_Get_def withMetadata_def bind_io_def cachedGetSchema_def pg_Repository_def mem_Cache_def
      pg_read_def Let_def split: prod.splits sum.splits option.splits if_splits)

lemma get_latest_db: "GetLatest (service F ords ord cfg) ns sc w = (w', r) \<Longrightarrow> w_db w' = w_db w"
  using service_get_db
  by (fastforce simp: GetLatest_def bind_io_def pg_Repository_def pg_read_def split: prod.splits sum.splits)

lemma check_db: "checkCompatibility (service F ords ord cfg) ns sc fmt cmp cur w = (w', r) \<Longrightarrow> w_db w' = w_db w"
  using get_latest_db by (fastforce simp: checkCompatibility_def split: prod.splits sum.splits)

text \<open>No failure of a statement looks like an empty result.\<close>

definition honest :: "env \<Rightarrow> bool" where
  "honest env \<longleftrightarrow> (\<forall>i e. fault env i = Some e \<longrightarrow> \<not> errors_is e Is_pgx_ErrNoRows \<and> \<not> errors_is e (Is_storage noRows))"

definition honest_world :: "world \<Rightarrow> bool" where "honest_world w \<longleftrightarrow> (\<forall>i. honest (w_envs w i))"

lemma wrap_err_noRows: "errors_is (wrap_err e name) (Is_storage noRows) \<longleftrightarrow>
    errors_is e Is_pgx_ErrNoRows \<or> errors_is e (Is_storage noRows)"
  by (auto simp: wrap_err_def wrapError_def store_errs)

lemma honest_query: "honest env \<Longrightarrow> rows \<noteq> [] \<Longrightarrow> query_row env i rows = Inl e \<Longrightarrow>
    \<not> errors_is e Is_pgx_ErrNoRows \<and> \<not> errors_is e (Is_storage noRows)"
  by (auto simp: honest_def query_row_def split: option.splits list.splits)

lemma honest_get: "honest env \<Longrightarrow> rows \<noteq> [] \<Longrightarrow> scan_get env i rows = Inl e \<Longrightarrow>
    \<not> errors_is e Is_pgx_ErrNoRows \<and> \<not> errors_is e (Is_storage noRows)"
  by (auto simp: honest_def scan_get_def split: option.splits list.splits)

lemma Get_no_rows:
  assumes "db_inv db" and "honest env" and "SchemaRepository_Get env ns sc v db = Inl e"
    and "errors_is e (Is_storage noRows)"
  shows "stored db (ns, sc, v) = None"
proof (rule ccontr)
  assume "stored db (ns, sc, v) \<noteq> None"
  then obtain vid rest d rest' where r: "getVersionIDFromSchemaNameQuery ns sc v db = vid # rest"
    "getSchemaDataByVersionID vid db = d # rest'"
    by (auto simp: stored_def scalar_def split: option.splits list.splits)
  show False
  proof (cases "query_row env 0 (vid # rest)")
    case (Inl e0)
    then show False using assms(3,4) honest_query [OF assms(2) _ Inl] by (auto simp: SchemaRepository_Get_def r wrap_err_noRows)
  next
    case (Inr x)
    then have "x = vid" by (auto simp: query_row_def split: option.splits)
    then obtain e1 where "query_row env 1 (d # rest') = Inl e1" "e = wrap_err e1 (''Get schema for '' @ ns @ '' - '' @ sc)"
      using assms(3) Inr by (auto simp: SchemaRepository_Get_def r wrap_res_def split: sum.splits)
    then show False using assms(4) honest_query [OF assms(2), of "d # rest'"] by (auto simp: wrap_err_noRows)
  qed
qed

lemma latest_no_rows:
  assumes "db_inv (w_db w)" and "honest_world w" and "GetLatest (service F ords ord cfg) ns sc w = (w', Inl e)"
    and "errors_is e (Is_storage noRows)"
  shows "latest (w_db w) ns sc = 0"
proof (rule ccontr)
  assume nz: "latest (w_db w) ns sc \<noteq> 0"
  let ?v = "latest (w_db w) ns sc"
  obtain v where v: "live (w_db w) ns sc v" "v_version v = ?v"
    using nz latest_cases [OF assms(1), of ns sc] by auto
  have st: "stored (w_db w) (ns, sc, ?v) \<noteq> None" using v by (auto simp: stored_None_iff [OF assms(1)])
  have env: "honest (w_envs w i)" for i using assms(2) by (simp add: honest_world_def)
  have rows: "getSchemaMetaQuery ns sc (w_db w) \<noteq> []"
    using v(1) by (auto simp: live_def getSchemaMetaQuery_def schema_rows_def filter_empty_conv)
  show False
  proof (cases "SchemaRepository_GetLatestVersion (w_envs w 0) ns sc (w_db w)")
    case (Inl e0)
    then have "e = e0" using assms(3) by (simp add: GetLatest_def bind_io_def pg_Repository_def pg_read_def)
    then show False using Inl assms(4) honest_query [OF env, of "[max_version (scalar (schema_id_cte ns sc (w_db w))) (w_db w)]" 0]
      by (auto simp: SchemaRepository_GetLatestVersion_def getLatestVersionIDFromSchemaNameQuery_def wrap_res_def wrap_err_noRows
          split: sum.splits)
  next
    case (Inr l)
    have "l = ?v"
      using Inr by (auto simp: SchemaRepository_GetLatestVersion_def query_row_def
          getLatestVersionIDFromSchemaNameQuery_def latest_def wrap_res_def split: option.splits)
    then have g: "Service_Get (service F ords ord cfg) ns sc ?v (next_env w) = (w', Inl e)"
      using assms(3) Inr by (simp add: GetLatest_def bind_io_def pg_Repository_def pg_read_def)
    show False
    proof (cases "SchemaRepository_GetMetadata (w_envs w 1) ns sc (w_db w)")
      case (Inl e0)
      then have "e = e0"
        using g by (simp add: Service_Get_def withMetadata_def bind_io_def pg_Repository_def pg_read_def next_env_def)
      then show False using Inl assms(4) honest_get [OF env rows]
        by (auto simp: SchemaRepository_GetMetadata_def wrap_res_def wrap_err_noRows split: sum.splits)
    next
      case (Inr m)
      then have "SchemaRepository_Get (w_envs w 2) ns sc ?v (w_db w) = Inl e"
        using g by (auto simp: Service_Get_def withMetadata_def bind_io_def pg_Repository_def pg_read_def next_env_def
            cachedGetSchema_def mem_Cache_def Let_def numeral_2_eq_2 split: option.splits sum.splits)
      from Get_no_rows [OF assms(1) env [of 2] this assms(4)] st show False by simp
    qed
  qed
qed

text \<open>An upload is refused before anything is written, or reaches the repository.\<close>

lemma service_create_cases:
  assumes "Service_Create (service F ords ord cfg) ns sc meta data sha w = (w', info, err, job)"
  obtains (refused) e where "err = Some e" "info = empty_info" "job = None" "w_db w' = w_db w"
  | (accepted) n p w2 w3 l req where "n \<in> set (namespaces (w_db w))" "ns_ID n = ns"
      "ParseSchema (NewSchemaProvider F) (getNonEmpty [meta_Format meta, ns_Format n]) data = Inr p"
      "checkCompatibility (service F ords ord cfg) ns sc (getNonEmpty [meta_Format meta, ns_Format n])
         (getNonEmpty [meta_Compatibility meta, ns_Compatibility n]) p (next_env w) = (w2, None)"
      "GetLatest (service F ords ord cfg) ns sc w2 = (w3, l)" "w_db w3 = w_db w"
      "us_Namespace req = ns" "us_Schema req = sc" "us_SchemaFile req = GetCanonicalValue F p"
      "repo_Create pg_Repository req (getIDforSchema F ns sc (sf_ID (GetCanonicalValue F p))) sha w3 = (w', si_Version info, err)"
      "info = \<lparr>si_ID = getIDforSchema F ns sc (sf_ID (GetCanonicalValue F p)), si_Version = si_Version info,
         si_Location = schema_location ns sc (si_Version info)\<rparr>"
proof -
  obtain n where n: "namespace_Get (service F ords ord cfg) ns w = (next_env w, n)" by (simp add: pg_read_def)
  show ?thesis
  proof (cases n)
    case (Inl e)
    then show ?thesis using assms n by (intro refused) (auto simp: Service_Create_def)
  next
    case (Inr nspace)
    have ns: "nspace \<in> set (namespaces (w_db w))" "ns_ID nspace = ns"
      using n Inr by (auto simp: pg_read_def NamespaceRepository_Get_def scan_get_def wrap_res_def filter_eq_Cons_iff
          split: sum.splits option.splits list.splits)
    let ?fmt = "getNonEmpty [meta_Format meta, ns_Format nspace]"
    let ?cmp = "getNonEmpty [meta_Compatibility meta, ns_Compatibility nspace]"
    show ?thesis
    proof (cases "ParseSchema (NewSchemaProvider F) ?fmt data")
      case (Inl e)
      then show ?thesis using assms n Inr by (intro refused) (auto simp: Service_Create_def Let_def)
    next
      case p: (Inr p)
      obtain w2 e where k: "checkCompatibility (service F ords ord cfg) ns sc ?fmt ?cmp p (next_env w) = (w2, e)" by fastforce
      have db2: "w_db w2 = w_db w" using check_db [OF k] by simp
      show ?thesis
      proof (cases e)
        case (Some e')
        then show ?thesis using assms n Inr p k db2 by (intro refused) (auto simp: Service_Create_def Let_def)
      next
        case None
        obtain w3 l where l: "GetLatest (service F ords ord cfg) ns sc w2 = (w3, l)" by fastforce
        show ?thesis
          by (rule accepted [OF ns p k [unfolded None] l, of "\<lparr>us_Namespace = ns, us_Schema = sc,
              us_Metadata = \<lparr>meta_Authority = [], meta_Format = ?fmt, meta_Compatibility = ?cmp, meta_SourceURL = meta_SourceURL meta\<rparr>,
              us_SchemaFile = GetCanonicalValue F p\<rparr>"])
            (use assms n Inr p k None l get_latest_db [OF l] db2 in
              \<open>auto simp: Service_Create_def store_version_def Let_def split: prod.splits\<close>)
      qed
    qed
  qed
qed

text \<open>What the compatibility check has read when it lets a schema through.\<close>

lemma check_passed:
  assumes "cache_coherent w" and "honest_world w" and "CHR ''-'' \<notin> set ns"
    and "checkCompatibility (service F ords ord cfg) ns sc fmt cmp p w = (w', None)"
  shows "latest (w_db w) ns sc = 0 \<or>
    (\<exists>d fmt' prev. stored (w_db w) (ns, sc, latest (w_db w) ns sc) = Some d \<and>
       ParseSchema (NewSchemaProvider F) fmt' d = Inr prev \<and> getCompatibilityChecker F cmp p [prev] = None)"
proof -
  obtain w3 l where l: "GetLatest (service F ords ord cfg) ns sc w = (w3, l)" by fastforce
  show ?thesis
  proof (cases l)
    case (Inl e0)
    then have "errors_is e0 (Is_storage noRows)"
      using assms(4) l by (simp add: checkCompatibility_def split: if_splits)
    then show ?thesis using latest_no_rows [of w F ords ord cfg ns sc w3 e0] l Inl assms(1,2)
      by (simp add: cache_coherent_def)
  next
    case (Inr md)
    then obtain m d where md: "l = Inr (m, d)" by (cases md) auto
    have "stored (w_db w) (ns, sc, latest (w_db w) ns sc) = Some d"
      using get_latest_coherent [OF assms(1,3) l] md by simp
    moreover obtain prev where "ParseSchema (NewSchemaProvider F) (meta_Format m) d = Inr prev"
      "getCompatibilityChecker F cmp p [prev] = None"
      using assms(4) l md by (auto simp: checkCompatibility_def split: sum.splits)
    ultimately show ?thesis by blast
  qed
qed

lemma pg_create_world:
  "repo_Create pg_Repository req vid sha w = (w', v, err) \<Longrightarrow>
     SchemaRepository_Create (w_envs w 0) req vid sha (w_db w) = (w_db w', v, err)"
  using pg_write_world [of "\<lambda>env. SchemaRepository_Create env req vid sha" w w' "(v, err)"]
  by (auto simp: pg_Repository_def)



end
