(* ===== verification/Notify_Claims.thy ===== *)
theory Notify_Claims
  imports Service_Claims Change_Detector_Claims
begin

text \<open>
  The properties of what an upload and a comparison set off: the notification events in the database
  and the messages in the queue, the version range of a comparison, and the transitive modes.
\<close>

section \<open>Recording and sending\<close>

text \<open>The row that \<open>sendNotification\<close> writes: created at one time, updated at another.\<close>

definition event_row :: "SchemaChangedEvent \<Rightarrow> ChangeRequest \<Rightarrow> int32 \<Rightarrow> bool \<Rightarrow> int \<Rightarrow> int \<Rightarrow> NotificationEvent" where
  "event_row sce request schemaID ok created updated =
     (createNotificationEvent sce request schemaID ok)\<lparr>ne_CreatedAt := created, ne_UpdatedAt := updated\<rparr>"

lemma event_row_sel [simp]:
  "ne_ID (event_row sce request schemaID ok c u) = sce_EventId sce"
  "ne_Success (event_row sce request schemaID ok c u) = ok"
  "(event_row sce request schemaID ok c u)\<lparr>ne_Success := ok', ne_UpdatedAt := u'\<rparr> = event_row sce request schemaID ok' c u'"
  by (simp_all add: event_row_def createNotificationEvent_def)

lemma notif_create_fresh:
  assumes "ne_ID ev \<notin> set (map ne_ID (notification_events (w_db w)))"
    and "notif_Create pg_NotificationEventRepository ev w = (w', r)"
  shows "w_sent w' = w_sent w \<and> (case r of
      Inl e \<Rightarrow> w_db w' = w_db w
    | Inr _ \<Rightarrow> w_db w' = (w_db w)\<lparr>notification_events := notification_events (w_db w) @
        [ev\<lparr>ne_CreatedAt := now (w_envs w 0), ne_UpdatedAt := now (w_envs w 0)\<rparr>]\<rparr>)"
  using assms by (auto simp: pg_NotificationEventRepository_def pg_write_def NotificationEventRepository_Create_def
      stmt_def wrap_res_def Let_def next_env_def split: option.splits sum.splits prod.splits)

lemma map_update_other: "i \<notin> set (map k xs) \<Longrightarrow> map (\<lambda>x. if k x = i then f x else x) xs = xs"
  by (induction xs) auto

lemma filter_other: "i \<notin> set (map k xs) \<Longrightarrow> filter (\<lambda>x. k x = i) xs = []"
  by (induction xs) auto

lemma notif_update_last:
  assumes "notification_events (w_db w) = evs @ [ev]" and "ne_ID ev \<notin> set (map ne_ID evs)"
    and "notif_Update pg_NotificationEventRepository (ne_ID ev) ok w = (w', r)"
  shows "w_sent w' = w_sent w \<and> (case r of
      Inl e \<Rightarrow> w_db w' = w_db w
    | Inr _ \<Rightarrow> w_db w' = (w_db w)\<lparr>notification_events := evs @ [ev\<lparr>ne_Success := ok, ne_UpdatedAt := now (w_envs w 0)\<rparr>]\<rparr>)"
  using assms(3) map_update_other [OF assms(2)] filter_other [OF assms(2)]
  by (auto simp: pg_NotificationEventRepository_def pg_write_def NotificationEventRepository_Update_def
      notificationEventsUpdateQuery_def scan_get_def assms(1) wrap_res_def Let_def next_env_def
      split: option.splits sum.splits prod.splits)


definition notify_request :: ChangeRequest where
  "notify_request = (guide_request ''v1'' ''v2'' 1)\<lparr>cr_NamespaceID := ''a'', cr_SchemaName := ''s''\<rparr>"


section \<open>A change that was announced is not announced again\<close>

lemma schema_id_read:
  "repo_GetSchemaID pg_Repository ns sc w = (w1, Inr i) \<Longrightarrow>
     w1 = next_env w \<and> map s_id (schema_rows ns sc (w_db w)) = [i]"
  by (auto simp: pg_Repository_def pg_read_def SchemaRepository_GetSchemaID_def scan_get_def wrap_res_def
      split: sum.splits option.splits list.splits)

lemma honest_scan:
  "honest env \<Longrightarrow> x \<in> set rows \<Longrightarrow> scan_get env i rows = Inl e \<Longrightarrow> \<not> errors_is e Is_pgx_ErrNoRows"
  by (auto simp: honest_def scan_get_def errors_is.simps split: option.splits list.splits)

lemma success_marked_again:
  assumes "distinct (map ne_ID evs)" and "ev \<in> set evs" and "ne_Success ev"
  shows "map (\<lambda>e. e\<lparr>ne_UpdatedAt := 0\<rparr>) (map (\<lambda>e. if ne_ID e = ne_ID ev then e\<lparr>ne_Success := True, ne_UpdatedAt := t\<rparr> else e) evs) =
    map (\<lambda>e. e\<lparr>ne_UpdatedAt := 0\<rparr>) evs"
proof -
  have "e = ev" if "e \<in> set evs" "ne_ID e = ne_ID ev" for e
    using assms(1,2) that by (auto simp: distinct_map inj_on_def)
  then have "e\<lparr>ne_Success := True, ne_UpdatedAt := 0\<rparr> = e\<lparr>ne_UpdatedAt := 0\<rparr>"
    if "e \<in> set evs" "ne_ID e = ne_ID ev" for e
  proof -
    have "ne_Success e" using assms(3) \<open>\<And>e. e \<in> set evs \<Longrightarrow> ne_ID e = ne_ID ev \<Longrightarrow> e = ev\<close> [OF that] by simp
    then show ?thesis by (cases e) simp
  qed
  then show ?thesis by auto
qed

text \<open>
  C34. A change for which a successful event is recorded is not announced again: whatever fails on the
  way, handling the request once more sends no message and leaves the recorded events as they are,
  except for the time of the last update.
\<close>

theorem announced_once:
  assumes "identifySchemaChange (service F ords ord cfg) request w = (w', err)"
    and "db_inv (w_db w)" and "honest_world w"
    and "s \<in> set (schemas (w_db w))" and "s_namespace_id s = cr_NamespaceID request" and "s_name s = cr_SchemaName request"
    and "ev \<in> set (notification_events (w_db w))" and "ne_NamespaceID ev = cr_NamespaceID request"
    and "ne_SchemaID ev = s_id s" and "ne_VersionID ev = cr_VersionID request" and "ne_Success ev" and "ne_ID ev \<noteq> []"
  shows "w_sent w' = w_sent w \<and>
    map (\<lambda>e. e\<lparr>ne_UpdatedAt := 0\<rparr>) (notification_events (w_db w')) =
    map (\<lambda>e. e\<lparr>ne_UpdatedAt := 0\<rparr>) (notification_events (w_db w))"
proof -
  obtain w1 i where g: "repo_GetSchemaID pg_Repository (cr_NamespaceID request) (cr_SchemaName request) w = (w1, i)" by fastforce
  have w1: "w1 = next_env w" using g by (simp add: pg_Repository_def pg_read_def)
  show ?thesis
  proof (cases i)
    case (Inl e)
    then show ?thesis using assms(1) g w1 by (auto simp: identifySchemaChange_def)
  next
    case (Inr sid)
    have "s \<in> set (schema_rows (cr_NamespaceID request) (cr_SchemaName request) (w_db w))"
      using assms(4-6) by (simp add: schema_rows_def)
    then have "s_id s \<in> set (map s_id (schema_rows (cr_NamespaceID request) (cr_SchemaName request) (w_db w)))"
      by (simp only: set_map imageI)
    then have sid: "sid = s_id s" using schema_id_read [OF g [unfolded Inr]] by simp
    let ?rows = "filter (\<lambda>e. ne_NamespaceID e = cr_NamespaceID request \<and> ne_SchemaID e = sid \<and>
         ne_VersionID e = cr_VersionID request \<and> ne_Success e = True) (notification_events (w_db w))"
    have ev: "ev \<in> set ?rows" using assms(7-11) sid by simp
    obtain prev where p: "notif_GetByNameSpaceSchemaVersionAndSuccess pg_NotificationEventRepository
        (cr_NamespaceID request) sid (cr_VersionID request) True w1 = (next_env w1, prev)"
      and pr: "prev = wrap_res (scan_get (w_envs w1 0) 0 ?rows)
         (Sprintf (cr_NamespaceID request) [FInt32 sid, FStr (cr_VersionID request), FBool True])"
      by (simp add: pg_NotificationEventRepository_def pg_read_def w1
          NotificationEventRepository_GetByNameSpaceSchemaVersionAndSuccess_def)
    have hon: "honest (w_envs w1 0)" using assms(3) by (simp add: honest_world_def w1 next_env_def)
    show ?thesis
    proof (cases prev)
      case (Inl e)
      then obtain e0 where e0: "scan_get (w_envs w1 0) 0 ?rows = Inl e0"
        "e = wrap_err e0 (Sprintf (cr_NamespaceID request) [FInt32 sid, FStr (cr_VersionID request), FBool True])"
        using pr by (auto simp: wrap_res_def split: sum.splits)
      have "\<not> errors_is e Is_pgx_ErrNoRows"
        using honest_scan [OF hon ev e0(1)] e0(2) by (auto simp: wrap_err_def wrapError_def store_errs)
      then show ?thesis using assms(1) g Inr p Inl w1 by (auto simp: identifySchemaChange_def Let_def)
    next
      case (Inr old)
      then have "?rows = [old]" using pr by (auto simp: wrap_res_def scan_get_def split: sum.splits option.splits list.splits)
      then have old: "old = ev" using ev by simp
      obtain w3 r where u: "notif_Update pg_NotificationEventRepository (ne_ID ev) True (next_env w1) = (w3, r)" by fastforce
      have "w' = w3" using assms(1,12) g \<open>i = Inr sid\<close> p Inr old u
        by (auto simp: identifySchemaChange_def Let_def split: sum.splits)
      moreover have "w_sent w3 = w_sent w \<and> (w_db w3 = w_db w \<or> (\<exists>t. w_db w3 = (w_db w)\<lparr>notification_events :=
          map (\<lambda>e. if ne_ID e = ne_ID ev then e\<lparr>ne_Success := True, ne_UpdatedAt := t\<rparr> else e) (notification_events (w_db w))\<rparr>))"
        using u w1 by (auto simp: pg_NotificationEventRepository_def pg_write_def NotificationEventRepository_Update_def
            notificationEventsUpdateQuery_def Let_def split: option.splits prod.splits)
      moreover have "distinct (map ne_ID (notification_events (w_db w)))" using assms(2) by (simp add: db_inv_def keys_ok_def)
      ultimately show ?thesis using success_marked_again [OF _ assms(7,11)] by auto
    qed
  qed
qed

text \<open>A schema whose second version has been announced.\<close>

definition announced_event :: NotificationEvent where
  "announced_event = empty_event\<lparr>ne_ID := ''e'', ne_NamespaceID := ''a'', ne_SchemaID := 1, ne_VersionID := ''id'', ne_Success := True\<rparr>"

definition announced_schema :: schema_row where
  "announced_schema = \<lparr>s_id = 1, s_name = ''s'', s_authority = None, s_format = None, s_compatibility = None,
     s_namespace_id = ''a'', s_source_url = None\<rparr>"

definition announced :: world where
  "announced = demo_world\<lparr>w_db := (w_db demo_world)\<lparr>schemas := [announced_schema], schemas_id_seq := 2,
     notification_events := [announced_event]\<rparr>\<rparr>"

theorem announced_once_witness:
  "w_sent (fst (identifySchemaChange demo_service notify_request announced)) = []"
proof -
  obtain w' err where i: "identifySchemaChange demo_service notify_request announced = (w', err)" by fastforce
  have inv: "db_inv (w_db announced)" unfolding db_inv_def keys_ok_def links_ok_def by (intro conjI; code_simp)
  have h: "honest_world announced" by (simp add: honest_world_def honest_def announced_def demo_world_def quiet_def)
  have r: "s_namespace_id announced_schema = cr_NamespaceID notify_request" "s_name announced_schema = cr_SchemaName notify_request"
    "ne_NamespaceID announced_event = cr_NamespaceID notify_request" "ne_SchemaID announced_event = s_id announced_schema"
    "ne_VersionID announced_event = cr_VersionID notify_request" "ne_Success announced_event" "ne_ID announced_event \<noteq> []"
    by (simp_all add: announced_schema_def announced_event_def notify_request_def guide_request_def empty_event_def)
  have m: "announced_schema \<in> set (schemas (w_db announced))" "announced_event \<in> set (notification_events (w_db announced))"
    "w_sent announced = []"
    by (simp_all add: announced_def demo_world_def)
  show ?thesis
    using announced_once [OF i [unfolded demo_service_def] inv h m(1) r(1,2) m(2) r(3-7)] i m(3) by simp
qed

section \<open>A job for an upload that failed\<close>

definition guide_service :: "world Service" where
  "guide_service = service (demo_format\<lparr>proto := guide_proto\<rparr>) (\<lambda>_ ks. ks) (\<lambda>ks. ks) demo_cfg"

definition guide_upload :: "bytes \<Rightarrow> world \<Rightarrow> world \<times> SchemaInfo \<times> go_error option \<times> ChangeRequest option" where
  "guide_upload d w = Service_Create guide_service ''a'' ''s'' empty_metadata d ''sha'' w"

text \<open>Version 1 is stored; from now on the insertion of a version (statement 3) fails.\<close>

definition insert_fails :: world where
  "insert_fails = (fst (guide_upload ''v1'' demo_world))\<lparr>w_envs :=
     (\<lambda>i. quiet\<lparr>fault := (\<lambda>n. if n = 3 then Some (ErrExt ''timeout'') else None)\<rparr>)\<rparr>"

text \<open>
  \<open>Create\<close> starts the detection of changes even when storing the new version failed: the upload
  returns the error and nothing is stored, and the job it hands to the goroutine announces the change
  as version 0 to the queue and marks it successful.
\<close>

theorem failed_upload_announced:
  "case guide_upload ''v2'' insert_fails of (w, info, err, job) \<Rightarrow>
     err \<noteq> None \<and> map v_version (versions (w_db w)) = [1] \<and>
     (case job of None \<Rightarrow> False | Some r \<Rightarrow>
        (case identifySchemaChangeWithContext guide_service None r w of (w', err') \<Rightarrow>
           err' = None \<and> map (\<lambda>(t, sce). (t, sce_Version sce, sce_UpdatedSchemas sce)) (w_sent w') = [(''t'', 0, [''t.Address''])] \<and>
           map ne_Success (notification_events (w_db w')) = [True]))"
  by code_simp

section \<open>Which versions are compared\<close>

text \<open>
  C31. \<open>ValidateVersions\<close> returns a pair exactly when: the lower version is smaller than the upper
  one; the upper one is given, a 32-bit number of at least 2, or not given and the schema's latest,
  which is not 1; and the lower one is given, a 32-bit number of at least 1, or not given and the
  predecessor of the upper one.
\<close>

theorem validate_versions_exact:
  "(ValidateVersions S ns sc fromV toV s = (s', Inr (f, t))) =
     (f < t \<and> (if fromV = [] then f = t - 1 else parse_int32 fromV = Some f \<and> 1 \<le> f) \<and>
      (if toV = [] then repo_GetLatestVersion (repo S) ns sc s = (s', Inr t) \<and> t \<noteq> 1
       else s' = s \<and> parse_int32 toV = Some t \<and> 2 \<le> t))"
proof -
  have fv: "from_version fromV = Inr x \<longleftrightarrow> (if fromV = [] then x = 0 else parse_int32 fromV = Some x \<and> 1 \<le> x)" for x
    by (auto simp: from_version_def ParseInt32_def split: option.splits)
  have tv: "to_version toV = Inr x \<longleftrightarrow> (if toV = [] then x = 0 else parse_int32 toV = Some x \<and> 2 \<le> x)" for x
    by (auto simp: to_version_def ParseInt32_def split: option.splits)
  show ?thesis
    apply (auto simp: ValidateVersions_def bind_io_Inr fv tv Let_def split: if_splits)
    subgoal by (rule exI [of _ s'], rule exI [of _ t], simp, rule exI [of _ s'], rule exI [of _ t]) simp
    subgoal by (rule exI [of _ t]) auto
    done
qed

text \<open>
  For a schema that does not exist, or whose versions are all deleted, the latest version is 0:
  with no versions given, \<open>ValidateVersions\<close> accepts and returns the pair -1 and 0.
\<close>

theorem missing_schema_versions:
  assumes "latest (w_db w) ns sc = 0" and "fault (w_envs w 0) 0 = None"
  shows "ValidateVersions (service F ords ord cfg) ns sc [] [] w = (next_env w, Inr (-1, 0))"
proof -
  have "repo_GetLatestVersion pg_Repository ns sc w = (next_env w, Inr 0)"
    using assms by (simp add: pg_Repository_def pg_read_def SchemaRepository_GetLatestVersion_def query_row_def
        getLatestVersionIDFromSchemaNameQuery_def latest_def wrap_res_def)
  then show ?thesis
    by (simp add: ValidateVersions_def bind_io_def from_version_def to_version_def map_err_io_def)
qed

theorem missing_schema_versions_witness:
  "ValidateVersions demo_service ''a'' ''missing'' [] [] demo_world = (next_env demo_world, Inr (-1, 0))"
proof -
  have "latest (w_db demo_world) ''a'' ''missing'' = 0" by code_simp
  moreover have "fault (w_envs demo_world 0) 0 = None" by (simp add: demo_world_def quiet_def)
  ultimately show ?thesis unfolding demo_service_def by (rule missing_schema_versions)
qed

section \<open>The transitive modes\<close>

text \<open>
  C36. The service compares a new schema with the latest version only, so each transitive mode gives
  the verdict of the mode without \<open>TRANSITIVE\<close>, in every state and with every failure.
\<close>

theorem transitive_modes_not_transitive:
  assumes "combine_ok (multierr_Combine (formats S))"
    and "mode \<in> {''COMPATIBILITY_BACKWARD'', ''COMPATIBILITY_FORWARD'', ''COMPATIBILITY_FULL''}"
  shows "checkCompatibility S ns sc format (mode @ ''_TRANSITIVE'') current s = checkCompatibility S ns sc format mode current s"
proof -
  have "getCompatibilityChecker (formats S) (mode @ ''_TRANSITIVE'') current [prev] =
      getCompatibilityChecker (formats S) mode current [prev]" for prev
    using assms by (auto simp: getCompatibilityChecker_def validateLatest_def validateAll_def combine_ok_def)
  then show ?thesis by (auto simp: checkCompatibility_def split: prod.splits sum.splits)
qed

lemma demo_combine_ok: "combine_ok (multierr_Combine demo_format)"
proof -
  have "multierr_Combine demo_format es = None \<longleftrightarrow> (\<forall>e\<in>set es. e = None)" for es
  proof (cases "filter (\<lambda>e. e \<noteq> None) es")
    case Nil
    then show ?thesis by (auto simp: demo_format_def filter_empty_conv)
  next
    case (Cons e rest)
    then have "e \<in> set es \<and> e \<noteq> None" by (metis (mono_tags) filter_eq_ConsD in_set_conv_decomp)
    then show ?thesis using Cons by (cases rest) (auto simp: demo_format_def)
  qed
  moreover have "multierr_Combine demo_format [None, e] = e" for e by (cases e) (simp_all add: demo_format_def)
  ultimately show ?thesis by (simp add: combine_ok_def)
qed

theorem transitive_modes_not_transitive_witness:
  "checkCompatibility demo_service ''a'' ''s'' ''FORMAT_JSON'' ''COMPATIBILITY_FULL_TRANSITIVE'' (JsonSchema ''x'') first_upload =
   checkCompatibility demo_service ''a'' ''s'' ''FORMAT_JSON'' ''COMPATIBILITY_FULL'' (JsonSchema ''x'') first_upload"
  using transitive_modes_not_transitive [of demo_service "''COMPATIBILITY_FULL''"] demo_combine_ok
  by (simp add: demo_service_def)

end
