(* ===== verification/Api.thy ===== *)
theory Api
  imports Schema_Service
begin

text \<open>
  The request handlers, \<open>internal/api/*.go\<close>, with the namespace service and the search service
  they call (\<open>core/namespace/service.go\<close>, \<open>core/search/service.go\<close>) and the enums of the
  protobuf API. A gRPC handler returns a response and an error, both: the server drops the response
  when there is an error. The library functions that write an error to an HTTP response and that
  encode a response as JSON are fields of the \<open>API\<close> record.
\<close>

section \<open>Enums of the API (stencil.pb.go)\<close>

definition Schema_Format_name :: "(int32 \<times> string) list" where
  "Schema_Format_name =
     [(0, ''FORMAT_UNSPECIFIED''), (1, ''FORMAT_PROTOBUF''), (2, ''FORMAT_AVRO''), (3, ''FORMAT_JSON'')]"

definition Schema_Format_value :: "(string \<times> int32) list" where
  "Schema_Format_value =
     [(''FORMAT_UNSPECIFIED'', 0), (''FORMAT_PROTOBUF'', 1), (''FORMAT_AVRO'', 2), (''FORMAT_JSON'', 3)]"

definition Schema_Compatibility_name :: "(int32 \<times> string) list" where
  "Schema_Compatibility_name =
     [(0, ''COMPATIBILITY_UNSPECIFIED''), (1, ''COMPATIBILITY_BACKWARD''), (2, ''COMPATIBILITY_BACKWARD_TRANSITIVE''),
      (3, ''COMPATIBILITY_FORWARD''), (4, ''COMPATIBILITY_FORWARD_TRANSITIVE''), (5, ''COMPATIBILITY_FULL''),
      (6, ''COMPATIBILITY_FULL_TRANSITIVE'')]"

definition Schema_Compatibility_value :: "(string \<times> int32) list" where
  "Schema_Compatibility_value =
     [(''COMPATIBILITY_UNSPECIFIED'', 0), (''COMPATIBILITY_BACKWARD'', 1), (''COMPATIBILITY_BACKWARD_TRANSITIVE'', 2),
      (''COMPATIBILITY_FORWARD'', 3), (''COMPATIBILITY_FORWARD_TRANSITIVE'', 4), (''COMPATIBILITY_FULL'', 5),
      (''COMPATIBILITY_FULL_TRANSITIVE'', 6)]"

lemmas enum_tables = Schema_Format_name_def Schema_Format_value_def
  Schema_Compatibility_name_def Schema_Compatibility_value_def

text \<open>\<open>String\<close>: the name, or the number of an unknown value; a map lookup of a missing key is 0.\<close>

definition enum_String :: "(int32 \<times> string) list \<Rightarrow> int32 \<Rightarrow> string" where
  "enum_String names x = (case map_of names x of Some s \<Rightarrow> s | None \<Rightarrow> show_int x)"

definition enum_value :: "(string \<times> int32) list \<Rightarrow> string \<Rightarrow> int32" where
  "enum_value vals s = (case map_of vals s of Some x \<Rightarrow> x | None \<Rightarrow> 0)"

abbreviation format_String :: "int32 \<Rightarrow> string" where "format_String \<equiv> enum_String Schema_Format_name"
abbreviation format_value :: "string \<Rightarrow> int32" where "format_value \<equiv> enum_value Schema_Format_value"
abbreviation compat_String :: "int32 \<Rightarrow> string" where "compat_String \<equiv> enum_String Schema_Compatibility_name"
abbreviation compat_value :: "string \<Rightarrow> int32" where "compat_value \<equiv> enum_value Schema_Compatibility_value"

section \<open>The namespace service\<close>

record 's NamespaceRepository =
  nr_Create :: "Namespace \<Rightarrow> ('s, Namespace) io"
  nr_Update :: "Namespace \<Rightarrow> ('s, Namespace) io"
  nr_List :: "('s, Namespace list) io"
  nr_Get :: "string \<Rightarrow> ('s, Namespace) io"
  nr_Delete :: "string \<Rightarrow> 's \<Rightarrow> 's \<times> go_error option"

definition NamespaceService_Create :: "'s NamespaceRepository \<Rightarrow> Namespace \<Rightarrow> ('s, Namespace) io" where
  "NamespaceService_Create R ns = nr_Create R ns"

definition NamespaceService_Update :: "'s NamespaceRepository \<Rightarrow> Namespace \<Rightarrow> ('s, Namespace) io" where
  "NamespaceService_Update R ns = nr_Update R ns"

definition NamespaceService_List :: "'s NamespaceRepository \<Rightarrow> ('s, Namespace list) io" where
  "NamespaceService_List R = nr_List R"

definition NamespaceService_Get :: "'s NamespaceRepository \<Rightarrow> string \<Rightarrow> ('s, Namespace) io" where
  "NamespaceService_Get R name = nr_Get R name"

definition NamespaceService_Delete :: "'s NamespaceRepository \<Rightarrow> string \<Rightarrow> 's \<Rightarrow> 's \<times> go_error option" where
  "NamespaceService_Delete R name = nr_Delete R name"

lemmas namespace_service_defs = NamespaceService_Create_def NamespaceService_Update_def NamespaceService_List_def
  NamespaceService_Get_def NamespaceService_Delete_def

section \<open>The search service\<close>

record 's SearchRepository =
  sr_Search :: "SearchRequest \<Rightarrow> ('s, SearchHits list) io"
  sr_SearchLatest :: "SearchRequest \<Rightarrow> ('s, SearchHits list) io"

definition ErrEmptyQueryString :: go_error where "ErrEmptyQueryString = ErrString ''query string cannot be empty''"
definition ErrEmptySchemaID :: go_error where "ErrEmptySchemaID = ErrString ''schema_id cannot be empty''"
definition ErrEmptyNamespaceID :: go_error where "ErrEmptyNamespaceID = ErrString ''namespace_id cannot be empty''"

definition SearchService_Search :: "'s SearchRepository \<Rightarrow> SearchRequest \<Rightarrow> ('s, SearchHits list) io" where
  "SearchService_Search R req =
     (if sr_Query req = [] then fail_io ErrEmptyQueryString
      else if sr_SchemaID req \<noteq> [] \<and> sr_NamespaceID req = [] then fail_io ErrEmptyNamespaceID
      else if sr_VersionID req = 0 \<and> \<not> sr_History req then sr_SearchLatest R req
      else if sr_VersionID req > 0 \<and> sr_SchemaID req = [] then fail_io ErrEmptySchemaID
      else sr_Search R req)"

section \<open>Messages of the API\<close>

record pb_Namespace =
  pn_Id :: string
  pn_Format :: int32
  pn_Compatibility :: int32
  pn_Description :: string
  pn_CreatedAt :: int
  pn_UpdatedAt :: int

record pb_Schema =
  ps_Name :: string
  ps_Format :: int32
  ps_Compatibility :: int32
  ps_Authority :: string
  ps_SourceUrl :: string

record NamespaceRequest =
  nreq_Id :: string
  nreq_Format :: int32
  nreq_Compatibility :: int32
  nreq_Description :: string

record CreateSchemaRequest =
  csr_NamespaceId :: string
  csr_SchemaId :: string
  csr_Data :: bytes
  csr_Format :: int32
  csr_Compatibility :: int32
  csr_SourceUrl :: string
  csr_CommitSha :: string

record CheckCompatibilityRequest =
  ccr_NamespaceId :: string
  ccr_SchemaId :: string
  ccr_Data :: bytes
  ccr_Compatibility :: int32

datatype search_version = NoVersion | VersionId int32 | History bool

record pb_SearchRequest =
  psr_NamespaceId :: string
  psr_SchemaId :: string
  psr_Query :: string
  psr_Version :: search_version

section \<open>The handlers' state and results\<close>

record HttpRequest =
  rq_PathParams :: "string \<Rightarrow> string"
  rq_Header :: "string \<Rightarrow> string"
  rq_Query :: "string \<Rightarrow> string"
  rq_Body :: "bytes res"

record HttpResponse =
  rs_Status :: nat
  rs_Headers :: "(string \<times> string) list"
  rs_Body :: bytes

record 's API =
  api_namespace :: "'s NamespaceRepository"
  api_schema :: "'s Service"
  api_search :: "'s SearchRepository"
  api_HTTPError :: "go_error \<Rightarrow> HttpResponse"
  api_json_SchemaInfo :: "SchemaInfo \<Rightarrow> bytes"
  api_json_Lineage :: "LineageResponse \<Rightarrow> bytes"
  api_json_Event :: "SchemaChangedEvent \<Rightarrow> bytes"

type_synonym ('s, 'r) rpc = "'s \<Rightarrow> 's \<times> 'r \<times> go_error option"

text \<open>The value of a Go call that returns a value and an error: the zero value beside an error.\<close>

definition val_err :: "'a \<Rightarrow> ('s, 'a) io \<Rightarrow> ('s, 'a) rpc" where
  "val_err zero m = (\<lambda>s. case m s of (s', Inl e) \<Rightarrow> (s', zero, Some e) | (s', Inr a) \<Rightarrow> (s', a, None))"

definition map_rpc :: "('a \<Rightarrow> 'b) \<Rightarrow> ('s, 'a) rpc \<Rightarrow> ('s, 'b) rpc" where
  "map_rpc f m = (\<lambda>s. case m s of (s', a, err) \<Rightarrow> (s', f a, err))"

definition outcome :: "go_error option \<Rightarrow> string" where
  "outcome err = (case err of None \<Rightarrow> ''success'' | Some _ \<Rightarrow> ''failed'')"

section \<open>Namespace handlers (internal/api/namespace.go)\<close>

definition createNamespaceRequestToNamespace :: "NamespaceRequest \<Rightarrow> Namespace" where
  "createNamespaceRequestToNamespace r = empty_namespace\<lparr>ns_ID := nreq_Id r,
     ns_Format := format_String (nreq_Format r), ns_Compatibility := compat_String (nreq_Compatibility r),
     ns_Description := nreq_Description r\<rparr>"

definition namespaceToProto :: "Namespace \<Rightarrow> pb_Namespace" where
  "namespaceToProto ns = \<lparr>pn_Id = ns_ID ns, pn_Format = format_value (ns_Format ns),
     pn_Compatibility = compat_value (ns_Compatibility ns), pn_Description = ns_Description ns,
     pn_CreatedAt = ns_CreatedAt ns, pn_UpdatedAt = ns_UpdatedAt ns\<rparr>"

definition API_CreateNamespace :: "'s API \<Rightarrow> NamespaceRequest \<Rightarrow> ('s, pb_Namespace) rpc" where
  "API_CreateNamespace A inp =
     map_rpc namespaceToProto (val_err empty_namespace
       (NamespaceService_Create (api_namespace A) (createNamespaceRequestToNamespace inp)))"

definition API_UpdateNamespace :: "'s API \<Rightarrow> NamespaceRequest \<Rightarrow> ('s, pb_Namespace) rpc" where
  "API_UpdateNamespace A inp =
     map_rpc namespaceToProto (val_err empty_namespace
       (NamespaceService_Update (api_namespace A) (empty_namespace\<lparr>ns_ID := nreq_Id inp,
          ns_Format := format_String (nreq_Format inp), ns_Compatibility := compat_String (nreq_Compatibility inp),
          ns_Description := nreq_Description inp\<rparr>)))"

definition API_GetNamespace :: "'s API \<Rightarrow> string \<Rightarrow> ('s, pb_Namespace) rpc" where
  "API_GetNamespace A i =
     map_rpc namespaceToProto (val_err empty_namespace (NamespaceService_Get (api_namespace A) i))"

definition API_ListNamespaces :: "'s API \<Rightarrow> ('s, pb_Namespace list) rpc" where
  "API_ListNamespaces A = map_rpc (map namespaceToProto) (val_err [] (NamespaceService_List (api_namespace A)))"

definition API_DeleteNamespace :: "'s API \<Rightarrow> string \<Rightarrow> ('s, string) rpc" where
  "API_DeleteNamespace A i s =
     (case NamespaceService_Delete (api_namespace A) i s of (s', err) \<Rightarrow> (s', outcome err, err))"

section \<open>Schema handlers, gRPC (internal/api/schema.go)\<close>

definition schemaToProto :: "Schema \<Rightarrow> pb_Schema" where
  "schemaToProto s = \<lparr>ps_Name = sch_Name s, ps_Format = format_value (sch_Format s),
     ps_Compatibility = compat_value (sch_Compatibility s), ps_Authority = sch_Authority s,
     ps_SourceUrl = sch_SourceURL s\<rparr>"

definition API_CreateSchema ::
  "'s API \<Rightarrow> CreateSchemaRequest \<Rightarrow> 's \<Rightarrow> 's \<times> SchemaInfo \<times> go_error option \<times> ChangeRequest option" where
  "API_CreateSchema A inp =
     Service_Create (api_schema A) (csr_NamespaceId inp) (csr_SchemaId inp)
       \<lparr>meta_Authority = [], meta_Format = format_String (csr_Format inp),
        meta_Compatibility = compat_String (csr_Compatibility inp), meta_SourceURL = csr_SourceUrl inp\<rparr>
       (csr_Data inp) (csr_CommitSha inp)"

definition API_CheckCompatibility :: "'s API \<Rightarrow> CheckCompatibilityRequest \<Rightarrow> 's \<Rightarrow> 's \<times> go_error option" where
  "API_CheckCompatibility A req =
     CheckCompatibility (api_schema A) (ccr_NamespaceId req) (ccr_SchemaId req)
       (compat_String (ccr_Compatibility req)) (ccr_Data req)"

definition API_ListSchemas :: "'s API \<Rightarrow> string \<Rightarrow> ('s, pb_Schema list) rpc" where
  "API_ListSchemas A i = map_rpc (map schemaToProto) (val_err [] (Service_List (api_schema A) i))"

definition API_GetLatestSchema :: "'s API \<Rightarrow> string \<Rightarrow> string \<Rightarrow> ('s, bytes) rpc" where
  "API_GetLatestSchema A ns sc = map_rpc snd (val_err (empty_metadata, []) (GetLatest (api_schema A) ns sc))"

definition API_GetSchema :: "'s API \<Rightarrow> string \<Rightarrow> string \<Rightarrow> int32 \<Rightarrow> ('s, bytes) rpc" where
  "API_GetSchema A ns sc v = map_rpc snd (val_err (empty_metadata, []) (Service_Get (api_schema A) ns sc v))"

definition API_ListVersions :: "'s API \<Rightarrow> string \<Rightarrow> string \<Rightarrow> ('s, int32 list) rpc" where
  "API_ListVersions A ns sc = val_err [] (Service_ListVersions (api_schema A) ns sc)"

definition API_GetSchemaMetadata :: "'s API \<Rightarrow> string \<Rightarrow> string \<Rightarrow> ('s, pb_Schema) rpc" where
  "API_GetSchemaMetadata A ns sc =
     map_rpc (\<lambda>meta. \<lparr>ps_Name = [], ps_Format = format_value (meta_Format meta),
         ps_Compatibility = compat_value (meta_Compatibility meta), ps_Authority = meta_Authority meta,
         ps_SourceUrl = meta_SourceURL meta\<rparr>)
       (val_err empty_metadata (Service_GetMetadata (api_schema A) ns sc))"

definition API_UpdateSchemaMetadata :: "'s API \<Rightarrow> string \<Rightarrow> string \<Rightarrow> int32 \<Rightarrow> ('s, pb_Schema) rpc" where
  "API_UpdateSchemaMetadata A ns sc compatibility =
     map_rpc (\<lambda>meta. \<lparr>ps_Name = [], ps_Format = format_value (meta_Format meta),
         ps_Compatibility = compat_value (meta_Compatibility meta), ps_Authority = meta_Authority meta,
         ps_SourceUrl = []\<rparr>)
       (val_err empty_metadata (Service_UpdateMetadata (api_schema A) ns sc
          (empty_metadata\<lparr>meta_Compatibility := compat_String compatibility\<rparr>)))"

definition API_DeleteSchema :: "'s API \<Rightarrow> string \<Rightarrow> string \<Rightarrow> ('s, string) rpc" where
  "API_DeleteSchema A ns sc s = (case Service_Delete (api_schema A) ns sc s of (s', err) \<Rightarrow> (s', outcome err, err))"

definition API_DeleteVersion :: "'s API \<Rightarrow> string \<Rightarrow> string \<Rightarrow> int32 \<Rightarrow> ('s, string) rpc" where
  "API_DeleteVersion A ns sc v s =
     (case Service_DeleteVersion (api_schema A) ns sc v s of (s', err) \<Rightarrow> (s', outcome err, err))"

section \<open>Schema handlers, HTTP\<close>

definition HeaderFormat :: string where "HeaderFormat = ''X-Format''"
definition HeaderCompatibility :: string where "HeaderCompatibility = ''X-Compatibility''"
definition HeaderSourceUrl :: string where "HeaderSourceUrl = ''X-SourceURL''"
definition HeaderCommitSHA :: string where "HeaderCommitSHA = ''X-CommitSHA''"

definition json_type :: "string \<times> string" where "json_type = (''Content-Type'', ''application/json'')"

definition API_HTTPUpload :: "'s API \<Rightarrow> HttpRequest \<Rightarrow> 's \<Rightarrow> 's \<times> HttpResponse res \<times> ChangeRequest option" where
  "API_HTTPUpload A req s =
     (case rq_Body req of
        Inl err \<Rightarrow> (s, Inl err, None)
      | Inr data \<Rightarrow>
          (let metadata = \<lparr>meta_Authority = [], meta_Format = rq_Header req HeaderFormat,
                 meta_Compatibility = rq_Header req HeaderCompatibility, meta_SourceURL = rq_Header req HeaderSourceUrl\<rparr>
           in case Service_Create (api_schema A) (rq_PathParams req ''namespace'') (rq_PathParams req ''name'')
                  metadata data (rq_Header req HeaderCommitSHA) s of
                (s', sc, Some err, job) \<Rightarrow> (s', Inl err, job)
              | (s', sc, None, job) \<Rightarrow>
                  (s', Inr \<lparr>rs_Status = 201, rs_Headers = [json_type], rs_Body = api_json_SchemaInfo A sc\<rparr>, job)))"

definition API_HTTPCheckCompatibility :: "'s API \<Rightarrow> HttpRequest \<Rightarrow> ('s, HttpResponse) io" where
  "API_HTTPCheckCompatibility A req s =
     (case rq_Body req of
        Inl err \<Rightarrow> (s, Inl err)
      | Inr data \<Rightarrow>
          (case CheckCompatibility (api_schema A) (rq_PathParams req ''namespace'') (rq_PathParams req ''name'')
                  (rq_Header req ''X-Compatibility'') data s of
             (s', Some err) \<Rightarrow> (s', Inl err)
           | (s', None) \<Rightarrow> (s', Inr \<lparr>rs_Status = 200, rs_Headers = [], rs_Body = []\<rparr>)))"

definition API_HTTPLatestSchema :: "'s API \<Rightarrow> HttpRequest \<Rightarrow> ('s, Metadata \<times> bytes) io" where
  "API_HTTPLatestSchema A req =
     GetLatest (api_schema A) (rq_PathParams req ''namespace'') (rq_PathParams req ''name'')"

definition API_HTTPGetSchema :: "'s API \<Rightarrow> HttpRequest \<Rightarrow> ('s, Metadata \<times> bytes) io" where
  "API_HTTPGetSchema A req =
     (case ParseInt32 (rq_PathParams req ''version'') of
        Inl err \<Rightarrow> fail_io (HTTPStatusErr 400 (ErrString ''invalid version number''))
      | Inr v \<Rightarrow> Service_Get (api_schema A) (rq_PathParams req ''namespace'') (rq_PathParams req ''name'') v)"

text \<open>\<open>strconv.Atoi\<close>, on 64 bits.\<close>

definition Atoi :: "string \<Rightarrow> go_int option" where
  "Atoi s = (case read_int s of None \<Rightarrow> None
     | Some i \<Rightarrow> if - (2 ^ 63) \<le> i \<and> i < 2 ^ 63 then Some i else None)"

definition lineage_level :: "string \<Rightarrow> go_int" where
  "lineage_level d =
     (if d \<noteq> [] then (case Atoi d of Some parsed \<Rightarrow> if parsed > 0 then parsed else 10 | None \<Rightarrow> 10) else 10)"

definition API_GetLineage :: "'s API \<Rightarrow> HttpRequest \<Rightarrow> ('s, HttpResponse) io" where
  "API_GetLineage A req =
     (let rootType = rq_PathParams req ''type_name''
      in if rootType = [] then fail_io (HTTPStatusErr 400 (ErrString ''missing required path parameter: type_name''))
         else
           let level = lineage_level (rq_Query req ''level'');
               direction0 = rq_Query req ''direction'';
               direction = (if direction0 = [] then LineageDirectionBoth else direction0)
           in case NormalizeLineageDirection direction of
                Inl err \<Rightarrow> fail_io (HTTPStatusErr 400 err)
              | Inr _ \<Rightarrow>
                  bind_io (GetLineage (api_schema A) (rq_PathParams req ''namespace_id'') (rq_PathParams req ''schema_id'')
                             rootType level direction) (\<lambda>resp.
                    return_io \<lparr>rs_Status = 200, rs_Headers = [json_type], rs_Body = api_json_Lineage A resp\<rparr>))"

definition API_DetectSchemaChange :: "'s API \<Rightarrow> HttpRequest \<Rightarrow> ('s, HttpResponse) io" where
  "API_DetectSchemaChange A request =
     bind_io (DetectSchemaChange (api_schema A) (rq_PathParams request ''namespaceId'') (rq_PathParams request ''schemaName'')
                (rq_Query request ''from'') (rq_Query request ''to'') (rq_Query request ''depth'')) (\<lambda>sce.
       return_io \<lparr>rs_Status = 200, rs_Headers = [json_type], rs_Body = api_json_Event A sce\<rparr>)"

section \<open>Search handler (internal/api/search.go)\<close>

record pb_SearchHits =
  psh_SchemaId :: string
  psh_VersionId :: int32
  psh_Fields :: "string list"
  psh_Types :: "string list"
  psh_NamespaceId :: string
  psh_Path :: string

definition search_request :: "pb_SearchRequest \<Rightarrow> SearchRequest" where
  "search_request inp =
     \<lparr>sr_NamespaceID = psr_NamespaceId inp, sr_SchemaID = psr_SchemaId inp, sr_Query = psr_Query inp,
      sr_History = (case psr_Version inp of History h \<Rightarrow> h | _ \<Rightarrow> False),
      sr_VersionID = (case psr_Version inp of VersionId v \<Rightarrow> v | _ \<Rightarrow> 0)\<rparr>"

definition hit_to_proto :: "SearchHits \<Rightarrow> pb_SearchHits" where
  "hit_to_proto hit =
     \<lparr>psh_SchemaId = sh_SchemaID hit, psh_VersionId = sh_VersionID hit, psh_Fields = sh_Fields hit,
      psh_Types = sh_Types hit, psh_NamespaceId = sh_NamespaceID hit,
      psh_Path = schema_location (sh_NamespaceID hit) (sh_SchemaID hit) (sh_VersionID hit)\<rparr>"

text \<open>The hits and their number as an unsigned 32-bit value.\<close>

definition API_Search :: "'s API \<Rightarrow> pb_SearchRequest \<Rightarrow> ('s, pb_SearchHits list \<times> nat) io" where
  "API_Search A inp =
     bind_io (SearchService_Search (api_search A) (search_request inp)) (\<lambda>res.
       let hits = map hit_to_proto res in return_io (hits, length hits mod 2 ^ 32))"

section \<open>Routes (internal/api/api.go)\<close>

definition handleSchemaResponse ::
  "'s API \<Rightarrow> (HttpRequest \<Rightarrow> ('s, Metadata \<times> bytes) io) \<Rightarrow> HttpRequest \<Rightarrow> 's \<Rightarrow> 's \<times> HttpResponse" where
  "handleSchemaResponse A getSchemaFn r s =
     (case getSchemaFn r s of
        (s', Inl err) \<Rightarrow> (s', api_HTTPError A err)
      | (s', Inr (meta, data)) \<Rightarrow>
          (let contentType = (if meta_Format meta = ''FORMAT_PROTOBUF'' then ''application/octet-stream'' else ''application/json'')
           in (s', \<lparr>rs_Status = 200, rs_Headers = [(''Content-Type'', contentType),
                     (''Content-Length'', show_int (int (length data)))], rs_Body = data\<rparr>)))"

definition wrapErrHandler :: "'s API \<Rightarrow> (HttpRequest \<Rightarrow> ('s, HttpResponse) io) \<Rightarrow> HttpRequest \<Rightarrow> 's \<Rightarrow> 's \<times> HttpResponse" where
  "wrapErrHandler A handler r s =
     (case handler r s of
        (s', Inl err) \<Rightarrow> (s', api_HTTPError A err)
      | (s', Inr resp) \<Rightarrow> (s', resp))"

definition upload_handler :: "'s API \<Rightarrow> HttpRequest \<Rightarrow> ('s, HttpResponse) io" where
  "upload_handler A req s = (case API_HTTPUpload A req s of (s', r, job) \<Rightarrow> (s', r))"

definition ping :: "HttpRequest \<Rightarrow> 's \<Rightarrow> 's \<times> HttpResponse" where
  "ping r s = (s, \<lparr>rs_Status = 200, rs_Headers = [], rs_Body = ''pong''\<rparr>)"

definition RegisterSchemaHandlers :: "'s API \<Rightarrow> (string \<times> string \<times> (HttpRequest \<Rightarrow> 's \<Rightarrow> 's \<times> HttpResponse)) list" where
  "RegisterSchemaHandlers A =
     [(''GET'', ''/ping'', ping),
      (''GET'', ''/v1beta1/namespaces/{namespace}/schemas/{name}/versions/{version}'', handleSchemaResponse A (API_HTTPGetSchema A)),
      (''GET'', ''/v1beta1/namespaces/{namespace}/schemas/{name}'', handleSchemaResponse A (API_HTTPLatestSchema A)),
      (''POST'', ''/v1beta1/namespaces/{namespace}/schemas/{name}'', wrapErrHandler A (upload_handler A)),
      (''POST'', ''/v1beta1/namespaces/{namespace}/schemas/{name}/check'', wrapErrHandler A (API_HTTPCheckCompatibility A)),
      (''GET'', ''/v1beta1/schema/detect-change/{namespaceId}/{schemaName}'', wrapErrHandler A (API_DetectSchemaChange A)),
      (''GET'', ''/v1beta1/namespaces/{namespace_id}/schemas/{schema_id}/types/{type_name}/lineage'', wrapErrHandler A (API_GetLineage A))]"

end
