(* ===== verification/Api_Claims.thy ===== *)
theory Api_Claims
  imports Api Notify_Claims
begin

text \<open>
  The handlers on the real neighbours of \<open>Service_World\<close>, and their properties: the enums of the
  API against the strings of the store, what an unspecified enum does, an upload followed by a
  download, and the search.
\<close>

section \<open>The handlers on the database\<close>

definition pg_NamespaceRepository :: "world NamespaceRepository" where
  "pg_NamespaceRepository = \<lparr>
     nr_Create = (\<lambda>ns. pg_write (\<lambda>env. NamespaceRepository_Create env ns)),
     nr_Update = (\<lambda>ns. pg_write (\<lambda>env. NamespaceRepository_Update env ns)),
     nr_List = pg_read NamespaceRepository_List,
     nr_Get = (\<lambda>i. pg_read (\<lambda>env. NamespaceRepository_Get env i)),
     nr_Delete = (\<lambda>i. pg_write (\<lambda>env. NamespaceRepository_Delete env i))\<rparr>"

definition pg_SearchRepository :: "jsonpath \<Rightarrow> world SearchRepository" where
  "pg_SearchRepository J = \<lparr>
     sr_Search = (\<lambda>req. pg_read (\<lambda>env. SearchRepository_Search J env req)),
     sr_SearchLatest = (\<lambda>req. pg_read (\<lambda>env. SearchRepository_SearchLatest J env req))\<rparr>"

text \<open>
  Errors as the gateway reports them: the status of \<open>HTTPStatusError\<close>, else from the gRPC code of
  the error, else 500.
\<close>

definition gateway_status :: "go_error \<Rightarrow> nat" where
  "gateway_status e = (case e of HTTPStatusErr n _ \<Rightarrow> n
     | _ \<Rightarrow> (case grpc_status e of
           Some (Code_NotFound, _) \<Rightarrow> 404 | Some (Code_AlreadyExists, _) \<Rightarrow> 409
         | Some (Code_InvalidArgument, _) \<Rightarrow> 400 | _ \<Rightarrow> 500))"

definition pg_API ::
  "format_api \<Rightarrow> (string \<Rightarrow> range_order) \<Rightarrow> range_order \<Rightarrow> SchemaChangeConfig \<Rightarrow> jsonpath \<Rightarrow> (SchemaInfo \<Rightarrow> bytes)
   \<Rightarrow> (LineageResponse \<Rightarrow> bytes) \<Rightarrow> (SchemaChangedEvent \<Rightarrow> bytes) \<Rightarrow> world API" where
  "pg_API F ords ord cfg J ji jl je = \<lparr>
     api_namespace = pg_NamespaceRepository, api_schema = service F ords ord cfg, api_search = pg_SearchRepository J,
     api_HTTPError = (\<lambda>e. \<lparr>rs_Status = gateway_status e, rs_Headers = [], rs_Body = error_text e\<rparr>),
     api_json_SchemaInfo = ji, api_json_Lineage = jl, api_json_Event = je\<rparr>"

lemma pg_API_sel [simp]:
  "api_schema (pg_API F ords ord cfg J ji jl je) = service F ords ord cfg"
  "api_search (pg_API F ords ord cfg J ji jl je) = pg_SearchRepository J"
  by (simp_all add: pg_API_def)

section \<open>The enums\<close>

lemma show_int_hd: "hd (show_int i) = CHR ''-'' \<or> (\<exists>d < 10. hd (show_int i) = digit_char d)"
  using show_nat_hd_digit by (simp add: show_int_def)

lemma digit_not_upper: "d < 10 \<Longrightarrow> of_char (digit_char d) < (65 :: nat)"
  by (simp add: digit_char_def)

lemma show_int_not_upper: "of_char (hd (show_int i)) < (65 :: nat)"
  using show_int_hd [of i] digit_not_upper by auto

lemma no_number_is_a_name:
  "\<forall>p\<in>set vals. fst p \<noteq> [] \<and> (65 :: nat) \<le> of_char (hd (fst p)) \<Longrightarrow> map_of vals (show_int i) = None"
  using show_int_not_upper [of i] by (fastforce simp: map_of_eq_None_iff)

lemma enum_roundtrip:
  assumes "\<forall>p\<in>set vals. fst p \<noteq> [] \<and> (65 :: nat) \<le> of_char (hd (fst p))"
    and "\<forall>p\<in>set names. map_of vals (snd p) = Some (fst p)"
  shows "enum_value vals (enum_String names x) = (if x \<in> fst ` set names then x else 0)"
proof (cases "map_of names x")
  case None
  then have "x \<notin> fst ` set names" by (simp add: map_of_eq_None_iff)
  then show ?thesis using None no_number_is_a_name [OF assms(1)] by (simp add: enum_value_def enum_String_def)
next
  case (Some s)
  then have m: "(x, s) \<in> set names" by (rule map_of_SomeD)
  then have "x \<in> fst ` set names" by force
  moreover have "map_of vals s = Some x" using assms(2) m by force
  ultimately show ?thesis using Some by (simp add: enum_value_def enum_String_def)
qed

text \<open>
  The enums of the API survive the way through the store's strings: reading back what
  \<open>String\<close> wrote gives the value again, an unknown number gives the unspecified value, and a
  known name read and written is the name itself.
\<close>

theorem enums_survive:
  "format_value (format_String f) = (if f \<in> {0..3} then f else 0) \<and>
   compat_value (compat_String c) = (if c \<in> {0..6} then c else 0) \<and>
   (format_String (format_value s) = s) = (s \<in> set (map snd Schema_Format_name)) \<and>
   (compat_String (compat_value s) = s) = (s \<in> set (map snd Schema_Compatibility_name))"
proof -
  have "format_value (format_String f) = (if f \<in> fst ` set Schema_Format_name then f else 0)"
    by (rule enum_roundtrip) (simp_all add: enum_tables)
  moreover have "compat_value (compat_String c) = (if c \<in> fst ` set Schema_Compatibility_name then c else 0)"
    by (rule enum_roundtrip) (simp_all add: enum_tables)
  moreover have "fst ` set Schema_Format_name = {0..3}" "fst ` set Schema_Compatibility_name = {0..6}"
    by (auto simp: enum_tables)
  moreover have "(format_String (format_value s) = s) = (s \<in> set (map snd Schema_Format_name))"
    by (auto simp: enum_tables enum_String_def enum_value_def)
  moreover have "(compat_String (compat_value s) = s) = (s \<in> set (map snd Schema_Compatibility_name))"
    by (auto simp: enum_tables enum_String_def enum_value_def)
  ultimately show ?thesis by simp
qed

section \<open>Unspecified enums\<close>

lemma unspecified_unknown: "ParseSchema (NewSchemaProvider F) ''FORMAT_UNSPECIFIED'' d = Inl (ErrString ''unknown schema'')"
  by (simp add: ParseSchema_def NewSchemaProvider_def gm_get_def gm_set_def gm_empty_def)

text \<open>
  A gRPC upload that leaves the format unspecified is always refused, whatever the default format
  of the namespace: the handler passes the name of the unspecified value on, which is not empty, so
  the namespace's format is never used, and no parser has that name.
\<close>

theorem unspecified_format_refused:
  assumes "csr_Format inp = 0"
    and "API_CreateSchema (pg_API F ords ord cfg J ji jl je) inp w = (w', info, err, job)"
  shows "err \<noteq> None \<and> job = None \<and> w_db w' = w_db w"
proof -
  have f: "format_String 0 = ''FORMAT_UNSPECIFIED''" by (simp add: enum_tables enum_String_def)
  from assms(2) show ?thesis unfolding API_CreateSchema_def pg_API_sel
  proof (cases rule: service_create_cases)
    case (accepted n p w2 w3 l req)
    then show ?thesis using f unspecified_unknown [of F] assms(1) by simp
  qed simp
qed

definition unspecified_request :: CreateSchemaRequest where
  "unspecified_request = \<lparr>csr_NamespaceId = ''a'', csr_SchemaId = ''s'', csr_Data = ''one'', csr_Format = 0,
     csr_Compatibility = 0, csr_SourceUrl = [], csr_CommitSha = []\<rparr>"

definition demo_API :: "world API" where
  "demo_API = pg_API demo_format (\<lambda>_ ks. ks) (\<lambda>ks. ks) demo_cfg (\<lambda>q. Inr (\<lambda>xs. xs)) (\<lambda>i. si_Location i) (\<lambda>l. []) (\<lambda>e. [])"

theorem unspecified_format_refused_witness:
  "\<exists>e. fst (snd (snd (API_CreateSchema demo_API unspecified_request demo_world))) = Some e"
proof -
  obtain w' info err job where c: "API_CreateSchema demo_API unspecified_request demo_world = (w', info, err, job)"
    by (metis prod_cases4)
  then show ?thesis
    using unspecified_format_refused [OF _ c [unfolded demo_API_def]] by (simp add: unspecified_request_def)
qed

text \<open>
  A gRPC compatibility check that leaves the mode unspecified never reports an incompatibility,
  whatever the mode of the namespace: if it fails, the namespace or the latest version could not be
  read, or one of the two schemas could not be parsed.
\<close>

theorem unspecified_mode_checks_nothing:
  assumes "ccr_Compatibility req = 0" and "API_CheckCompatibility A req s = (s', Some e)"
  shows "(\<exists>s1. namespace_Get (api_schema A) (ccr_NamespaceId req) s = (s1, Inl e)) \<or>
    (\<exists>s1 n. namespace_Get (api_schema A) (ccr_NamespaceId req) s = (s1, Inr n) \<and>
       (provider (api_schema A) (ns_Format n) (ccr_Data req) = Inl e \<or>
        (\<exists>s2. GetLatest (api_schema A) (ccr_NamespaceId req) (ccr_SchemaId req) s1 = (s2, Inl e)) \<or>
        (\<exists>s2 m d. GetLatest (api_schema A) (ccr_NamespaceId req) (ccr_SchemaId req) s1 = (s2, Inr (m, d)) \<and>
           provider (api_schema A) (meta_Format m) d = Inl e)))"
proof -
  have u: "compat_String 0 = ''COMPATIBILITY_UNSPECIFIED''" by (simp add: enum_tables enum_String_def)
  have d: "getCompatibilityChecker F ''COMPATIBILITY_UNSPECIFIED'' c ps = None" for F c ps
    by (simp add: getCompatibilityChecker_def defaultCompatibilityFn_def)
  show ?thesis
    using assms by (auto simp: API_CheckCompatibility_def CheckCompatibility_def checkCompatibility_def u d Let_def
        split: prod.splits sum.splits if_splits)
qed

definition unspecified_check :: CheckCompatibilityRequest where
  "unspecified_check = \<lparr>ccr_NamespaceId = ''missing'', ccr_SchemaId = ''s'', ccr_Data = [], ccr_Compatibility = 0\<rparr>"

theorem unspecified_mode_checks_nothing_witness:
  "\<exists>w' e. namespace_Get (api_schema demo_API) ''missing'' demo_world = (w', Inl e)"
proof -
  obtain w' err where c: "API_CheckCompatibility demo_API unspecified_check demo_world = (w', err)" by fastforce
  have "snd (API_CheckCompatibility demo_API unspecified_check demo_world) \<noteq> None" by code_simp
  then obtain e where e: "err = Some e" using c by auto
  have "isl (snd (namespace_Get (api_schema demo_API) ''missing'' demo_world))" by code_simp
  then show ?thesis
    using unspecified_mode_checks_nothing [OF _ c [unfolded e]] by (auto simp: unspecified_check_def)
qed

section \<open>An upload, then a download\<close>

text \<open>No statement fails, now and later.\<close>

definition calm :: "world \<Rightarrow> bool" where "calm w \<longleftrightarrow> (\<forall>i. no_fault (w_envs w i))"

lemma calm_next [simp]: "calm w \<Longrightarrow> calm (next_env w)"
  by (simp add: calm_def next_env_def)

lemma calm_cache [simp]: "calm (w\<lparr>w_cache := c\<rparr>) = calm w" "calm (w\<lparr>w_db := d\<rparr>) = calm w"
  by (simp_all add: calm_def)

lemma service_get_calm: "Service_Get (service F ords ord cfg) ns sc v w = (w', r) \<Longrightarrow> calm w \<Longrightarrow> calm w'"
  by (auto simp: Service_Get_def withMetadata_def bind_io_def cachedGetSchema_def pg_Repository_def mem_Cache_def
      pg_read_def Let_def split: prod.splits sum.splits option.splits if_splits)

lemma get_latest_calm: "GetLatest (service F ords ord cfg) ns sc w = (w', r) \<Longrightarrow> calm w \<Longrightarrow> calm w'"
  using service_get_calm calm_next
  by (fastforce simp: GetLatest_def bind_io_def pg_Repository_def pg_read_def split: prod.splits sum.splits)

lemma check_calm: "checkCompatibility (service F ords ord cfg) ns sc fmt cmp cur w = (w', r) \<Longrightarrow> calm w \<Longrightarrow> calm w'"
  using get_latest_calm by (fastforce simp: checkCompatibility_def split: prod.splits sum.splits)

lemma repo_create_calm: "repo_Create pg_Repository req vid sha w = (w', r) \<Longrightarrow> calm w \<Longrightarrow> calm w'"
  by (auto simp: pg_Repository_def pg_write_def split: prod.splits)

lemma metadata_readable:
  assumes "db_inv db" and "live db ns sc v" and "no_fault env"
  shows "\<exists>m. SchemaRepository_GetMetadata env ns sc db = Inr m"
proof -
  obtain s where s: "s \<in> set (schema_rows ns sc db)" using assms(2) by (auto simp: live_def schema_rows_def)
  have "\<exists>r. schema_rows ns sc db = [r]"
  proof (cases "schema_rows ns sc db")
    case (Cons a rest)
    have "distinct (map (\<lambda>s. (s_namespace_id s, s_name s)) (schema_rows ns sc db))"
      using assms(1) unfolding db_inv_def keys_ok_def schema_rows_def by (simp add: filter_keys)
    moreover have "\<forall>r\<in>set (schema_rows ns sc db). (s_namespace_id r, s_name r) = (ns, sc)"
      by (auto simp: schema_rows_def)
    ultimately have "rest = []" using Cons by (cases rest) auto
    then show ?thesis using Cons by simp
  qed (use s in simp)
  then show ?thesis
    using assms(3) by (auto simp: SchemaRepository_GetMetadata_def getSchemaMetaQuery_def scan_get_def no_fault_def wrap_res_def)
qed

lemma stored_is_served:
  assumes "cache_coherent w" and "calm w" and "dash_free (ns, sc, v)" and "stored (w_db w) (ns, sc, v) = Some d"
  shows "\<exists>w' m. Service_Get (service F ords ord cfg) ns sc v w = (w', Inr (m, d))"
proof -
  have inv: "db_inv (w_db w)" using assms(1) by (simp add: cache_coherent_def)
  obtain vr where "live (w_db w) ns sc vr" using assms(4) stored_iff [OF inv] by blast
  then obtain m where m: "SchemaRepository_GetMetadata (w_envs w 0) ns sc (w_db w) = Inr m"
    using metadata_readable [OF inv, of ns sc vr "w_envs w 0"] assms(2) by (auto simp: calm_def)
  obtain w' r where g: "Service_Get (service F ords ord cfg) ns sc v w = (w', r)" by fastforce
  have "r \<noteq> Inl e" for e
  proof
    assume "r = Inl e"
    then have "SchemaRepository_Get (w_envs w 1) ns sc v (w_db w) = Inl e"
      using g m by (auto simp: Service_Get_def withMetadata_def bind_io_def cachedGetSchema_def pg_Repository_def
          mem_Cache_def pg_read_def next_env_def Let_def split: option.splits sum.splits if_splits)
    moreover have "no_fault (w_envs w 1)" using assms(2) by (simp add: calm_def)
    ultimately show False using SchemaRepository_Get_view [OF inv] assms(4) by simp
  qed
  then obtain m' d' where r: "r = Inr (m', d')" by (cases r) auto
  then show ?thesis using service_get_coherent [OF assms(1,3) g] assms(4) g by auto
qed

text \<open>What a successful upload leaves behind, in a world where no statement fails.\<close>

lemma upload_stored:
  fixes inp ns sc
  defines "ns \<equiv> csr_NamespaceId inp" and "sc \<equiv> csr_SchemaId inp"
  assumes "cache_coherent w" and "calm w" and "CHR ''-'' \<notin> set ns"
    and "API_CreateSchema (pg_API F ords ord cfg J ji jl je) inp w = (w', info, None, job)"
  shows "w_db w' = w_db w \<and> (\<exists>v\<in>set (versions (w_db w)). v_version v = si_Version info) \<or>
    si_Version info = latest (w_db w) ns sc + 1 \<and> latest (w_db w') ns sc = si_Version info \<and>
    dash_free (ns, sc, si_Version info) \<and> cache_coherent w' \<and> calm w' \<and>
    (\<exists>p. ParseSchema (NewSchemaProvider F) (format_String (csr_Format inp)) (csr_Data inp) = Inr p \<and>
       stored (w_db w') (ns, sc, si_Version info) = Some (file_data (w_db w) (GetCanonicalValue F p)))"
  using assms(6) unfolding API_CreateSchema_def pg_API_sel ns_def [symmetric] sc_def [symmetric]
proof (cases rule: service_create_cases)
  case (accepted n p w2 w3 l req)
  have inv: "db_inv (w_db w)" using assms(3) by (simp add: cache_coherent_def)
  have c: "SchemaRepository_Create (w_envs w3 0) req (getIDforSchema F ns sc (sf_ID (GetCanonicalValue F p)))
      (csr_CommitSha inp) (w_db w) = (w_db w', si_Version info, None)"
    using pg_create_world [OF accepted(10)] accepted(6) by simp
  have p: "ParseSchema (NewSchemaProvider F) (format_String (csr_Format inp)) (csr_Data inp) = Inr p"
  proof -
    have "format_String (csr_Format inp) \<noteq> []"
      by (auto simp: enum_String_def enum_tables)
    then show ?thesis using accepted(3) by simp
  qed
  have coh: "cache_coherent w'"
    using upload_coherent [OF assms(3,5) assms(6) [unfolded API_CreateSchema_def pg_API_sel, folded ns_def sc_def]] by blast
  then have inv': "db_inv (w_db w')" by (simp add: cache_coherent_def)
  have calm: "calm w'"
    by (rule repo_create_calm [OF accepted(10)], rule get_latest_calm [OF accepted(5)], rule check_calm [OF accepted(4)])
      (simp add: assms(4))
  from SchemaRepository_Create_view [OF inv c, unfolded accepted(7,8,9)] show ?thesis
  proof (elim disjE conjE)
    assume new: "si_Version info = latest (w_db w) ns sc + 1"
      "stored (w_db w') = (stored (w_db w))((ns, sc, si_Version info) \<mapsto> file_data (w_db w) (GetCanonicalValue F p))"
    have "dash_free (ns, sc, si_Version info)"
      using assms(5) new(1) max_version_nonneg [of "w_db w"] inv by (simp add: dash_free_def latest_def db_inv_def)
    moreover have "latest (w_db w') ns sc = si_Version info" by (rule latest_after_new [OF inv inv' new])
    ultimately show ?thesis using new p coh calm by simp
  qed auto
qed simp

text \<open>
  What is uploaded over gRPC can be downloaded over HTTP: when no statement fails, an upload that
  succeeds either found the version id and changed nothing, or its version is the latest number plus
  one and a \<open>GET\<close> of that number answers 200 with the stored file, the canonical bytes of the
  parsed schema (or those of the file that has its id already).
\<close>

theorem upload_then_download:
  fixes inp ns sc
  defines "ns \<equiv> csr_NamespaceId inp" and "sc \<equiv> csr_SchemaId inp"
  assumes "cache_coherent w" and "calm w" and "CHR ''-'' \<notin> set ns"
    and "API_CreateSchema (pg_API F ords ord cfg J ji jl je) inp w = (w', info, None, job)"
    and "is_int32 (si_Version info)" and "rq_PathParams r ''namespace'' = ns" and "rq_PathParams r ''name'' = sc"
    and "rq_PathParams r ''version'' = show_int (si_Version info)"
  shows "w_db w' = w_db w \<and> (\<exists>v\<in>set (versions (w_db w)). v_version v = si_Version info) \<or>
    si_Version info = latest (w_db w) ns sc + 1 \<and>
    (\<exists>p w'' resp. ParseSchema (NewSchemaProvider F) (format_String (csr_Format inp)) (csr_Data inp) = Inr p \<and>
       handleSchemaResponse (pg_API F ords ord cfg J ji jl je) (API_HTTPGetSchema (pg_API F ords ord cfg J ji jl je)) r w' = (w'', resp) \<and>
       rs_Status resp = 200 \<and> rs_Body resp = file_data (w_db w) (GetCanonicalValue F p))"
proof -
  let ?A = "pg_API F ords ord cfg J ji jl je" and ?v = "si_Version info"
  have free: "CHR ''-'' \<notin> set (csr_NamespaceId inp)" using assms(5) unfolding ns_def .
  from upload_stored [OF assms(3,4) free assms(6), folded ns_def sc_def] show ?thesis
  proof
    assume "?v = latest (w_db w) ns sc + 1 \<and> latest (w_db w') ns sc = ?v \<and> dash_free (ns, sc, ?v) \<and> cache_coherent w' \<and>
      calm w' \<and> (\<exists>p. ParseSchema (NewSchemaProvider F) (format_String (csr_Format inp)) (csr_Data inp) = Inr p \<and>
       stored (w_db w') (ns, sc, ?v) = Some (file_data (w_db w) (GetCanonicalValue F p)))"
    then obtain p where v: "?v = latest (w_db w) ns sc + 1" "dash_free (ns, sc, ?v)" "cache_coherent w'" "calm w'"
      and p: "ParseSchema (NewSchemaProvider F) (format_String (csr_Format inp)) (csr_Data inp) = Inr p"
        "stored (w_db w') (ns, sc, ?v) = Some (file_data (w_db w) (GetCanonicalValue F p))" by blast
    obtain w'' m where "Service_Get (service F ords ord cfg) ns sc ?v w' = (w'', Inr (m, file_data (w_db w) (GetCanonicalValue F p)))"
      using stored_is_served [OF v(3,4,2) p(2)] by blast
    then show ?thesis using v(1) p(1) assms(7-10)
      by (simp add: handleSchemaResponse_def API_HTTPGetSchema_def ParseInt32_def)
  qed blast
qed

definition upload_request :: CreateSchemaRequest where
  "upload_request = unspecified_request\<lparr>csr_Format := 3\<rparr>"

definition download_request :: HttpRequest where
  "download_request = \<lparr>rq_PathParams = (\<lambda>_. [])(''namespace'' := ''a'', ''name'' := ''s'', ''version'' := ''1''),
     rq_Header = (\<lambda>_. []), rq_Query = (\<lambda>_. []), rq_Body = Inr []\<rparr>"

theorem upload_then_download_witness:
  "\<exists>w' w'' resp. w' = fst (API_CreateSchema demo_API upload_request demo_world) \<and>
     handleSchemaResponse demo_API (API_HTTPGetSchema demo_API) download_request w' = (w'', resp) \<and>
     rs_Status resp = 200 \<and> rs_Body resp = ''one''"
proof -
  obtain w' info err job where c: "API_CreateSchema demo_API upload_request demo_world = (w', info, err, job)"
    by (metis prod_cases4)
  have "(case API_CreateSchema demo_API upload_request demo_world of (w', info, err, job) \<Rightarrow> (si_Version info, err)) = (1, None)"
    by code_simp
  then have v: "si_Version info = 1" "err = None" using c by simp_all
  have co: "cache_coherent demo_world" using demo_world_inv by (simp add: cache_coherent_def demo_world_def)
  have ca: "calm demo_world" by (simp add: calm_def demo_world_def quiet_no_fault)
  have r: "csr_NamespaceId upload_request = ''a''" "csr_SchemaId upload_request = ''s''" "csr_Data upload_request = ''one''"
    "csr_Format upload_request = 3"
    by (simp_all add: upload_request_def unspecified_request_def)
  have q: "rq_PathParams download_request ''namespace'' = ''a''" "rq_PathParams download_request ''name'' = ''s''"
    "rq_PathParams download_request ''version'' = show_int 1"
    by (simp_all add: download_request_def) code_simp
  have e: "versions (w_db demo_world) = []" "schema_files (w_db demo_world) = []"
    by (simp_all add: demo_world_def empty_db_def)
  have p: "ParseSchema (NewSchemaProvider demo_format) (format_String 3) ''one'' = Inr (JsonSchema ''one'')"
    by (simp add: ParseSchema_def NewSchemaProvider_def gm_get_def gm_set_def gm_empty_def enum_String_def enum_tables
        json_GetParsedSchema_def demo_format_def)
  have "file_data (w_db demo_world) (GetCanonicalValue demo_format (JsonSchema ''one'')) = ''one''"
    by (simp add: file_data_def e)
  then show ?thesis
    using upload_then_download [OF _ ca _ c [unfolded demo_API_def v(2)], of download_request] co r q e v p c
    by (auto simp: demo_API_def is_int32_def min_int32_def max_int32_def)
qed

section \<open>The search\<close>

lemma in_searchAll:
  "(h \<in> set (searchAllQuery flt req db)) =
    (\<exists>sf v s n. sf \<in> set (schema_files db) \<and> (v_id v, sfr_id sf) \<in> set (versions_schema_files db) \<and>
       v \<in> set (versions db) \<and> s \<in> set (schemas db) \<and> n \<in> set (namespaces db) \<and>
       s_id s = v_schema_id v \<and> s_namespace_id s = ns_ID n \<and>
       matches_or_empty (sr_NamespaceID req) (ns_ID n) \<and> matches_or_empty (sr_SchemaID req) (s_name s) \<and>
       (sr_VersionID req = 0 \<or> v_version v = sr_VersionID req) \<and>
       (flt (sfr_fields sf) \<noteq> [] \<or> flt (sfr_types sf) \<noteq> []) \<and> h = search_hit flt sf v s)"
  (is "_ = ?R")
proof
  show "h \<in> set (searchAllQuery flt req db) \<Longrightarrow> ?R" by (auto simp: searchAllQuery_def split: if_splits) blast+
  show "?R \<Longrightarrow> h \<in> set (searchAllQuery flt req db)" by (force simp: searchAllQuery_def)
qed

lemma in_latest_version:
  "((s, m) \<in> set (latest_version req db)) =
    (\<exists>n. s \<in> set (schemas db) \<and> schema_versions (s_id s) db \<noteq> [] \<and> n \<in> set (namespaces db) \<and>
       s_namespace_id s = ns_ID n \<and> matches_or_empty (sr_NamespaceID req) (ns_ID n) \<and>
       matches_or_empty (sr_SchemaID req) (s_name s) \<and> m = max_version (Some (s_id s)) db)"
  by (auto simp: latest_version_def)

lemma in_searchLatest:
  "(h \<in> set (searchLatestQuery flt req db)) =
    (\<exists>sf v s m. sf \<in> set (schema_files db) \<and> (v_id v, sfr_id sf) \<in> set (versions_schema_files db) \<and>
       v \<in> set (versions db) \<and> (s, m) \<in> set (latest_version req db) \<and> v_schema_id v = s_id s \<and> v_version v = m \<and>
       (flt (sfr_fields sf) \<noteq> [] \<or> flt (sfr_types sf) \<noteq> []) \<and> h = search_hit flt sf v s)"
  (is "_ = ?R")
proof
  show "h \<in> set (searchLatestQuery flt req db) \<Longrightarrow> ?R" by (auto simp: searchLatestQuery_def split: if_splits) blast+
  show "?R \<Longrightarrow> h \<in> set (searchLatestQuery flt req db)" by (force simp: searchLatestQuery_def)
qed

lemma search_hit_sel [simp]:
  "sh_NamespaceID (search_hit flt sf v s) = s_namespace_id s" "sh_SchemaID (search_hit flt sf v s) = s_name s"
  "sh_VersionID (search_hit flt sf v s) = v_version v"
  by (simp_all add: search_hit_def)

text \<open>
  Searching the latest versions finds what searching all versions finds, kept to the hits whose
  version is the latest of their schema; the request's version is not used.
\<close>

theorem latest_hits_exact:
  assumes "db_inv db"
  shows "(h \<in> set (searchLatestQuery flt req db)) =
    (h \<in> set (searchAllQuery flt (req\<lparr>sr_VersionID := 0\<rparr>) db) \<and>
     sh_VersionID h = latest db (sh_NamespaceID h) (sh_SchemaID h))"
proof -
  have m: "max_version (Some (s_id s)) db = latest db (s_namespace_id s) (s_name s)" if "s \<in> set (schemas db)" for s
    using that scalar_schema_id [OF assms, of "s_namespace_id s" "s_name s" "s_id s"] by (auto simp: latest_def)
  have n: "schema_versions (s_id s) db \<noteq> []" if "v \<in> set (versions db)" "s_id s = v_schema_id v" for v s
    using that by (auto simp: schema_versions_def filter_empty_conv)
  show ?thesis
  proof
    assume "h \<in> set (searchLatestQuery flt req db)"
    then show "h \<in> set (searchAllQuery flt (req\<lparr>sr_VersionID := 0\<rparr>) db) \<and> sh_VersionID h = latest db (sh_NamespaceID h) (sh_SchemaID h)"
      unfolding in_searchLatest in_latest_version in_searchAll by (elim exE conjE) (simp add: m, metis)
  next
    assume "h \<in> set (searchAllQuery flt (req\<lparr>sr_VersionID := 0\<rparr>) db) \<and> sh_VersionID h = latest db (sh_NamespaceID h) (sh_SchemaID h)"
    then obtain sf v s ns where h: "sf \<in> set (schema_files db)" "(v_id v, sfr_id sf) \<in> set (versions_schema_files db)"
      "v \<in> set (versions db)" "s \<in> set (schemas db)" "ns \<in> set (namespaces db)" "s_id s = v_schema_id v"
      "s_namespace_id s = ns_ID ns" "matches_or_empty (sr_NamespaceID req) (ns_ID ns)" "matches_or_empty (sr_SchemaID req) (s_name s)"
      "flt (sfr_fields sf) \<noteq> [] \<or> flt (sfr_types sf) \<noteq> []" "h = search_hit flt sf v s"
      "sh_VersionID h = latest db (sh_NamespaceID h) (sh_SchemaID h)"
      unfolding in_searchAll by auto
    then have "(s, v_version v) \<in> set (latest_version req db)"
      unfolding in_latest_version using n [OF h(3,6)] m [OF h(4)] by auto
    with h show "h \<in> set (searchLatestQuery flt req db)" unfolding in_searchLatest by metis
  qed
qed

text \<open>Two versions of a schema with one field each.\<close>

definition search_db :: db where
  "search_db = fst (SchemaRepository_Create quiet (demo_update ''s'' ''e'') ''v2'' ''c''
     (fst (SchemaRepository_Create quiet (demo_update ''s'' ''d'') ''v1'' ''c'' demo_db)))"

lemma search_db_inv: "db_inv search_db"
  unfolding search_db_def
  by (metis SchemaRepository_Create_inv demo_db_inv prod.collapse)

definition search_all :: SearchRequest where
  "search_all = \<lparr>sr_NamespaceID = [], sr_SchemaID = [], sr_Query = ''f'', sr_History = False, sr_VersionID = 0\<rparr>"

definition demo_hit :: "int \<Rightarrow> SearchHits" where
  "demo_hit v = \<lparr>sh_Fields = [''m.f''], sh_Types = [''m.f''], sh_Path = [], sh_NamespaceID = ''n'', sh_SchemaID = ''s'', sh_VersionID = v\<rparr>"

theorem latest_hits_exact_witness:
  "demo_hit 2 \<in> set (searchLatestQuery (\<lambda>_. [''m.f'']) search_all search_db) \<and>
   demo_hit 1 \<notin> set (searchLatestQuery (\<lambda>_. [''m.f'']) search_all search_db)"
proof -
  have "latest search_db ''n'' ''s'' = 2" by code_simp
  moreover have "list_ex (\<lambda>h. h = demo_hit 2) (searchAllQuery (\<lambda>_. [''m.f'']) (search_all\<lparr>sr_VersionID := 0\<rparr>) search_db)" by code_simp
  then have "demo_hit 2 \<in> set (searchAllQuery (\<lambda>_. [''m.f'']) (search_all\<lparr>sr_VersionID := 0\<rparr>) search_db)"
    by (auto simp: list_ex_iff)
  moreover have "sh_NamespaceID (demo_hit v) = ''n''" "sh_SchemaID (demo_hit v) = ''s''" "sh_VersionID (demo_hit v) = v" for v
    by (simp_all add: demo_hit_def)
  ultimately show ?thesis by (simp add: latest_hits_exact [OF search_db_inv])
qed

end
