(* ===== verification/Validator.thy ===== *)
theory Validator
  imports Go_IO
begin

text \<open>
  The check of required fields in front of every gRPC handler, \<open>pkg/validator/validator.go\<close>. A
  message is the list of its descriptor's fields with their values, as reflection gives them;
  \<open>proto.Size\<close> is a parameter. Reading a value as something it is not panics: the result None.
\<close>

section \<open>Messages by reflection\<close>

datatype field_kind = BytesField | StringField | EnumField | MessageField | OtherField

record field_info =
  fi_Kind :: field_kind
  fi_JSONName :: string
  fi_Behavior :: "int list"
  fi_EnumNumbers :: "int list"

datatype pmessage = PMessage "(field_info \<times> pvalue) list"
  and pvalue = PBytes bytes | PString string | PEnum int | PMsg pmessage | PList "pvalue list" | PScalar

definition FieldBehavior_REQUIRED :: int where "FieldBehavior_REQUIRED = 2"

section \<open>The code\<close>

definition checkIfFieldRequired :: "field_info \<Rightarrow> bool" where
  "checkIfFieldRequired f = list_ex (\<lambda>b. b = FieldBehavior_REQUIRED) (fi_Behavior f)"

text \<open>\<open>Value.String\<close> formats any value; only of a string is it possibly empty.\<close>

definition checkValueExists :: "field_info \<Rightarrow> pvalue \<Rightarrow> bool option" where
  "checkValueExists fd v =
     (case fi_Kind fd of
        BytesField \<Rightarrow> (case v of PBytes d \<Rightarrow> Some (length d > 0) | _ \<Rightarrow> None)
      | StringField \<Rightarrow> (case v of PString d \<Rightarrow> Some (length d > 0) | _ \<Rightarrow> Some True)
      | EnumField \<Rightarrow> (case v of PEnum d \<Rightarrow> Some (d \<in> set (fi_EnumNumbers fd)) | _ \<Rightarrow> None)
      | _ \<Rightarrow> Some True)"

definition addPrefix :: "string \<Rightarrow> string list \<Rightarrow> string list" where
  "addPrefix pre fieldNames = map (\<lambda>field. pre @ ''.'' @ field) fieldNames"

definition own_missing :: "field_info \<Rightarrow> pvalue \<Rightarrow> string list option" where
  "own_missing fd v =
     (if checkIfFieldRequired fd
      then (case checkValueExists fd v of None \<Rightarrow> None
            | Some b \<Rightarrow> Some (if b then [] else [fi_JSONName fd]))
      else Some [])"

fun validateMessage :: "(pmessage \<Rightarrow> nat) \<Rightarrow> pmessage \<Rightarrow> string list option"
  and validateFields :: "(pmessage \<Rightarrow> nat) \<Rightarrow> (field_info \<times> pvalue) list \<Rightarrow> string list option"
  and validateNested :: "(pmessage \<Rightarrow> nat) \<Rightarrow> field_info \<Rightarrow> pvalue \<Rightarrow> string list option" where
  "validateMessage protoSize (PMessage fds) = validateFields protoSize fds"
| "validateFields protoSize [] = Some []"
| "validateFields protoSize ((fd, v) # fds) =
     (case validateNested protoSize fd v of None \<Rightarrow> None
      | Some nested \<Rightarrow>
          (case own_missing fd v of None \<Rightarrow> None
           | Some own \<Rightarrow>
               (case validateFields protoSize fds of None \<Rightarrow> None
                | Some others \<Rightarrow> Some (nested @ own @ others))))"
| "validateNested protoSize fd (PMsg m) =
     (if fi_Kind fd = MessageField \<and> protoSize m \<noteq> 0
      then map_option (addPrefix (fi_JSONName fd)) (validateMessage protoSize m)
      else Some [])"
| "validateNested protoSize fd v = (if fi_Kind fd = MessageField then None else Some [])"

text \<open>A request that is no message is let through; None is again the panic.\<close>

definition validate :: "(pmessage \<Rightarrow> nat) \<Rightarrow> pmessage option \<Rightarrow> go_error option option" where
  "validate protoSize req =
     (case req of
        None \<Rightarrow> Some None
      | Some msg \<Rightarrow>
          (case validateMessage protoSize msg of
             None \<Rightarrow> None
           | Some missingFields \<Rightarrow> Some
               (if length missingFields = 0 then None
                else Some (StatusErr Code_InvalidArgument (''following fields are missing: '' @ join missingFields '', '')))))"

definition UnaryServerInterceptor ::
  "(pmessage \<Rightarrow> nat) \<Rightarrow> pmessage option \<Rightarrow> ('s, 'a) io \<Rightarrow> 's \<Rightarrow> ('s \<times> 'a res) option" where
  "UnaryServerInterceptor protoSize req handler s =
     (case validate protoSize req of
        None \<Rightarrow> None
      | Some (Some validErr) \<Rightarrow> Some (s, Inl validErr)
      | Some None \<Rightarrow> Some (handler s))"

section \<open>What is missing\<close>

text \<open>The path of a required field without a value, through messages that are not empty.\<close>

inductive missing :: "(pmessage \<Rightarrow> nat) \<Rightarrow> pmessage \<Rightarrow> string \<Rightarrow> bool" for protoSize where
  own: "(fd, v) \<in> set fds \<Longrightarrow> checkIfFieldRequired fd \<Longrightarrow> checkValueExists fd v = Some False \<Longrightarrow>
     missing protoSize (PMessage fds) (fi_JSONName fd)"
| nested: "(fd, PMsg m) \<in> set fds \<Longrightarrow> fi_Kind fd = MessageField \<Longrightarrow> protoSize m \<noteq> 0 \<Longrightarrow> missing protoSize m p \<Longrightarrow>
     missing protoSize (PMessage fds) (fi_JSONName fd @ ''.'' @ p)"

inductive_simps missing_PMessage: "missing protoSize (PMessage fds) p"

text \<open>The values that a singular field of each kind holds.\<close>

definition value_fits :: "field_info \<Rightarrow> pvalue \<Rightarrow> bool" where
  "value_fits fd v =
     (case fi_Kind fd of
        BytesField \<Rightarrow> (\<exists>d. v = PBytes d) | StringField \<Rightarrow> (\<exists>d. v = PString d) | EnumField \<Rightarrow> (\<exists>d. v = PEnum d)
      | MessageField \<Rightarrow> (\<exists>m. v = PMsg m) | OtherField \<Rightarrow> (\<forall>m. v \<noteq> PMsg m))"

inductive singular :: "pmessage \<Rightarrow> bool" where
  "(\<And>fd v. (fd, v) \<in> set fds \<Longrightarrow> value_fits fd v) \<Longrightarrow> (\<And>fd m. (fd, PMsg m) \<in> set fds \<Longrightarrow> singular m) \<Longrightarrow>
     singular (PMessage fds)"

inductive_cases singularE: "singular (PMessage fds)"

lemma own_missing_iff: "own_missing fd v = Some own \<Longrightarrow>
    p \<in> set own \<longleftrightarrow> checkIfFieldRequired fd \<and> checkValueExists fd v = Some False \<and> p = fi_JSONName fd"
  by (auto simp: own_missing_def split: if_splits option.splits)

definition missing_in :: "(pmessage \<Rightarrow> nat) \<Rightarrow> field_info \<Rightarrow> pvalue \<Rightarrow> string \<Rightarrow> bool" where
  "missing_in protoSize fd v p \<longleftrightarrow> (\<exists>m q. v = PMsg m \<and> fi_Kind fd = MessageField \<and> protoSize m \<noteq> 0 \<and>
     missing protoSize m q \<and> p = fi_JSONName fd @ ''.'' @ q)"

lemma missing_mono:
  assumes "missing protoSize (PMessage fds) p" "set fds \<subseteq> set fds'"
  shows "missing protoSize (PMessage fds') p"
  using assms(1)
proof (cases rule: missing.cases)
  case (own fd v)
  then show ?thesis using assms(2) missing.own [of fd v fds'] by auto
next
  case (nested fd m q)
  then show ?thesis using assms(2) missing.nested [of fd m fds' protoSize q] by auto
qed

lemma missing_Cons_cases:
  assumes "missing protoSize (PMessage ((fd, v) # fds)) p"
  shows "missing_in protoSize fd v p \<or>
    (checkIfFieldRequired fd \<and> checkValueExists fd v = Some False \<and> p = fi_JSONName fd) \<or>
    missing protoSize (PMessage fds) p"
  using assms
proof (cases rule: missing.cases)
  case (own fd' v')
  then show ?thesis using missing.own [of fd' v' fds protoSize] by auto
next
  case (nested fd' m q)
  show ?thesis
  proof (cases "(fd', PMsg m) = (fd, v)")
    case True
    then show ?thesis using nested unfolding missing_in_def by blast
  next
    case False
    then have "(fd', PMsg m) \<in> set fds" using nested(2) by auto
    then have "missing protoSize (PMessage fds) p" unfolding nested(1) by (rule missing.nested) (fact nested)+
    then show ?thesis by blast
  qed
qed

lemma missing_Cons: "missing protoSize (PMessage ((fd, v) # fds)) p \<longleftrightarrow>
    missing_in protoSize fd v p \<or>
    (checkIfFieldRequired fd \<and> checkValueExists fd v = Some False \<and> p = fi_JSONName fd) \<or>
    missing protoSize (PMessage fds) p" (is "?l \<longleftrightarrow> ?n \<or> ?o \<or> ?r")
proof (intro iffI)
  assume "?n \<or> ?o \<or> ?r"
  then consider ?n | ?o | ?r by blast
  then show ?l
  proof cases
    case 1
    then obtain m q where m: "v = PMsg m" "fi_Kind fd = MessageField" "protoSize m \<noteq> 0" "missing protoSize m q"
      "p = fi_JSONName fd @ ''.'' @ q" unfolding missing_in_def by blast
    show ?thesis unfolding m(5) by (rule missing.nested [OF _ m(2-4)]) (simp add: m(1))
  next
    case 2
    then show ?thesis using missing.own [of fd v "(fd, v) # fds" protoSize] by simp
  next
    case 3
    then show ?thesis by (rule missing_mono) auto
  qed
qed (rule missing_Cons_cases)

lemma validate_exact:
  "validateMessage protoSize m = Some ps \<Longrightarrow> p \<in> set ps \<longleftrightarrow> missing protoSize m p"
  "validateFields protoSize fds = Some ps \<Longrightarrow> p \<in> set ps \<longleftrightarrow> missing protoSize (PMessage fds) p"
  "validateNested protoSize fd v = Some ps \<Longrightarrow> p \<in> set ps \<longleftrightarrow> missing_in protoSize fd v p"
proof (induction protoSize m and protoSize fds and protoSize fd v arbitrary: ps p and ps p and ps p
    rule: validateMessage_validateFields_validateNested.induct)
  case (3 protoSize fd v fds)
  then obtain nested own others where r: "validateNested protoSize fd v = Some nested" "own_missing fd v = Some own"
    "validateFields protoSize fds = Some others" "ps = nested @ own @ others"
    by (auto split: option.splits)
  have "p \<in> set ps \<longleftrightarrow> missing_in protoSize fd v p \<or> p \<in> set own \<or> missing protoSize (PMessage fds) p"
    using 3(1) [OF r(1)] 3(2) [OF r(1,2,3)] r(4) by simp
  then show ?case using own_missing_iff [OF r(2)] unfolding missing_Cons by blast
next
  case (4 protoSize fd m)
  show ?case
  proof (cases "fi_Kind fd = MessageField \<and> protoSize m \<noteq> 0")
    case True
    then obtain qs where qs: "validateMessage protoSize m = Some qs" "ps = addPrefix (fi_JSONName fd) qs" using 4(2) by auto
    show ?thesis using 4(1) [OF True qs(1)] qs(2) True by (auto simp: addPrefix_def missing_in_def)
  next
    case False
    then show ?thesis using 4(2) by (auto simp: missing_in_def)
  qed
next
  case (2 protoSize)
  then show ?case by (simp add: missing_PMessage)
next
  case (1 protoSize fds)
  then show ?case by simp
qed (auto simp: missing_in_def split: if_splits)

lemma validate_total:
  "singular m \<Longrightarrow> validateMessage protoSize m \<noteq> None"
  "(\<And>fd v. (fd, v) \<in> set fds \<Longrightarrow> value_fits fd v) \<Longrightarrow> (\<And>fd m. (fd, PMsg m) \<in> set fds \<Longrightarrow> singular m) \<Longrightarrow>
     validateFields protoSize fds \<noteq> None"
  "value_fits fd v \<Longrightarrow> (\<And>m. v = PMsg m \<Longrightarrow> singular m) \<Longrightarrow> validateNested protoSize fd v \<noteq> None"
proof (induction protoSize m and protoSize fds and protoSize fd v rule: validateMessage_validateFields_validateNested.induct)
  case (1 protoSize fds)
  from 1(2) show ?case by (rule singularE) (use 1(1) in simp)
next
  case (3 protoSize fd v fds)
  have fits: "value_fits fd v" using 3(3) by simp
  then have "own_missing fd v \<noteq> None"
    by (auto simp: own_missing_def checkValueExists_def value_fits_def split: field_kind.splits)
  then obtain own where own: "own_missing fd v = Some own" by blast
  have "validateNested protoSize fd v \<noteq> None" by (rule 3(1) [OF fits]) (use 3(4) in auto)
  then obtain nested where nested: "validateNested protoSize fd v = Some nested" by blast
  have "validateFields protoSize fds \<noteq> None" by (rule 3(2) [OF nested own]) (use 3(3,4) in auto)
  then show ?case using own nested by auto
qed (auto simp: value_fits_def)

text \<open>
  C24. For a request whose message fields are all singular the interceptor never panics: the handler
  runs exactly when no required field lacks its value, and otherwise the answer is
  \<open>InvalidArgument\<close> with the paths of exactly the missing fields, the state unchanged.
\<close>

theorem interceptor_exact:
  assumes "singular m"
  shows "\<exists>ps. set ps = {p. missing protoSize m p} \<and>
    UnaryServerInterceptor protoSize (Some m) handler s =
      Some (if ps = [] then handler s
            else (s, Inl (StatusErr Code_InvalidArgument (''following fields are missing: '' @ join ps '', ''))))"
proof -
  obtain ps where ps: "validateMessage protoSize m = Some ps" using validate_total(1) [OF assms] by blast
  then have "set ps = {p. missing protoSize m p}" using validate_exact(1) [OF ps] by blast
  then show ?thesis using ps by (auto simp: UnaryServerInterceptor_def validate_def)
qed

definition demo_info :: "field_kind \<Rightarrow> string \<Rightarrow> field_info" where
  "demo_info k n = \<lparr>fi_Kind = k, fi_JSONName = n, fi_Behavior = [2], fi_EnumNumbers = [0, 1]\<rparr>"

definition demo_msg :: pmessage where
  "demo_msg = PMessage [(demo_info StringField ''id'', PString ''x''),
     (demo_info MessageField ''inner'', PMsg (PMessage [(demo_info BytesField ''data'', PBytes [])]))]"

theorem interceptor_exact_witness:
  "\<exists>ps. set ps = {p. missing (\<lambda>_. 1) demo_msg p} \<and>
     UnaryServerInterceptor (\<lambda>_. 1) (Some demo_msg) (\<lambda>s. (s, Inr ())) (0 :: nat) =
       Some (if ps = [] then (0, Inr ())
             else (0, Inl (StatusErr Code_InvalidArgument (''following fields are missing: '' @ join ps '', ''))))"
  by (rule interceptor_exact) (auto simp: demo_msg_def demo_info_def value_fits_def intro!: singular.intros)

end
