(* ===== verification/Client_Store.thy ===== *)
theory Client_Store
  imports Go_IO Go_Fmt
begin

text \<open>
  The Go client, first part: loading a schema over HTTP (\<open>clients/go/downloader.go\<close>,
  \<open>logger.go\<close>, \<open>refresh_strategy.go\<close>) and the store that keeps it and refreshes it in the
  background (\<open>store.go\<close>). The network answers as it likes; decoding the list of versions and
  building a resolver are fields of the record \<open>loader_lib\<close>.
\<close>

section \<open>The network and the logger\<close>

record http_request =
  hr_uri :: string
  hr_Headers :: "(string \<times> string) list"
  hr_Timeout :: int

datatype http_answer = Do_failed go_error | Answer int bytes "go_error option"

datatype log_level = Level_Info | Level_Error

record net =
  net_answer :: "nat \<Rightarrow> http_request \<Rightarrow> http_answer"
  net_sent :: "http_request list"
  net_log :: "(log_level \<times> string) list"

datatype RefreshStrategy = LongPollingRefresh | VersionBasedRefresh

record Options =
  o_AutoRefresh :: bool
  o_RefreshInterval :: int
  o_Timeout :: int
  o_Headers :: "(string \<times> string) list"
  o_RefreshStrategy :: RefreshStrategy
  o_Logger :: bool

record 'r loader_lib =
  ll_NewRequest :: "string \<Rightarrow> go_error option"
  ll_versions :: "bytes \<Rightarrow> go_int list res"
  ll_NewResolver :: "bytes \<Rightarrow> 'r res"

definition write_log :: "log_level \<Rightarrow> string \<Rightarrow> net \<Rightarrow> net" where
  "write_log level msg n = n\<lparr>net_log := net_log n @ [(level, msg)]\<rparr>"

text \<open>The two methods of \<open>wrappedLogger\<close>; both hand the message to \<open>Info\<close> of the logger.\<close>

definition logger_Info :: "Options \<Rightarrow> string \<Rightarrow> net \<Rightarrow> net" where
  "logger_Info opts msg n = (if o_Logger opts then write_log Level_Info msg n else n)"

definition logger_Error :: "Options \<Rightarrow> string \<Rightarrow> net \<Rightarrow> net" where
  "logger_Error opts msg n = (if o_Logger opts then write_log Level_Info msg n else n)"

section \<open>Downloading\<close>

text \<open>A nil error under the verb \<open>w\<close> prints as a bad verb and wraps nothing.\<close>

definition read_error_suffix :: "bytes \<Rightarrow> go_error option \<Rightarrow> go_error" where
  "read_error_suffix body err =
     (case err of
        None \<Rightarrow> ErrString (''request failed. response body: '' @ body @ '', response_read_error: '' @ pct # ''!w(<nil>)'')
      | Some e \<Rightarrow> ErrWrap (''request failed. response body: '' @ body @ '', response_read_error: '' @ error_text e) e)"

definition downloader :: "'r loader_lib \<Rightarrow> string \<Rightarrow> Options \<Rightarrow> (net, bytes) io" where
  "downloader L uri opts n =
     (case ll_NewRequest L uri of
        Some err \<Rightarrow> (n, Inl (ErrWrap (''invalid request. '' @ error_text err) err))
      | None \<Rightarrow>
          (let req = \<lparr>hr_uri = uri, hr_Headers = o_Headers opts, hr_Timeout = o_Timeout opts\<rparr>;
               n' = n\<lparr>net_sent := net_sent n @ [req]\<rparr>
           in case net_answer n (length (net_sent n)) req of
                Do_failed err \<Rightarrow> (n', Inl (ErrWrap (''request failed. '' @ error_text err) err))
              | Answer status body err \<Rightarrow>
                  (if status = 200 then (n', (case err of None \<Rightarrow> Inr body | Some e \<Rightarrow> Inl e))
                   else (n', Inl (read_error_suffix body err)))))"

definition loadFromURL :: "'r loader_lib \<Rightarrow> string \<Rightarrow> Options \<Rightarrow> (net, 'r) io" where
  "loadFromURL L url opts n =
     (case downloader L url opts (logger_Info opts (''fetching schema from '' @ url) n) of
        (n', Inl err) \<Rightarrow> (logger_Error opts (''failed to fetch schema from '' @ url) n', Inl err)
      | (n', Inr data) \<Rightarrow>
          (logger_Info opts (''successfully fetched schema from '' @ url) n', ll_NewResolver L data))"

section \<open>Refresh strategies\<close>

text \<open>
  A loader is a closure: the state of the world together with the variable \<open>lastVersion\<close> that the
  version-based loader captures.
\<close>

definition on_net :: "(net, 'a) io \<Rightarrow> (net \<times> go_int, 'a) io" where
  "on_net m = (\<lambda>(n, lastVersion). case m n of (n', r) \<Rightarrow> ((n', lastVersion), r))"

definition longPollingRefresh :: "'r loader_lib \<Rightarrow> Options \<Rightarrow> string \<Rightarrow> (net \<times> go_int, 'r) io" where
  "longPollingRefresh L opts url = on_net (loadFromURL L url opts)"

definition getMaxVersion :: "go_int list \<Rightarrow> go_int" where
  "getMaxVersion array = foldl (\<lambda>max value. if max < value then value else max) (hd array) array"

definition TrimRight_slash :: "string \<Rightarrow> string" where
  "TrimRight_slash s = rev (dropWhile (\<lambda>c. c = CHR ''/'') (rev s))"

definition versions_url :: "string \<Rightarrow> string" where
  "versions_url url = TrimRight_slash url @ ''/versions''"

text \<open>The loader up to the comparison with \<open>lastVersion\<close>, and from there on.\<close>

definition newer_version :: "'r loader_lib \<Rightarrow> Options \<Rightarrow> string \<Rightarrow> (net \<times> go_int, go_int) io" where
  "newer_version L opts url = (\<lambda>(n, lastVersion).
     (case downloader L (versions_url url) opts n of
        (n', Inl err) \<Rightarrow>
          ((logger_Error opts (''unable to download versions info, '' @ error_text err) n', lastVersion), Inl err)
      | (n', Inr data) \<Rightarrow>
          (case ll_versions L data of
             Inl err \<Rightarrow> ((n', lastVersion), Inl err)
           | Inr versions \<Rightarrow>
               (if versions = []
                then ((logger_Error opts ''no versions available for this schema'' n', lastVersion),
                      Inl (ErrString ''no versions available''))
                else if getMaxVersion versions > lastVersion then ((n', lastVersion), Inr (getMaxVersion versions))
                else ((n', lastVersion), Inl (ErrString ''schema already upto date''))))))"

definition load_version :: "'r loader_lib \<Rightarrow> Options \<Rightarrow> string \<Rightarrow> go_int \<Rightarrow> (net \<times> go_int, 'r) io" where
  "load_version L opts url maxVersion = (\<lambda>(n, lastVersion).
     (case loadFromURL L (versions_url url @ ''/'' @ show_int maxVersion) opts n of
        (n', Inl err) \<Rightarrow> ((n', lastVersion), Inl err)
      | (n', Inr data) \<Rightarrow> ((n', maxVersion), Inr data)))"

definition versionBasedRefresh :: "'r loader_lib \<Rightarrow> Options \<Rightarrow> string \<Rightarrow> (net \<times> go_int, 'r) io" where
  "versionBasedRefresh L opts url = bind_io (newer_version L opts url) (load_version L opts url)"

definition getLoader :: "'r loader_lib \<Rightarrow> Options \<Rightarrow> string \<Rightarrow> (net \<times> go_int, 'r) io" where
  "getLoader L opts =
     (case o_RefreshStrategy opts of
        VersionBasedRefresh \<Rightarrow> versionBasedRefresh L opts
      | LongPollingRefresh \<Rightarrow> longPollingRefresh L opts)"

lemmas loader_defs = downloader_def loadFromURL_def on_net_def longPollingRefresh_def newer_version_def
  load_version_def versionBasedRefresh_def getLoader_def bind_io_def

section \<open>The store\<close>

record 'r store =
  st_autoRefresh :: bool
  st_timer :: bool
  st_access_closed :: bool
  st_lastVersion :: go_int
  st_url :: string
  st_data :: "'r option"

definition run_loader :: "'r loader_lib \<Rightarrow> Options \<Rightarrow> net \<Rightarrow> ('r, 'm) store_scheme \<Rightarrow> net \<times> ('r, 'm) store_scheme \<times> 'r res" where
  "run_loader L opts n s =
     (case getLoader L opts (st_url s) (n, st_lastVersion s) of ((n', v), r) \<Rightarrow> (n', s\<lparr>st_lastVersion := v\<rparr>, r))"

definition store_refresh :: "'r loader_lib \<Rightarrow> Options \<Rightarrow> net \<Rightarrow> ('r, 'm) store_scheme \<Rightarrow> net \<times> ('r, 'm) store_scheme" where
  "store_refresh L opts n s =
     (case run_loader L opts n s of
        (n', s', Inr val) \<Rightarrow> (n', s'\<lparr>st_data := Some val\<rparr>)
      | (n', s', Inl err) \<Rightarrow> (n', s'))"

definition newStore :: "'r loader_lib \<Rightarrow> string \<Rightarrow> Options \<Rightarrow> net \<Rightarrow> net \<times> 'r store \<times> go_error option" where
  "newStore L url opts n =
     (let s = \<lparr>st_autoRefresh = o_AutoRefresh opts, st_timer = False, st_access_closed = False,
               st_lastVersion = 0, st_url = url, st_data = None\<rparr>
      in case run_loader L opts n s of
           (n', s', Inl err) \<Rightarrow> (n', s', Some err)
         | (n', s', Inr val) \<Rightarrow>
             (n', s'\<lparr>st_data := Some val, st_timer := o_AutoRefresh opts\<rparr>, None))"

section \<open>The background worker\<close>

text \<open>
  \<open>setInterval\<close> starts a goroutine that waits for a tick or for the end, after a tick for a reader,
  and then refreshes. \<open>Close\<close> closes the channel of the readers, stops the ticker and sends on
  \<open>done\<close>, which the goroutine receives when it selects. The ticker's channel holds one tick. A reader
  sends without blocking; a send on a closed channel and a second \<open>close\<close> panic.
\<close>

datatype worker_pc = Selecting | Waiting_for_reader | Refreshing | Returned

datatype close_pc = Not_closing | Access_closed | Ticker_stopped | Close_returned

record 'r running = "'r store" +
  rn_worker :: worker_pc
  rn_tick :: bool
  rn_close :: close_pc
  rn_net :: net
  rn_panicked :: bool

definition start_running :: "net \<Rightarrow> 'r store \<Rightarrow> 'r running" where
  "start_running n s = store.extend s
     \<lparr>rn_worker = (if st_timer s then Selecting else Returned), rn_tick = False, rn_close = Not_closing,
      rn_net = n, rn_panicked = False\<rparr>"

definition notify :: "'r running \<Rightarrow> 'r running" where
  "notify s =
     (if st_access_closed s then s\<lparr>rn_panicked := True\<rparr>
      else if rn_worker s = Waiting_for_reader then s\<lparr>rn_worker := Refreshing\<rparr>
      else s)"

definition getResolver :: "'r running \<Rightarrow> 'r running \<times> 'r option" where
  "getResolver s = (let s' = notify s in (s', st_data s'))"

definition run_refresh :: "'r loader_lib \<Rightarrow> Options \<Rightarrow> 'r running \<Rightarrow> 'r running" where
  "run_refresh L opts s = (case store_refresh L opts (rn_net s) s of (n', s') \<Rightarrow> s'\<lparr>rn_net := n'\<rparr>)"

text \<open>\<open>Close\<close> in its three steps; without a timer the first one is the last.\<close>

definition close_access :: "'r running \<Rightarrow> 'r running" where
  "close_access s =
     (if st_access_closed s then s\<lparr>rn_panicked := True\<rparr>
      else s\<lparr>st_access_closed := True, rn_close := (if st_timer s then Access_closed else Close_returned)\<rparr>)"

definition ticker_Stop :: "'r running \<Rightarrow> 'r running" where
  "ticker_Stop s = s\<lparr>rn_close := Ticker_stopped\<rparr>"

definition send_done :: "'r running \<Rightarrow> 'r running" where
  "send_done s = s\<lparr>rn_worker := Returned, rn_close := Close_returned\<rparr>"

text \<open>The steps of the worker and of \<open>Close\<close>, and those of the clock and of the client's callers.\<close>

inductive own_step :: "'r loader_lib \<Rightarrow> Options \<Rightarrow> 'r running \<Rightarrow> 'r running \<Rightarrow> bool" for L opts where
  take_tick: "rn_worker s = Selecting \<Longrightarrow> rn_tick s \<Longrightarrow>
     own_step L opts s (s\<lparr>rn_tick := False, rn_worker := Waiting_for_reader\<rparr>)"
| no_reader: "rn_worker s = Waiting_for_reader \<Longrightarrow> st_access_closed s \<Longrightarrow> own_step L opts s (s\<lparr>rn_worker := Selecting\<rparr>)"
| refreshed: "rn_worker s = Refreshing \<Longrightarrow> own_step L opts s ((run_refresh L opts s)\<lparr>rn_worker := Selecting\<rparr>)"
| stop: "rn_close s = Access_closed \<Longrightarrow> own_step L opts s (ticker_Stop s)"
| finish: "rn_close s = Ticker_stopped \<Longrightarrow> rn_worker s = Selecting \<Longrightarrow> own_step L opts s (send_done s)"

inductive outer_step :: "'r loader_lib \<Rightarrow> Options \<Rightarrow> 'r running \<Rightarrow> 'r running \<Rightarrow> bool" for L opts where
  tick: "rn_close s \<in> {Not_closing, Access_closed} \<Longrightarrow> st_timer s \<Longrightarrow> outer_step L opts s (s\<lparr>rn_tick := True\<rparr>)"
| read: "outer_step L opts s (fst (getResolver s))"
| Refresh: "outer_step L opts s (run_refresh L opts s)"
| Close: "outer_step L opts s (close_access s)"

definition any_step :: "'r loader_lib \<Rightarrow> Options \<Rightarrow> 'r running \<Rightarrow> 'r running \<Rightarrow> bool" where
  "any_step L opts s s' \<longleftrightarrow> \<not> rn_panicked s \<and> (own_step L opts s s' \<or> outer_step L opts s s')"

inductive_cases own_stepE: "own_step L opts s s'"
inductive_cases outer_stepE: "outer_step L opts s s'"

inductive reachable :: "'r loader_lib \<Rightarrow> string \<Rightarrow> Options \<Rightarrow> 'r running \<Rightarrow> bool" for L url opts where
  loaded: "newStore L url opts n = (n', s, None) \<Longrightarrow> reachable L url opts (start_running n' s)"
| move: "reachable L url opts s \<Longrightarrow> any_step L opts s s' \<Longrightarrow> reachable L url opts s'"

end
