(* ===== verification/Client_Resolver.thy ===== *)
theory Client_Resolver
  imports Go_Errors
begin

text \<open>
  The Go client, second part: the resolver of message types (\<open>clients/go/resolver.go\<close>) and the Java
  class names it is asked for (\<open>protoutils.go\<close>). A descriptor is what the client reads of it; the
  registry of types and the decoding of a descriptor set belong to the protobuf library and are
  parameters.
\<close>

section \<open>Descriptors and the library\<close>

datatype msg_desc = MsgDesc (md_FullName: string) (md_Extensions: "string list") (md_Enums: "string list")
  (md_Messages: "msg_desc list")

record file_desc =
  fd_Path :: string
  fd_Package :: string
  fd_JavaPackage :: "string option"
  fd_Extensions :: "string list"
  fd_Enums :: "string list"
  fd_Messages :: "msg_desc list"

text \<open>An extension or an enum is known by its full name; registration errors are ignored by the client.\<close>

record ('t, 'b) types_api =
  ta_empty :: 't
  ta_RegisterExtension :: "string \<Rightarrow> 't \<Rightarrow> 't"
  ta_RegisterEnum :: "string \<Rightarrow> 't \<Rightarrow> 't"
  ta_RegisterMessage :: "msg_desc \<Rightarrow> 't \<Rightarrow> 't"
  ta_FindMessageByName :: "'t \<Rightarrow> string \<Rightarrow> msg_desc res"
  ta_Unmarshal :: "bytes \<Rightarrow> 'b res"
  ta_NewFiles :: "'b \<Rightarrow> file_desc list res"

section \<open>Java class names\<close>

definition getJavaPackage :: "file_desc \<Rightarrow> string" where
  "getJavaPackage file = (case fd_JavaPackage file of Some p \<Rightarrow> p | None \<Rightarrow> [])"

text \<open>\<open>strings.Replace(s, old, new, 1)\<close>.\<close>

fun replace_first :: "string \<Rightarrow> string \<Rightarrow> string \<Rightarrow> string" where
  "replace_first s old new =
     (if has_prefix s old then new @ drop (length old) s
      else case s of [] \<Rightarrow> [] | c # cs \<Rightarrow> c # replace_first cs old new)"

declare replace_first.simps [simp del]

definition defaultKeyFn :: "file_desc \<Rightarrow> msg_desc \<Rightarrow> string" where
  "defaultKeyFn file msg =
     (let fullName = md_FullName msg; protoPackage = fd_Package file; pkg = getJavaPackage file
      in if pkg = [] then fullName
         else if protoPackage = [] then pkg @ ''.'' @ fullName
         else replace_first fullName protoPackage pkg)"

definition getFilesRegistry :: "('t, 'b) types_api \<Rightarrow> bytes \<Rightarrow> file_desc list res" where
  "getFilesRegistry A data =
     (case ta_Unmarshal A data of
        Inl err \<Rightarrow> Inl (ErrWrap (''invalid file descriptorset file. '' @ error_text err) err)
      | Inr msg \<Rightarrow> ta_NewFiles A msg)"

section \<open>The resolver\<close>

record 't Resolver =
  rv_types :: 't
  rv_javaToProtoName :: "string \<Rightarrow> string option"

definition Resolver_Get :: "('t, 'b) types_api \<Rightarrow> 't Resolver \<Rightarrow> string \<Rightarrow> msg_desc option" where
  "Resolver_Get A r className =
     (let fullName = (case rv_javaToProtoName r className of Some n \<Rightarrow> n | None \<Rightarrow> className)
      in case ta_FindMessageByName A (rv_types r) fullName of Inl err \<Rightarrow> None | Inr msg \<Rightarrow> Some msg)"

definition GetTypeResolver :: "'t Resolver \<Rightarrow> 't" where "GetTypeResolver r = rv_types r"

definition addExtensions :: "('t, 'b) types_api \<Rightarrow> string list \<Rightarrow> 't Resolver \<Rightarrow> 't Resolver" where
  "addExtensions A exts r = foldl (\<lambda>r ext. r\<lparr>rv_types := ta_RegisterExtension A ext (rv_types r)\<rparr>) r exts"

definition addEnums :: "('t, 'b) types_api \<Rightarrow> string list \<Rightarrow> 't Resolver \<Rightarrow> 't Resolver" where
  "addEnums A enums r = foldl (\<lambda>r enum. r\<lparr>rv_types := ta_RegisterEnum A enum (rv_types r)\<rparr>) r enums"

definition add_message :: "('t, 'b) types_api \<Rightarrow> file_desc \<Rightarrow> msg_desc \<Rightarrow> 't Resolver \<Rightarrow> 't Resolver" where
  "add_message A file msg r =
     r\<lparr>rv_types := ta_RegisterMessage A msg (rv_types r),
       rv_javaToProtoName := (rv_javaToProtoName r)(defaultKeyFn file msg \<mapsto> md_FullName msg)\<rparr>"

fun addFromMessage :: "('t, 'b) types_api \<Rightarrow> file_desc \<Rightarrow> msg_desc \<Rightarrow> 't Resolver \<Rightarrow> 't Resolver"
  and addFromMessages :: "('t, 'b) types_api \<Rightarrow> file_desc \<Rightarrow> msg_desc list \<Rightarrow> 't Resolver \<Rightarrow> 't Resolver" where
  "addFromMessage A file (MsgDesc name exts enums msgs) r =
     addEnums A enums (addExtensions A exts (addFromMessages A file msgs
       (add_message A file (MsgDesc name exts enums msgs) r)))"
| "addFromMessages A file [] r = r"
| "addFromMessages A file (msg # msgs) r = addFromMessages A file msgs (addFromMessage A file msg r)"

definition registerFile :: "('t, 'b) types_api \<Rightarrow> 't Resolver \<Rightarrow> file_desc \<Rightarrow> 't Resolver" where
  "registerFile A r file =
     addFromMessages A file (fd_Messages file) (addEnums A (fd_Enums file) (addExtensions A (fd_Extensions file) r))"

text \<open>\<open>RangeFiles\<close> visits the files in an order that the library leaves open.\<close>

definition NewResolver :: "('t, 'b) types_api \<Rightarrow> (file_desc list \<Rightarrow> file_desc list) \<Rightarrow> bytes \<Rightarrow> 't Resolver res" where
  "NewResolver A ord data =
     (let resolver = \<lparr>rv_types = ta_empty A, rv_javaToProtoName = Map.empty\<rparr>
      in case getFilesRegistry A data of
           Inl err \<Rightarrow> Inl (ErrWrap (''file is not fully contained descriptor file. '' @ error_text err) err)
         | Inr files \<Rightarrow> Inr (foldl (registerFile A) resolver (ord files)))"

section \<open>What is declared\<close>

fun nested_msgs :: "msg_desc \<Rightarrow> msg_desc list" where
  "nested_msgs (MsgDesc name exts enums msgs) = MsgDesc name exts enums msgs # concat (map nested_msgs msgs)"

definition file_msgs :: "file_desc \<Rightarrow> (file_desc \<times> msg_desc) list" where
  "file_msgs file = map (Pair file) (concat (map nested_msgs (fd_Messages file)))"

definition all_msgs :: "file_desc list \<Rightarrow> (file_desc \<times> msg_desc) list" where
  "all_msgs files = concat (map file_msgs files)"

definition all_keys :: "file_desc list \<Rightarrow> string list" where
  "all_keys files = map (\<lambda>(file, msg). defaultKeyFn file msg) (all_msgs files)"

text \<open>The other names of a message, which share one name space with the messages.\<close>

fun nested_others :: "msg_desc \<Rightarrow> string list" where
  "nested_others (MsgDesc name exts enums msgs) = exts @ enums @ concat (map nested_others msgs)"

text \<open>
  The documented contract of the registry: a message whose name is free is found from then on, a name
  that is taken is not registered again, and enums and extensions only take names.
\<close>

definition registry_contract :: "('t, 'b) types_api \<Rightarrow> ('t \<Rightarrow> string set) \<Rightarrow> bool" where
  "registry_contract A taken \<longleftrightarrow>
     taken (ta_empty A) = {} \<and> (\<forall>n. isl (ta_FindMessageByName A (ta_empty A) n)) \<and>
     (\<forall>m t. taken (ta_RegisterMessage A m t) = insert (md_FullName m) (taken t)) \<and>
     (\<forall>e t. taken (ta_RegisterEnum A e t) = insert e (taken t) \<and> taken (ta_RegisterExtension A e t) = insert e (taken t)) \<and>
     (\<forall>m t n. md_FullName m \<notin> taken t \<longrightarrow> ta_FindMessageByName A (ta_RegisterMessage A m t) n =
        (if n = md_FullName m then Inr m else ta_FindMessageByName A t n)) \<and>
     (\<forall>e t n m. ta_FindMessageByName A (ta_RegisterEnum A e t) n = Inr m \<longleftrightarrow> ta_FindMessageByName A t n = Inr m) \<and>
     (\<forall>e t n m. ta_FindMessageByName A (ta_RegisterExtension A e t) n = Inr m \<longleftrightarrow> ta_FindMessageByName A t n = Inr m)"

section \<open>The registered messages\<close>

text \<open>A resolver that holds the messages \<open>ms\<close>, with the names \<open>T\<close> taken.\<close>

definition holds :: "('t, 'b) types_api \<Rightarrow> ('t \<Rightarrow> string set) \<Rightarrow> (file_desc \<times> msg_desc) list \<Rightarrow> string set \<Rightarrow> 't Resolver \<Rightarrow> bool" where
  "holds A taken ms T r \<longleftrightarrow>
     taken (rv_types r) = T \<and> (\<forall>m\<in>snd ` set ms. md_FullName m \<in> T) \<and>
     (\<forall>n m. ta_FindMessageByName A (rv_types r) n = Inr m \<longleftrightarrow> md_FullName m = n \<and> m \<in> snd ` set ms) \<and>
     rv_javaToProtoName r = map_of (rev (map (\<lambda>(f, m). (defaultKeyFn f m, md_FullName m)) ms))"

lemma holds_others:
  assumes "registry_contract A taken" and "holds A taken ms T r"
  shows "holds A taken ms (T \<union> set es) (addEnums A es r)" "holds A taken ms (T \<union> set es) (addExtensions A es r)"
proof -
  have "holds A taken ms (T \<union> set es) (addEnums A es r)" if "holds A taken ms T r" for T r
    using that assms(1)
    by (induction es arbitrary: r T) (auto simp: addEnums_def holds_def registry_contract_def)
  then show "holds A taken ms (T \<union> set es) (addEnums A es r)" using assms(2) .
  have "holds A taken ms (T \<union> set es) (addExtensions A es r)" if "holds A taken ms T r" for T r
    using that assms(1)
    by (induction es arbitrary: r T) (auto simp: addExtensions_def holds_def registry_contract_def)
  then show "holds A taken ms (T \<union> set es) (addExtensions A es r)" using assms(2) .
qed

lemma holds_message:
  assumes "registry_contract A taken" and "holds A taken ms T r" and "md_FullName m \<notin> T"
  shows "holds A taken (ms @ [(f, m)]) (insert (md_FullName m) T) (add_message A f m r)"
proof -
  have "md_FullName m \<notin> taken (rv_types r)" using assms(2,3) by (simp add: holds_def)
  then have find: "ta_FindMessageByName A (ta_RegisterMessage A m (rv_types r)) n =
      (if n = md_FullName m then Inr m else ta_FindMessageByName A (rv_types r) n)" for n
    using assms(1) by (simp add: registry_contract_def)
  have reg: "taken (ta_RegisterMessage A m (rv_types r)) = insert (md_FullName m) (taken (rv_types r))"
    using assms(1) by (simp add: registry_contract_def)
  have "x = m" if "md_FullName x = md_FullName m" "x \<in> snd ` set ms" for x
    using that assms(2,3) by (metis holds_def)
  then show ?thesis
    using assms(2) by (auto simp: holds_def add_message_def find reg)
qed

definition tree_names :: "msg_desc list \<Rightarrow> string list" where
  "tree_names msgs = map md_FullName (concat (map nested_msgs msgs)) @ concat (map nested_others msgs)"

lemma tree_names_single: "set (tree_names [MsgDesc name exts enums msgs]) =
    insert name (set (tree_names msgs) \<union> set exts \<union> set enums)"
  by (auto simp: tree_names_def)

lemma distinct_tree_single: "distinct (tree_names [MsgDesc name exts enums msgs]) \<Longrightarrow>
    name \<notin> set (tree_names msgs) \<and> distinct (tree_names msgs)"
proof -
  have split: "distinct (name # a @ exts @ enums @ b) \<Longrightarrow> name \<notin> set (a @ b) \<and> distinct (a @ b)" for a b by auto
  have e: "tree_names [MsgDesc name exts enums msgs] =
      name # map md_FullName (concat (map nested_msgs msgs)) @ exts @ enums @ concat (map nested_others msgs)"
    by (simp add: tree_names_def)
  show "distinct (tree_names [MsgDesc name exts enums msgs]) \<Longrightarrow> ?thesis"
    unfolding e unfolding tree_names_def by (rule split)
qed

lemma tree_names_Cons: "set (tree_names (msg # msgs)) = set (tree_names [msg]) \<union> set (tree_names msgs)"
  by (auto simp: tree_names_def)

lemma distinct_tree_Cons: "distinct (tree_names (msg # msgs)) \<Longrightarrow>
    distinct (tree_names [msg]) \<and> distinct (tree_names msgs) \<and> set (tree_names [msg]) \<inter> set (tree_names msgs) = {}"
proof -
  have split: "distinct (a @ b @ c @ d) \<Longrightarrow> distinct (a @ c) \<and> distinct (b @ d) \<and> set (a @ c) \<inter> set (b @ d) = {}"
    for a b c d :: "string list" by auto
  show "distinct (tree_names (msg # msgs)) \<Longrightarrow> ?thesis"
    unfolding tree_names_def list.map concat.simps map_append append_assoc append_Nil2 by (rule split)
qed

lemma holds_tree:
  "registry_contract A taken \<Longrightarrow> holds A taken ms T r \<Longrightarrow> distinct (tree_names [msg]) \<Longrightarrow> set (tree_names [msg]) \<inter> T = {} \<Longrightarrow>
    holds A taken (ms @ map (Pair f) (nested_msgs msg)) (T \<union> set (tree_names [msg])) (addFromMessage A f msg r)"
  "registry_contract A taken \<Longrightarrow> holds A taken ms T r \<Longrightarrow> distinct (tree_names msgs) \<Longrightarrow> set (tree_names msgs) \<inter> T = {} \<Longrightarrow>
    holds A taken (ms @ map (Pair f) (concat (map nested_msgs msgs))) (T \<union> set (tree_names msgs)) (addFromMessages A f msgs r)"
proof (induction A f msg r and A f msgs r arbitrary: ms T and ms T rule: addFromMessage_addFromMessages.induct)
  case (1 A f name exts enums msgs r)
  let ?m = "MsgDesc name exts enums msgs"
  have d: "name \<notin> set (tree_names msgs)" "distinct (tree_names msgs)" "name \<notin> T" "set (tree_names msgs) \<inter> insert name T = {}"
    using distinct_tree_single [OF 1(4)] 1(5) unfolding tree_names_single by auto
  have "holds A taken (ms @ [(f, ?m)]) (insert name T) (add_message A f ?m r)"
    using holds_message [OF 1(2,3), of ?m f] d(3) by simp
  from 1(1) [OF 1(2) this d(2,4)]
  have "holds A taken (ms @ map (Pair f) (nested_msgs ?m)) (insert name T \<union> set (tree_names msgs))
      (addFromMessages A f msgs (add_message A f ?m r))" by simp
  from holds_others(1) [OF 1(2) holds_others(2) [OF 1(2) this, of exts], of enums]
  show ?case unfolding tree_names_single by (simp add: Un_assoc Un_commute Un_left_commute)
next
  case (3 A f msg msgs r)
  have d: "distinct (tree_names [msg])" "distinct (tree_names msgs)" "set (tree_names [msg]) \<inter> T = {}"
    "set (tree_names msgs) \<inter> (T \<union> set (tree_names [msg])) = {}"
    using distinct_tree_Cons [OF 3(5)] 3(6) unfolding tree_names_Cons [of msg msgs] by auto
  have "holds A taken (ms @ map (Pair f) (nested_msgs msg)) (T \<union> set (tree_names [msg])) (addFromMessage A f msg r)"
    by (rule 3(1) [OF 3(3,4) d(1,3)])
  from 3(2) [OF 3(3) this d(2,4)] show ?case unfolding tree_names_Cons [of msg msgs] by (simp add: Un_assoc)
qed (simp add: tree_names_def)

definition file_names :: "file_desc \<Rightarrow> string list" where
  "file_names fl = tree_names (fd_Messages fl) @ fd_Extensions fl @ fd_Enums fl"

lemma holds_file:
  assumes A: "registry_contract A taken" and "holds A taken ms T r" and "distinct (file_names fl)"
    and "set (file_names fl) \<inter> T = {}"
  shows "holds A taken (ms @ file_msgs fl) (T \<union> set (file_names fl)) (registerFile A r fl)"
proof -
  have h: "holds A taken ms (T \<union> set (fd_Extensions fl) \<union> set (fd_Enums fl))
      (addEnums A (fd_Enums fl) (addExtensions A (fd_Extensions fl) r))"
    by (rule holds_others(1) [OF A holds_others(2) [OF A assms(2)]])
  have d: "distinct (tree_names (fd_Messages fl))"
    "set (tree_names (fd_Messages fl)) \<inter> (T \<union> set (fd_Extensions fl) \<union> set (fd_Enums fl)) = {}"
    using assms(3,4) by (auto simp: file_names_def)
  from holds_tree(2) [OF A h d, of fl] show ?thesis
    by (simp add: registerFile_def file_names_def file_msgs_def Un_assoc Un_commute Un_left_commute)
qed

lemma holds_files:
  assumes A: "registry_contract A taken"
  shows "holds A taken ms T r \<Longrightarrow> distinct (concat (map file_names files)) \<Longrightarrow>
    set (concat (map file_names files)) \<inter> T = {} \<Longrightarrow>
    \<exists>T'. holds A taken (ms @ all_msgs files) T' (foldl (registerFile A) r files)"
proof (induction files arbitrary: ms T r)
  case (Cons fl files)
  have d: "distinct (file_names fl)" "set (file_names fl) \<inter> T = {}" "distinct (concat (map file_names files))"
    "set (concat (map file_names files)) \<inter> (T \<union> set (file_names fl)) = {}"
    using Cons(3,4) by auto
  show ?case
    using Cons(1) [OF holds_file [OF A Cons(2) d(1,2)] d(3,4)] by (simp add: all_msgs_def)
qed (auto simp: all_msgs_def)

lemma new_resolver_holds:
  assumes "registry_contract A taken" and "getFilesRegistry A data = Inr files"
    and "distinct (concat (map file_names (ord files)))"
  shows "\<exists>r T. NewResolver A ord data = Inr r \<and> holds A taken (all_msgs (ord files)) T r"
proof -
  have "holds A taken [] {} \<lparr>rv_types = ta_empty A, rv_javaToProtoName = Map.empty\<rparr>"
    using assms(1) unfolding holds_def registry_contract_def
    by (auto simp: isl_def) (metis Inr_Inl_False)
  from holds_files [OF assms(1) this assms(3)] show ?thesis
    using assms(2) by (auto simp: NewResolver_def)
qed

lemma holds_Get:
  assumes "holds A taken ms T r"
  shows "Resolver_Get A r n = Some m \<longleftrightarrow>
    m \<in> snd ` set ms \<and> md_FullName m =
      (case map_of (rev (map (\<lambda>(f, m). (defaultKeyFn f m, md_FullName m)) ms)) n of Some p \<Rightarrow> p | None \<Rightarrow> n)"
proof -
  have "Resolver_Get A r n = Some m \<longleftrightarrow> ta_FindMessageByName A (rv_types r)
      (case rv_javaToProtoName r n of Some p \<Rightarrow> p | None \<Rightarrow> n) = Inr m"
    by (simp add: Resolver_Get_def Let_def split: sum.splits)
  then show ?thesis using assms unfolding holds_def by auto
qed

section \<open>The class name of a message\<close>

lemma replace_first_prefix: "replace_first (old @ t) old new = new @ t"
  by (subst replace_first.simps) (simp add: has_prefix_def)

lemma key_in_package:
  assumes "fd_JavaPackage f = Some pkg" "pkg \<noteq> []" "fd_Package f \<noteq> []" "md_FullName m = fd_Package f @ ''.'' @ t"
  shows "defaultKeyFn f m = pkg @ ''.'' @ t"
  using assms replace_first_prefix [of "fd_Package f" "''.'' @ t" pkg] by (simp add: defaultKeyFn_def getJavaPackage_def)

end
