(* ===== verification/Client.thy ===== *)
theory Client
  imports Client_Store Client_Resolver
begin

text \<open>
  The Go client, third part: \<open>clients/go/client.go\<close> on the stores and the resolver. Decoding and
  encoding of messages are fields of \<open>codec\<close>. Every store carries the network and the log as it sees
  them. The result None of a call is the panic of a send on a closed channel.
\<close>

definition ErrNotFound :: go_error where "ErrNotFound = ErrString ''not found''"
definition ErrInvalidDescriptor :: go_error where "ErrInvalidDescriptor = ErrString ''invalid descriptor''"

record ('t, 'j, 'm) codec =
  cd_json_Marshal :: "'j \<Rightarrow> bytes res"
  cd_Unmarshal :: "'t \<Rightarrow> msg_desc \<Rightarrow> bytes \<Rightarrow> 'm \<times> go_error option"
  cd_json_Unmarshal :: "'t \<Rightarrow> msg_desc \<Rightarrow> bytes \<Rightarrow> 'm res"
  cd_Marshal :: "'m \<Rightarrow> bytes res"

definition setDefaults :: "Options \<Rightarrow> Options" where
  "setDefaults opts =
     (let o1 = (if o_RefreshInterval opts = 0 then opts\<lparr>o_RefreshInterval := 12 * 3600 * 10 ^ 9\<rparr> else opts)
      in if o_Timeout o1 = 0 then o1\<lparr>o_Timeout := 10 * 10 ^ 9\<rparr> else o1)"

text \<open>The stores that run after the call, and what it returns.\<close>

fun new_stores :: "'r loader_lib \<Rightarrow> Options \<Rightarrow> string list \<Rightarrow> 'r running list \<Rightarrow> net \<Rightarrow> net \<times> 'r running list \<times> go_error option" where
  "new_stores L opts [] stores n = (n, stores, None)"
| "new_stores L opts (url # urls) stores n =
     (case newStore L url opts n of
        (n', s, Some err) \<Rightarrow> (n', stores, Some err)
      | (n', s, None) \<Rightarrow> new_stores L opts urls (stores @ [start_running n' s]) n')"

definition NewClient :: "'r loader_lib \<Rightarrow> string list \<Rightarrow> Options \<Rightarrow> net \<Rightarrow> net \<times> 'r running list \<times> go_error option" where
  "NewClient L urls opts n = new_stores L (setDefaults opts) urls [] n"

fun getMatchingResolver ::
  "('t, 'b) types_api \<Rightarrow> string \<Rightarrow> 't Resolver running list \<Rightarrow> 't Resolver running list \<times> 't Resolver option option" where
  "getMatchingResolver A className [] = ([], Some None)"
| "getMatchingResolver A className (st # stores) =
     (case getResolver st of (st', r) \<Rightarrow>
        if rn_panicked st' then (st' # stores, None)
        else case r of
               None \<Rightarrow> (st' # stores, Some None)
             | Some resolver \<Rightarrow>
                 (case Resolver_Get A resolver className of
                    Some m \<Rightarrow> (st' # stores, Some (Some resolver))
                  | None \<Rightarrow> (case getMatchingResolver A className stores of (stores', x) \<Rightarrow> (st' # stores', x))))"

definition with_resolver ::
  "('t, 'b) types_api \<Rightarrow> string \<Rightarrow> 't Resolver running list \<Rightarrow> ('t Resolver \<Rightarrow> msg_desc \<Rightarrow> 'a) \<Rightarrow> (go_error \<Rightarrow> 'a)
   \<Rightarrow> 't Resolver running list \<times> 'a option" where
  "with_resolver A className stores found missing =
     (case getMatchingResolver A className stores of
        (stores', None) \<Rightarrow> (stores', None)
      | (stores', Some None) \<Rightarrow> (stores', Some (missing ErrNotFound))
      | (stores', Some (Some resolver)) \<Rightarrow>
          (stores', map_option (found resolver) (Resolver_Get A resolver className)))"

text \<open>A message beside an error: the decoder may return both.\<close>

definition Parse ::
  "('t, 'b) types_api \<Rightarrow> ('t, 'j, 'm) codec \<Rightarrow> string \<Rightarrow> bytes \<Rightarrow> 't Resolver running list
   \<Rightarrow> 't Resolver running list \<times> ('m option \<times> go_error option) option" where
  "Parse A C className data stores =
     with_resolver A className stores
       (\<lambda>resolver messageType.
          case cd_Unmarshal C (GetTypeResolver resolver) messageType data of (m, err) \<Rightarrow> (Some m, err))
       (\<lambda>err. (None, Some err))"

definition Serialize ::
  "('t, 'b) types_api \<Rightarrow> ('t, 'j, 'm) codec \<Rightarrow> string \<Rightarrow> 'j \<Rightarrow> 't Resolver running list
   \<Rightarrow> 't Resolver running list \<times> bytes res option" where
  "Serialize A C className data stores =
     (case cd_json_Marshal C data of
        Inl err \<Rightarrow> (stores, Some (Inl err))
      | Inr jsonBytes \<Rightarrow>
          with_resolver A className stores
            (\<lambda>resolver messageType.
               case cd_json_Unmarshal C (GetTypeResolver resolver) messageType jsonBytes of
                 Inl err \<Rightarrow> Inl ErrInvalidDescriptor
               | Inr m \<Rightarrow> cd_Marshal C m)
            Inl)"

definition GetDescriptor ::
  "('t, 'b) types_api \<Rightarrow> string \<Rightarrow> 't Resolver running list \<Rightarrow> 't Resolver running list \<times> msg_desc res option" where
  "GetDescriptor A className stores = with_resolver A className stores (\<lambda>resolver desc. Inr desc) Inl"

text \<open>\<open>Refresh\<close> waits for the refreshes of all stores, which do not share anything.\<close>

definition Client_Refresh :: "'r loader_lib \<Rightarrow> Options \<Rightarrow> 'r running list \<Rightarrow> 'r running list" where
  "Client_Refresh L opts stores = map (run_refresh L opts) stores"

text \<open>\<open>Close\<close> closes one store after the other, each call lasting until the worker has stopped.\<close>

inductive Client_Close :: "'r loader_lib \<Rightarrow> Options \<Rightarrow> 'r running list \<Rightarrow> 'r running list \<Rightarrow> bool" for L opts where
  no_store: "Client_Close L opts [] []"
| one_store: "(own_step L opts)\<^sup>*\<^sup>* (close_access s) s' \<Longrightarrow> rn_close s' = Close_returned \<Longrightarrow> Client_Close L opts ss ss' \<Longrightarrow>
     Client_Close L opts (s # ss) (s' # ss')"

section \<open>Lemmas on the store\<close>

lemma run_refresh_keeps [simp]:
  "rn_worker (run_refresh L opts s) = rn_worker s" "rn_tick (run_refresh L opts s) = rn_tick s"
  "rn_close (run_refresh L opts s) = rn_close s" "rn_panicked (run_refresh L opts s) = rn_panicked s"
  "st_access_closed (run_refresh L opts s) = st_access_closed s" "st_timer (run_refresh L opts s) = st_timer s"
  "st_url (run_refresh L opts s) = st_url s"
  by (simp_all add: run_refresh_def store_refresh_def run_loader_def split: prod.splits sum.splits)

lemma run_refresh_data: "st_data s \<noteq> None \<Longrightarrow> st_data (run_refresh L opts s) \<noteq> None"
  by (simp add: run_refresh_def store_refresh_def run_loader_def split: prod.splits sum.splits)

lemma notify_keeps [simp]:
  "st_data (notify s) = st_data s" "rn_close (notify s) = rn_close s" "st_access_closed (notify s) = st_access_closed s"
  "st_timer (notify s) = st_timer s" "rn_tick (notify s) = rn_tick s" "st_lastVersion (notify s) = st_lastVersion s"
  "st_url (notify s) = st_url s"
  by (simp_all add: notify_def)

lemma getResolver_sel [simp]: "fst (getResolver s) = notify s" "snd (getResolver s) = st_data s"
  by (simp_all add: getResolver_def Let_def)

lemma close_access_keeps [simp]:
  "st_data (close_access s) = st_data s" "st_timer (close_access s) = st_timer s" "rn_worker (close_access s) = rn_worker s"
  "st_lastVersion (close_access s) = st_lastVersion s" "st_url (close_access s) = st_url s" "rn_tick (close_access s) = rn_tick s"
  by (simp_all add: close_access_def)

lemma start_running_sel [simp]:
  "st_data (start_running n s) = st_data s" "st_access_closed (start_running n s) = st_access_closed s"
  "st_timer (start_running n s) = st_timer s" "st_lastVersion (start_running n s) = st_lastVersion s"
  "st_url (start_running n s) = st_url s"
  "rn_worker (start_running n s) = (if st_timer s then Selecting else Returned)" "rn_tick (start_running n s) = False"
  "rn_close (start_running n s) = Not_closing" "rn_net (start_running n s) = n" "rn_panicked (start_running n s) = False"
  by (simp_all add: start_running_def store.defs)

lemma newStore_ok:
  "newStore L url opts n = (n', s, None) \<Longrightarrow>
     st_data s \<noteq> None \<and> \<not> st_access_closed s \<and> st_timer s = o_AutoRefresh opts \<and> st_url s = url"
  by (auto simp: newStore_def run_loader_def Let_def split: prod.splits sum.splits)

section \<open>The invariant of a running store\<close>

definition store_inv :: "'r running \<Rightarrow> bool" where
  "store_inv s \<longleftrightarrow> st_data s \<noteq> None \<and>
     (st_access_closed s \<longleftrightarrow> rn_close s \<noteq> Not_closing) \<and>
     (rn_worker s = Returned \<longleftrightarrow> \<not> st_timer s \<or> rn_close s = Close_returned) \<and>
     (\<not> st_timer s \<longrightarrow> rn_close s \<in> {Not_closing, Close_returned})"

lemma store_inv_start: "newStore L url opts n = (n', s, None) \<Longrightarrow> store_inv (start_running n' s)"
  by (drule newStore_ok) (simp add: store_inv_def)

lemma store_inv_notify: "store_inv s \<Longrightarrow> store_inv (notify s)"
  by (auto simp: store_inv_def notify_def)

lemma store_inv_refresh: "store_inv s \<Longrightarrow> store_inv (run_refresh L opts s)"
  by (simp add: store_inv_def run_refresh_data)

lemma store_inv_close: "store_inv s \<Longrightarrow> store_inv (close_access s)"
  by (auto simp: store_inv_def close_access_def)

lemma store_inv_own: "own_step L opts s s' \<Longrightarrow> store_inv s \<Longrightarrow> store_inv s'"
  using store_inv_refresh [of s L opts]
  by (auto simp: store_inv_def ticker_Stop_def send_done_def elim!: own_stepE)

lemma store_inv_tick: "store_inv s \<Longrightarrow> store_inv (s\<lparr>rn_tick := True\<rparr>)"
  by (simp add: store_inv_def)

lemma store_inv_outer: "outer_step L opts s s' \<Longrightarrow> store_inv s \<Longrightarrow> store_inv s'"
  by (erule outer_stepE) (simp_all only: store_inv_tick store_inv_refresh store_inv_notify store_inv_close getResolver_sel)

lemma store_inv_any: "any_step L opts s s' \<Longrightarrow> store_inv s \<Longrightarrow> store_inv s'"
  unfolding any_step_def using store_inv_own store_inv_outer by blast

lemma reachable_inv: "reachable L url opts s \<Longrightarrow> store_inv s"
  by (induction rule: reachable.induct) (simp_all add: store_inv_start store_inv_any)

section \<open>How long \<open>Close\<close> takes\<close>

definition worker_rank :: "worker_pc \<Rightarrow> nat" where
  "worker_rank pc = (case pc of Selecting \<Rightarrow> 1 | Waiting_for_reader \<Rightarrow> 2 | Refreshing \<Rightarrow> 2 | Returned \<Rightarrow> 0)"

definition close_rank :: "'r running \<Rightarrow> nat" where
  "close_rank s = worker_rank (rn_worker s) + (if rn_tick s then 2 else 0) + (if rn_close s = Access_closed then 1 else 0)"

lemma own_step_rank:
  "own_step L opts s s' \<Longrightarrow> st_access_closed s \<Longrightarrow> close_rank s' < close_rank s \<and> st_access_closed s'"
  by (auto simp: close_rank_def worker_rank_def ticker_Stop_def send_done_def elim!: own_stepE)

lemma own_steps_rank:
  "((own_step L opts) ^^ k) s s' \<Longrightarrow> st_access_closed s \<Longrightarrow> k + close_rank s' \<le> close_rank s \<and> st_access_closed s'"
proof (induction k arbitrary: s')
  case (Suc k)
  then obtain m where "((own_step L opts) ^^ k) s m" "own_step L opts m s'" by auto
  then show ?case using Suc own_step_rank [of L opts m s'] by fastforce
qed simp

lemma close_rank_bound: "close_rank s \<le> 5"
  by (cases "rn_worker s") (simp_all add: close_rank_def worker_rank_def)

lemma own_steps_inv: "((own_step L opts) ^^ k) s s' \<Longrightarrow> store_inv s \<Longrightarrow> store_inv s'"
  by (induction k arbitrary: s') (auto intro: store_inv_own)

lemma closing_progress:
  assumes "store_inv s" "st_access_closed s" "rn_close s \<noteq> Close_returned"
  shows "\<exists>s'. own_step L opts s s'"
proof (cases "rn_close s")
  case Ticker_stopped
  then have t: "st_timer s" "rn_worker s \<noteq> Returned" using assms by (auto simp: store_inv_def)
  show ?thesis
  proof (cases "rn_worker s")
    case Selecting
    then show ?thesis using Ticker_stopped own_step.finish by blast
  next
    case Waiting_for_reader
    then show ?thesis using assms(2) own_step.no_reader by blast
  next
    case Refreshing
    then show ?thesis using own_step.refreshed by blast
  qed (use t in simp)
qed (use assms own_step.stop in \<open>auto simp: store_inv_def\<close>)

lemma close_finishes:
  assumes "store_inv s" "st_access_closed s"
  shows "\<exists>s'. (own_step L opts)\<^sup>*\<^sup>* s s' \<and> rn_close s' = Close_returned"
  using assms
proof (induction "close_rank s" arbitrary: s rule: less_induct)
  case less
  show ?case
  proof (cases "rn_close s = Close_returned")
    case False
    then obtain s1 where s1: "own_step L opts s s1" using closing_progress [OF less(2,3)] by blast
    obtain s' where "(own_step L opts)\<^sup>*\<^sup>* s1 s'" "rn_close s' = Close_returned"
      using less(1) [of s1] own_step_rank [OF s1 less(3)] store_inv_own [OF s1 less(2)] by blast
    then show ?thesis using s1 by (meson converse_rtranclp_into_rtranclp)
  qed blast
qed

end
