(* ===== verification/Client_Claims.thy ===== *)
theory Client_Claims
  imports Client
begin

text \<open>
  Properties of the Go client: what the resolver finds, which store answers, that a store keeps its
  data, that closing ends, how the version-based refresh moves, and what goes wrong around closing,
  failed construction and overlapping refreshes.
\<close>

section \<open>A concrete library\<close>

text \<open>A registry as an association list; a name is taken once.\<close>

definition list_registry :: "file_desc list \<Rightarrow> ((string \<times> msg_desc option) list, unit) types_api" where
  "list_registry files = \<lparr>
     ta_empty = [],
     ta_RegisterExtension = (\<lambda>e t. if e \<in> fst ` set t then t else (e, None) # t),
     ta_RegisterEnum = (\<lambda>e t. if e \<in> fst ` set t then t else (e, None) # t),
     ta_RegisterMessage = (\<lambda>m t. if md_FullName m \<in> fst ` set t then t else (md_FullName m, Some m) # t),
     ta_FindMessageByName = (\<lambda>t n. case map_of t n of Some (Some m) \<Rightarrow> Inr m | _ \<Rightarrow> Inl (ErrExt ''not found'')),
     ta_Unmarshal = (\<lambda>b. Inr ()), ta_NewFiles = (\<lambda>_. Inr files)\<rparr>"

lemma list_registry_contract: "registry_contract (list_registry files) (\<lambda>t. fst ` set t)"
proof -
  have "map_of t n = None" if "n \<notin> fst ` set t" for t :: "(string \<times> msg_desc option) list" and n
    using that by (simp add: map_of_eq_None_iff)
  then show ?thesis
    by (auto simp: registry_contract_def list_registry_def split: option.splits)
qed

definition demo_file :: file_desc where
  "demo_file = \<lparr>fd_Path = ''a.proto'', fd_Package = ''p'', fd_JavaPackage = Some ''com.p'', fd_Extensions = [],
     fd_Enums = [''p.E''], fd_Messages = [MsgDesc ''p.A'' [] [] [MsgDesc ''p.A.B'' [] [] []]]\<rparr>"

section \<open>The resolver\<close>

lemma map_of_rev_Some: "distinct (map fst xs) \<Longrightarrow> map_of (rev xs) k = Some v \<longleftrightarrow> (k, v) \<in> set xs"
  using map_of_eq_Some_iff [of "rev xs" k v] by (simp add: rev_map [symmetric])

lemma map_of_rev_None: "map_of (rev xs) k = None \<longleftrightarrow> k \<notin> fst ` set xs"
  by (simp add: map_of_eq_None_iff)

lemma mset_concat_map: "mset (concat (map f xs)) = \<Sum>\<^sub># (image_mset (\<lambda>x. mset (f x)) (mset xs))"
  by (induction xs) simp_all

lemma all_msgs_perm: "mset fs = mset gs \<Longrightarrow> mset (all_msgs fs) = mset (all_msgs gs)"
  by (simp add: all_msgs_def mset_concat_map)

lemma file_names_perm: "mset fs = mset gs \<Longrightarrow> distinct (concat (map file_names fs)) = distinct (concat (map file_names gs))"
  by (rule mset_eq_imp_distinct_iff) (simp add: mset_concat_map)

lemma full_names_distinct:
  "distinct (concat (map file_names fs)) \<Longrightarrow> distinct (map (md_FullName \<circ> snd) (all_msgs fs))"
proof (induction fs)
  case (Cons f fs)
  have e: "map (md_FullName \<circ> snd) (file_msgs f) = map md_FullName (concat (map nested_msgs (fd_Messages f)))"
    by (simp add: file_msgs_def)
  have "set (map (md_FullName \<circ> snd) (all_msgs fs)) \<subseteq> set (concat (map file_names fs))"
    by (force simp: all_msgs_def file_msgs_def file_names_def tree_names_def)
  moreover have "set (map (md_FullName \<circ> snd) (file_msgs f)) \<subseteq> set (file_names f)"
    unfolding e by (simp add: file_names_def tree_names_def)
  moreover have "distinct (map (md_FullName \<circ> snd) (file_msgs f))"
    unfolding e using Cons(2) by (simp add: file_names_def tree_names_def)
  moreover have "distinct (map (md_FullName \<circ> snd) (all_msgs fs))" using Cons by (simp add: comp_def)
  moreover have "set (file_names f) \<inter> set (concat (map file_names fs)) = {}" using Cons(2) by simp
  ultimately have "distinct (map (md_FullName \<circ> snd) (file_msgs f) @ map (md_FullName \<circ> snd) (all_msgs fs))"
    unfolding distinct_append by blast
  moreover have "map (md_FullName \<circ> snd) (all_msgs (f # fs)) =
      map (md_FullName \<circ> snd) (file_msgs f) @ map (md_FullName \<circ> snd) (all_msgs fs)" by (simp add: all_msgs_def)
  ultimately show ?case by metis
qed (simp add: all_msgs_def)

lemma key_pairs:
  "map fst (map (\<lambda>(f, m). (defaultKeyFn f m, md_FullName m)) ms) = map (\<lambda>(f, m). defaultKeyFn f m) ms"
  by (simp add: comp_def case_prod_beta)

text \<open>
  C17. The resolver of a descriptor set finds exactly the declared messages, nested ones included: each
  under its Java class name, and under its full name as long as no class has that name. The order in
  which the files are visited does not matter. (The library promises unique full names; class names
  must be unique too.)
\<close>

theorem resolver_exact:
  assumes "registry_contract A taken" and "getFilesRegistry A data = Inr files" and "mset (ord files) = mset files"
    and "distinct (concat (map file_names files))" and "distinct (all_keys files)"
  shows "\<exists>r. NewResolver A ord data = Inr r \<and>
    (\<forall>n m. (Resolver_Get A r n = Some m) =
       ((\<exists>f. (f, m) \<in> set (all_msgs files) \<and> defaultKeyFn f m = n) \<or>
        (\<exists>f. (f, m) \<in> set (all_msgs files) \<and> md_FullName m = n \<and> n \<notin> set (all_keys files))))"
proof -
  let ?ms = "all_msgs (ord files)" and ?kv = "\<lambda>(f, m). (defaultKeyFn f m, md_FullName m)"
  have ms: "mset ?ms = mset (all_msgs files)" by (rule all_msgs_perm [OF assms(3)])
  have set_ms: "set ?ms = set (all_msgs files)" by (rule mset_eq_setD [OF ms])
  have "mset (map fst (map ?kv ?ms)) = mset (all_keys files)"
    unfolding key_pairs all_keys_def mset_map by (simp add: ms)
  then have dk: "distinct (map fst (map ?kv ?ms))" using assms(5) mset_eq_imp_distinct_iff by blast
  have keys: "fst ` set (map ?kv ?ms) = set (all_keys files)" by (simp add: all_keys_def set_ms image_image case_prod_beta)
  obtain r T where r: "NewResolver A ord data = Inr r" "holds A taken ?ms T r"
    using new_resolver_holds [OF assms(1,2)] assms(4) file_names_perm [OF assms(3)] by blast
  have "distinct (map (md_FullName \<circ> snd) ?ms)"
    by (rule full_names_distinct) (use assms(4) file_names_perm [OF assms(3)] in blast)
  then have uniq: "m = m'" if "(f, m) \<in> set ?ms" "(f', m') \<in> set ?ms" "md_FullName m = md_FullName m'" for f m f' m'
    using that by (metis comp_apply inj_on_eq_iff distinct_map snd_conv)
  have "(Resolver_Get A r n = Some m) =
       ((\<exists>f. (f, m) \<in> set (all_msgs files) \<and> defaultKeyFn f m = n) \<or>
        (\<exists>f. (f, m) \<in> set (all_msgs files) \<and> md_FullName m = n \<and> n \<notin> set (all_keys files)))" for n m
  proof (cases "map_of (rev (map ?kv ?ms)) n")
    case None
    then have "n \<notin> set (all_keys files)" unfolding map_of_rev_None keys .
    moreover have "defaultKeyFn f m \<in> set (all_keys files)" if "(f, m) \<in> set (all_msgs files)" for f
      using that by (force simp: all_keys_def)
    moreover have "(m \<in> snd ` set (all_msgs files)) = (\<exists>f. (f, m) \<in> set (all_msgs files))" by force
    ultimately show ?thesis unfolding holds_Get [OF r(2)] None set_ms by auto
  next
    case (Some p)
    then have "(n, p) \<in> set (map ?kv ?ms)" using map_of_rev_Some [OF dk] by blast
    then obtain f m0 where m0: "(f, m0) \<in> set ?ms" "defaultKeyFn f m0 = n" "md_FullName m0 = p" by auto
    then have k: "n \<in> set (all_keys files)" by (force simp: all_keys_def set_ms)
    have "(\<exists>f. (f, m) \<in> set ?ms \<and> defaultKeyFn f m = n) = (m = m0)"
    proof
      assume "\<exists>f. (f, m) \<in> set ?ms \<and> defaultKeyFn f m = n"
      then obtain g where g: "(g, m) \<in> set ?ms" "defaultKeyFn g m = n" by blast
      then have "(n, md_FullName m) \<in> set (map ?kv ?ms)" by force
      then have "md_FullName m = p" using Some map_of_rev_Some [OF dk, of n "md_FullName m"] by simp
      then show "m = m0" using uniq [OF g(1) m0(1)] m0(3) by simp
    qed (use m0 in blast)
    moreover have "(m \<in> snd ` set ?ms \<and> md_FullName m = p) = (m = m0)" using uniq m0 by force
    ultimately show ?thesis unfolding holds_Get [OF r(2)] Some set_ms using k by simp
  qed
  then show ?thesis using r(1) by blast
qed

theorem resolver_exact_witness:
  "\<exists>r. NewResolver (list_registry [demo_file]) rev [] = Inr r \<and>
     Resolver_Get (list_registry [demo_file]) r ''com.p.A.B'' = Some (MsgDesc ''p.A.B'' [] [] []) \<and>
     Resolver_Get (list_registry [demo_file]) r ''p.A.B'' = Some (MsgDesc ''p.A.B'' [] [] [])"
proof -
  have f: "getFilesRegistry (list_registry [demo_file]) [] = Inr [demo_file]"
    by (simp add: getFilesRegistry_def list_registry_def)
  have k: "all_keys [demo_file] = [''com.p.A'', ''com.p.A.B'']" by code_simp
  have m: "(demo_file, MsgDesc ''p.A.B'' [] [] []) \<in> set (all_msgs [demo_file])"
    by (simp add: all_msgs_def file_msgs_def demo_file_def)
  have d: "distinct (concat (map file_names [demo_file]))" by code_simp
  have j: "defaultKeyFn demo_file (MsgDesc ''p.A.B'' [] [] []) = ''com.p.A.B''" by code_simp
  show ?thesis
    using resolver_exact [OF list_registry_contract f, of rev] k m d j by fastforce
qed

section \<open>Which store answers\<close>

definition ready :: "'r running \<Rightarrow> bool" where
  "ready s \<longleftrightarrow> \<not> rn_panicked s \<and> \<not> st_access_closed s \<and> st_data s \<noteq> None"

lemma notify_panicked: "ready s \<Longrightarrow> \<not> rn_panicked (notify s)"
  by (simp add: ready_def notify_def)

lemma matching_resolver:
  "list_all ready stores \<Longrightarrow> snd (getMatchingResolver A className stores) =
     Some (find (\<lambda>r. Resolver_Get A r className \<noteq> None) (map (the \<circ> st_data) stores))"
proof (induction stores)
  case (Cons s stores)
  obtain r where "st_data s = Some r" using Cons(2) by (auto simp: ready_def)
  moreover have "getResolver s = (notify s, st_data s)" by (simp add: getResolver_def Let_def)
  moreover have "\<not> rn_panicked (notify s)" using Cons(2) notify_panicked [of s] by simp
  ultimately show ?case using Cons by (cases "getMatchingResolver A className stores") (simp split: option.split)
qed simp

text \<open>
  On stores that are loaded and open, \<open>Parse\<close> decodes with the first store, in the order of the
  URLs, whose resolver knows the class; the error is \<open>ErrNotFound\<close> exactly when none does.
\<close>

theorem parse_exact:
  assumes "list_all ready stores"
  shows "snd (Parse A C className data stores) = Some
    (case find (\<lambda>r. Resolver_Get A r className \<noteq> None) (map (the \<circ> st_data) stores) of
       None \<Rightarrow> (None, Some ErrNotFound)
     | Some r \<Rightarrow> (case cd_Unmarshal C (rv_types r) (the (Resolver_Get A r className)) data of (m, err) \<Rightarrow> (Some m, err)))"
proof -
  obtain ss where g: "getMatchingResolver A className stores =
      (ss, Some (find (\<lambda>r. Resolver_Get A r className \<noteq> None) (map (the \<circ> st_data) stores)))"
    using matching_resolver [OF assms] by (metis prod.collapse)
  show ?thesis
  proof (cases "find (\<lambda>r. Resolver_Get A r className \<noteq> None) (map (the \<circ> st_data) stores)")
    case (Some r)
    then have "Resolver_Get A r className \<noteq> None" by (auto simp: find_Some_iff)
    then show ?thesis using g Some by (auto simp: Parse_def with_resolver_def GetTypeResolver_def)
  qed (use g in \<open>simp add: Parse_def with_resolver_def\<close>)
qed

definition plain_store :: "'r \<Rightarrow> 'r running" where
  "plain_store r = start_running \<lparr>net_answer = (\<lambda>k q. Answer 200 [] None), net_sent = [], net_log = []\<rparr>
     \<lparr>st_autoRefresh = True, st_timer = True, st_access_closed = False, st_lastVersion = 0, st_url = ''u'', st_data = Some r\<rparr>"

lemma ready_plain: "ready (plain_store r)"
  by (simp add: ready_def plain_store_def)

definition echo_codec :: "('t, bytes, bytes) codec" where
  "echo_codec = \<lparr>cd_json_Marshal = Inr, cd_Unmarshal = (\<lambda>t m b. (b, None)), cd_json_Unmarshal = (\<lambda>t m b. Inr b), cd_Marshal = Inr\<rparr>"

definition demo_resolver :: "(string \<times> msg_desc option) list Resolver" where
  "demo_resolver = \<lparr>rv_types = [(''p.A'', Some (MsgDesc ''p.A'' [] [] []))], rv_javaToProtoName = Map.empty\<rparr>"

theorem parse_exact_witness:
  "snd (Parse (list_registry []) echo_codec ''p.A'' ''x'' [plain_store (demo_resolver\<lparr>rv_types := []\<rparr>), plain_store demo_resolver]) =
     Some (Some ''x'', None)"
proof -
  have "Resolver_Get (list_registry []) demo_resolver ''p.A'' = Some (MsgDesc ''p.A'' [] [] [])"
    "Resolver_Get (list_registry []) (demo_resolver\<lparr>rv_types := []\<rparr>) ''p.A'' = None"
    by (simp_all add: Resolver_Get_def list_registry_def demo_resolver_def)
  then show ?thesis
    by (subst parse_exact) (simp_all add: ready_plain, simp add: plain_store_def echo_codec_def)
qed

section \<open>A store keeps its data\<close>

text \<open>
  Whatever the order of ticks, readers, refreshes, failing downloads and closing: a store that was
  constructed always has a resolver, and once \<open>Close\<close> has returned its worker has ended and takes
  no further step.
\<close>

theorem store_keeps_data:
  assumes "reachable L url opts s"
  shows "st_data s \<noteq> None \<and> (rn_close s = Close_returned \<longrightarrow> rn_worker s = Returned \<and> (\<nexists>s'. own_step L opts s s'))"
proof -
  have "store_inv s" by (rule reachable_inv [OF assms])
  moreover have "\<not> own_step L opts s s'" if "rn_worker s = Returned" "rn_close s = Close_returned" for s'
    using that by (auto elim!: own_stepE)
  ultimately show ?thesis by (auto simp: store_inv_def)
qed

text \<open>A library that takes the bytes as they are, and a server that has the versions 1 and 2.\<close>

definition text_lib :: "bytes loader_lib" where
  "text_lib = \<lparr>ll_NewRequest = (\<lambda>u. None),
     ll_versions = (\<lambda>b. if b = ''one'' then Inr [1] else if b = ''two'' then Inr [1, 2] else Inl (ErrExt ''json'')),
     ll_NewResolver = Inr\<rparr>"

definition demo_opts :: "RefreshStrategy \<Rightarrow> Options" where
  "demo_opts r = \<lparr>o_AutoRefresh = True, o_RefreshInterval = 1, o_Timeout = 1, o_Headers = [], o_RefreshStrategy = r, o_Logger = False\<rparr>"

definition scripted_net :: "bytes list \<Rightarrow> net" where
  "scripted_net answers = \<lparr>net_answer = (\<lambda>k q. if k < length answers then Answer 200 (answers ! k) None else Do_failed (ErrExt ''down'')),
     net_sent = [], net_log = []\<rparr>"

lemmas demo_net = text_lib_def demo_opts_def scripted_net_def logger_Info_def logger_Error_def write_log_def

definition demo_store :: "RefreshStrategy \<Rightarrow> bytes running" where
  "demo_store r = (case newStore text_lib ''u'' (demo_opts r) (scripted_net [''two'', ''d2'']) of (n, s, _) \<Rightarrow> start_running n s)"

lemma demo_store_ok:
  "\<exists>n s. newStore text_lib ''u'' (demo_opts VersionBasedRefresh) (scripted_net [''two'', ''d2'']) = (n, s, None) \<and>
     st_lastVersion s = 2 \<and> st_data s = Some ''d2''"
  by (simp add: newStore_def run_loader_def loader_defs demo_net getMaxVersion_def)

lemma demo_store_reachable: "reachable text_lib ''u'' (demo_opts VersionBasedRefresh) (demo_store VersionBasedRefresh)"
proof -
  obtain n s where "newStore text_lib ''u'' (demo_opts VersionBasedRefresh) (scripted_net [''two'', ''d2'']) = (n, s, None)"
    using demo_store_ok by blast
  then show ?thesis by (simp add: demo_store_def reachable.loaded)
qed

lemma demo_store_state [simp]:
  "st_data (demo_store VersionBasedRefresh) = Some ''d2''" "st_lastVersion (demo_store VersionBasedRefresh) = 2"
  "rn_close (demo_store VersionBasedRefresh) = Not_closing" "rn_panicked (demo_store VersionBasedRefresh) = False"
  using demo_store_ok by (auto simp: demo_store_def)

theorem store_keeps_data_witness: "st_data (demo_store VersionBasedRefresh) \<noteq> None"
  using store_keeps_data [OF demo_store_reachable] by blast

section \<open>Closing\<close>

lemma reachable_close_step:
  assumes "reachable L url opts s"
  shows "store_inv (close_access s)"
  by (rule store_inv_close [OF reachable_inv [OF assms]])

text \<open>
  C18. Closing an open store ends: the worker and \<open>Close\<close> together take at most five steps, they are
  never stuck before \<open>Close\<close> has returned, and then the worker has ended.
\<close>

theorem close_returns:
  assumes "reachable L url opts s" and "rn_close s = Not_closing"
  shows "(\<exists>s'. (own_step L opts)\<^sup>*\<^sup>* (close_access s) s' \<and> rn_close s' = Close_returned \<and> rn_worker s' = Returned) \<and>
    (\<forall>k s'. ((own_step L opts) ^^ k) (close_access s) s' \<longrightarrow>
       k \<le> 5 \<and> (rn_close s' = Close_returned \<or> (\<exists>s''. own_step L opts s' s'')))"
proof -
  have inv: "store_inv (close_access s)" by (rule reachable_close_step [OF assms(1)])
  have cl: "st_access_closed (close_access s)"
    by (simp add: close_access_def)
  obtain s' where s': "(own_step L opts)\<^sup>*\<^sup>* (close_access s) s'" "rn_close s' = Close_returned"
    using close_finishes [OF inv cl] by blast
  have "store_inv s'" using s'(1) by (induction rule: rtranclp_induct) (use inv store_inv_own in blast)+
  then have "rn_worker s' = Returned" using s'(2) by (simp add: store_inv_def)
  moreover have "k \<le> 5 \<and> (rn_close t = Close_returned \<or> (\<exists>s''. own_step L opts t s''))"
    if "((own_step L opts) ^^ k) (close_access s) t" for k t
    using own_steps_rank [OF that cl] close_rank_bound [of "close_access s"]
      closing_progress [OF own_steps_inv [OF that inv]] by fastforce
  ultimately show ?thesis using s' by blast
qed

theorem close_returns_witness:
  "\<exists>s'. (own_step text_lib (demo_opts VersionBasedRefresh))\<^sup>*\<^sup>* (close_access (demo_store VersionBasedRefresh)) s' \<and>
     rn_close s' = Close_returned \<and> rn_worker s' = Returned"
  using close_returns [OF demo_store_reachable] by simp

text \<open>
  C39. A client must not be used after \<open>Close\<close>: as soon as closing of its first store has begun, every
  \<open>Parse\<close>, \<open>Serialize\<close> (of a value that can be marshalled) and \<open>GetDescriptor\<close> panics with a send
  on a closed channel, and so does a second \<open>Close\<close>.
\<close>

theorem use_after_close_panics:
  assumes "reachable L url opts s" and "rn_close s \<noteq> Not_closing" and "cd_json_Marshal C value = Inr j"
  shows "snd (Parse A C className data (s # stores)) = None \<and> snd (Serialize A C className value (s # stores)) = None \<and>
    snd (GetDescriptor A className (s # stores)) = None \<and> rn_panicked (close_access s)"
proof -
  have c: "st_access_closed s" using reachable_inv [OF assms(1)] assms(2) by (simp add: store_inv_def)
  then have "getMatchingResolver A className (s # stores) = (notify s # stores, None)"
    by (simp add: getResolver_def notify_def Let_def)
  then show ?thesis
    using c assms(3) by (simp add: Parse_def Serialize_def GetDescriptor_def with_resolver_def close_access_def)
qed

text \<open>A server whose every answer decodes to one resolver.\<close>

definition resolver_lib :: "(string \<times> msg_desc option) list Resolver loader_lib" where
  "resolver_lib = \<lparr>ll_NewRequest = (\<lambda>u. None), ll_versions = (\<lambda>b. Inr [1]),
     ll_NewResolver = (\<lambda>b. Inr demo_resolver)\<rparr>"

theorem use_after_close_panics_witness:
  "\<exists>s. reachable resolver_lib ''u'' (demo_opts LongPollingRefresh) s \<and> rn_close s = Access_closed \<and>
     snd (Parse (list_registry []) echo_codec ''c'' [] [s]) = None"
proof -
  obtain n s where c: "newStore resolver_lib ''u'' (demo_opts LongPollingRefresh) (scripted_net [''x'']) = (n, s, None)"
    by (simp add: newStore_def run_loader_def loader_defs demo_net resolver_lib_def Let_def)
  let ?s = "close_access (start_running n s)"
  have r: "reachable resolver_lib ''u'' (demo_opts LongPollingRefresh) ?s"
    by (rule reachable.move [OF reachable.loaded [OF c]]) (simp add: any_step_def outer_step.Close)
  have "st_timer s" "\<not> st_access_closed s" using newStore_ok [OF c] by (simp_all add: demo_opts_def)
  then have cl: "rn_close ?s = Access_closed" by (simp add: close_access_def)
  have "snd (Parse (list_registry []) echo_codec ''c'' [] [?s]) = None"
    using use_after_close_panics [OF r, of echo_codec "[]" "[]" "list_registry []" "''c''" "[]" "[]"] cl
    by (simp add: echo_codec_def)
  then show ?thesis using r cl by blast
qed

section \<open>Construction\<close>

lemma new_stores_exact:
  "case new_stores L opts urls stores n of (n', started, err) \<Rightarrow>
     (\<exists>new. started = stores @ new \<and> map st_url new = take (length new) urls \<and>
       (err = None) = (length new = length urls) \<and>
       list_all (\<lambda>s. \<not> st_access_closed s \<and> st_data s \<noteq> None \<and>
         rn_worker s = (if o_AutoRefresh opts then Selecting else Returned)) new)"
proof (induction urls arbitrary: stores n)
  case (Cons url urls)
  obtain n' s r where c: "newStore L url opts n = (n', s, r)" by (metis prod_cases3)
  show ?case
  proof (cases r)
    case None
    have s: "\<not> st_access_closed s" "st_data s \<noteq> None" "st_timer s = o_AutoRefresh opts" "st_url s = url"
      using newStore_ok [OF c [unfolded None]] by simp_all
    obtain m started err where m: "new_stores L opts urls (stores @ [start_running n' s]) n' = (m, started, err)"
      by (metis prod_cases3)
    from Cons [of "stores @ [start_running n' s]" n'] obtain new where
      "started = stores @ [start_running n' s] @ new" "map st_url new = take (length new) urls"
      "(err = None) = (length new = length urls)"
      "list_all (\<lambda>s. \<not> st_access_closed s \<and> st_data s \<noteq> None \<and>
         rn_worker s = (if o_AutoRefresh opts then Selecting else Returned)) new"
      unfolding m by auto
    then show ?thesis using s c None m by (intro case_prodI2 exI [of _ "start_running n' s # new"]) auto
  qed (use c in simp)
qed simp

text \<open>
  \<open>NewClient\<close> starts the stores in the order of the URLs and fails at the first that cannot be
  loaded. The stores before it stay open with their workers running (when refreshing is on), although
  the caller gets no client to close them with.
\<close>

theorem new_client_exact:
  "case NewClient L urls opts n of (n', started, err) \<Rightarrow>
     map st_url started = take (length started) urls \<and> (err = None) = (length started = length urls) \<and>
     list_all (\<lambda>s. \<not> st_access_closed s \<and> st_data s \<noteq> None \<and>
       rn_worker s = (if o_AutoRefresh opts then Selecting else Returned)) started"
proof -
  have "o_AutoRefresh (setDefaults opts) = o_AutoRefresh opts" by (simp add: setDefaults_def Let_def)
  then show ?thesis
    using new_stores_exact [where L = L and opts = "setDefaults opts" and urls = urls and stores = "[]" and n = n] unfolding NewClient_def
    by (auto split: prod.splits)
qed

section \<open>The version-based refresh\<close>

definition loaded_version :: "'r loader_lib \<Rightarrow> Options \<Rightarrow> string \<Rightarrow> go_int \<Rightarrow> 'r \<Rightarrow> bool" where
  "loaded_version L opts url v data \<longleftrightarrow>
     (\<exists>n n'. loadFromURL L (versions_url url @ ''/'' @ show_int v) opts n = (n', Inr data))"

lemma newer_version_state: "newer_version L opts url (n, l) = ((n', l'), r) \<Longrightarrow> l' = l \<and> (\<forall>v. r = Inr v \<longrightarrow> v > l)"
  by (auto simp: newer_version_def split: prod.splits sum.splits if_splits)

lemma load_version_state:
  "load_version L opts url v (n, l) = ((n', l'), r) \<Longrightarrow>
     (case r of Inl e \<Rightarrow> l' = l | Inr data \<Rightarrow> l' = v \<and> loaded_version L opts url v data)"
  by (auto simp: load_version_def loaded_version_def split: prod.splits sum.splits)

lemma version_refresh_state:
  "versionBasedRefresh L opts url (n, l) = ((n', l'), r) \<Longrightarrow>
     (case r of Inl e \<Rightarrow> l' = l | Inr data \<Rightarrow> l < l' \<and> loaded_version L opts url l' data)"
  by (auto simp: versionBasedRefresh_def bind_io_def split: prod.splits sum.splits
      dest!: newer_version_state load_version_state)

lemma run_refresh_version:
  assumes "o_RefreshStrategy opts = VersionBasedRefresh"
  shows "st_lastVersion (run_refresh L opts s) = st_lastVersion s \<and> st_data (run_refresh L opts s) = st_data s \<or>
    st_lastVersion s < st_lastVersion (run_refresh L opts s) \<and>
    (\<exists>data. st_data (run_refresh L opts s) = Some data \<and>
       loaded_version L opts (st_url s) (st_lastVersion (run_refresh L opts s)) data)"
proof -
  obtain n' l' r where c: "versionBasedRefresh L opts (st_url s) (rn_net s, st_lastVersion s) = ((n', l'), r)"
    by (metis prod.collapse)
  show ?thesis
    using version_refresh_state [OF c] assms c
    by (cases r) (simp_all add: run_refresh_def store_refresh_def run_loader_def getLoader_def)
qed

definition version_inv :: "'r loader_lib \<Rightarrow> Options \<Rightarrow> string \<Rightarrow> 'r running \<Rightarrow> bool" where
  "version_inv L opts url s \<longleftrightarrow> st_url s = url \<and> 0 < st_lastVersion s \<and>
     (\<exists>data. st_data s = Some data \<and> loaded_version L opts url (st_lastVersion s) data)"

lemma any_step_version:
  assumes "any_step L opts s s'" and "o_RefreshStrategy opts = VersionBasedRefresh"
  shows "st_url s' = st_url s \<and>
   (st_lastVersion s' = st_lastVersion s \<and> st_data s' = st_data s \<or>
    st_lastVersion s < st_lastVersion s' \<and>
    (\<exists>data. st_data s' = Some data \<and> loaded_version L opts (st_url s) (st_lastVersion s') data))"
proof -
  have "own_step L opts s s' \<or> outer_step L opts s s'" using assms(1) by (simp add: any_step_def)
  then show ?thesis
  proof
    assume "own_step L opts s s'"
    then show ?thesis
      by (rule own_stepE) (use run_refresh_version [OF assms(2), of L s] in \<open>simp_all add: ticker_Stop_def send_done_def\<close>)
  next
    assume "outer_step L opts s s'"
    then show ?thesis
      by (rule outer_stepE) (use run_refresh_version [OF assms(2), of L s] in simp_all)
  qed
qed

lemma new_store_version:
  assumes "newStore L url opts n = (n', s, None)" and "o_RefreshStrategy opts = VersionBasedRefresh"
  shows "version_inv L opts url (start_running n' s)"
proof -
  obtain n1 l1 r where c: "versionBasedRefresh L opts url (n, 0) = ((n1, l1), r)" by (metis prod.collapse)
  show ?thesis
    using version_refresh_state [OF c] assms c
    by (cases r) (auto simp: newStore_def run_loader_def getLoader_def Let_def version_inv_def)
qed

lemma reachable_version:
  "reachable L url opts s \<Longrightarrow> o_RefreshStrategy opts = VersionBasedRefresh \<Longrightarrow> version_inv L opts url s"
proof (induction rule: reachable.induct)
  case (move s s')
  then show ?case using any_step_version [OF move(2,4)] by (auto simp: version_inv_def)
qed (rule new_store_version)



text \<open>
  Overlapping refreshes can take the schema back: the worker has seen version 1 as the newest, then
  \<open>Refresh\<close> loads version 2 completely, then the worker goes on and stores version 1, with
  \<open>lastVersion\<close> 1 again. (Nothing guards the captured variable.)
\<close>

theorem overlapping_refreshes_regress:
  "\<exists>s1 s2 s3. newer_version text_lib opts ''u'' (scripted_net [''one'', ''two'', ''d2'', ''d1''], 0) = (s1, Inr 1) \<and>
     versionBasedRefresh text_lib opts ''u'' s1 = (s2, Inr ''d2'') \<and> snd s2 = 2 \<and>
     load_version text_lib opts ''u'' 1 s2 = (s3, Inr ''d1'') \<and> snd s3 = 1"
  by (cases "o_Logger opts")
    (simp_all add: loader_defs text_lib_def scripted_net_def logger_Info_def logger_Error_def write_log_def getMaxVersion_def)

end
