(* ===== verification/Grpc.thy ===== *)
theory Grpc
  imports Api Validator
begin

text \<open>
  Calls between a client and the handlers over gRPC: the generated service code
  (\<open>stencil_grpc.pb.go\<close>), the messages as the required-field check sees them
  (\<open>stencil.pb.go\<close>) and the chain of interceptors that \<open>internal/server/server.go\<close>
  installs. The connection belongs to the gRPC library: \<open>grpc_env\<close> says what becomes of each call.
\<close>

section \<open>The client interface\<close>

record 's stencil_client =
  sc_CreateSchema :: "CreateSchemaRequest \<Rightarrow> ('s, SchemaInfo) io"
  sc_CheckCompatibility :: "CheckCompatibilityRequest \<Rightarrow> ('s, unit) io"
  sc_GetSchema :: "string \<Rightarrow> string \<Rightarrow> int32 \<Rightarrow> ('s, bytes) io"
  sc_GetLatestSchema :: "string \<Rightarrow> string \<Rightarrow> ('s, bytes) io"
  sc_GetSchemaMetadata :: "string \<Rightarrow> string \<Rightarrow> ('s, pb_Schema) io"
  sc_ListSchemas :: "string \<Rightarrow> ('s, pb_Schema list) io"
  sc_ListVersions :: "string \<Rightarrow> string \<Rightarrow> ('s, int32 list) io"
  sc_UpdateSchemaMetadata :: "string \<Rightarrow> string \<Rightarrow> int32 \<Rightarrow> ('s, pb_Schema) io"
  sc_DeleteSchema :: "string \<Rightarrow> string \<Rightarrow> ('s, string) io"
  sc_DeleteVersion :: "string \<Rightarrow> string \<Rightarrow> int32 \<Rightarrow> ('s, string) io"
  sc_Search :: "pb_SearchRequest \<Rightarrow> ('s, pb_SearchHits list \<times> nat) io"
  sc_CreateNamespace :: "NamespaceRequest \<Rightarrow> ('s, pb_Namespace) io"
  sc_UpdateNamespace :: "NamespaceRequest \<Rightarrow> ('s, pb_Namespace) io"
  sc_GetNamespace :: "string \<Rightarrow> ('s, pb_Namespace) io"
  sc_ListNamespaces :: "('s, pb_Namespace list) io"
  sc_DeleteNamespace :: "string \<Rightarrow> ('s, string) io"

section \<open>Requests by reflection\<close>

text \<open>
  The fields of each request message in the order of the descriptor, with the field behaviours of
  its options (2 is \<open>REQUIRED\<close>). A scalar field without a value holds its zero value.
\<close>

definition str_field :: "string \<Rightarrow> int list \<Rightarrow> string \<Rightarrow> field_info \<times> pvalue" where
  "str_field n b v = (\<lparr>fi_Kind = StringField, fi_JSONName = n, fi_Behavior = b, fi_EnumNumbers = []\<rparr>, PString v)"

definition bytes_field :: "string \<Rightarrow> int list \<Rightarrow> bytes \<Rightarrow> field_info \<times> pvalue" where
  "bytes_field n b v = (\<lparr>fi_Kind = BytesField, fi_JSONName = n, fi_Behavior = b, fi_EnumNumbers = []\<rparr>, PBytes v)"

definition scalar_field :: "string \<Rightarrow> field_info \<times> pvalue" where
  "scalar_field n = (\<lparr>fi_Kind = OtherField, fi_JSONName = n, fi_Behavior = [], fi_EnumNumbers = []\<rparr>, PScalar)"

definition format_field :: "int list \<Rightarrow> int32 \<Rightarrow> field_info \<times> pvalue" where
  "format_field b v = (\<lparr>fi_Kind = EnumField, fi_JSONName = ''format'', fi_Behavior = b,
     fi_EnumNumbers = map fst Schema_Format_name\<rparr>, PEnum v)"

definition compatibility_field :: "int list \<Rightarrow> int32 \<Rightarrow> field_info \<times> pvalue" where
  "compatibility_field b v = (\<lparr>fi_Kind = EnumField, fi_JSONName = ''compatibility'', fi_Behavior = b,
     fi_EnumNumbers = map fst Schema_Compatibility_name\<rparr>, PEnum v)"

definition ListNamespacesRequest_msg :: pmessage where "ListNamespacesRequest_msg = PMessage []"

definition id_msg :: "string \<Rightarrow> pmessage" where "id_msg i = PMessage [str_field ''id'' [] i]"

definition CreateNamespaceRequest_msg :: "NamespaceRequest \<Rightarrow> pmessage" where
  "CreateNamespaceRequest_msg r = PMessage
     [str_field ''id'' [2] (nreq_Id r), format_field [2] (nreq_Format r), compatibility_field [2] (nreq_Compatibility r),
      str_field ''description'' [] (nreq_Description r)]"

definition UpdateNamespaceRequest_msg :: "NamespaceRequest \<Rightarrow> pmessage" where
  "UpdateNamespaceRequest_msg r = PMessage
     [str_field ''id'' [] (nreq_Id r), format_field [2] (nreq_Format r), compatibility_field [2] (nreq_Compatibility r),
      str_field ''description'' [] (nreq_Description r)]"

definition CreateSchemaRequest_msg :: "CreateSchemaRequest \<Rightarrow> pmessage" where
  "CreateSchemaRequest_msg r = PMessage
     [str_field ''namespaceId'' [] (csr_NamespaceId r), str_field ''schemaId'' [] (csr_SchemaId r),
      bytes_field ''data'' [2] (csr_Data r), format_field [] (csr_Format r), compatibility_field [] (csr_Compatibility r),
      str_field ''sourceUrl'' [] (csr_SourceUrl r), str_field ''commitSha'' [] (csr_CommitSha r)]"

definition CheckCompatibilityRequest_msg :: "CheckCompatibilityRequest \<Rightarrow> pmessage" where
  "CheckCompatibilityRequest_msg r = PMessage
     [str_field ''namespaceId'' [] (ccr_NamespaceId r), str_field ''schemaId'' [] (ccr_SchemaId r),
      bytes_field ''data'' [2] (ccr_Data r), compatibility_field [] (ccr_Compatibility r)]"

definition schema_msg :: "string \<Rightarrow> string \<Rightarrow> pmessage" where
  "schema_msg ns sc = PMessage [str_field ''namespaceId'' [] ns, str_field ''schemaId'' [] sc]"

definition UpdateSchemaMetadataRequest_msg :: "string \<Rightarrow> string \<Rightarrow> int32 \<Rightarrow> pmessage" where
  "UpdateSchemaMetadataRequest_msg ns sc c = PMessage
     [str_field ''namespaceId'' [] ns, str_field ''schemaId'' [] sc, compatibility_field [] c]"

definition version_msg :: "string \<Rightarrow> string \<Rightarrow> pmessage" where
  "version_msg ns sc = PMessage [str_field ''namespaceId'' [] ns, str_field ''schemaId'' [] sc, scalar_field ''versionId'']"

definition SearchRequest_msg :: "pb_SearchRequest \<Rightarrow> pmessage" where
  "SearchRequest_msg r = PMessage
     [str_field ''namespaceId'' [] (psr_NamespaceId r), str_field ''schemaId'' [] (psr_SchemaId r),
      str_field ''query'' [2] (psr_Query r), scalar_field ''history'', scalar_field ''versionId'']"

lemmas field_defs = str_field_def bytes_field_def scalar_field_def format_field_def compatibility_field_def

lemmas msg_defs = ListNamespacesRequest_msg_def id_msg_def CreateNamespaceRequest_msg_def UpdateNamespaceRequest_msg_def
  CreateSchemaRequest_msg_def CheckCompatibilityRequest_msg_def schema_msg_def UpdateSchemaMetadataRequest_msg_def
  version_msg_def SearchRequest_msg_def

section \<open>The connection and the server\<close>

text \<open>
  A call may not arrive, may be served with its answer lost, or is served and answered. An error crosses
  the wire as its status.
\<close>

datatype fate = Unreachable go_error | ReplyLost go_error | Delivered

record 's grpc_env =
  ge_fate :: "string \<Rightarrow> 's \<Rightarrow> fate"
  ge_dec_error :: "string \<Rightarrow> 's \<Rightarrow> go_error option"
  ge_recovered :: go_error
  ge_protoSize :: "pmessage \<Rightarrow> nat"

definition status_of :: "go_error \<Rightarrow> grpc_code \<times> string" where
  "status_of err = (case grpc_status err of Some st \<Rightarrow> st | None \<Rightarrow> (Code_Unknown, error_text err))"

definition wire_error :: "go_error \<Rightarrow> go_error" where
  "wire_error e = StatusErr (fst (status_of e)) (snd (status_of e))"

definition Invoke :: "'s grpc_env \<Rightarrow> string \<Rightarrow> ('s, 'a) io \<Rightarrow> ('s, 'a) io" where
  "Invoke G fullMethod server s =
     (case ge_fate G fullMethod s of
        Unreachable e \<Rightarrow> (s, Inl e)
      | ReplyLost e \<Rightarrow> (fst (server s), Inl e)
      | Delivered \<Rightarrow> map_err_io wire_error server s)"

text \<open>
  The chain of \<open>Start\<close>: recovery turns a panic of what follows into an error, the interceptors of
  tags, New Relic and logging pass the call on, and the required-field check comes last.
\<close>

definition server_interceptor :: "'s grpc_env \<Rightarrow> pmessage \<Rightarrow> ('s, 'a) io \<Rightarrow> ('s, 'a) io" where
  "server_interceptor G req handler s =
     (case UnaryServerInterceptor (ge_protoSize G) (Some req) handler s of
        None \<Rightarrow> (s, Inl (ge_recovered G))
      | Some r \<Rightarrow> r)"

text \<open>What every generated handler does around the method it calls.\<close>

definition unary_Handler ::
  "go_error option \<Rightarrow> (pmessage \<Rightarrow> ('s, 'a) io \<Rightarrow> ('s, 'a) io) option \<Rightarrow> pmessage \<Rightarrow> ('s, 'a) io \<Rightarrow> ('s, 'a) io" where
  "unary_Handler dec_err interceptor msg method s =
     (case dec_err of
        Some err \<Rightarrow> (s, Inl err)
      | None \<Rightarrow> (case interceptor of None \<Rightarrow> method s | Some i \<Rightarrow> i msg method s))"

text \<open>A response beside an error is dropped.\<close>

definition rpc_io :: "('s, 'r) rpc \<Rightarrow> ('s, 'r) io" where
  "rpc_io m s = (case m s of (s', r, err) \<Rightarrow> (s', case err of None \<Rightarrow> Inr r | Some e \<Rightarrow> Inl e))"

definition rpc_name :: "string \<Rightarrow> string" where
  "rpc_name n = ''/gotocompany.stencil.v1beta1.StencilService/'' @ n"

abbreviation served :: "'s grpc_env \<Rightarrow> string \<Rightarrow> pmessage \<Rightarrow> ('s, 'a) io \<Rightarrow> ('s, 'a) io" where
  "served G n msg m \<equiv> (\<lambda>s. unary_Handler (ge_dec_error G n s) (Some (server_interceptor G)) msg m s)"

definition ListNamespaces_Handler :: "'s grpc_env \<Rightarrow> 's API \<Rightarrow> ('s, pb_Namespace list) io" where
  "ListNamespaces_Handler G srv = served G (rpc_name ''ListNamespaces'') ListNamespacesRequest_msg (rpc_io (API_ListNamespaces srv))"

definition GetNamespace_Handler :: "'s grpc_env \<Rightarrow> 's API \<Rightarrow> string \<Rightarrow> ('s, pb_Namespace) io" where
  "GetNamespace_Handler G srv i = served G (rpc_name ''GetNamespace'') (id_msg i) (rpc_io (API_GetNamespace srv i))"

definition CreateNamespace_Handler :: "'s grpc_env \<Rightarrow> 's API \<Rightarrow> NamespaceRequest \<Rightarrow> ('s, pb_Namespace) io" where
  "CreateNamespace_Handler G srv r =
     served G (rpc_name ''CreateNamespace'') (CreateNamespaceRequest_msg r) (rpc_io (API_CreateNamespace srv r))"

definition UpdateNamespace_Handler :: "'s grpc_env \<Rightarrow> 's API \<Rightarrow> NamespaceRequest \<Rightarrow> ('s, pb_Namespace) io" where
  "UpdateNamespace_Handler G srv r =
     served G (rpc_name ''UpdateNamespace'') (UpdateNamespaceRequest_msg r) (rpc_io (API_UpdateNamespace srv r))"

definition DeleteNamespace_Handler :: "'s grpc_env \<Rightarrow> 's API \<Rightarrow> string \<Rightarrow> ('s, string) io" where
  "DeleteNamespace_Handler G srv i = served G (rpc_name ''DeleteNamespace'') (id_msg i) (rpc_io (API_DeleteNamespace srv i))"

definition ListSchemas_Handler :: "'s grpc_env \<Rightarrow> 's API \<Rightarrow> string \<Rightarrow> ('s, pb_Schema list) io" where
  "ListSchemas_Handler G srv i = served G (rpc_name ''ListSchemas'') (id_msg i) (rpc_io (API_ListSchemas srv i))"

text \<open>The job that an upload starts in the background is not the caller's.\<close>

definition CreateSchema_Handler :: "'s grpc_env \<Rightarrow> 's API \<Rightarrow> CreateSchemaRequest \<Rightarrow> ('s, SchemaInfo) io" where
  "CreateSchema_Handler G srv r = served G (rpc_name ''CreateSchema'') (CreateSchemaRequest_msg r)
     (rpc_io (\<lambda>s. case API_CreateSchema srv r s of (s', info, err, job) \<Rightarrow> (s', info, err)))"

definition CheckCompatibility_Handler :: "'s grpc_env \<Rightarrow> 's API \<Rightarrow> CheckCompatibilityRequest \<Rightarrow> ('s, unit) io" where
  "CheckCompatibility_Handler G srv r = served G (rpc_name ''CheckCompatibility'') (CheckCompatibilityRequest_msg r)
     (rpc_io (\<lambda>s. case API_CheckCompatibility srv r s of (s', err) \<Rightarrow> (s', (), err)))"

definition GetSchemaMetadata_Handler :: "'s grpc_env \<Rightarrow> 's API \<Rightarrow> string \<Rightarrow> string \<Rightarrow> ('s, pb_Schema) io" where
  "GetSchemaMetadata_Handler G srv ns sc =
     served G (rpc_name ''GetSchemaMetadata'') (schema_msg ns sc) (rpc_io (API_GetSchemaMetadata srv ns sc))"

definition UpdateSchemaMetadata_Handler :: "'s grpc_env \<Rightarrow> 's API \<Rightarrow> string \<Rightarrow> string \<Rightarrow> int32 \<Rightarrow> ('s, pb_Schema) io" where
  "UpdateSchemaMetadata_Handler G srv ns sc c = served G (rpc_name ''UpdateSchemaMetadata'')
     (UpdateSchemaMetadataRequest_msg ns sc c) (rpc_io (API_UpdateSchemaMetadata srv ns sc c))"

definition GetLatestSchema_Handler :: "'s grpc_env \<Rightarrow> 's API \<Rightarrow> string \<Rightarrow> string \<Rightarrow> ('s, bytes) io" where
  "GetLatestSchema_Handler G srv ns sc =
     served G (rpc_name ''GetLatestSchema'') (schema_msg ns sc) (rpc_io (API_GetLatestSchema srv ns sc))"

definition DeleteSchema_Handler :: "'s grpc_env \<Rightarrow> 's API \<Rightarrow> string \<Rightarrow> string \<Rightarrow> ('s, string) io" where
  "DeleteSchema_Handler G srv ns sc =
     served G (rpc_name ''DeleteSchema'') (schema_msg ns sc) (rpc_io (API_DeleteSchema srv ns sc))"

definition GetSchema_Handler :: "'s grpc_env \<Rightarrow> 's API \<Rightarrow> string \<Rightarrow> string \<Rightarrow> int32 \<Rightarrow> ('s, bytes) io" where
  "GetSchema_Handler G srv ns sc v =
     served G (rpc_name ''GetSchema'') (version_msg ns sc) (rpc_io (API_GetSchema srv ns sc v))"

definition ListVersions_Handler :: "'s grpc_env \<Rightarrow> 's API \<Rightarrow> string \<Rightarrow> string \<Rightarrow> ('s, int32 list) io" where
  "ListVersions_Handler G srv ns sc =
     served G (rpc_name ''ListVersions'') (schema_msg ns sc) (rpc_io (API_ListVersions srv ns sc))"

definition DeleteVersion_Handler :: "'s grpc_env \<Rightarrow> 's API \<Rightarrow> string \<Rightarrow> string \<Rightarrow> int32 \<Rightarrow> ('s, string) io" where
  "DeleteVersion_Handler G srv ns sc v =
     served G (rpc_name ''DeleteVersion'') (version_msg ns sc) (rpc_io (API_DeleteVersion srv ns sc v))"

definition Search_Handler :: "'s grpc_env \<Rightarrow> 's API \<Rightarrow> pb_SearchRequest \<Rightarrow> ('s, pb_SearchHits list \<times> nat) io" where
  "Search_Handler G srv r = served G (rpc_name ''Search'') (SearchRequest_msg r) (API_Search srv r)"

lemmas handler_defs = ListNamespaces_Handler_def GetNamespace_Handler_def CreateNamespace_Handler_def UpdateNamespace_Handler_def
  DeleteNamespace_Handler_def ListSchemas_Handler_def CreateSchema_Handler_def CheckCompatibility_Handler_def
  GetSchemaMetadata_Handler_def UpdateSchemaMetadata_Handler_def GetLatestSchema_Handler_def DeleteSchema_Handler_def
  GetSchema_Handler_def ListVersions_Handler_def DeleteVersion_Handler_def Search_Handler_def

section \<open>The generated client\<close>

definition NewStencilServiceClient :: "'s grpc_env \<Rightarrow> 's API \<Rightarrow> 's stencil_client" where
  "NewStencilServiceClient G srv = \<lparr>
     sc_CreateSchema = (\<lambda>r. Invoke G (rpc_name ''CreateSchema'') (CreateSchema_Handler G srv r)),
     sc_CheckCompatibility = (\<lambda>r. Invoke G (rpc_name ''CheckCompatibility'') (CheckCompatibility_Handler G srv r)),
     sc_GetSchema = (\<lambda>ns sc v. Invoke G (rpc_name ''GetSchema'') (GetSchema_Handler G srv ns sc v)),
     sc_GetLatestSchema = (\<lambda>ns sc. Invoke G (rpc_name ''GetLatestSchema'') (GetLatestSchema_Handler G srv ns sc)),
     sc_GetSchemaMetadata = (\<lambda>ns sc. Invoke G (rpc_name ''GetSchemaMetadata'') (GetSchemaMetadata_Handler G srv ns sc)),
     sc_ListSchemas = (\<lambda>i. Invoke G (rpc_name ''ListSchemas'') (ListSchemas_Handler G srv i)),
     sc_ListVersions = (\<lambda>ns sc. Invoke G (rpc_name ''ListVersions'') (ListVersions_Handler G srv ns sc)),
     sc_UpdateSchemaMetadata = (\<lambda>ns sc c. Invoke G (rpc_name ''UpdateSchemaMetadata'') (UpdateSchemaMetadata_Handler G srv ns sc c)),
     sc_DeleteSchema = (\<lambda>ns sc. Invoke G (rpc_name ''DeleteSchema'') (DeleteSchema_Handler G srv ns sc)),
     sc_DeleteVersion = (\<lambda>ns sc v. Invoke G (rpc_name ''DeleteVersion'') (DeleteVersion_Handler G srv ns sc v)),
     sc_Search = (\<lambda>r. Invoke G (rpc_name ''Search'') (Search_Handler G srv r)),
     sc_CreateNamespace = (\<lambda>r. Invoke G (rpc_name ''CreateNamespace'') (CreateNamespace_Handler G srv r)),
     sc_UpdateNamespace = (\<lambda>r. Invoke G (rpc_name ''UpdateNamespace'') (UpdateNamespace_Handler G srv r)),
     sc_GetNamespace = (\<lambda>i. Invoke G (rpc_name ''GetNamespace'') (GetNamespace_Handler G srv i)),
     sc_ListNamespaces = Invoke G (rpc_name ''ListNamespaces'') (ListNamespaces_Handler G srv),
     sc_DeleteNamespace = (\<lambda>i. Invoke G (rpc_name ''DeleteNamespace'') (DeleteNamespace_Handler G srv i))\<rparr>"

lemma client_sel [simp]:
  "sc_CreateSchema (NewStencilServiceClient G srv) csr = Invoke G (rpc_name ''CreateSchema'') (CreateSchema_Handler G srv csr)"
  "sc_CheckCompatibility (NewStencilServiceClient G srv) ccr = Invoke G (rpc_name ''CheckCompatibility'') (CheckCompatibility_Handler G srv ccr)"
  "sc_GetSchema (NewStencilServiceClient G srv) ns sc v = Invoke G (rpc_name ''GetSchema'') (GetSchema_Handler G srv ns sc v)"
  "sc_GetLatestSchema (NewStencilServiceClient G srv) ns sc = Invoke G (rpc_name ''GetLatestSchema'') (GetLatestSchema_Handler G srv ns sc)"
  "sc_GetSchemaMetadata (NewStencilServiceClient G srv) ns sc = Invoke G (rpc_name ''GetSchemaMetadata'') (GetSchemaMetadata_Handler G srv ns sc)"
  "sc_ListSchemas (NewStencilServiceClient G srv) i = Invoke G (rpc_name ''ListSchemas'') (ListSchemas_Handler G srv i)"
  "sc_ListVersions (NewStencilServiceClient G srv) ns sc = Invoke G (rpc_name ''ListVersions'') (ListVersions_Handler G srv ns sc)"
  "sc_UpdateSchemaMetadata (NewStencilServiceClient G srv) ns sc c =
     Invoke G (rpc_name ''UpdateSchemaMetadata'') (UpdateSchemaMetadata_Handler G srv ns sc c)"
  "sc_DeleteSchema (NewStencilServiceClient G srv) ns sc = Invoke G (rpc_name ''DeleteSchema'') (DeleteSchema_Handler G srv ns sc)"
  "sc_DeleteVersion (NewStencilServiceClient G srv) ns sc v = Invoke G (rpc_name ''DeleteVersion'') (DeleteVersion_Handler G srv ns sc v)"
  "sc_Search (NewStencilServiceClient G srv) sr = Invoke G (rpc_name ''Search'') (Search_Handler G srv sr)"
  "sc_CreateNamespace (NewStencilServiceClient G srv) nr = Invoke G (rpc_name ''CreateNamespace'') (CreateNamespace_Handler G srv nr)"
  "sc_UpdateNamespace (NewStencilServiceClient G srv) nr = Invoke G (rpc_name ''UpdateNamespace'') (UpdateNamespace_Handler G srv nr)"
  "sc_GetNamespace (NewStencilServiceClient G srv) i = Invoke G (rpc_name ''GetNamespace'') (GetNamespace_Handler G srv i)"
  "sc_ListNamespaces (NewStencilServiceClient G srv) = Invoke G (rpc_name ''ListNamespaces'') (ListNamespaces_Handler G srv)"
  "sc_DeleteNamespace (NewStencilServiceClient G srv) i = Invoke G (rpc_name ''DeleteNamespace'') (DeleteNamespace_Handler G srv i)"
  by (simp_all add: NewStencilServiceClient_def)

section \<open>What the check of required fields lets through\<close>

definition missing_error :: "string list \<Rightarrow> go_error" where
  "missing_error ps = StatusErr Code_InvalidArgument (''following fields are missing: '' @ join ps '', '')"

lemma interceptor_passes: "validateMessage sz msg = Some [] \<Longrightarrow> sz = ge_protoSize G \<Longrightarrow> server_interceptor G msg h s = h s"
  by (simp add: server_interceptor_def UnaryServerInterceptor_def validate_def)

lemma interceptor_refuses:
  "validateMessage sz msg = Some (p # ps) \<Longrightarrow> sz = ge_protoSize G \<Longrightarrow>
     server_interceptor G msg h s = (s, Inl (missing_error (p # ps)))"
  by (simp add: server_interceptor_def UnaryServerInterceptor_def validate_def missing_error_def)

lemmas check_defs = own_missing_def checkIfFieldRequired_def FieldBehavior_REQUIRED_def checkValueExists_def field_defs

lemma validate_requests:
  "validateMessage sz ListNamespacesRequest_msg = Some []"
  "validateMessage sz (id_msg i) = Some []"
  "validateMessage sz (schema_msg ns sc) = Some []"
  "validateMessage sz (version_msg ns sc) = Some []"
  "validateMessage sz (UpdateSchemaMetadataRequest_msg ns sc c) = Some []"
  "validateMessage sz (CreateSchemaRequest_msg csr) = Some (if csr_Data csr = [] then [''data''] else [])"
  "validateMessage sz (CheckCompatibilityRequest_msg ccr) = Some (if ccr_Data ccr = [] then [''data''] else [])"
  "validateMessage sz (SearchRequest_msg sr) = Some (if psr_Query sr = [] then [''query''] else [])"
  "validateMessage sz (CreateNamespaceRequest_msg nr) = Some ((if nreq_Id nr = [] then [''id''] else []) @
     (if nreq_Format nr \<in> set (map fst Schema_Format_name) then [] else [''format'']) @
     (if nreq_Compatibility nr \<in> set (map fst Schema_Compatibility_name) then [] else [''compatibility'']))"
  "validateMessage sz (UpdateNamespaceRequest_msg nr) = Some (
     (if nreq_Format nr \<in> set (map fst Schema_Format_name) then [] else [''format'']) @
     (if nreq_Compatibility nr \<in> set (map fst Schema_Compatibility_name) then [] else [''compatibility'']))"
  by (simp_all add: msg_defs check_defs)

lemma interceptor_decides:
  "validateMessage (ge_protoSize G) msg = Some ps \<Longrightarrow>
     server_interceptor G msg h s = (if ps = [] then h s else (s, Inl (missing_error ps)))"
  by (cases ps) (simp_all add: interceptor_passes interceptor_refuses)

lemmas interceptor_requests = validate_requests [THEN interceptor_decides]

section \<open>Calls that succeed, and what a call keeps\<close>

text \<open>A connection on which every call is served and answered.\<close>

definition reliable :: "'s grpc_env \<Rightarrow> bool" where
  "reliable G \<longleftrightarrow> (\<forall>n s. ge_fate G n s = Delivered \<and> ge_dec_error G n s = None)"

lemma reliable_call:
  "reliable G \<Longrightarrow> Invoke G n m s = map_err_io wire_error m s"
  "reliable G \<Longrightarrow> unary_Handler (ge_dec_error G n s) (Some i) msg m s = i msg m s"
  by (simp_all add: reliable_def Invoke_def unary_Handler_def)

lemma call_ok:
  assumes "reliable G" "validateMessage (ge_protoSize G) msg = Some []" "m s = (s', Inr a)"
  shows "Invoke G n (\<lambda>s. unary_Handler (ge_dec_error G n' s) (Some (server_interceptor G)) msg m s) s = (s', Inr a)"
  using assms by (simp add: reliable_call interceptor_passes map_err_io_def)

text \<open>What a call that succeeds has done.\<close>

lemma Invoke_Inr: "Invoke G n m s = (s', Inr a) \<Longrightarrow> m s = (s', Inr a)"
  by (auto simp: Invoke_def split: fate.splits)

lemma served_Inr:
  "unary_Handler (ge_dec_error G n s) (Some (server_interceptor G)) msg m s = (s', Inr a) \<Longrightarrow>
     validateMessage (ge_protoSize G) msg = Some [] \<and> m s = (s', Inr a)"
  by (auto simp: unary_Handler_def server_interceptor_def UnaryServerInterceptor_def validate_def split: option.splits if_splits)

lemma create_rpc_Inr:
  assumes "sc_CreateSchema (NewStencilServiceClient G A) r s = (s', Inr info)"
  shows "csr_Data r \<noteq> [] \<and> (\<exists>job. API_CreateSchema A r s = (s', info, None, job))"
proof -
  have h: "CreateSchema_Handler G A r s = (s', Inr info)" using Invoke_Inr assms by simp
  from served_Inr [OF h [unfolded CreateSchema_Handler_def]]
  show ?thesis by (auto simp: validate_requests rpc_io_def split: if_splits prod.splits option.splits)
qed

lemma keeps_Invoke [intro]: "keeps I m \<Longrightarrow> keeps I (Invoke G n m)"
  by (fastforce simp: keeps_def Invoke_def map_err_io_def split: fate.splits prod.splits sum.splits)

lemma keeps_served [intro]:
  "keeps I m \<Longrightarrow> keeps I (\<lambda>s. unary_Handler (ge_dec_error G n s) (Some (server_interceptor G)) msg m s)"
  by (auto simp: keeps_def unary_Handler_def server_interceptor_def UnaryServerInterceptor_def split: option.splits)

lemma keeps_rpc: "keeps I m \<Longrightarrow> keeps I (rpc_io (map_rpc f (val_err z m)))" "keeps I m \<Longrightarrow> keeps I (rpc_io (val_err z m))"
  by (fastforce simp: keeps_def rpc_io_def map_rpc_def val_err_def split: prod.splits sum.splits)+

end
