(* ===== verification/Cli.thy ===== *)
theory Cli
  imports Grpc
begin

text \<open>
  The commands of the command-line client, \<open>cmd/*.go\<close>: each \<open>RunE\<close> function as a program over the
  server behind the gRPC client, the files, and what is printed. The gRPC client is a record of
  functions; the terminal, the prompts, the configuration and the printing libraries are fields of
  \<open>cli_env\<close>. The spinner is left out.
\<close>

section \<open>The world of a command\<close>

datatype cli_out =
    Print string
  | Table "string list list"
  | Highlighted string string
  | Page string

record 's cli =
  cli_server :: 's
  cli_files :: "string \<Rightarrow> bytes option"
  cli_out :: "cli_out list"

text \<open>The styles of the terminal, the answers of the user, the failures of the system.\<close>

record 's cli_env =
  ce_Green :: "string \<Rightarrow> string"
  ce_Red :: "string \<Rightarrow> string"
  ce_Blue :: "string \<Rightarrow> string"
  ce_Cyan :: "string \<Rightarrow> string"
  ce_Grey :: "string \<Rightarrow> string"
  ce_Bold :: "string \<Rightarrow> string"
  ce_SuccessIcon :: string
  ce_FailureIcon :: string
  ce_WarningIcon :: string
  ce_Input :: "string \<Rightarrow> string"
  ce_Select :: "string \<Rightarrow> string list \<Rightarrow> nat"
  ce_humanize :: "int \<Rightarrow> string"
  ce_Highlight_fails :: "string \<Rightarrow> string \<Rightarrow> bool"
  ce_read_error :: "string \<Rightarrow> go_error option"
  ce_write_error :: "string \<Rightarrow> go_error option"
  ce_Config_Load :: "string \<times> go_error option"
  ce_is_ConfigFileNotFound :: "go_error \<Rightarrow> bool"
  ce_Config_Init :: "go_error option"
  ce_Config_File :: string
  ce_Config_Read :: "string res"
  ce_dial :: "string \<Rightarrow> 's stencil_client res"

definition nl :: string where "nl = [char_of (10 :: nat)]"
definition tab :: string where "tab = [char_of (9 :: nat)]"
definition dq :: "string \<Rightarrow> string" where "dq s = [char_of (34 :: nat)] @ s @ [char_of (34 :: nat)]"
definition sq :: "string \<Rightarrow> string" where "sq s = [char_of (39 :: nat)] @ s @ [char_of (39 :: nat)]"
definition bq :: "string \<Rightarrow> string" where "bq s = [char_of (96 :: nat)] @ s @ [char_of (96 :: nat)]"

definition emit :: "cli_out \<Rightarrow> ('s cli, unit) io" where
  "emit x w = (w\<lparr>cli_out := cli_out w @ [x]\<rparr>, Inr ())"

abbreviation printf :: "string \<Rightarrow> ('s cli, unit) io" where "printf s \<equiv> emit (Print s)"

definition call :: "('s, 'a) io \<Rightarrow> ('s cli, 'a) io" where
  "call m w = (case m (cli_server w) of (s', r) \<Rightarrow> (w\<lparr>cli_server := s'\<rparr>, r))"

definition os_ReadFile :: "'s cli_env \<Rightarrow> string \<Rightarrow> ('s cli, bytes) io" where
  "os_ReadFile E path w =
     (w, case ce_read_error E path of Some e \<Rightarrow> Inl e
         | None \<Rightarrow> (case cli_files w path of Some d \<Rightarrow> Inr d
                   | None \<Rightarrow> Inl (ErrExt (''open '' @ path @ '': no such file or directory''))))"

definition os_WriteFile :: "'s cli_env \<Rightarrow> string \<Rightarrow> bytes \<Rightarrow> ('s cli, unit) io" where
  "os_WriteFile E path data w =
     (case ce_write_error E path of Some e \<Rightarrow> (w, Inl e)
      | None \<Rightarrow> (w\<lparr>cli_files := (cli_files w)(path \<mapsto> data)\<rparr>, Inr ()))"

definition then_io :: "('s, 'a) io \<Rightarrow> ('s, 'b) io \<Rightarrow> ('s, 'b) io" where
  "then_io m k = bind_io m (\<lambda>_. k)"

section \<open>The connection (cmd/client.go, cmd/errors.go)\<close>

definition ErrClientConfigNotFound :: go_error where
  "ErrClientConfigNotFound = ErrString (''Stencil client config not found.'' @ nl @
     ''Run '' @ dq ''stencil config init'' @ '' to initialize a new client config or'' @ nl @
     ''Run '' @ dq ''stencil help environment'' @ '' for more information.'' @ nl)"

definition ErrClientConfigHostNotFound :: go_error where
  "ErrClientConfigHostNotFound = ErrString (''Stencil client config '' @ dq ''host'' @ '' not found.'' @ nl @
     ''Pass stencil server host with '' @ dq ''--host'' @ '' flag or '' @ nl @
     ''set host in stencil config.'' @ nl @ ''Run '' @ dq ''stencil config <subcommand>'' @ '' or'' @ nl @
     dq ''stencil help environment'' @ '' for more information.'' @ nl)"

definition loadClientConfig :: "'s cli_env \<Rightarrow> string res" where
  "loadClientConfig E =
     (case ce_Config_Load E of
        (host, None) \<Rightarrow> Inr host
      | (host, Some err) \<Rightarrow> if \<not> ce_is_ConfigFileNotFound E err then Inl ErrClientConfigNotFound else Inr host)"

definition createClient :: "'s cli_env \<Rightarrow> 's stencil_client res" where
  "createClient E =
     (case loadClientConfig E of
        Inl err \<Rightarrow> Inl err
      | Inr host \<Rightarrow> if host = [] then Inl ErrClientConfigHostNotFound else ce_dial E host)"

definition with_client :: "'s cli_env \<Rightarrow> ('s stencil_client \<Rightarrow> ('s cli, unit) io) \<Rightarrow> ('s cli, unit) io" where
  "with_client E f = (case createClient E of Inl err \<Rightarrow> fail_io err | Inr client \<Rightarrow> f client)"

section \<open>Names (cmd/cdk.go)\<close>

definition dict :: "(string \<times> string) list" where
  "dict = [(''COMPATIBILITY_BACKWARD'', ''backward''), (''COMPATIBILITY_FORWARD'', ''forward''),
     (''COMPATIBILITY_FULL'', ''full''), (''COMPATIBILITY_UNSPECIFIED'', ''-''),
     (''FORMAT_PROTOBUF'', ''protobuf''), (''FORMAT_JSON'', ''json''), (''FORMAT_AVRO'', ''avro'')]"

definition dict_get :: "string \<Rightarrow> string" where
  "dict_get k = (case map_of dict k of Some v \<Rightarrow> v | None \<Rightarrow> [])"

definition formats :: "string list" where "formats = [''FORMAT_JSON'', ''FORMAT_PROTOBUF'', ''FORMAT_AVRO'']"

definition comps :: "string list" where
  "comps = [''COMPATIBILITY_BACKWARD'', ''COMPATIBILITY_FORWARD'', ''COMPATIBILITY_FULL'']"

section \<open>Schema commands\<close>

definition fetchSchemaAndMeta ::
  "'s stencil_client \<Rightarrow> int32 \<Rightarrow> string \<Rightarrow> string \<Rightarrow> ('s cli, bytes \<times> pb_Schema) io" where
  "fetchSchemaAndMeta client version namespaceID schemaID =
     bind_io (if version \<noteq> 0 then call (sc_GetSchema client namespaceID schemaID version)
              else call (sc_GetLatestSchema client namespaceID schemaID)) (\<lambda>data.
     bind_io (call (sc_GetSchemaMetadata client namespaceID schemaID)) (\<lambda>meta.
       return_io (data, meta)))"

definition checkSchemaCmd :: "'s cli_env \<Rightarrow> string \<Rightarrow> string \<Rightarrow> string \<Rightarrow> string \<Rightarrow> ('s cli, unit) io" where
  "checkSchemaCmd E cmp file' namespaceID schemaID =
     bind_io (os_ReadFile E file') (\<lambda>fileData.
     with_client E (\<lambda>client.
       let req = \<lparr>ccr_NamespaceId = namespaceID, ccr_SchemaId = schemaID, ccr_Data = fileData,
                  ccr_Compatibility = compat_value cmp\<rparr>
       in catch_io (call (sc_CheckCompatibility client req)) (\<lambda>r.
            case r of
              Inl err \<Rightarrow> fail_io (ErrString (snd (status_of err)))
            | Inr _ \<Rightarrow> printf (nl @ ce_Green E (ce_SuccessIcon E) @ '' Schema is compatible.'' @ nl))))"

definition create_request :: "string \<Rightarrow> string \<Rightarrow> string \<Rightarrow> string \<Rightarrow> bytes \<Rightarrow> CreateSchemaRequest" where
  "create_request format cmp namespaceID schemaID data =
     \<lparr>csr_NamespaceId = namespaceID, csr_SchemaId = schemaID, csr_Data = data, csr_Format = format_value format,
      csr_Compatibility = compat_value cmp, csr_SourceUrl = [], csr_CommitSha = []\<rparr>"

definition createSchemaCmd ::
  "'s cli_env \<Rightarrow> string \<Rightarrow> string \<Rightarrow> string \<Rightarrow> string \<Rightarrow> string \<Rightarrow> ('s cli, unit) io" where
  "createSchemaCmd E format cmp file' namespaceID schemaID =
     bind_io (os_ReadFile E file') (\<lambda>fileData.
     with_client E (\<lambda>client.
       let req = create_request format cmp namespaceID schemaID fileData
       in catch_io (call (sc_CreateSchema client req)) (\<lambda>r.
            case r of
              Inl err \<Rightarrow>
                (if fst (status_of err) = Code_AlreadyExists
                 then printf (nl @ ce_FailureIcon E @ '' Schema with id '' @ sq schemaID @ '' already exist.'' @ nl)
                 else fail_io (ErrString (snd (status_of err))))
            | Inr res \<Rightarrow>
                printf (nl @ ce_Green E (ce_SuccessIcon E) @ '' Created schema with id '' @ ce_Cyan E (si_ID res) @ ''.'' @ nl))))"

definition deleteSchemaCmd :: "'s cli_env \<Rightarrow> int32 \<Rightarrow> string \<Rightarrow> string \<Rightarrow> ('s cli, unit) io" where
  "deleteSchemaCmd E version namespaceID schemaID =
     with_client E (\<lambda>client.
       then_io (if version = 0 then call (sc_DeleteSchema client namespaceID schemaID)
                else call (sc_DeleteVersion client namespaceID schemaID version))
         (printf ''Schema successfully deleted''))"

definition downloadSchemaCmd :: "'s cli_env \<Rightarrow> string \<Rightarrow> int32 \<Rightarrow> string \<Rightarrow> string \<Rightarrow> ('s cli, unit) io" where
  "downloadSchemaCmd E out version namespaceID schemaID =
     with_client E (\<lambda>client.
       bind_io (fetchSchemaAndMeta client version namespaceID schemaID) (\<lambda>(data, _).
       then_io (os_WriteFile E out data)
         (printf (ce_Green E (ce_SuccessIcon E) @ '' Schema successfully written to '' @ out @ nl))))"

definition editSchemaCmd :: "'s cli_env \<Rightarrow> string \<Rightarrow> string \<Rightarrow> string \<Rightarrow> ('s cli, unit) io" where
  "editSchemaCmd E cmp namespaceID schemaID =
     with_client E (\<lambda>client.
       then_io (call (sc_UpdateSchemaMetadata client namespaceID schemaID (compat_value cmp)))
         (printf ''Schema successfully updated''))"

text \<open>The rows of a table, with their index from 1.\<close>

definition schema_line :: "'s cli_env \<Rightarrow> nat \<times> pb_Schema \<Rightarrow> string list" where
  "schema_line E idx =
     (let s = snd idx; a = ps_Authority s
      in [ce_Green E (''#'' @ show_nat (fst idx)), ps_Name s, dict_get (format_String (ps_Format s)),
          dict_get (compat_String (ps_Compatibility s)), if a = [] then ''-'' else a])"

definition schema_report :: "'s cli_env \<Rightarrow> pb_Schema list \<Rightarrow> string list list" where
  "schema_report E schemas =
     map (ce_Bold E) [''INDEX'', ''NAME'', ''FORMAT'', ''COMPATIBILITY'', ''AUTHORITY''] #
     map (schema_line E) (enumerate 1 schemas)"

definition listSchemaCmd :: "'s cli_env \<Rightarrow> string \<Rightarrow> ('s cli, unit) io" where
  "listSchemaCmd E namespace =
     with_client E (\<lambda>client.
       bind_io (call (sc_ListSchemas client namespace)) (\<lambda>schemas.
         if schemas = [] then printf (''No schema found in namespace '' @ namespace @ nl)
         else
           let n = show_nat (length schemas)
           in then_io (printf (nl @ ''Showing '' @ n @ '' of '' @ n @ '' schemas in '' @ namespace @ nl @ nl))
                (emit (Table (schema_report E schemas)))))"

text \<open>The field \<open>Authority\<close> is printed through the dictionary of formats and modes.\<close>

definition info_text :: "'s cli_env \<Rightarrow> string \<Rightarrow> string \<Rightarrow> pb_Schema \<Rightarrow> string" where
  "info_text E namespace schemaID info =
     nl @ ce_Blue E schemaID @ nl @
     nl @ ce_Grey E ''No description provided'' @ nl @ nl @
     ce_Grey E ''Namespace:'' @ '' '' @ tab @ '' '' @ namespace @ '' '' @ nl @
     ce_Grey E ''Format:'' @ '' '' @ tab @ '' '' @ dict_get (format_String (ps_Format info)) @ '' '' @ nl @
     ce_Grey E ''Compatibility:'' @ '' '' @ tab @ '' '' @ dict_get (compat_String (ps_Compatibility info)) @ '' '' @ nl @
     ce_Grey E ''Authority:'' @ '' '' @ tab @ '' '' @ dict_get (ps_Authority info) @ '' '' @ nl @ nl"

definition infoSchemaCmd :: "'s cli_env \<Rightarrow> string \<Rightarrow> string \<Rightarrow> ('s cli, unit) io" where
  "infoSchemaCmd E namespace schemaID =
     with_client E (\<lambda>client.
       catch_io (call (sc_GetSchemaMetadata client namespace schemaID)) (\<lambda>r.
         case r of
           Inl err \<Rightarrow>
             (if fst (status_of err) = Code_NotFound
              then printf (ce_Red E (ce_FailureIcon E) @ '' Schema with id '' @ sq schemaID @ '' not found.'' @ nl)
              else fail_io err)
         | Inr info \<Rightarrow> printf (info_text E namespace schemaID info)))"

definition version_report :: "'s cli_env \<Rightarrow> int32 list \<Rightarrow> string list list" where
  "version_report E versions =
     [''VERSION'', ''CREATED'', ''MESSAGE''] # map (\<lambda>v. [ce_Green E (''#'' @ show_int v), ''-'', ''-'']) versions"

definition versionSchemaCmd :: "'s cli_env \<Rightarrow> string \<Rightarrow> string \<Rightarrow> ('s cli, unit) io" where
  "versionSchemaCmd E namespaceID schemaID =
     with_client E (\<lambda>client.
       bind_io (call (sc_ListVersions client namespaceID schemaID)) (\<lambda>versions.
         if versions = [] then printf (''No version found for '' @ schemaID @ '' in '' @ namespaceID)
         else
           let n = show_nat (length versions)
           in then_io (printf (nl @ ''Showing '' @ n @ '' of '' @ n @ '' versions for '' @ schemaID @ nl @ '' '' @ nl))
                (emit (Table (version_report E versions)))))"

section \<open>Search (cmd/search.go)\<close>

text \<open>\<open>strings.LastIndex(field, ".")\<close>: the text before and after the last dot; None when there is none,
  where slicing up to the index -1 panics.\<close>

fun split_last_dot :: "string \<Rightarrow> (string \<times> string) option" where
  "split_last_dot [] = None"
| "split_last_dot (c # cs) =
     (case split_last_dot cs of
        Some (a, b) \<Rightarrow> Some (c # a, b)
      | None \<Rightarrow> if c = CHR ''.'' then Some ([], cs) else None)"

definition search_row :: "pb_SearchHits \<Rightarrow> string \<Rightarrow> string list option" where
  "search_row h field =
     map_option (\<lambda>(type, name). [name, type, psh_SchemaId h, show_int (psh_VersionId h), psh_NamespaceId h])
       (split_last_dot field)"

fun search_rows :: "(pb_SearchHits \<times> string) list \<Rightarrow> string list list option" where
  "search_rows [] = Some []"
| "search_rows ((h, field) # hs) =
     (case search_row h field of None \<Rightarrow> None | Some row \<Rightarrow> map_option ((#) row) (search_rows hs))"

definition hit_fields :: "pb_SearchHits list \<Rightarrow> (pb_SearchHits \<times> string) list" where
  "hit_fields hits = concat (map (\<lambda>h. map (Pair h) (psh_Fields h)) hits)"

text \<open>None is the panic.\<close>

definition print_hits :: "'s cli_env \<Rightarrow> pb_SearchHits list \<Rightarrow> 's cli \<Rightarrow> ('s cli \<times> unit res) option" where
  "print_hits E hits w =
     (if hits = [] then Some (printf (''No results found'' @ nl) w)
      else case search_rows (hit_fields hits) of
             None \<Rightarrow> None
           | Some rows \<Rightarrow> Some (then_io
               (printf ('' '' @ nl @ ''Found '' @ show_nat (length rows) @ '' results across '' @ show_nat (length hits) @
                  '' schema(s)/version(s) '' @ nl @ nl))
               (emit (Table (map (ce_Bold E) [''FIELD'', ''TYPE'', ''SCHEMA'', ''VERSION'', ''NAMESPACE''] # rows))) w))"

definition search_message :: "string \<Rightarrow> string \<Rightarrow> string \<Rightarrow> int32 \<Rightarrow> bool \<Rightarrow> pb_SearchRequest" where
  "search_message query namespaceID schemaID versionID history =
     \<lparr>psr_NamespaceId = namespaceID, psr_SchemaId = schemaID, psr_Query = query,
      psr_Version = (if versionID \<noteq> 0 then VersionId versionID else if history then History history else NoVersion)\<rparr>"

definition SearchCmd ::
  "'s cli_env \<Rightarrow> string \<Rightarrow> string \<Rightarrow> int32 \<Rightarrow> bool \<Rightarrow> string \<Rightarrow> 's cli \<Rightarrow> ('s cli \<times> unit res) option" where
  "SearchCmd E namespaceID schemaID versionID history query w =
     (case createClient E of
        Inl err \<Rightarrow> Some (w, Inl err)
      | Inr client \<Rightarrow>
          (if schemaID \<noteq> [] \<and> namespaceID = []
           then Some (printf (''Namespace ID not specified for '' @ schemaID @ nl) w)
           else case call (sc_Search client (search_message query namespaceID schemaID versionID history)) w of
                  (w', Inl err) \<Rightarrow> Some (w', Inl err)
                | (w', Inr (hits, _)) \<Rightarrow> print_hits E hits w'))"

section \<open>Printing a schema (cmd/print.go)\<close>

text \<open>Decoding descriptor sets and printing them as source are parameters; files come in map order.\<close>

record ('d, 'f) proto_printer =
  pp_Unmarshal :: "bytes \<Rightarrow> 'd res"
  pp_CreateFiles :: "'d \<Rightarrow> (string \<times> 'f) list res"
  pp_Print :: "'f \<Rightarrow> string res"
  pp_GetName :: "'f \<Rightarrow> string"

definition highlight :: "'s cli_env \<Rightarrow> string \<Rightarrow> string \<Rightarrow> ('s cli, unit) io" where
  "highlight E lexer s =
     (if ce_Highlight_fails E lexer s then emit (Page s) else emit (Highlighted lexer s))"

definition printSchema :: "'s cli_env \<Rightarrow> bytes \<Rightarrow> ('s cli, unit) io" where
  "printSchema E data = highlight E ''JSON'' data"

fun print_files :: "('d, 'f) proto_printer \<Rightarrow> (string \<times> 'f) list \<Rightarrow> string \<Rightarrow> string res" where
  "print_files P [] schema = Inr schema"
| "print_files P ((_, fd) # fds) schema =
     (case pp_Print P fd of
        Inl err \<Rightarrow> Inl err
      | Inr s \<Rightarrow> print_files P fds (schema @ nl @ ''//Schema file:: '' @ pp_GetName P fd @ nl @ nl @ s))"

definition printProtoSchema :: "'s cli_env \<Rightarrow> ('d, 'f) proto_printer \<Rightarrow> bytes \<Rightarrow> string \<Rightarrow> ('s cli, unit) io" where
  "printProtoSchema E P data flt =
     (case pp_Unmarshal P data of
        Inl err \<Rightarrow> fail_io (ErrWrap (''descriptor set file is not valid. '' @ error_text err) err)
      | Inr fds \<Rightarrow>
          (case pp_CreateFiles P fds of
             Inl err \<Rightarrow> fail_io err
           | Inr fdsMap \<Rightarrow>
               (case print_files P (filter (\<lambda>(fdName, _). flt = [] \<or> has_prefix fdName flt) fdsMap) [] of
                  Inl err \<Rightarrow> fail_io err
                | Inr schema \<Rightarrow> highlight E ''Protocol Buffer'' schema)))"

text \<open>The name of a format number, empty for an unknown one; the error of \<open>printProtoSchema\<close> is dropped.\<close>

definition format_name :: "int32 \<Rightarrow> string" where
  "format_name f = (case map_of Schema_Format_name f of Some s \<Rightarrow> s | None \<Rightarrow> [])"

definition printSchemaCmd ::
  "'s cli_env \<Rightarrow> ('d, 'f) proto_printer \<Rightarrow> string \<Rightarrow> int32 \<Rightarrow> string \<Rightarrow> string \<Rightarrow> ('s cli, unit) io" where
  "printSchemaCmd E P flt version namespaceID schemaID =
     with_client E (\<lambda>client.
       bind_io (fetchSchemaAndMeta client version namespaceID schemaID) (\<lambda>(data, meta).
         let format = format_name (ps_Format meta)
         in if format = ''FORMAT_AVRO'' then printSchema E data
            else if format = ''FORMAT_JSON'' then printSchema E data
            else if format = ''FORMAT_PROTOBUF''
            then catch_io (printProtoSchema E P data flt) (\<lambda>_. return_io ())
            else printf (ce_Red E (ce_FailureIcon E) @ '' Unknown schema format: '' @ format @ nl)))"

section \<open>Comparing two versions (cmd/diff.go)\<close>

record ('d, 'f, 'x, 'm, 'j) diff_lib =
  dl_Unmarshal :: "bytes \<Rightarrow> 'd res"
  dl_NewFiles :: "'d \<Rightarrow> 'f res"
  dl_Find :: "'f \<Rightarrow> string \<Rightarrow> 'x res"
  dl_message :: "'x \<Rightarrow> 'm option"
  dl_Marshal :: "'m \<Rightarrow> bytes res"
  dl_Compare :: "bytes \<Rightarrow> bytes \<Rightarrow> 'j res"
  dl_Modified :: "'j \<Rightarrow> bool"
  dl_Format :: "bytes \<Rightarrow> 'j \<Rightarrow> string res"

definition schemaFetcher :: "'s stencil_client \<Rightarrow> string \<Rightarrow> string \<Rightarrow> int32 \<Rightarrow> ('s cli, bytes) io" where
  "schemaFetcher client ns sc v = call (sc_GetSchema client ns sc v)"

definition wrap_text :: "string \<Rightarrow> 'a res \<Rightarrow> 'a res" where
  "wrap_text t r = (case r of Inl err \<Rightarrow> Inl (ErrWrap (t @ error_text err) err) | Inr a \<Rightarrow> Inr a)"

definition message_json :: "('d, 'f, 'x, 'm, 'j) diff_lib \<Rightarrow> string \<Rightarrow> bytes \<Rightarrow> bytes res" where
  "message_json D fullname data =
     bind_res (wrap_text ''descriptor set file is not valid. '' (dl_Unmarshal D data)) (\<lambda>fds.
     bind_res (wrap_text ''file is not fully contained descriptor file. hint: generate file descriptorset with --include_imports option. ''
                 (dl_NewFiles D fds)) (\<lambda>files.
     bind_res (wrap_text ''unable to find message. '' (dl_Find D files fullname)) (\<lambda>desc.
       case dl_message D desc of
         None \<Rightarrow> Inl (ErrString ''not a message desc'')
       | Some mDesc \<Rightarrow> wrap_text ''fail to convert json. '' (dl_Marshal D mDesc))))"

definition protoSchemaFetcher ::
  "('d, 'f, 'x, 'm, 'j) diff_lib \<Rightarrow> string \<Rightarrow> 's stencil_client \<Rightarrow> string \<Rightarrow> string \<Rightarrow> int32 \<Rightarrow> ('s cli, bytes) io" where
  "protoSchemaFetcher D fullname client ns sc v =
     (if fullname = [] then fail_io (ErrString ''fullname flag is mandator for FORMAT_PROTO'')
      else bind_io (call (sc_GetSchema client ns sc v)) (\<lambda>data. lift_io (message_json D fullname data)))"

definition diffSchemaCmd ::
  "'s cli_env \<Rightarrow> ('d, 'f, 'x, 'm, 'j) diff_lib \<Rightarrow> string \<Rightarrow> int32 \<Rightarrow> int32 \<Rightarrow> string \<Rightarrow> string \<Rightarrow> ('s cli, unit) io" where
  "diffSchemaCmd E D fullname earlierVersion laterVersion namespace schemaID =
     with_client E (\<lambda>client.
       bind_io (call (sc_GetSchemaMetadata client namespace schemaID)) (\<lambda>meta.
         let getSchema = (if ps_Format meta = 1 then protoSchemaFetcher D fullname client else schemaFetcher client)
         in bind_io (getSchema namespace schemaID earlierVersion) (\<lambda>eJson.
            bind_io (getSchema namespace schemaID laterVersion) (\<lambda>lJson.
            bind_io (lift_io (dl_Compare D eJson lJson)) (\<lambda>d.
            bind_io (lift_io (dl_Format D eJson d)) (\<lambda>diffString.
              if \<not> dl_Modified D d then printf ''No diff!'' else printf diffString))))))"

end
