(* ===== verification/Cli_Namespace.thy ===== *)
theory Cli_Namespace
  imports Cli
begin

text \<open>
  The commands on namespaces (\<open>cmd/namespace.go\<close>), the dependency graph of a descriptor set
  (\<open>cmd/graph.go\<close>, \<open>pkg/graph/graph.go\<close>) and the commands on the configuration
  (\<open>cmd/config.go\<close>). A prompt's error is ignored by the code: the answer is what it returned.
\<close>

section \<open>Namespaces\<close>

definition namespace_row :: "'s cli_env \<Rightarrow> nat \<times> pb_Namespace \<Rightarrow> string list" where
  "namespace_row E idx =
     [ce_Green E (''#'' @ show_nat (fst idx)), pn_Id (snd idx), dict_get (format_String (pn_Format (snd idx))),
      dict_get (compat_String (pn_Compatibility (snd idx)))]"

definition namespace_report :: "'s cli_env \<Rightarrow> pb_Namespace list \<Rightarrow> string list list" where
  "namespace_report E namespaces =
     map (ce_Bold E) [''INDEX'', ''NAMESPACE'', ''FORMAT'', ''COMPATIBILITY''] #
     map (namespace_row E) (enumerate 1 namespaces)"

definition listNamespaceCmd :: "'s cli_env \<Rightarrow> ('s cli, unit) io" where
  "listNamespaceCmd E =
     with_client E (\<lambda>client.
       bind_io (call (sc_ListNamespaces client)) (\<lambda>namespaces.
         if namespaces = [] then printf (''No namespace found'' @ nl)
         else
           let n = show_nat (length namespaces)
           in then_io (printf (nl @ ''Showing '' @ n @ '' of '' @ n @ '' namespaces '' @ nl @ '' '' @ nl))
                (emit (Table (namespace_report E namespaces)))))"

definition or_input :: "'s cli_env \<Rightarrow> string \<Rightarrow> string \<Rightarrow> string" where
  "or_input E flag question = (if flag = [] then ce_Input E question else flag)"

definition or_select :: "'s cli_env \<Rightarrow> string \<Rightarrow> string \<Rightarrow> string list \<Rightarrow> string" where
  "or_select E flag question options = (if flag = [] then options ! ce_Select E question options else flag)"

definition namespace_request :: "string \<Rightarrow> string \<Rightarrow> string \<Rightarrow> string \<Rightarrow> NamespaceRequest" where
  "namespace_request i format cmp desc =
     \<lparr>nreq_Id = i, nreq_Format = format_value format, nreq_Compatibility = compat_value cmp, nreq_Description = desc\<rparr>"

definition createNamespaceCmd :: "'s cli_env \<Rightarrow> string \<Rightarrow> string \<Rightarrow> string \<Rightarrow> string \<Rightarrow> ('s cli, unit) io" where
  "createNamespaceCmd E id0 desc0 format0 comp0 =
     (let i = or_input E id0 ''What is the namespace id?'';
          desc = or_input E desc0 ''Provide a description?'';
          format = or_select E format0 ''Select a default schema format for this namespace:'' formats;
          cmp = or_select E comp0 ''Select a default compatibility for this namespace:'' comps
      in then_io (if comp0 = [] then printf nl else return_io ())
           (with_client E (\<lambda>client.
              catch_io (call (sc_CreateNamespace client (namespace_request i format cmp desc))) (\<lambda>r.
                case r of
                  Inl err \<Rightarrow>
                    (if fst (status_of err) = Code_AlreadyExists
                     then printf (nl @ ce_FailureIcon E @ '' Namespace with id '' @ sq i @ '' already exist.'' @ nl)
                     else fail_io err)
                | Inr n \<Rightarrow> printf (nl @ ce_Green E (ce_SuccessIcon E) @ '' Created namespace with id '' @
                             ce_Bold E (ce_Blue E (pn_Id n)) @ ''.'' @ nl)))))"

definition editNamespaceCmd :: "'s cli_env \<Rightarrow> string \<Rightarrow> string \<Rightarrow> string \<Rightarrow> string \<Rightarrow> ('s cli, unit) io" where
  "editNamespaceCmd E format cmp desc i =
     with_client E (\<lambda>client.
       catch_io (call (sc_UpdateNamespace client (namespace_request i format cmp desc))) (\<lambda>r.
         case r of
           Inl err \<Rightarrow>
             (if fst (status_of err) = Code_NotFound
              then printf (ce_FailureIcon E @ '' Namespace with id '' @ sq i @ '' does not exist.'' @ nl)
              else fail_io err)
         | Inr n \<Rightarrow> printf (ce_Green E (ce_SuccessIcon E) @ '' Updated namespace with id '' @
                      ce_Bold E (ce_Blue E (pn_Id n)) @ ''.'' @ nl)))"

definition printNamespace :: "'s cli_env \<Rightarrow> pb_Namespace \<Rightarrow> string" where
  "printNamespace E n =
     (let desc = (if pn_Description n = [] then ''No description provided'' else pn_Description n)
      in nl @ ce_Blue E (pn_Id n) @ nl @
         nl @ ce_Grey E desc @ ''.'' @ nl @ nl @
         ce_Grey E ''Format:'' @ '' '' @ tab @ '' '' @ format_String (pn_Format n) @ '' '' @ nl @
         ce_Grey E ''Compatibility:'' @ '' '' @ tab @ '' '' @ compat_String (pn_Compatibility n) @ '' '' @ nl @
         nl @ ce_Grey E ''Created'' @ '' '' @ ce_humanize E (pn_CreatedAt n) @ '', '' @
         ce_Grey E ''last updated'' @ '' '' @ ce_humanize E (pn_UpdatedAt n) @ '' '' @ nl @ nl)"

definition viewNamespaceCmd :: "'s cli_env \<Rightarrow> string \<Rightarrow> ('s cli, unit) io" where
  "viewNamespaceCmd E i =
     with_client E (\<lambda>client.
       catch_io (call (sc_GetNamespace client i)) (\<lambda>r.
         case r of
           Inl err \<Rightarrow>
             (if fst (status_of err) = Code_NotFound
              then printf (ce_FailureIcon E @ '' Namespace with id '' @ ce_Bold E (ce_Blue E i) @ '' does not exist.'' @ nl)
              else fail_io err)
         | Inr n \<Rightarrow> printf (printNamespace E n)))"

definition deleteNamespaceCmd :: "'s cli_env \<Rightarrow> string \<Rightarrow> ('s cli, unit) io" where
  "deleteNamespaceCmd E i =
     (let confirm = ce_Input E (''Deleting namespace '' @ bq i @ ''. To confirm, type the namespace id:'')
      in if i \<noteq> confirm
         then printf (nl @ ce_WarningIcon E @ '' Namespace id '' @ sq confirm @ '' did not match.'' @ nl)
         else with_client E (\<lambda>client.
           catch_io (call (sc_DeleteNamespace client i)) (\<lambda>r.
             case r of
               Inl err \<Rightarrow>
                 (if fst (status_of err) = Code_NotFound
                  then printf (nl @ ce_FailureIcon E @ '' Namespace with id '' @ sq i @ '' does not exist.'' @ nl)
                  else fail_io err)
             | Inr _ \<Rightarrow> printf (nl @ ce_Red E (ce_SuccessIcon E) @ '' Deleted namespace with id '' @
                          ce_Bold E (ce_Blue E i) @ ''.'' @ nl))))"

section \<open>The dependency graph\<close>

text \<open>A file descriptor as the graph reads it, and the calls on the library that draws graphs.\<close>

record graph_file =
  gf_Package :: string
  gf_Path :: string
  gf_Imports :: "(string \<times> string) list"

datatype dot_call =
    GraphAttr string string
  | Node string
  | NodeAttr string string string
  | Edge string string

definition node_name :: "string \<Rightarrow> string \<Rightarrow> string" where
  "node_name package path = package @ nl @ path"

definition setDefaultAttributes :: "string \<Rightarrow> dot_call list" where
  "setDefaultAttributes n = [NodeAttr n ''shape'' ''note'', NodeAttr n ''style'' ''filled'', NodeAttr n ''fillcolor'' ''cornsilk'']"

definition buildGraph :: "string \<Rightarrow> graph_file \<Rightarrow> dot_call list" where
  "buildGraph sourceNode f =
     concat (map (\<lambda>(package, path).
       let destNode = node_name package path
       in Node destNode # setDefaultAttributes destNode @ [Edge sourceNode destNode]) (gf_Imports f))"

definition graph_of_file :: "graph_file \<Rightarrow> dot_call list" where
  "graph_of_file f =
     (let sourceNode = node_name (gf_Package f) (gf_Path f)
      in Node sourceNode # setDefaultAttributes sourceNode @ buildGraph sourceNode f)"

text \<open>The files in the order of \<open>RangeFiles\<close>.\<close>

definition GetProtoFileDependencyGraph :: "('d \<Rightarrow> graph_file list res) \<Rightarrow> 'd \<Rightarrow> dot_call list res" where
  "GetProtoFileDependencyGraph newFiles file' =
     (case newFiles file' of
        Inl err \<Rightarrow> Inl err
      | Inr files \<Rightarrow> Inr (GraphAttr ''rankdir'' ''LR'' # concat (map graph_of_file files)))"

definition graphSchemaCmd ::
  "'s cli_env \<Rightarrow> (bytes \<Rightarrow> 'd res) \<Rightarrow> ('d \<Rightarrow> graph_file list res) \<Rightarrow> (dot_call list \<Rightarrow> string) \<Rightarrow> string \<Rightarrow> int32 \<Rightarrow> string
   \<Rightarrow> string \<Rightarrow> ('s cli, unit) io" where
  "graphSchemaCmd E unmarshal newFiles graph_String out version namespaceID schemaID =
     with_client E (\<lambda>client.
       bind_io (fetchSchemaAndMeta client version namespaceID schemaID) (\<lambda>(data, resMetadata).
         let format = format_name (ps_Format resMetadata)
         in if format \<noteq> ''FORMAT_PROTOBUF'' then printf (''Graph is not supported for '' @ format)
            else bind_io (lift_io (wrap_text ''invalid file descriptorset file. '' (unmarshal data))) (\<lambda>msg.
                 bind_io (lift_io (GetProtoFileDependencyGraph newFiles msg)) (\<lambda>graph.
                 then_io (os_WriteFile E out (graph_String graph))
                   (printf (''Created graph file at '' @ out @ nl))))))"

section \<open>The configuration\<close>

definition configInitCommand :: "'s cli_env \<Rightarrow> ('s cli, unit) io" where
  "configInitCommand E =
     (case ce_Config_Init E of
        Some err \<Rightarrow> fail_io err
      | None \<Rightarrow> printf (''Config created: '' @ ce_Config_File E @ nl))"

definition configListCommand :: "'s cli_env \<Rightarrow> ('s cli, unit) io" where
  "configListCommand E =
     (case ce_Config_Read E of
        Inl err \<Rightarrow> fail_io ErrClientConfigNotFound
      | Inr data \<Rightarrow> printf (data @ nl))"

end
