(* ===== verification/Grpc_World.thy ===== *)
theory Grpc_World
  imports Grpc Api_Claims
begin

text \<open>
  The gRPC client on the model of the server: the connection of the witnesses, and which handlers
  leave the tables as they are.
\<close>

abbreviation api_client :: "'s grpc_env \<Rightarrow> 's API \<Rightarrow> 's stencil_client" where
  "api_client G A \<equiv> NewStencilServiceClient G A"

definition plain_grpc :: "'s grpc_env" where
  "plain_grpc = \<lparr>ge_fate = (\<lambda>n s. Delivered), ge_dec_error = (\<lambda>n s. None), ge_recovered = ErrExt ''panic'', ge_protoSize = (\<lambda>m. 1)\<rparr>"

lemma reliable_plain [simp]: "reliable plain_grpc"
  by (simp add: reliable_def plain_grpc_def)

definition db_is :: "db \<Rightarrow> world \<Rightarrow> bool" where "db_is d s \<longleftrightarrow> w_db s = d"

lemma keeps_pg_read: "keeps (db_is d) (pg_read f)"
  by (simp add: keeps_def pg_read_def db_is_def)

lemma keeps_get: "keeps (db_is d) (Service_Get (service F ords ord cfg) ns sc v)"
  "keeps (db_is d) (GetLatest (service F ords ord cfg) ns sc)"
  unfolding keeps_def db_is_def by (metis service_get_db prod.collapse, metis get_latest_db prod.collapse)

lemma keeps_handlers:
  fixes F ords ord cfg J ji jl je defines "A \<equiv> pg_API F ords ord cfg J ji jl je"
  shows "keeps (db_is d) (GetSchema_Handler G A ns sc v)" "keeps (db_is d) (GetLatestSchema_Handler G A ns sc)"
    "keeps (db_is d) (GetSchemaMetadata_Handler G A ns sc)" "keeps (db_is d) (ListSchemas_Handler G A ns)"
    "keeps (db_is d) (ListVersions_Handler G A ns sc)" "keeps (db_is d) (GetNamespace_Handler G A i)"
    "keeps (db_is d) (ListNamespaces_Handler G A)"
  unfolding A_def handler_defs API_GetSchema_def API_GetLatestSchema_def API_GetSchemaMetadata_def API_ListSchemas_def API_ListVersions_def
    API_GetNamespace_def API_ListNamespaces_def namespace_service_defs Service_GetMetadata_def Service_List_def Service_ListVersions_def
  by (rule keeps_served, rule keeps_rpc, simp add: pg_API_def pg_Repository_def pg_NamespaceRepository_def keeps_get keeps_pg_read)+

lemma keeps_check: "keeps (db_is d) (CheckCompatibility_Handler G (pg_API F ords ord cfg J ji jl je) req)"
  unfolding CheckCompatibility_Handler_def
proof (rule keeps_served)
  show "keeps (db_is d) (rpc_io (\<lambda>s. case API_CheckCompatibility (pg_API F ords ord cfg J ji jl je) req s of (s', err) \<Rightarrow> (s', (), err)))"
    using check_db
    by (fastforce simp: keeps_def rpc_io_def db_is_def API_CheckCompatibility_def CheckCompatibility_def pg_API_def pg_read_def Let_def
        split: prod.splits sum.splits)
qed

lemma keeps_search: "keeps (db_is d) (Search_Handler G (pg_API F ords ord cfg J ji jl je) req)"
  unfolding Search_Handler_def
proof (rule keeps_served)
  show "keeps (db_is d) (API_Search (pg_API F ords ord cfg J ji jl je) req)"
    unfolding API_Search_def SearchService_Search_def pg_API_sel pg_SearchRepository_def
    by (auto simp: Let_def keeps_pg_read intro!: keeps_bind)
qed

end
