(* ===== verification/Cli_Claims.thy ===== *)
theory Cli_Claims
  imports Cli_Namespace Grpc_World
begin

text \<open>
  The commands on the server of \<open>Api_Claims\<close>: what a command may change, an upload followed by a
  download, what the flags for format and mode do when they name nothing, and what is printed.
\<close>

section \<open>Commands that only read\<close>

definition cli_db_is :: "db \<Rightarrow> world cli \<Rightarrow> bool" where "cli_db_is d w \<longleftrightarrow> db_is d (cli_server w)"

lemma keeps_call [intro]: "keeps (db_is d) m \<Longrightarrow> keeps (cli_db_is d) (call m)"
  by (fastforce simp: keeps_def call_def cli_db_is_def split: prod.splits)

lemma keeps_emit [intro]: "keeps (cli_db_is d) (emit x)"
  by (simp add: keeps_def emit_def cli_db_is_def)

lemma keeps_files [intro]: "keeps (cli_db_is d) (os_ReadFile E path)" "keeps (cli_db_is d) (os_WriteFile E path x)"
  by (auto simp: keeps_def os_ReadFile_def os_WriteFile_def cli_db_is_def split: option.splits)

lemma keeps_then [intro]: "keeps I m \<Longrightarrow> keeps I k \<Longrightarrow> keeps I (then_io m k)"
  by (auto simp: then_io_def)

lemma keeps_fetch:
  "keeps (cli_db_is d) (fetchSchemaAndMeta (api_client G (pg_API F ords ord cfg J ji jl je)) v ns sc)"
  unfolding fetchSchemaAndMeta_def
  by (cases "v = 0") (auto simp: keeps_handlers intro!: keeps_bind keeps_call keeps_return)

lemma with_client_eq: "createClient E = Inr c \<Longrightarrow> with_client E f = f c"
  by (simp add: with_client_def)

lemma keeps_highlight: "keeps (cli_db_is d) (highlight E l x)"
  by (auto simp: highlight_def)

lemma keeps_print_proto: "keeps (cli_db_is d) (printProtoSchema E P data flt)"
  by (auto simp: printProtoSchema_def keeps_highlight split: sum.split)

lemmas keeps_intros = keeps_bind keeps_call keeps_return keeps_catch keeps_then keeps_emit keeps_files

lemma keeps_schema_commands:
  fixes F ords ord cfg J ji jl je defines "A \<equiv> pg_API F ords ord cfg J ji jl je"
  assumes "createClient E = Inr (api_client G A)"
  shows "keeps (cli_db_is d) (checkSchemaCmd E cmp path ns sc)" "keeps (cli_db_is d) (listSchemaCmd E ns)"
    "keeps (cli_db_is d) (infoSchemaCmd E ns sc)" "keeps (cli_db_is d) (versionSchemaCmd E ns sc)"
    "keeps (cli_db_is d) (listNamespaceCmd E)" "keeps (cli_db_is d) (viewNamespaceCmd E ns)"
  unfolding checkSchemaCmd_def listSchemaCmd_def infoSchemaCmd_def versionSchemaCmd_def listNamespaceCmd_def viewNamespaceCmd_def
    with_client_eq [OF assms(2)] A_def Let_def
  by (auto simp: keeps_handlers keeps_check split: sum.split intro!: keeps_intros)

lemma keeps_data_commands:
  fixes F ords ord cfg J ji jl je defines "A \<equiv> pg_API F ords ord cfg J ji jl je"
  assumes "createClient E = Inr (api_client G A)"
  shows "keeps (cli_db_is d) (downloadSchemaCmd E out v ns sc)" "keeps (cli_db_is d) (printSchemaCmd E P flt v ns sc)"
    "keeps (cli_db_is d) (graphSchemaCmd E um nf gs out v ns sc)"
  unfolding downloadSchemaCmd_def printSchemaCmd_def graphSchemaCmd_def with_client_eq [OF assms(2)] A_def Let_def printSchema_def
  by (auto simp: keeps_fetch keeps_highlight keeps_print_proto split: prod.split intro!: keeps_intros)

lemma keeps_diff:
  fixes F ords ord cfg J ji jl je defines "A \<equiv> pg_API F ords ord cfg J ji jl je"
  assumes "createClient E = Inr (api_client G A)"
  shows "keeps (cli_db_is d) (diffSchemaCmd E D fullname v1 v2 ns sc)"
proof -
  have f: "keeps (cli_db_is d) (protoSchemaFetcher D fullname (api_client G A) ns sc v)"
    "keeps (cli_db_is d) (schemaFetcher (api_client G A) ns sc v)" for v
    unfolding protoSchemaFetcher_def schemaFetcher_def A_def
    by (auto simp: keeps_handlers intro!: keeps_intros)
  show ?thesis
    unfolding diffSchemaCmd_def with_client_eq [OF assms(2)] Let_def
    by (intro keeps_bind keeps_call) (auto simp: f [unfolded A_def] keeps_handlers A_def intro!: keeps_intros)
qed

text \<open>
  The commands check, list, info, version, view, diff, download, graph, search and those that list or
  view namespaces leave the tables of the server as they are, whatever fails on the way.
\<close>

theorem readonly_commands:
  fixes F ords ord cfg J ji jl je defines "A \<equiv> pg_API F ords ord cfg J ji jl je"
  assumes "createClient E = Inr (api_client G A)"
    and "m \<in> {checkSchemaCmd E cmp path ns sc, listSchemaCmd E ns, infoSchemaCmd E ns sc, versionSchemaCmd E ns sc,
      printSchemaCmd E P flt v ns sc, diffSchemaCmd E D fullname v1 v2 ns sc, downloadSchemaCmd E out v ns sc,
      graphSchemaCmd E um nf gs out v ns sc, listNamespaceCmd E, viewNamespaceCmd E ns}"
  shows "w_db (cli_server (fst (m w))) = w_db (cli_server w) \<and>
    (case SearchCmd E ns sc v history query w of None \<Rightarrow> True | Some (w', _) \<Rightarrow> w_db (cli_server w') = w_db (cli_server w))"
proof
  have "keeps (cli_db_is d) m" for d
    using assms(3) keeps_schema_commands [OF assms(2) [unfolded A_def], folded A_def]
      keeps_data_commands [OF assms(2) [unfolded A_def], folded A_def] keeps_diff [OF assms(2) [unfolded A_def], folded A_def]
    by (elim insertE emptyE) (simp_all only:)
  then show "w_db (cli_server (fst (m w))) = w_db (cli_server w)" by (simp add: keeps_def cli_db_is_def db_is_def)
  have p: "w_db (cli_server w') = w_db (cli_server w)" if "print_hits E hits w = Some (w', r)" for hits w w' r
    using that by (auto simp: print_hits_def then_io_def bind_io_def emit_def split: if_splits option.splits)
  have "keeps (cli_db_is d) (call (sc_Search (api_client G A) req))" for d req
    unfolding A_def using keeps_search by (auto intro!: keeps_call)
  then have c: "w_db (cli_server w') = w_db (cli_server w)" if "call (sc_Search (api_client G A) req) w = (w', r)" for req w w' r
    using that by (simp add: keeps_def cli_db_is_def db_is_def) (metis fst_conv)
  show "case SearchCmd E ns sc v history query w of None \<Rightarrow> True | Some (w', _) \<Rightarrow> w_db (cli_server w') = w_db (cli_server w)"
    unfolding SearchCmd_def assms(2)
    by (auto simp del: client_sel split: prod.splits sum.splits option.splits if_splits simp: emit_def dest!: p c)
qed

section \<open>A concrete terminal\<close>

definition plain_env :: "'s stencil_client \<Rightarrow> 's cli_env" where
  "plain_env C = \<lparr>ce_Green = (\<lambda>s. s), ce_Red = (\<lambda>s. s), ce_Blue = (\<lambda>s. s), ce_Cyan = (\<lambda>s. s), ce_Grey = (\<lambda>s. s),
     ce_Bold = (\<lambda>s. s), ce_SuccessIcon = ''ok'', ce_FailureIcon = ''x'', ce_WarningIcon = ''!'', ce_Input = (\<lambda>q. []),
     ce_Select = (\<lambda>q os. 0), ce_humanize = (\<lambda>t. []), ce_Highlight_fails = (\<lambda>l s. True), ce_read_error = (\<lambda>p. None),
     ce_write_error = (\<lambda>p. None), ce_Config_Load = (''localhost'', None), ce_is_ConfigFileNotFound = (\<lambda>e. True),
     ce_Config_Init = None, ce_Config_File = [], ce_Config_Read = Inr [], ce_dial = (\<lambda>h. Inr C)\<rparr>"

lemma plain_client [simp]: "createClient (plain_env C) = Inr C"
  by (simp add: createClient_def loadClientConfig_def plain_env_def)

definition demo_cli :: "world \<Rightarrow> world cli" where
  "demo_cli s = \<lparr>cli_server = s, cli_files = (\<lambda>_. None)(''new.json'' \<mapsto> ''two''), cli_out = []\<rparr>"

theorem readonly_commands_witness:
  "w_db (cli_server (fst (listSchemaCmd (plain_env (api_client plain_grpc demo_API)) ''a'' (demo_cli first_upload)))) = w_db first_upload"
  using readonly_commands [where E = "plain_env (api_client plain_grpc demo_API)" and m = "listSchemaCmd (plain_env (api_client plain_grpc demo_API)) ''a''"
      and w = "demo_cli first_upload" and ns = "''a''", folded demo_API_def]
  by (simp add: demo_cli_def demo_API_def)

section \<open>An upload, then a download\<close>

lemma latest_is_served:
  assumes "cache_coherent w" "calm w" "dash_free (ns, sc, latest (w_db w) ns sc)"
    "stored (w_db w) (ns, sc, latest (w_db w) ns sc) = Some d"
  shows "\<exists>w' m. GetLatest (service F ords ord cfg) ns sc w = (w', Inr (m, d))"
proof -
  have "no_fault (w_envs w 0)" using assms(2) by (simp add: calm_def)
  then have l: "repo_GetLatestVersion pg_Repository ns sc w = (next_env w, Inr (latest (w_db w) ns sc))"
    by (simp add: pg_Repository_def pg_read_def SchemaRepository_GetLatestVersion_view)
  have "cache_coherent (next_env w)" "calm (next_env w)" using assms(1,2) by (simp_all add: cache_coherent_def)
  from stored_is_served [OF this assms(3), of d F ords ord cfg] show ?thesis
    using assms(4) l by (auto simp: GetLatest_def bind_io_def)
qed

lemma metadata_is_served:
  assumes "cache_coherent w" "calm w" "stored (w_db w) (ns, sc, v) = Some d"
  shows "\<exists>m. Service_GetMetadata (service F ords ord cfg) ns sc w = (next_env w, Inr m)"
proof -
  have inv: "db_inv (w_db w)" using assms(1) by (simp add: cache_coherent_def)
  obtain vr where "live (w_db w) ns sc vr" using assms(3) stored_iff [OF inv] by blast
  then show ?thesis
    using metadata_readable [OF inv, of ns sc vr "w_envs w 0"] assms(2)
    by (auto simp: Service_GetMetadata_def pg_Repository_def pg_read_def calm_def)
qed

lemma download_latest:
  fixes F ords ord cfg J ji jl je defines "A \<equiv> pg_API F ords ord cfg J ji jl je"
  assumes "createClient E = Inr (api_client G A)" and "reliable G" and "ce_write_error E out = None"
    and "cache_coherent (cli_server w)" "calm (cli_server w)" "CHR ''-'' \<notin> set ns"
    and "dash_free (ns, sc, latest (w_db (cli_server w)) ns sc)"
    and "stored (w_db (cli_server w)) (ns, sc, latest (w_db (cli_server w)) ns sc) = Some d"
  shows "\<exists>w'. downloadSchemaCmd E out 0 ns sc w = (w', Inr ()) \<and> cli_files w' out = Some d"
proof -
  obtain w1 m where g: "GetLatest (service F ords ord cfg) ns sc (cli_server w) = (w1, Inr (m, d))"
    using latest_is_served [OF assms(5,6,8,9)] by blast
  have c: "cache_coherent w1" "stored (w_db w1) = stored (w_db (cli_server w))" "calm w1"
    using get_latest_coherent [OF assms(5,7) g] get_latest_calm [OF g assms(6)] by auto
  obtain m2 where m2: "Service_GetMetadata (service F ords ord cfg) ns sc w1 = (next_env w1, Inr m2)"
    using metadata_is_served [OF c(1,3), of ns sc "latest (w_db (cli_server w)) ns sc" d F ords ord cfg] c(2) assms(9) by auto
  have "sc_GetLatestSchema (api_client G A) ns sc (cli_server w) = (w1, Inr d)"
    unfolding client_sel GetLatestSchema_Handler_def
    by (rule call_ok [OF assms(3)]) (simp_all add: validate_requests rpc_io_def API_GetLatestSchema_def map_rpc_def val_err_def A_def g)
  moreover have "\<exists>x. sc_GetSchemaMetadata (api_client G A) ns sc w1 = (next_env w1, Inr x)"
    unfolding client_sel GetSchemaMetadata_Handler_def
    by (intro exI, rule call_ok [OF assms(3)])
      (simp_all add: validate_requests rpc_io_def API_GetSchemaMetadata_def map_rpc_def val_err_def A_def m2)
  ultimately show ?thesis
    using assms(4)
    by (auto simp del: client_sel simp: downloadSchemaCmd_def with_client_eq [OF assms(2)] fetchSchemaAndMeta_def bind_io_def
        call_def then_io_def os_WriteFile_def emit_def)
qed


lemma demo_upload:
  "\<exists>s' info. sc_CreateSchema (api_client plain_grpc demo_API) (create_request ''FORMAT_JSON'' [] ''a'' ''t'' ''two'') demo_world =
      (s', Inr info) \<and> w_db s' \<noteq> w_db demo_world"
proof -
  obtain s' info err job where c: "API_CreateSchema demo_API (create_request ''FORMAT_JSON'' [] ''a'' ''t'' ''two'') demo_world = (s', info, err, job)"
    by (metis prod_cases4)
  have "(case API_CreateSchema demo_API (create_request ''FORMAT_JSON'' [] ''a'' ''t'' ''two'') demo_world of
      (s', info, err, job) \<Rightarrow> err = None \<and> versions (w_db s') \<noteq> [])" by code_simp
  then have e: "err = None" "versions (w_db s') \<noteq> []" using c by simp_all
  have "sc_CreateSchema (api_client plain_grpc demo_API) (create_request ''FORMAT_JSON'' [] ''a'' ''t'' ''two'') demo_world = (s', Inr info)"
    unfolding client_sel CreateSchema_Handler_def
    by (rule call_ok [OF reliable_plain]) (simp_all add: validate_requests rpc_io_def c e(1), simp add: create_request_def)
  moreover have "versions (w_db demo_world) = []" by (simp add: demo_world_def empty_db_def)
  ultimately show ?thesis using e(2) by auto
qed


section \<open>Flags that name nothing\<close>

lemma unknown_name: "cmp \<notin> set (map snd Schema_Compatibility_name) \<Longrightarrow> compat_value cmp = 0"
  "format \<notin> set (map snd Schema_Format_name) \<Longrightarrow> format_value format = 0"
  by (simp_all add: enum_tables enum_value_def)

text \<open>
  A misspelt mode makes \<open>check\<close> report that the schema is compatible without comparing anything:
  it is enough that the call is served and that the file, which is not empty, and the latest version can
  be read and parsed.
\<close>

theorem typo_reported_compatible:
  assumes "createClient E = Inr (api_client G A)" and "ce_read_error E path = None" and "cli_files w path = Some data"
    and "reliable G" and "data \<noteq> []" and "cmp \<notin> set (map snd Schema_Compatibility_name)"
    and "namespace_Get (api_schema A) ns (cli_server w) = (s1, Inr n)" and "provider (api_schema A) (ns_Format n) data = Inr p"
    and "GetLatest (api_schema A) ns sc s1 = (s2, Inr (m, d))" and "provider (api_schema A) (meta_Format m) d = Inr prev"
  shows "checkSchemaCmd E cmp path ns sc w =
    (w\<lparr>cli_server := s2, cli_out := cli_out w @ [Print (nl @ ce_Green E (ce_SuccessIcon E) @ '' Schema is compatible.'' @ nl)]\<rparr>, Inr ())"
proof -
  have u: "compat_String (compat_value cmp) = ''COMPATIBILITY_UNSPECIFIED''"
    unfolding unknown_name(1) [OF assms(6)] by (simp add: enum_tables enum_String_def)
  have c: "getCompatibilityChecker F ''COMPATIBILITY_UNSPECIFIED'' cur ps = None" for F cur ps
    by (simp add: getCompatibilityChecker_def defaultCompatibilityFn_def)
  let ?req = "\<lparr>ccr_NamespaceId = ns, ccr_SchemaId = sc, ccr_Data = data, ccr_Compatibility = compat_value cmp\<rparr>"
  have a: "API_CheckCompatibility A \<lparr>ccr_NamespaceId = ns, ccr_SchemaId = sc, ccr_Data = data, ccr_Compatibility = compat_value cmp\<rparr>
      (cli_server w) = (s2, None)"
    using assms(7-10) by (simp add: API_CheckCompatibility_def CheckCompatibility_def checkCompatibility_def u c Let_def)
  have "sc_CheckCompatibility (api_client G A) ?req (cli_server w) = (s2, Inr ())"
    unfolding client_sel CheckCompatibility_Handler_def
    by (rule call_ok [OF assms(4)]) (simp_all add: validate_requests assms(5) rpc_io_def a)
  then show ?thesis
    using assms(2,3) by (simp del: client_sel add: checkSchemaCmd_def with_client_eq [OF assms(1)] bind_io_def os_ReadFile_def catch_io_def
        call_def Let_def emit_def)
qed

theorem typo_reported_compatible_witness:
  "\<exists>w'. checkSchemaCmd (plain_env (api_client plain_grpc demo_API)) ''BACKWARD'' ''new.json'' ''a'' ''s'' (demo_cli first_upload) = (w', Inr ()) \<and>
     (\<exists>e. snd (API_CheckCompatibility demo_API \<lparr>ccr_NamespaceId = ''a'', ccr_SchemaId = ''s'', ccr_Data = ''two'',
        ccr_Compatibility = compat_value ''COMPATIBILITY_BACKWARD''\<rparr> first_upload) = Some e)"
proof -
  have f: "cli_files (demo_cli first_upload) ''new.json'' = Some ''two''" "cli_server (demo_cli first_upload) = first_upload"
    by (simp_all add: demo_cli_def)
  obtain s1 nr where n0: "namespace_Get (api_schema demo_API) ''a'' first_upload = (s1, nr)" by fastforce
  obtain s2 l where l0: "GetLatest (api_schema demo_API) ''a'' ''s'' s1 = (s2, l)" by fastforce
  have ev: "(case namespace_Get (api_schema demo_API) ''a'' first_upload of (s1, nr) \<Rightarrow> (case nr of Inl e \<Rightarrow> False | Inr n \<Rightarrow>
      ns_Format n = ''FORMAT_JSON'' \<and>
      (case snd (GetLatest (api_schema demo_API) ''a'' ''s'' s1) of Inl e \<Rightarrow> False | Inr (m, d) \<Rightarrow> meta_Format m = ''FORMAT_JSON'')))"
    by code_simp
  then obtain n m d where n: "nr = Inr n" "ns_Format n = ''FORMAT_JSON''" and l: "l = Inr (m, d)" "meta_Format m = ''FORMAT_JSON''"
    by (auto simp: n0 l0 split: sum.splits)
  have pr: "provider (api_schema demo_API) ''FORMAT_JSON'' x = Inr (JsonSchema x)" for x
    by (simp add: demo_API_def ParseSchema_def NewSchemaProvider_def gm_get_def gm_set_def gm_empty_def json_GetParsedSchema_def demo_format_def)
  have "snd (API_CheckCompatibility demo_API \<lparr>ccr_NamespaceId = ''a'', ccr_SchemaId = ''s'', ccr_Data = ''two'',
        ccr_Compatibility = compat_value ''COMPATIBILITY_BACKWARD''\<rparr> first_upload) \<noteq> None" by code_simp
  then show ?thesis
    using typo_reported_compatible [OF plain_client _ f(1) reliable_plain, of demo_API "''BACKWARD''" "''a''" s1 n "JsonSchema ''two''" "''s''" s2 m d "JsonSchema d"]
      n0 n l0 l pr f(2) by (auto simp: plain_env_def enum_tables)
qed

text \<open>
  Without a format flag that names a format, \<open>create\<close> never creates anything, although the flag is
  optional and namespaces have a default format: the tables stay as they are, and the command fails or
  says that the schema exists already.
\<close>

theorem create_needs_format:
  fixes F ords ord cfg J ji jl je defines "A \<equiv> pg_API F ords ord cfg J ji jl je"
  assumes "createClient E = Inr (api_client G A)" and "format \<notin> set (map snd Schema_Format_name)"
    and "createSchemaCmd E format cmp path ns sc w = (w', r)"
  shows "w_db (cli_server w') = w_db (cli_server w) \<and>
    (cli_out w' = cli_out w \<and> r \<noteq> Inr () \<or>
     cli_out w' = cli_out w @ [Print (nl @ ce_FailureIcon E @ '' Schema with id '' @ sq sc @ '' already exist.'' @ nl)])"
proof (cases "snd (os_ReadFile E path w)")
  case (Inl e)
  then show ?thesis using assms(4) by (auto simp: createSchemaCmd_def bind_io_def os_ReadFile_def split: option.splits)
next
  case (Inr data)
  then have rd: "os_ReadFile E path w = (w, Inr data)" by (simp add: os_ReadFile_def)
  obtain s' info err job where c: "API_CreateSchema A (create_request format cmp ns sc data) (cli_server w) = (s', info, err, job)"
    by (metis prod_cases4)
  have "csr_Format (create_request format cmp ns sc data) = 0"
    using unknown_name(2) [OF assms(3)] by (simp add: create_request_def)
  from unspecified_format_refused [OF this c [unfolded A_def]] obtain e where e: "err = Some e" "w_db s' = w_db (cli_server w)" by blast
  have h: "CreateSchema_Handler G A (create_request format cmp ns sc data) (cli_server w) = (x, r') \<Longrightarrow>
      w_db x = w_db (cli_server w) \<and> (\<exists>e. r' = Inl e)" for x r'
    using c e by (auto simp: CreateSchema_Handler_def unary_Handler_def server_interceptor_def UnaryServerInterceptor_def rpc_io_def
        split: option.splits)
  obtain x r' where r': "sc_CreateSchema (api_client G A) (create_request format cmp ns sc data) (cli_server w) = (x, r')" by fastforce
  then have "w_db x = w_db (cli_server w) \<and> (\<exists>e. r' = Inl e)"
    using h by (auto simp: Invoke_def map_err_io_def split: fate.splits prod.splits sum.splits) (metis fst_conv surj_pair)+
  then show ?thesis
    using assms(4) rd r' by (auto simp del: client_sel simp: createSchemaCmd_def with_client_eq [OF assms(2)] bind_io_def catch_io_def
        call_def Let_def emit_def split: if_splits)
qed

theorem create_needs_format_witness:
  "w_db (cli_server (fst (createSchemaCmd (plain_env (api_client plain_grpc demo_API)) [] [] ''new.json'' ''a'' ''t'' (demo_cli demo_world)))) =
     w_db demo_world"
proof -
  obtain w' r where c: "createSchemaCmd (plain_env (api_client plain_grpc demo_API)) [] [] ''new.json'' ''a'' ''t'' (demo_cli demo_world) = (w', r)"
    by fastforce
  then show ?thesis
    using create_needs_format [where F = demo_format and ords = "\<lambda>_ ks. ks" and ord = "\<lambda>ks. ks" and cfg = demo_cfg and
        J = "\<lambda>q. Inr (\<lambda>xs. xs)" and ji = "\<lambda>i. si_Location i" and jl = "\<lambda>l. []" and je = "\<lambda>e. []", folded demo_API_def,
        OF plain_client _ c]
    by (simp add: enum_tables demo_cli_def)
qed

section \<open>Confirmation\<close>

text \<open>
  \<open>namespace delete\<close> reaches the server only when the id was typed in again, and then only with
  \<open>DeleteNamespace\<close> for that id; files are never touched.
\<close>

theorem delete_needs_confirmation:
  "cli_files (fst (deleteNamespaceCmd E i w)) = cli_files w \<and>
   cli_server (fst (deleteNamespaceCmd E i w)) =
     (if ce_Input E (''Deleting namespace '' @ bq i @ ''. To confirm, type the namespace id:'') = i
      then (case createClient E of Inl err \<Rightarrow> cli_server w | Inr client \<Rightarrow> fst (sc_DeleteNamespace client i (cli_server w)))
      else cli_server w)"
  by (auto simp: deleteNamespaceCmd_def with_client_def Let_def catch_io_def call_def emit_def split: sum.split prod.split)

section \<open>What is printed\<close>

lemma split_last_dot_None: "split_last_dot f = None \<longleftrightarrow> CHR ''.'' \<notin> set f"
  by (induction f) (auto split: option.splits)

lemma split_last_dot_Some: "split_last_dot f = Some (a, b) \<longleftrightarrow> f = a @ ''.'' @ b \<and> CHR ''.'' \<notin> set b"
proof (induction f arbitrary: a)
  case (Cons c cs)
  show ?case
  proof (cases "split_last_dot cs")
    case None
    then show ?thesis using split_last_dot_None [of cs] Cons by (cases a) auto
  next
    case (Some ab)
    then show ?thesis using Cons split_last_dot_None [of cs] by (cases a; cases ab) auto
  qed
qed simp

lemma search_rows_None: "search_rows hs = None \<longleftrightarrow> list_ex (\<lambda>(h, f). CHR ''.'' \<notin> set f) hs"
  by (induction hs rule: search_rows.induct) (auto simp: search_row_def split_last_dot_None split_last_dot_Some split: option.splits)

lemma search_rows_Some: "search_rows hs = Some rows \<Longrightarrow>
    list_all2 (\<lambda>(h, f) row. \<exists>type name. f = type @ ''.'' @ name \<and> CHR ''.'' \<notin> set name \<and>
      row = [name, type, psh_SchemaId h, show_int (psh_VersionId h), psh_NamespaceId h]) hs rows"
proof (induction hs arbitrary: rows rule: search_rows.induct)
  case (2 h f hs)
  obtain a b rows' where r: "split_last_dot f = Some (a, b)" "search_rows hs = Some rows'"
    "rows = [b, a, psh_SchemaId h, show_int (psh_VersionId h), psh_NamespaceId h] # rows'"
    using 2(2) by (auto simp: search_row_def split: option.splits)
  have "search_row h f = Some [b, a, psh_SchemaId h, show_int (psh_VersionId h), psh_NamespaceId h]"
    by (simp add: search_row_def r(1))
  from 2(1) [OF this r(2)] show ?case using r(1,3) by (auto simp: split_last_dot_Some)
qed simp

text \<open>
  \<open>search\<close> prints one row for every field of every hit, in their order, the name and the type being
  the parts of the field around its last dot. It panics exactly when some field has no dot.
\<close>

theorem search_table_exact:
  "case print_hits E hits w of
     None \<Rightarrow> list_ex (\<lambda>h. list_ex (\<lambda>f. CHR ''.'' \<notin> set f) (psh_Fields h)) hits
   | Some (w', r) \<Rightarrow> \<not> list_ex (\<lambda>h. list_ex (\<lambda>f. CHR ''.'' \<notin> set f) (psh_Fields h)) hits \<and> r = Inr () \<and>
       (if hits = [] then cli_out w' = cli_out w @ [Print (''No results found'' @ nl)]
        else \<exists>line header rows. cli_out w' = cli_out w @ [Print line, Table (header # rows)] \<and>
          list_all2 (\<lambda>(h, f) row. \<exists>type name. f = type @ ''.'' @ name \<and> CHR ''.'' \<notin> set name \<and>
            row = [name, type, psh_SchemaId h, show_int (psh_VersionId h), psh_NamespaceId h]) (hit_fields hits) rows)"
proof -
  have ex: "list_ex (\<lambda>(h, f). CHR ''.'' \<notin> set f) (hit_fields hits) =
      list_ex (\<lambda>h. list_ex (\<lambda>f. CHR ''.'' \<notin> set f) (psh_Fields h)) hits"
    by (auto simp: hit_fields_def list_ex_iff)
  show ?thesis
  proof (cases "hits = [] \<or> search_rows (hit_fields hits) = None")
    case True
    then show ?thesis
    proof
      assume "search_rows (hit_fields hits) = None"
      moreover from this have "hits \<noteq> []" by (auto simp: hit_fields_def)
      ultimately show ?thesis using search_rows_None [of "hit_fields hits"] by (simp add: print_hits_def ex)
    qed (simp add: print_hits_def emit_def)
  next
    case False
    then obtain rows where rows: "search_rows (hit_fields hits) = Some rows" "hits \<noteq> []" by auto
    moreover from this have "\<not> list_ex (\<lambda>h. list_ex (\<lambda>f. CHR ''.'' \<notin> set f) (psh_Fields h)) hits"
      using search_rows_None [of "hit_fields hits"] by (simp add: ex)
    ultimately show ?thesis using search_rows_Some [OF rows(1)]
      by (simp add: print_hits_def then_io_def bind_io_def emit_def)
  qed
qed

text \<open>An authority is looked up in the dictionary of formats and modes, so it is not shown.\<close>

lemma info_hides_authority:
  "map_of dict a = None \<Longrightarrow> map_of dict b = None \<Longrightarrow>
     info_text E ns sc (info\<lparr>ps_Authority := a\<rparr>) = info_text E ns sc (info\<lparr>ps_Authority := b\<rparr>)"
  by (simp add: info_text_def dict_get_def)

section \<open>The graph\<close>

text \<open>Every edge comes after the nodes at its ends.\<close>

fun declared :: "string set \<Rightarrow> dot_call list \<Rightarrow> bool" where
  "declared N [] = True"
| "declared N (Node a # cs) = declared (insert a N) cs"
| "declared N (Edge a b # cs) = (a \<in> N \<and> b \<in> N \<and> declared N cs)"
| "declared N (_ # cs) = declared N cs"

definition nodes_of :: "dot_call list \<Rightarrow> string set" where "nodes_of cs = {a. Node a \<in> set cs}"

lemma declared_append: "declared N (cs @ ds) \<longleftrightarrow> declared N cs \<and> declared (N \<union> nodes_of cs) ds"
proof (induction N cs rule: declared.induct)
  case (2 N a cs)
  have "insert a N \<union> nodes_of cs = N \<union> nodes_of (Node a # cs)" by (auto simp: nodes_of_def)
  then show ?case using 2 by simp
qed (simp_all add: nodes_of_def)

lemma declared_mono: "declared N cs \<Longrightarrow> N \<subseteq> M \<Longrightarrow> declared M cs"
proof (induction N cs arbitrary: M rule: declared.induct)
  case (2 N a cs)
  then show ?case using 2(1) [of "insert a M"] by auto
qed auto

lemma declared_buildGraph: "src \<in> N \<Longrightarrow> declared N (buildGraph src f)"
proof -
  have "src \<in> N \<Longrightarrow> declared N (concat (map (\<lambda>(package, path). let destNode = node_name package path
       in Node destNode # setDefaultAttributes destNode @ [Edge src destNode]) is))" for "is" N
  proof (induction "is")
    case (Cons i "is")
    then show ?case
      by (cases i) (auto simp: Let_def setDefaultAttributes_def intro: declared_mono)
  qed simp
  then show "src \<in> N \<Longrightarrow> ?thesis" by (simp add: buildGraph_def)
qed

lemma declared_files: "declared N (concat (map graph_of_file files))"
proof (induction files arbitrary: N)
  case (Cons f files)
  have "declared N (graph_of_file f)"
    using declared_buildGraph [of "node_name (gf_Package f) (gf_Path f)" "insert (node_name (gf_Package f) (gf_Path f)) N" f]
    by (simp add: graph_of_file_def setDefaultAttributes_def Let_def)
  then show ?case using Cons by (simp add: declared_append)
qed simp

definition edges_of :: "dot_call list \<Rightarrow> (string \<times> string) list" where
  "edges_of cs = concat (map (\<lambda>c. case c of Edge a b \<Rightarrow> [(a, b)] | _ \<Rightarrow> []) cs)"

lemma edges_of_append [simp]: "edges_of (cs @ ds) = edges_of cs @ edges_of ds" "edges_of [] = []"
  by (simp_all add: edges_of_def)

lemma edges_of_file: "edges_of (graph_of_file f) =
    map (\<lambda>(package, path). (node_name (gf_Package f) (gf_Path f), node_name package path)) (gf_Imports f)"
proof -
  have "edges_of (concat (map (\<lambda>(package, path). let destNode = node_name package path
       in Node destNode # setDefaultAttributes destNode @ [Edge src destNode]) is)) =
      map (\<lambda>(package, path). (src, node_name package path)) is" for src "is"
    by (induction "is") (auto simp: edges_of_def setDefaultAttributes_def Let_def)
  then show ?thesis by (simp add: graph_of_file_def buildGraph_def Let_def) (simp add: edges_of_def setDefaultAttributes_def)
qed

text \<open>
  The dependency graph of a descriptor set has one edge for every import of every file, from the
  importing file to the imported one, and the nodes at the ends of an edge are declared before it.
\<close>

theorem graph_exact:
  "case GetProtoFileDependencyGraph newFiles d of
     Inl err \<Rightarrow> newFiles d = Inl err
   | Inr calls \<Rightarrow> \<exists>files. newFiles d = Inr files \<and> declared {} calls \<and>
       edges_of calls = concat (map (\<lambda>f. map (\<lambda>(package, path).
         (node_name (gf_Package f) (gf_Path f), node_name package path)) (gf_Imports f)) files)"
proof (cases "newFiles d")
  case (Inr files)
  have "edges_of (concat (map graph_of_file files)) = concat (map (\<lambda>f. map (\<lambda>(package, path).
         (node_name (gf_Package f) (gf_Path f), node_name package path)) (gf_Imports f)) files)"
    by (induction files) (simp_all add: edges_of_file)
  then show ?thesis
    using declared_files [of "{}" files] Inr by (simp add: GetProtoFileDependencyGraph_def) (simp add: edges_of_def)
qed (simp add: GetProtoFileDependencyGraph_def)

end
