(* ===== verification/Gateway.thy ===== *)
theory Gateway
  imports Grpc
begin

text \<open>
  The HTTP gateway in front of the gRPC handlers (\<open>stencil.pb.gw.go\<close>): how a request's path, body
  and query become the message of a call, and the routes. Decoding JSON, converting parameters and
  writing responses belong to the gateway library and are the fields of \<open>gw_lib\<close>; so does
  matching a path, of which only the shape of the routes is described here.
\<close>

section \<open>The library\<close>

record UpdateMetadataRequest =
  umr_NamespaceId :: string
  umr_SchemaId :: string
  umr_Compatibility :: int32

datatype gw_response =
    ListNamespacesResponse "pb_Namespace list"
  | GetNamespaceResponse pb_Namespace
  | CreateNamespaceResponse pb_Namespace
  | UpdateNamespaceResponse pb_Namespace
  | DeleteNamespaceResponse string
  | ListSchemasResponse "pb_Schema list"
  | GetSchemaMetadataResponse pb_Schema
  | UpdateSchemaMetadataResponse pb_Schema
  | DeleteSchemaResponse string
  | ListVersionsResponse "int32 list"
  | DeleteVersionResponse string
  | SearchResponse "pb_SearchHits list" nat

text \<open>
  \<open>Decode\<close> fills a message in and may fail; at the end of the input (\<open>io.EOF\<close>) the code goes on
  with what there is.
\<close>

datatype decode_error = DecodeEOF | DecodeError go_error

type_synonym form = "(string \<times> string list) list"

record gw_lib =
  gl_String :: "string \<Rightarrow> string res"
  gl_Int32 :: "string \<Rightarrow> int32 res"
  gl_Decode_Namespace :: "bytes \<Rightarrow> NamespaceRequest \<times> decode_error option"
  gl_Decode_Metadata :: "bytes \<Rightarrow> UpdateMetadataRequest \<times> decode_error option"
  gl_ParseForm :: "HttpRequest \<Rightarrow> form res"
  gl_PopulateQueryParameters :: "form \<Rightarrow> pb_SearchRequest \<times> go_error option"
  gl_AnnotateContext :: "string \<Rightarrow> HttpRequest \<Rightarrow> go_error option"
  gl_HTTPError :: "go_error \<Rightarrow> HttpResponse"
  gl_ForwardResponseMessage :: "gw_response \<Rightarrow> HttpResponse"

type_synonym path_params = "string \<rightharpoonup> string"

section \<open>Parameters and bodies\<close>

definition path_param :: "(string \<Rightarrow> 'a res) \<Rightarrow> path_params \<Rightarrow> string \<Rightarrow> ('s, 'a) io" where
  "path_param convert pathParams n =
     (case pathParams n of
        None \<Rightarrow> fail_io (StatusErr Code_InvalidArgument (''missing parameter '' @ n))
      | Some val \<Rightarrow>
          (case convert val of
             Inl err \<Rightarrow> fail_io (StatusErr Code_InvalidArgument (''type mismatch, parameter: '' @ n @ '', error: '' @ error_text err))
           | Inr x \<Rightarrow> return_io x))"

definition decode_body :: "(bytes \<Rightarrow> 'm \<times> decode_error option) \<Rightarrow> HttpRequest \<Rightarrow> ('s, 'm) io" where
  "decode_body Decode req =
     (case rq_Body req of
        Inl berr \<Rightarrow> fail_io (StatusErr Code_InvalidArgument (error_text berr))
      | Inr body \<Rightarrow>
          (case Decode body of
             (m, Some (DecodeError err)) \<Rightarrow> fail_io (StatusErr Code_InvalidArgument (error_text err))
           | (m, _) \<Rightarrow> return_io m))"

section \<open>One function for each route\<close>

definition request_ListNamespaces ::
  "gw_lib \<Rightarrow> 's stencil_client \<Rightarrow> HttpRequest \<Rightarrow> path_params \<Rightarrow> ('s, pb_Namespace list) io" where
  "request_ListNamespaces L client req pathParams = sc_ListNamespaces client"

definition request_GetNamespace ::
  "gw_lib \<Rightarrow> 's stencil_client \<Rightarrow> HttpRequest \<Rightarrow> path_params \<Rightarrow> ('s, pb_Namespace) io" where
  "request_GetNamespace L client req pathParams =
     bind_io (path_param (gl_String L) pathParams ''id'') (\<lambda>i. sc_GetNamespace client i)"

definition request_CreateNamespace ::
  "gw_lib \<Rightarrow> 's stencil_client \<Rightarrow> HttpRequest \<Rightarrow> path_params \<Rightarrow> ('s, pb_Namespace) io" where
  "request_CreateNamespace L client req pathParams =
     bind_io (decode_body (gl_Decode_Namespace L) req) (\<lambda>protoReq. sc_CreateNamespace client protoReq)"

definition request_UpdateNamespace ::
  "gw_lib \<Rightarrow> 's stencil_client \<Rightarrow> HttpRequest \<Rightarrow> path_params \<Rightarrow> ('s, pb_Namespace) io" where
  "request_UpdateNamespace L client req pathParams =
     bind_io (decode_body (gl_Decode_Namespace L) req) (\<lambda>protoReq.
     bind_io (path_param (gl_String L) pathParams ''id'') (\<lambda>i.
       sc_UpdateNamespace client (protoReq\<lparr>nreq_Id := i\<rparr>)))"

definition request_DeleteNamespace ::
  "gw_lib \<Rightarrow> 's stencil_client \<Rightarrow> HttpRequest \<Rightarrow> path_params \<Rightarrow> ('s, string) io" where
  "request_DeleteNamespace L client req pathParams =
     bind_io (path_param (gl_String L) pathParams ''id'') (\<lambda>i. sc_DeleteNamespace client i)"

definition request_ListSchemas ::
  "gw_lib \<Rightarrow> 's stencil_client \<Rightarrow> HttpRequest \<Rightarrow> path_params \<Rightarrow> ('s, pb_Schema list) io" where
  "request_ListSchemas L client req pathParams =
     bind_io (path_param (gl_String L) pathParams ''id'') (\<lambda>i. sc_ListSchemas client i)"

definition request_GetSchemaMetadata ::
  "gw_lib \<Rightarrow> 's stencil_client \<Rightarrow> HttpRequest \<Rightarrow> path_params \<Rightarrow> ('s, pb_Schema) io" where
  "request_GetSchemaMetadata L client req pathParams =
     bind_io (path_param (gl_String L) pathParams ''namespace_id'') (\<lambda>ns.
     bind_io (path_param (gl_String L) pathParams ''schema_id'') (\<lambda>sc.
       sc_GetSchemaMetadata client ns sc))"

definition request_UpdateSchemaMetadata ::
  "gw_lib \<Rightarrow> 's stencil_client \<Rightarrow> HttpRequest \<Rightarrow> path_params \<Rightarrow> ('s, pb_Schema) io" where
  "request_UpdateSchemaMetadata L client req pathParams =
     bind_io (decode_body (gl_Decode_Metadata L) req) (\<lambda>protoReq.
     bind_io (path_param (gl_String L) pathParams ''namespace_id'') (\<lambda>ns.
     bind_io (path_param (gl_String L) pathParams ''schema_id'') (\<lambda>sc.
       sc_UpdateSchemaMetadata client ns sc (umr_Compatibility protoReq))))"

definition request_DeleteSchema ::
  "gw_lib \<Rightarrow> 's stencil_client \<Rightarrow> HttpRequest \<Rightarrow> path_params \<Rightarrow> ('s, string) io" where
  "request_DeleteSchema L client req pathParams =
     bind_io (path_param (gl_String L) pathParams ''namespace_id'') (\<lambda>ns.
     bind_io (path_param (gl_String L) pathParams ''schema_id'') (\<lambda>sc.
       sc_DeleteSchema client ns sc))"

definition request_ListVersions ::
  "gw_lib \<Rightarrow> 's stencil_client \<Rightarrow> HttpRequest \<Rightarrow> path_params \<Rightarrow> ('s, int32 list) io" where
  "request_ListVersions L client req pathParams =
     bind_io (path_param (gl_String L) pathParams ''namespace_id'') (\<lambda>ns.
     bind_io (path_param (gl_String L) pathParams ''schema_id'') (\<lambda>sc.
       sc_ListVersions client ns sc))"

definition request_DeleteVersion ::
  "gw_lib \<Rightarrow> 's stencil_client \<Rightarrow> HttpRequest \<Rightarrow> path_params \<Rightarrow> ('s, string) io" where
  "request_DeleteVersion L client req pathParams =
     bind_io (path_param (gl_String L) pathParams ''namespace_id'') (\<lambda>ns.
     bind_io (path_param (gl_String L) pathParams ''schema_id'') (\<lambda>sc.
     bind_io (path_param (gl_Int32 L) pathParams ''version_id'') (\<lambda>v.
       sc_DeleteVersion client ns sc v)))"

definition request_Search ::
  "gw_lib \<Rightarrow> 's stencil_client \<Rightarrow> HttpRequest \<Rightarrow> path_params \<Rightarrow> ('s, pb_SearchHits list \<times> nat) io" where
  "request_Search L client req pathParams =
     (case gl_ParseForm L req of
        Inl err \<Rightarrow> fail_io (StatusErr Code_InvalidArgument (error_text err))
      | Inr form \<Rightarrow>
          (case gl_PopulateQueryParameters L form of
             (protoReq, Some err) \<Rightarrow> fail_io (StatusErr Code_InvalidArgument (error_text err))
           | (protoReq, None) \<Rightarrow> sc_Search client protoReq))"

lemmas request_defs = request_ListNamespaces_def request_GetNamespace_def request_CreateNamespace_def request_UpdateNamespace_def
  request_DeleteNamespace_def request_ListSchemas_def request_GetSchemaMetadata_def request_UpdateSchemaMetadata_def
  request_DeleteSchema_def request_ListVersions_def request_DeleteVersion_def request_Search_def

section \<open>Routes\<close>

text \<open>
  A compiled pattern: pairs of an operation and an operand, and a pool of strings. The operations are those
  of the gateway library: 1 pushes a segment of the path, 2 asks for the segment of the pool, 4 joins
  the last segments, 5 binds the result to a name of the pool.
\<close>

record pattern =
  pt_ops :: "nat list"
  pt_pool :: "string list"

definition NewPattern :: "nat list \<Rightarrow> string list \<Rightarrow> pattern" where
  "NewPattern ops pool = \<lparr>pt_ops = ops, pt_pool = pool\<rparr>"

definition pattern_ListNamespaces :: pattern where
  "pattern_ListNamespaces = NewPattern [2, 0, 2, 1] [''v1beta1'', ''namespaces'']"

definition pattern_GetNamespace :: pattern where
  "pattern_GetNamespace = NewPattern [2, 0, 2, 1, 1, 0, 4, 1, 5, 2] [''v1beta1'', ''namespaces'', ''id'']"

definition pattern_CreateNamespace :: pattern where
  "pattern_CreateNamespace = NewPattern [2, 0, 2, 1] [''v1beta1'', ''namespaces'']"

definition pattern_UpdateNamespace :: pattern where
  "pattern_UpdateNamespace = NewPattern [2, 0, 2, 1, 1, 0, 4, 1, 5, 2] [''v1beta1'', ''namespaces'', ''id'']"

definition pattern_DeleteNamespace :: pattern where
  "pattern_DeleteNamespace = NewPattern [2, 0, 2, 1, 1, 0, 4, 1, 5, 2] [''v1beta1'', ''namespaces'', ''id'']"

definition pattern_ListSchemas :: pattern where
  "pattern_ListSchemas = NewPattern [2, 0, 2, 1, 1, 0, 4, 1, 5, 2, 2, 3] [''v1beta1'', ''namespaces'', ''id'', ''schemas'']"

definition pattern_GetSchemaMetadata :: pattern where
  "pattern_GetSchemaMetadata = NewPattern [2, 0, 2, 1, 1, 0, 4, 1, 5, 2, 2, 3, 1, 0, 4, 1, 5, 4, 2, 5]
     [''v1beta1'', ''namespaces'', ''namespace_id'', ''schemas'', ''schema_id'', ''meta'']"

definition pattern_UpdateSchemaMetadata :: pattern where
  "pattern_UpdateSchemaMetadata = NewPattern [2, 0, 2, 1, 1, 0, 4, 1, 5, 2, 2, 3, 1, 0, 4, 1, 5, 4]
     [''v1beta1'', ''namespaces'', ''namespace_id'', ''schemas'', ''schema_id'']"

definition pattern_DeleteSchema :: pattern where
  "pattern_DeleteSchema = NewPattern [2, 0, 2, 1, 1, 0, 4, 1, 5, 2, 2, 3, 1, 0, 4, 1, 5, 4]
     [''v1beta1'', ''namespaces'', ''namespace_id'', ''schemas'', ''schema_id'']"

definition pattern_ListVersions :: pattern where
  "pattern_ListVersions = NewPattern [2, 0, 2, 1, 1, 0, 4, 1, 5, 2, 2, 3, 1, 0, 4, 1, 5, 4, 2, 5]
     [''v1beta1'', ''namespaces'', ''namespace_id'', ''schemas'', ''schema_id'', ''versions'']"

definition pattern_DeleteVersion :: pattern where
  "pattern_DeleteVersion = NewPattern [2, 0, 2, 1, 1, 0, 4, 1, 5, 2, 2, 3, 1, 0, 4, 1, 5, 4, 2, 5, 1, 0, 4, 1, 5, 6]
     [''v1beta1'', ''namespaces'', ''namespace_id'', ''schemas'', ''schema_id'', ''versions'', ''version_id'']"

definition pattern_Search :: pattern where
  "pattern_Search = NewPattern [2, 0, 2, 1] [''v1beta1'', ''search'']"

lemmas pattern_defs = NewPattern_def pattern_ListNamespaces_def pattern_GetNamespace_def pattern_CreateNamespace_def
  pattern_UpdateNamespace_def pattern_DeleteNamespace_def pattern_ListSchemas_def pattern_GetSchemaMetadata_def
  pattern_UpdateSchemaMetadata_def pattern_DeleteSchema_def pattern_ListVersions_def pattern_DeleteVersion_def pattern_Search_def

text \<open>The handler of a route.\<close>

definition gw_handler ::
  "gw_lib \<Rightarrow> string \<Rightarrow> ('a \<Rightarrow> gw_response) \<Rightarrow> (HttpRequest \<Rightarrow> path_params \<Rightarrow> ('s, 'a) io)
   \<Rightarrow> HttpRequest \<Rightarrow> path_params \<Rightarrow> 's \<Rightarrow> 's \<times> HttpResponse" where
  "gw_handler L rpc wrap f req pathParams s =
     (case gl_AnnotateContext L (rpc_name rpc) req of
        Some err \<Rightarrow> (s, gl_HTTPError L err)
      | None \<Rightarrow>
          (case f req pathParams s of
             (s', Inl err) \<Rightarrow> (s', gl_HTTPError L err)
           | (s', Inr resp) \<Rightarrow> (s', gl_ForwardResponseMessage L (wrap resp))))"

record 's gw_route =
  gr_method :: string
  gr_pattern :: pattern
  gr_template :: string
  gr_handler :: "HttpRequest \<Rightarrow> path_params \<Rightarrow> 's \<Rightarrow> 's \<times> HttpResponse"

definition Handle :: "string \<Rightarrow> pattern \<Rightarrow> string \<Rightarrow> (HttpRequest \<Rightarrow> path_params \<Rightarrow> 's \<Rightarrow> 's \<times> HttpResponse) \<Rightarrow> 's gw_route" where
  "Handle m p t h = \<lparr>gr_method = m, gr_pattern = p, gr_template = t, gr_handler = h\<rparr>"

definition RegisterStencilServiceHandlerClient :: "gw_lib \<Rightarrow> 's stencil_client \<Rightarrow> 's gw_route list" where
  "RegisterStencilServiceHandlerClient L client =
     [Handle ''GET'' pattern_ListNamespaces ''/v1beta1/namespaces''
        (gw_handler L ''ListNamespaces'' ListNamespacesResponse (request_ListNamespaces L client)),
      Handle ''GET'' pattern_GetNamespace ''/v1beta1/namespaces/{id}''
        (gw_handler L ''GetNamespace'' GetNamespaceResponse (request_GetNamespace L client)),
      Handle ''POST'' pattern_CreateNamespace ''/v1beta1/namespaces''
        (gw_handler L ''CreateNamespace'' CreateNamespaceResponse (request_CreateNamespace L client)),
      Handle ''PUT'' pattern_UpdateNamespace ''/v1beta1/namespaces/{id}''
        (gw_handler L ''UpdateNamespace'' UpdateNamespaceResponse (request_UpdateNamespace L client)),
      Handle ''DELETE'' pattern_DeleteNamespace ''/v1beta1/namespaces/{id}''
        (gw_handler L ''DeleteNamespace'' DeleteNamespaceResponse (request_DeleteNamespace L client)),
      Handle ''GET'' pattern_ListSchemas ''/v1beta1/namespaces/{id}/schemas''
        (gw_handler L ''ListSchemas'' ListSchemasResponse (request_ListSchemas L client)),
      Handle ''GET'' pattern_GetSchemaMetadata ''/v1beta1/namespaces/{namespace_id}/schemas/{schema_id}/meta''
        (gw_handler L ''GetSchemaMetadata'' GetSchemaMetadataResponse (request_GetSchemaMetadata L client)),
      Handle ''PATCH'' pattern_UpdateSchemaMetadata ''/v1beta1/namespaces/{namespace_id}/schemas/{schema_id}''
        (gw_handler L ''UpdateSchemaMetadata'' UpdateSchemaMetadataResponse (request_UpdateSchemaMetadata L client)),
      Handle ''DELETE'' pattern_DeleteSchema ''/v1beta1/namespaces/{namespace_id}/schemas/{schema_id}''
        (gw_handler L ''DeleteSchema'' DeleteSchemaResponse (request_DeleteSchema L client)),
      Handle ''GET'' pattern_ListVersions ''/v1beta1/namespaces/{namespace_id}/schemas/{schema_id}/versions''
        (gw_handler L ''ListVersions'' ListVersionsResponse (request_ListVersions L client)),
      Handle ''DELETE'' pattern_DeleteVersion ''/v1beta1/namespaces/{namespace_id}/schemas/{schema_id}/versions/{version_id}''
        (gw_handler L ''DeleteVersion'' DeleteVersionResponse (request_DeleteVersion L client)),
      Handle ''GET'' pattern_Search ''/v1beta1/search''
        (gw_handler L ''Search'' (\<lambda>(hits, total). SearchResponse hits total) (request_Search L client))]"

end
