(* ===== verification/Server.thy ===== *)
theory Server
  imports Gateway
begin

text \<open>
  The server around the handlers: the Kafka writer (\<open>changeEventProducer/kafka/writer.go\<close>), the
  configuration (\<open>config/*.go\<close>), the wiring and the dispatch of requests
  (\<open>internal/server/server.go\<close>, \<open>internal/prometheus\<close>), the shutdown
  (\<open>internal/server/graceful.go\<close>), the migration (\<open>postgres.go\<close>) and the commands that start them
  (\<open>cmd/server.go\<close>). The Kafka, migration and configuration libraries are arguments.
\<close>

section \<open>The Kafka writer\<close>

definition wrap64 :: "int \<Rightarrow> int" where "wrap64 i = (i + 2 ^ 63) mod 2 ^ 64 - 2 ^ 63"

definition time_Second :: int where "time_Second = 1000000000"

record KafkaWriter =
  kw_Addr :: string
  kw_WriteTimeout :: int
  kw_MaxAttempts :: go_int

definition NewWriter :: "string \<Rightarrow> go_int \<Rightarrow> go_int \<Rightarrow> KafkaWriter" where
  "NewWriter kafkaBrokerUrl timeout retries =
     \<lparr>kw_Addr = kafkaBrokerUrl, kw_WriteTimeout = wrap64 (time_Second * timeout), kw_MaxAttempts = retries\<rparr>"

text \<open>The counters beside the queue; the failures are counted for each cause.\<close>

record 'q kafka_state =
  ks_queue :: 'q
  ks_Success :: nat
  ks_Failure :: "string \<Rightarrow> nat"

record ('m, 'q) kafka_lib =
  kl_Marshal :: "'m \<Rightarrow> bytes res"
  kl_WriteMessages :: "string \<Rightarrow> bytes \<Rightarrow> 'q \<Rightarrow> 'q \<times> go_error option"
  kl_Close :: "'q \<Rightarrow> 'q \<times> go_error option"

definition failure_cause :: "go_error \<Rightarrow> string" where
  "failure_cause err = ''kafka_message_produce_error'' @ '' '' @ error_text err"

definition Writer_send :: "('m, 'q) kafka_lib \<Rightarrow> string \<Rightarrow> bytes \<Rightarrow> 'q kafka_state \<Rightarrow> 'q kafka_state \<times> go_error option" where
  "Writer_send K topic value s =
     (case kl_WriteMessages K topic value (ks_queue s) of
        (q, Some err) \<Rightarrow>
          (s\<lparr>ks_queue := q, ks_Failure := (ks_Failure s)(failure_cause err := Suc (ks_Failure s (failure_cause err)))\<rparr>, Some err)
      | (q, None) \<Rightarrow> (s\<lparr>ks_queue := q, ks_Success := Suc (ks_Success s)\<rparr>, None))"

definition Writer_Write :: "('m, 'q) kafka_lib \<Rightarrow> string \<Rightarrow> 'm \<Rightarrow> 'q kafka_state \<Rightarrow> 'q kafka_state \<times> go_error option" where
  "Writer_Write K topic protoMessage s =
     (case kl_Marshal K protoMessage of
        Inl err \<Rightarrow> (s, Some (ErrString (''failed to marshal Protobuf message: '' @ error_text err)))
      | Inr messageBytes \<Rightarrow> Writer_send K topic messageBytes s)"

definition Writer_Close :: "('m, 'q) kafka_lib \<Rightarrow> 'q kafka_state \<Rightarrow> 'q kafka_state \<times> go_error option" where
  "Writer_Close K s = (case kl_Close K (ks_queue s) of (q, err) \<Rightarrow> (s\<lparr>ks_queue := q\<rparr>, err))"

definition NoopProducer_Write :: "string \<Rightarrow> 'm \<Rightarrow> 's \<Rightarrow> 's \<times> go_error option" where
  "NoopProducer_Write _ _ s = (s, None)"

section \<open>Configuration\<close>

record NewRelicConfig =
  nrc_Enabled :: bool
  nrc_AppName :: string
  nrc_License :: string

record GRPCConfig =
  gc_MaxRecvMsgSizeInMB :: go_int
  gc_MaxSendMsgSizeInMB :: go_int

record KafkaProducerConfig =
  kc_BootstrapServer :: string
  kc_Retries :: go_int
  kc_Timeout :: go_int

record Config =
  conf_Port :: string
  conf_Timeout :: int
  conf_CacheSizeInMB :: int
  conf_GRPC :: GRPCConfig
  conf_NewRelic :: NewRelicConfig
  conf_DB :: string
  conf_KafkaProducer :: KafkaProducerConfig
  conf_SchemaChange :: SchemaChangeConfig

text \<open>The zero value, and the defaults that the tags of the fields give.\<close>

definition zero_Config :: Config where
  "zero_Config = \<lparr>conf_Port = [], conf_Timeout = 0, conf_CacheSizeInMB = 0,
     conf_GRPC = \<lparr>gc_MaxRecvMsgSizeInMB = 0, gc_MaxSendMsgSizeInMB = 0\<rparr>,
     conf_NewRelic = \<lparr>nrc_Enabled = False, nrc_AppName = [], nrc_License = []\<rparr>, conf_DB = [],
     conf_KafkaProducer = \<lparr>kc_BootstrapServer = [], kc_Retries = 0, kc_Timeout = 0\<rparr>,
     conf_SchemaChange = \<lparr>cfg_KafkaTopic = [], cfg_Depth = 0, cfg_Enable = False\<rparr>\<rparr>"

definition default_Config :: Config where
  "default_Config = \<lparr>conf_Port = ''8080'', conf_Timeout = 60 * time_Second, conf_CacheSizeInMB = 100,
     conf_GRPC = \<lparr>gc_MaxRecvMsgSizeInMB = 10, gc_MaxSendMsgSizeInMB = 10\<rparr>,
     conf_NewRelic = \<lparr>nrc_Enabled = False, nrc_AppName = ''stencil'', nrc_License = []\<rparr>, conf_DB = [],
     conf_KafkaProducer = \<lparr>kc_BootstrapServer = [], kc_Retries = 5, kc_Timeout = 5000\<rparr>,
     conf_SchemaChange = \<lparr>cfg_KafkaTopic = [], cfg_Depth = 0, cfg_Enable = False\<rparr>\<rparr>"

text \<open>The library's loader fills a configuration in, also before it fails. The last part is printed.\<close>

definition Load :: "(string \<Rightarrow> Config \<times> go_error option) \<Rightarrow> (go_error \<Rightarrow> bool) \<Rightarrow> string \<Rightarrow> Config \<times> go_error option \<times> string list" where
  "Load loader is_ConfigFileNotFound configFile =
     (case loader configFile of
        (cfg, Some err) \<Rightarrow>
          if is_ConfigFileNotFound err then (cfg, None, [error_text err]) else (zero_Config, Some err, [])
      | (cfg, None) \<Rightarrow> (cfg, None, []))"

section \<open>Wiring\<close>

definition megabytes :: "int \<Rightarrow> int" where "megabytes n = wrap64 (n * 2 ^ 20)"

record limits =
  lim_CacheMaxCost :: int
  lim_MaxRecvMsgSize :: int
  lim_MaxSendMsgSize :: int

definition Start_limits :: "Config \<Rightarrow> limits" where
  "Start_limits cfg = \<lparr>lim_CacheMaxCost = megabytes (conf_CacheSizeInMB cfg),
     lim_MaxRecvMsgSize = megabytes (gc_MaxRecvMsgSizeInMB (conf_GRPC cfg)),
     lim_MaxSendMsgSize = megabytes (gc_MaxSendMsgSizeInMB (conf_GRPC cfg))\<rparr>"

text \<open>The producer and the configuration that \<open>Start\<close> gives to the schema service.\<close>

definition Start_service ::
  "Config \<Rightarrow> (KafkaWriter \<Rightarrow> string \<Rightarrow> SchemaChangedEvent \<Rightarrow> 's \<Rightarrow> 's \<times> go_error option) \<Rightarrow> 's Service \<Rightarrow> 's Service" where
  "Start_service cfg Write S =
     (let producer = (if cfg_Enable (conf_SchemaChange cfg)
            then Write (NewWriter (kc_BootstrapServer (conf_KafkaProducer cfg)) (kc_Timeout (conf_KafkaProducer cfg))
                          (kc_Retries (conf_KafkaProducer cfg)))
            else NoopProducer_Write)
      in S\<lparr>producer_Write := producer, config := conf_SchemaChange cfg\<rparr>)"

section \<open>Dispatch\<close>

text \<open>
  The standard library's \<open>ServeMux\<close> on a clean path: a pattern that ends with a slash matches the paths
  below it, another only itself; the longest pattern wins.
\<close>

datatype base_handler = BasePing | Metrics | Pprof string | GatewayMux

definition createBaseMux :: "(string \<times> base_handler) list" where
  "createBaseMux = [(''/ping'', BasePing)]"

definition MetricsHandler :: "(string \<times> base_handler) list \<Rightarrow> (string \<times> base_handler) list" where
  "MetricsHandler mux = mux @ [(''/metrics'', Metrics), (''/debug/pprof/'', Pprof ''Index''),
     (''/debug/pprof/cmdline'', Pprof ''Cmdline''), (''/debug/pprof/profile'', Pprof ''Profile''),
     (''/debug/pprof/symbol'', Pprof ''Symbol''), (''/debug/pprof/trace'', Pprof ''Trace'')]"

definition base_mux :: "(string \<times> base_handler) list" where
  "base_mux = MetricsHandler createBaseMux @ [(''/'', GatewayMux)]"

definition mux_matches :: "string \<Rightarrow> string \<Rightarrow> bool" where
  "mux_matches pat path = (if suffix ''/'' pat then prefix pat path else pat = path)"

fun ServeMux :: "(string \<times> 'h) list \<Rightarrow> string \<Rightarrow> (string \<times> 'h) option" where
  "ServeMux [] path = None"
| "ServeMux ((pat, h) # ps) path =
     (if mux_matches pat path
      then (case ServeMux ps path of
              Some (pat', h') \<Rightarrow> if length pat < length pat' then Some (pat', h') else Some (pat, h)
            | None \<Rightarrow> Some (pat, h))
      else ServeMux ps path)"

datatype target = GrpcServer | UiHandler | OtherHandler

definition grpcHandlerFunc :: "nat \<Rightarrow> string \<Rightarrow> string \<Rightarrow> target" where
  "grpcHandlerFunc ProtoMajor contentType path =
     (if ProtoMajor = 2 \<and> sublist ''application/grpc'' contentType then GrpcServer
      else if prefix ''/ui'' path then UiHandler
      else OtherHandler)"

section \<open>Shutdown\<close>

text \<open>
  The main goroutine of \<open>runWithGracefulShutdown\<close> and the one that listens. \<open>is_closed\<close> is
  \<open>errors.Is(err, http.ErrServerClosed)\<close>.
\<close>

datatype main_pc = WaitSignal | Shutting | CleanUp "go_error option" | Finish "go_error option" | Exited | Fatal go_error

record shutdown =
  sd_main :: main_pc
  sd_listening :: bool
  sd_log :: "string list"
  sd_cleanups :: nat

definition start_shutdown :: shutdown where
  "start_shutdown = \<lparr>sd_main = WaitSignal, sd_listening = True, sd_log = [], sd_cleanups = 0\<rparr>"

definition listen_log :: "(go_error \<Rightarrow> bool) \<Rightarrow> go_error option \<Rightarrow> string list" where
  "listen_log is_closed r =
     (case r of None \<Rightarrow> [] | Some err \<Rightarrow> if is_closed err then [''listen: '' @ error_text err] else [])"

definition over :: "main_pc \<Rightarrow> bool" where
  "over pc = (case pc of Exited \<Rightarrow> True | Fatal _ \<Rightarrow> True | _ \<Rightarrow> False)"

inductive shut_step :: "(go_error \<Rightarrow> bool) \<Rightarrow> shutdown \<Rightarrow> shutdown \<Rightarrow> bool" for is_closed where
  listen: "sd_listening s \<Longrightarrow> \<not> over (sd_main s) \<Longrightarrow>
     shut_step is_closed s (s\<lparr>sd_listening := False, sd_log := sd_log s @ listen_log is_closed r\<rparr>)"
| signal: "sd_main s = WaitSignal \<Longrightarrow>
     shut_step is_closed s (s\<lparr>sd_main := Shutting, sd_log := sd_log s @ [''Shutting down server...'']\<rparr>)"
| shutdown: "sd_main s = Shutting \<Longrightarrow> shut_step is_closed s (s\<lparr>sd_main := CleanUp err\<rparr>)"
| cleanup: "sd_main s = CleanUp err \<Longrightarrow>
     shut_step is_closed s (s\<lparr>sd_main := Finish err, sd_cleanups := Suc (sd_cleanups s)\<rparr>)"
| exits: "sd_main s = Finish None \<Longrightarrow>
     shut_step is_closed s (s\<lparr>sd_main := Exited, sd_log := sd_log s @ [''Server exiting'']\<rparr>)"
| fatal: "sd_main s = Finish (Some err) \<Longrightarrow>
     shut_step is_closed s (s\<lparr>sd_main := Fatal err, sd_log := sd_log s @ [''Server forced to shutdown:'' @ error_text err]\<rparr>)"

inductive_cases shut_stepE: "shut_step is_closed s s'"

section \<open>Migration and the commands of the server\<close>

definition Wrap :: "string \<Rightarrow> go_error \<Rightarrow> go_error" where
  "Wrap msg err = ErrWrap (msg @ '': '' @ error_text err) err"

record 'm migrate_lib =
  ml_httpfs_New :: "go_error option"
  ml_NewWithSourceInstance :: "string \<Rightarrow> 'm res"
  ml_Up :: "'m \<Rightarrow> go_error option"
  ml_ErrNoChange :: "go_error \<Rightarrow> bool"

definition NewHTTPFSMigrator :: "'m migrate_lib \<Rightarrow> string \<Rightarrow> 'm res" where
  "NewHTTPFSMigrator M DBConnURL =
     (case ml_httpfs_New M of
        Some err \<Rightarrow> Inl (ErrString (''db migrator: '' @ error_text err))
      | None \<Rightarrow> ml_NewWithSourceInstance M DBConnURL)"

definition Migrate :: "'m migrate_lib \<Rightarrow> string \<Rightarrow> go_error option" where
  "Migrate M connURL =
     (case NewHTTPFSMigrator M connURL of
        Inl err \<Rightarrow> Some (Wrap ''db migrator'' err)
      | Inr m \<Rightarrow>
          (case ml_Up M m of
             Some err \<Rightarrow> if \<not> ml_ErrNoChange M err then Some (Wrap ''db migrator'' err) else None
           | None \<Rightarrow> None))"

definition startCommand :: "(string \<Rightarrow> Config \<times> go_error option \<times> string list) \<Rightarrow> (Config \<Rightarrow> 's \<Rightarrow> 's) \<Rightarrow> string \<Rightarrow> 's \<Rightarrow> 's \<times> go_error option" where
  "startCommand load start configFile s =
     (case load configFile of
        (cfg, Some err, _) \<Rightarrow> (s, Some err)
      | (cfg, None, _) \<Rightarrow> (start cfg s, None))"

definition migrateCommand :: "(string \<Rightarrow> Config \<times> go_error option \<times> string list) \<Rightarrow> 'm migrate_lib \<Rightarrow> string \<Rightarrow> go_error option" where
  "migrateCommand load M configFile =
     (case load configFile of
        (cfg, Some err, _) \<Rightarrow> Some err
      | (cfg, None, _) \<Rightarrow>
          (case Migrate M (conf_DB cfg) of Some err \<Rightarrow> Some err | None \<Rightarrow> None))"

end
