(* ===== verification/Gateway_Claims.thy ===== *)
theory Gateway_Claims
  imports Server Grpc_World Notify_Claims
begin

text \<open>
  The properties of the HTTP interface as a whole: which route a path has, what the routes that read
  and those that write may change in the tables, what the check of required fields refuses, and what
  becomes of an upload whose answer is lost.
\<close>

section \<open>Routes\<close>

datatype seg = Lit string | Var string

text \<open>The segments that a compiled pattern asks for, and those of a template.\<close>

fun pattern_segs :: "nat list \<Rightarrow> string list \<Rightarrow> seg list" where
  "pattern_segs (a # i # b # j # c # k # ops) pool =
     (if a = 2 then Lit (pool ! i) # pattern_segs (b # j # c # k # ops) pool
      else Var (pool ! k) # pattern_segs ops pool)"
| "pattern_segs (a # i # ops) pool = Lit (pool ! i) # pattern_segs ops pool"
| "pattern_segs _ pool = []"

fun split_slash :: "string \<Rightarrow> string list" where
  "split_slash [] = [[]]"
| "split_slash (c # cs) =
     (if c = CHR ''/'' then [] # split_slash cs
      else case split_slash cs of [] \<Rightarrow> [[c]] | w # ws \<Rightarrow> (c # w) # ws)"

definition template_seg :: "string \<Rightarrow> seg" where
  "template_seg s = (if s \<noteq> [] \<and> hd s = CHR ''{'' then Var (butlast (tl s)) else Lit s)"

definition template_segs :: "string \<Rightarrow> seg list" where
  "template_segs t = map template_seg (tl (split_slash t))"

definition fits :: "seg list \<Rightarrow> string list \<Rightarrow> bool" where
  "fits ss path \<longleftrightarrow> list_all2 (\<lambda>s x. case s of Lit l \<Rightarrow> x = l | Var _ \<Rightarrow> True) ss path"

definition gw_segs :: "'s gw_route \<Rightarrow> seg list" where
  "gw_segs r = pattern_segs (pt_ops (gr_pattern r)) (pt_pool (gr_pattern r))"

text \<open>Method and segments of every route of the server: the gateway's and those of \<open>api.go\<close>.\<close>

definition all_routes :: "gw_lib \<Rightarrow> 's stencil_client \<Rightarrow> 's API \<Rightarrow> (string \<times> seg list) list" where
  "all_routes L client A = map (\<lambda>r. (gr_method r, gw_segs r)) (RegisterStencilServiceHandlerClient L client) @
     map (\<lambda>(m, t, h). (m, template_segs t)) (RegisterSchemaHandlers A)"

definition overlap :: "seg list \<Rightarrow> seg list \<Rightarrow> bool" where
  "overlap ss ts \<longleftrightarrow> list_all2 (\<lambda>s t. case (s, t) of (Lit l, Lit k) \<Rightarrow> l = k | _ \<Rightarrow> True) ss ts"

lemma fits_overlap: "fits ss path \<Longrightarrow> fits ts path \<Longrightarrow> overlap ss ts"
  by (fastforce simp: fits_def overlap_def list_all2_conv_all_nth split: seg.splits)

fun pairwise :: "('a \<Rightarrow> 'a \<Rightarrow> bool) \<Rightarrow> 'a list \<Rightarrow> bool" where
  "pairwise P [] = True"
| "pairwise P (x # xs) = (list_all (P x) xs \<and> pairwise P xs)"

lemma pairwise_filter: "pairwise (\<lambda>x y. Q x \<longrightarrow> \<not> Q y) xs \<Longrightarrow> length (filter Q xs) \<le> 1"
proof (induction xs)
  case (Cons x xs)
  then have "Q x \<Longrightarrow> filter Q xs = []" by (auto simp: list_all_iff filter_empty_conv)
  then show ?case using Cons by (cases "Q x") simp_all
qed simp

lemma pairwise_mono: "pairwise P xs \<Longrightarrow> (\<And>x y. P x y \<Longrightarrow> R x y) \<Longrightarrow> pairwise R xs"
  by (induction xs) (auto simp: list_all_iff)

lemma gw_table: "map (\<lambda>r. (gr_method r, gw_segs r)) (RegisterStencilServiceHandlerClient L client) =
    (let ns = [Lit ''v1beta1'', Lit ''namespaces'']; one = ns @ [Var ''id''];
         sc = ns @ [Var ''namespace_id'', Lit ''schemas'', Var ''schema_id'']
     in [(''GET'', ns), (''GET'', one), (''POST'', ns), (''PUT'', one), (''DELETE'', one), (''GET'', one @ [Lit ''schemas'']),
         (''GET'', sc @ [Lit ''meta'']), (''PATCH'', sc), (''DELETE'', sc), (''GET'', sc @ [Lit ''versions'']),
         (''DELETE'', sc @ [Lit ''versions'', Var ''version_id'']), (''GET'', [Lit ''v1beta1'', Lit ''search''])])"
  by (simp add: RegisterStencilServiceHandlerClient_def Handle_def gw_segs_def pattern_defs Let_def)

lemma api_table: "map (\<lambda>(m, t, h). (m, template_segs t)) (RegisterSchemaHandlers A) =
    (let sc = [Lit ''v1beta1'', Lit ''namespaces'', Var ''namespace'', Lit ''schemas'', Var ''name'']
     in [(''GET'', [Lit ''ping'']), (''GET'', sc @ [Lit ''versions'', Var ''version'']), (''GET'', sc), (''POST'', sc),
         (''POST'', sc @ [Lit ''check'']),
         (''GET'', [Lit ''v1beta1'', Lit ''schema'', Lit ''detect-change'', Var ''namespaceId'', Var ''schemaName'']),
         (''GET'', [Lit ''v1beta1'', Lit ''namespaces'', Var ''namespace_id'', Lit ''schemas'', Var ''schema_id'', Lit ''types'',
            Var ''type_name'', Lit ''lineage''])])"
  by (simp add: RegisterSchemaHandlers_def template_segs_def template_seg_def Let_def)

lemma no_overlap:
  "pairwise (\<lambda>(m, ss) (m', ts). m = m' \<longrightarrow> \<not> overlap ss ts) (all_routes L client A)"
  unfolding all_routes_def gw_table api_table by (simp add: Let_def overlap_def)

text \<open>
  A request has at most one route: no path fits the patterns of two routes with the same method,
  the gateway's and the ones that \<open>api.go\<close> adds taken together; so the order in which they are
  registered does not matter. Each compiled pattern of the gateway is that of its template.
\<close>

theorem routes_disjoint:
  "length (filter (\<lambda>(m, ss). m = httpMethod \<and> fits ss path) (all_routes L client A)) \<le> 1 \<and>
   list_all (\<lambda>r. gw_segs r = template_segs (gr_template r)) (RegisterStencilServiceHandlerClient L client)"
proof
  show "length (filter (\<lambda>(m, ss). m = httpMethod \<and> fits ss path) (all_routes L client A)) \<le> 1"
    by (rule pairwise_filter, rule pairwise_mono [OF no_overlap]) (auto dest: fits_overlap)
  show "list_all (\<lambda>r. gw_segs r = template_segs (gr_template r)) (RegisterStencilServiceHandlerClient L client)"
    by (simp add: RegisterStencilServiceHandlerClient_def Handle_def gw_segs_def pattern_defs template_segs_def template_seg_def)
qed

section \<open>What a request may change\<close>

definition on_db :: "(db \<Rightarrow> bool) \<Rightarrow> world \<Rightarrow> bool" where "on_db P w \<longleftrightarrow> P (w_db w)"

lemma keeps_on_db: "(\<And>d. keeps (db_is d) m) \<Longrightarrow> keeps (on_db P) m"
  by (simp add: keeps_def db_is_def on_db_def)

lemma keeps_pg_write: "(\<And>env db. P db \<Longrightarrow> P (fst (f env db))) \<Longrightarrow> keeps (on_db P) (pg_write f)"
  by (simp add: keeps_def pg_write_def on_db_def split_def)

lemma keeps_outcome:
  "(\<And>env db. P db \<Longrightarrow> P (fst (f env db))) \<Longrightarrow>
     keeps (on_db P) (rpc_io (\<lambda>s. case pg_write f s of (s', err) \<Rightarrow> (s', outcome err, err)))"
  by (simp add: keeps_def rpc_io_def pg_write_def on_db_def split_def)

text \<open>The value of a path parameter, when it is there and converts.\<close>

definition path_value :: "(string \<Rightarrow> 'a res) \<Rightarrow> path_params \<Rightarrow> string \<Rightarrow> 'a option" where
  "path_value conv ps n = (case ps n of None \<Rightarrow> None | Some v \<Rightarrow> (case conv v of Inl e \<Rightarrow> None | Inr x \<Rightarrow> Some x))"

lemma keeps_path_param:
  "(\<And>x. path_value conv ps n = Some x \<Longrightarrow> keeps I (k x)) \<Longrightarrow> keeps I (bind_io (path_param conv ps n) k)"
  by (auto simp: path_param_def path_value_def keeps_def bind_io_def split: option.split sum.split)

lemma keeps_decode_body: "(\<And>m. keeps I (k m)) \<Longrightarrow> keeps I (bind_io (decode_body D req) k)"
  by (rule keeps_bind) (auto simp: decode_body_def keeps_def split: sum.split prod.split option.split decode_error.split)

lemma keeps_gw_handler: "keeps I (f req ps) \<Longrightarrow> I w \<Longrightarrow> I (fst (gw_handler L rpc wrap f req ps w))"
  by (auto simp: gw_handler_def keeps_def split: option.split prod.split sum.split dest: spec [of _ w])

lemma keeps_search_route: "(\<And>r. keeps I (sc_Search client r)) \<Longrightarrow> keeps I (request_Search L client req ps)"
  by (auto simp: request_Search_def split: sum.split prod.split option.split)

section \<open>Routes that read\<close>

lemma api_reads:
  fixes F ords ord cfg J ji jl je defines "A \<equiv> pg_API F ords ord cfg J ji jl je"
  shows "keeps (db_is d) (API_HTTPGetSchema A r)" "keeps (db_is d) (API_HTTPLatestSchema A r)" "keeps (db_is d) (API_GetLineage A r)"
  unfolding API_HTTPGetSchema_def API_HTTPLatestSchema_def API_GetLineage_def A_def pg_API_sel GetLineage_def Let_def
  by (auto simp: keeps_get split: sum.split intro!: keeps_bind keeps_map_err keeps_return)

lemma keeps_responses:
  "keeps (db_is d) (f r) \<Longrightarrow> w_db w = d \<Longrightarrow> w_db (fst (handleSchemaResponse A f r w)) = d"
  "keeps (db_is d) (h r) \<Longrightarrow> w_db w = d \<Longrightarrow> w_db (fst (wrapErrHandler A h r w)) = d"
  by (auto simp: keeps_def db_is_def handleSchemaResponse_def wrapErrHandler_def Let_def split: prod.splits sum.splits)

lemma keeps_gw_reads:
  fixes F ords ord cfg J ji jl je G defines "C \<equiv> api_client G (pg_API F ords ord cfg J ji jl je)"
  shows "keeps (db_is d) (request_ListNamespaces L C req ps)" "keeps (db_is d) (request_GetNamespace L C req ps)"
    "keeps (db_is d) (request_ListSchemas L C req ps)" "keeps (db_is d) (request_GetSchemaMetadata L C req ps)"
    "keeps (db_is d) (request_ListVersions L C req ps)" "keeps (db_is d) (request_Search L C req ps)"
  unfolding request_ListNamespaces_def request_GetNamespace_def request_ListSchemas_def request_GetSchemaMetadata_def
    request_ListVersions_def C_def client_sel
  by ((rule keeps_path_param keeps_search_route)?, simp add: keeps_handlers keeps_search keeps_path_param keeps_Invoke)+

text \<open>
  C27. A \<open>GET\<close> leaves the tables as they are, whatever fails on the way: through the gateway, and on
  every route of \<open>api.go\<close> but the one that detects changes.
\<close>

theorem get_requests_safe:
  fixes F ords ord cfg J ji jl je defines "A \<equiv> pg_API F ords ord cfg J ji jl je"
  shows "list_all (\<lambda>r. w_db (fst (gr_handler r req ps w)) = w_db w)
      (filter (\<lambda>r. gr_method r = ''GET'') (RegisterStencilServiceHandlerClient L (NewStencilServiceClient G A))) \<and>
    list_all (\<lambda>(m, t, h). w_db (fst (h req w)) = w_db w)
      (filter (\<lambda>(m, t, h). m = ''GET'' \<and> t \<noteq> ''/v1beta1/schema/detect-change/{namespaceId}/{schemaName}'') (RegisterSchemaHandlers A))"
proof
  have g: "w_db (fst (gw_handler L n wr f req ps w)) = w_db w" if "\<And>d. keeps (db_is d) (f req ps)" for n f and wr :: "'a \<Rightarrow> gw_response"
    using keeps_gw_handler [where I = "db_is (w_db w)" and f = f and L = L and rpc = n and wrap = wr, OF that [of "w_db w"], of w]
    by (simp add: db_is_def)
  show "list_all (\<lambda>r. w_db (fst (gr_handler r req ps w)) = w_db w)
      (filter (\<lambda>r. gr_method r = ''GET'') (RegisterStencilServiceHandlerClient L (NewStencilServiceClient G A)))"
    unfolding A_def by (simp add: RegisterStencilServiceHandlerClient_def Handle_def g keeps_gw_reads)
  show "list_all (\<lambda>(m, t, h). w_db (fst (h req w)) = w_db w)
      (filter (\<lambda>(m, t, h). m = ''GET'' \<and> t \<noteq> ''/v1beta1/schema/detect-change/{namespaceId}/{schemaName}'') (RegisterSchemaHandlers A))"
    unfolding A_def by (simp add: RegisterSchemaHandlers_def ping_def keeps_responses api_reads)
qed

section \<open>Routes that write\<close>

text \<open>
  The integrity of the tables, with the versions and the rows of the namespaces that \<open>N\<close> does not
  name as they were: \<open>f\<close> and \<open>R\<close> are what was there before.
\<close>

definition elsewhere :: "(string \<Rightarrow> bool) \<Rightarrow> (version_key \<Rightarrow> bytes option) \<Rightarrow> Namespace list \<Rightarrow> db \<Rightarrow> bool" where
  "elsewhere N f R db \<longleftrightarrow> db_inv db \<and> (\<forall>a b c. \<not> N a \<longrightarrow> stored db (a, b, c) = f (a, b, c)) \<and>
     (\<forall>n\<in>set R. \<not> N (ns_ID n) \<longrightarrow> n \<in> set (namespaces db))"

lemma namespaces_kept:
  "namespaces (deleteOrphanedData db) = namespaces db" "namespaces (cascade_schemas gone db) = namespaces db"
  "namespaces (cascade_versions gone' db) = namespaces db"
  by (simp_all add: deleteOrphanedData_def cascade_schemas_def cascade_versions_def Let_def)

lemma exec_namespaces: "namespaces (fst (exec env i f db)) = (if fault env i = None then namespaces (f db) else namespaces db)"
  by (simp add: exec_def split: option.split)

lemma elsewhere_delete:
  assumes "elsewhere N f R db"
  shows "N ns \<Longrightarrow> elsewhere N f R (fst (SchemaRepository_Delete env ns sc db))"
    "N ns \<Longrightarrow> elsewhere N f R (fst (SchemaRepository_DeleteVersion env ns sc v db))"
    "N ns \<Longrightarrow> elsewhere N f R (fst (NamespaceRepository_Delete env ns db))"
proof -
  have inv: "db_inv db" using assms by (simp add: elsewhere_def)
  have k: "db_inv (fst (SchemaRepository_Delete env ns sc db))" "db_inv (fst (SchemaRepository_DeleteVersion env ns sc v db))"
    "db_inv (fst (NamespaceRepository_Delete env ns db))"
    using db_step_inv [OF _ inv] db_step.delete db_step.delete_version db_step.namespace_delete by (metis prod.collapse)+
  have n: "namespaces (fst (SchemaRepository_Delete env ns sc db)) = namespaces db"
    "namespaces (fst (SchemaRepository_DeleteVersion env ns sc v db)) = namespaces db"
    "\<And>n. n \<in> set (namespaces db) \<Longrightarrow> ns_ID n \<noteq> ns \<Longrightarrow> n \<in> set (namespaces (fst (NamespaceRepository_Delete env ns db)))"
    by (auto simp: SchemaRepository_Delete_def SchemaRepository_DeleteVersion_def NamespaceRepository_Delete_def exec_def
        deleteSchemaQuery_def deleteVersionQuery_def namespaceDeleteQuery_def namespaces_kept Let_def split: option.splits)
  show "N ns \<Longrightarrow> elsewhere N f R (fst (SchemaRepository_Delete env ns sc db))"
    using assms k(1) n(1) SchemaRepository_Delete_view [OF inv, of env ns sc] unfolding elsewhere_def
    by (cases "SchemaRepository_Delete env ns sc db") auto
  show "N ns \<Longrightarrow> elsewhere N f R (fst (SchemaRepository_DeleteVersion env ns sc v db))"
    using assms k(2) n(2) SchemaRepository_DeleteVersion_view [OF inv, of env ns sc v] unfolding elsewhere_def
    by (cases "SchemaRepository_DeleteVersion env ns sc v db") auto
  show "N ns \<Longrightarrow> elsewhere N f R (fst (NamespaceRepository_Delete env ns db))"
    using assms k(3) n(3) NamespaceRepository_Delete_view [OF inv, of env ns] unfolding elsewhere_def
    by (cases "NamespaceRepository_Delete env ns db") (auto, (metis n(3) fst_conv)+)
qed

lemma elsewhere_write:
  assumes "elsewhere N f R db"
  shows "elsewhere N f R (fst (NamespaceRepository_Create env n db))"
    "N (ns_ID n) \<Longrightarrow> elsewhere N f R (fst (NamespaceRepository_Update env n db))"
    "elsewhere N f R (fst (SchemaRepository_UpdateMetadata env ns sc m db))"
proof -
  have inv: "db_inv db" using assms by (simp add: elsewhere_def)
  have n: "namespaces (fst (SchemaRepository_UpdateMetadata env ns sc m db)) = namespaces db"
    "x \<in> set (namespaces db) \<Longrightarrow> x \<in> set (namespaces (fst (NamespaceRepository_Create env n db)))"
    "x \<in> set (namespaces db) \<Longrightarrow> ns_ID x \<noteq> ns_ID n \<Longrightarrow> x \<in> set (namespaces (fst (NamespaceRepository_Update env n db)))" for x
    by (auto simp: SchemaRepository_UpdateMetadata_def NamespaceRepository_Create_def NamespaceRepository_Update_def
        updateSchemaMetaQuery_def namespaceUpdateQuery_def stmt_def Let_def split: option.splits prod.splits)
  show "elsewhere N f R (fst (NamespaceRepository_Create env n db))"
    using assms n(2) namespace_methods_inv(1) [OF inv] NamespaceRepository_Create_view [OF inv] by (simp add: elsewhere_def)
  show "N (ns_ID n) \<Longrightarrow> elsewhere N f R (fst (NamespaceRepository_Update env n db))"
    using assms n(3) namespace_methods_inv(2) [OF inv] NamespaceRepository_Update_view [OF inv] unfolding elsewhere_def by metis
  obtain db' r where u: "SchemaRepository_UpdateMetadata env ns sc m db = (db', r)" by fastforce
  show "elsewhere N f R (fst (SchemaRepository_UpdateMetadata env ns sc m db))"
    using assms n(1) UpdateMetadata_inv [OF inv u] UpdateMetadata_view [OF inv u] u by (simp add: elsewhere_def)
qed

text \<open>The namespace that a path names, under one of its two parameter names.\<close>

definition named :: "gw_lib \<Rightarrow> path_params \<Rightarrow> string \<Rightarrow> bool" where
  "named L ps a \<longleftrightarrow> path_value (gl_String L) ps ''id'' = Some a \<or> path_value (gl_String L) ps ''namespace_id'' = Some a"

lemma write_handlers_keep:
  fixes F ords ord cfg J ji jl je defines "A \<equiv> pg_API F ords ord cfg J ji jl je"
  shows "keeps (on_db (elsewhere N f R)) (CreateNamespace_Handler G A r)"
    "N (nreq_Id r) \<Longrightarrow> keeps (on_db (elsewhere N f R)) (UpdateNamespace_Handler G A r)"
    "N i \<Longrightarrow> keeps (on_db (elsewhere N f R)) (DeleteNamespace_Handler G A i)"
    "keeps (on_db (elsewhere N f R)) (UpdateSchemaMetadata_Handler G A ns sc c)"
    "N ns \<Longrightarrow> keeps (on_db (elsewhere N f R)) (DeleteSchema_Handler G A ns sc)"
    "N ns \<Longrightarrow> keeps (on_db (elsewhere N f R)) (DeleteVersion_Handler G A ns sc v)"
  unfolding A_def handler_defs API_CreateNamespace_def API_UpdateNamespace_def API_DeleteNamespace_def API_UpdateSchemaMetadata_def
    API_DeleteSchema_def API_DeleteVersion_def namespace_service_defs Service_UpdateMetadata_def Service_Delete_def Service_DeleteVersion_def
  by (rule keeps_served, (rule keeps_rpc)?, simp add: pg_API_def pg_Repository_def pg_NamespaceRepository_def
      createNamespaceRequestToNamespace_def keeps_pg_write keeps_outcome elsewhere_write elsewhere_delete)+

lemma keeps_gw_routes:
  fixes F ords ord cfg J ji jl je G f R ps L defines "C \<equiv> api_client G (pg_API F ords ord cfg J ji jl je)"
  defines "I \<equiv> on_db (elsewhere (named L ps) f R)"
  shows "keeps I (request_CreateNamespace L C req ps)" "keeps I (request_UpdateNamespace L C req ps)"
    "keeps I (request_DeleteNamespace L C req ps)" "keeps I (request_UpdateSchemaMetadata L C req ps)"
    "keeps I (request_DeleteSchema L C req ps)" "keeps I (request_DeleteVersion L C req ps)"
  unfolding request_defs C_def I_def client_sel
  by (auto simp: named_def intro!: keeps_path_param keeps_decode_body keeps_Invoke write_handlers_keep)

text \<open>
  C13. A request through the gateway changes only the namespace in its path: with the tables in
  order, the stored versions and the row of every other namespace are as before, whatever id the
  body carries and whatever fails.
\<close>

theorem namespace_isolation:
  fixes F ords ord cfg J ji jl je defines "A \<equiv> pg_API F ords ord cfg J ji jl je"
  assumes "db_inv (w_db w)" and "route \<in> set (RegisterStencilServiceHandlerClient L (NewStencilServiceClient G A))"
    and "gr_handler route req ps w = (w', response)" and "\<not> named L ps a"
  shows "stored (w_db w') (a, b, c) = stored (w_db w) (a, b, c) \<and>
    (n \<in> set (namespaces (w_db w)) \<and> ns_ID n = a \<longrightarrow> n \<in> set (namespaces (w_db w')))"
proof -
  let ?I = "on_db (elsewhere (named L ps) (stored (w_db w)) (namespaces (w_db w)))"
  have w: "?I w" using assms(2) by (simp add: on_db_def elsewhere_def)
  have g: "?I (fst (gw_handler L rpc wrap f req ps w))" if "keeps ?I (f req ps)" for rpc f and wrap :: "'a \<Rightarrow> gw_response"
    by (rule keeps_gw_handler [where f = f, OF that w])
  have "list_all (\<lambda>r. ?I (fst (gr_handler r req ps w))) (RegisterStencilServiceHandlerClient L (NewStencilServiceClient G A))"
    unfolding A_def by (simp add: RegisterStencilServiceHandlerClient_def Handle_def g keeps_gw_routes keeps_on_db keeps_gw_reads)
  then have "?I w'" using assms(3,4) by (auto simp: list_all_iff)
  then show ?thesis using assms(5) by (auto simp: on_db_def elsewhere_def)
qed

text \<open>A concrete library, and a request whose body names another namespace than its path.\<close>

definition demo_gw :: "NamespaceRequest \<Rightarrow> gw_lib" where
  "demo_gw m = \<lparr>gl_String = Inr, gl_Int32 = ParseInt32, gl_Decode_Namespace = (\<lambda>d. (m, None)),
     gl_Decode_Metadata = (\<lambda>d. (\<lparr>umr_NamespaceId = [], umr_SchemaId = [], umr_Compatibility = 0\<rparr>, Some DecodeEOF)),
     gl_ParseForm = (\<lambda>r. Inr []), gl_PopulateQueryParameters = (\<lambda>f. (\<lparr>psr_NamespaceId = [], psr_SchemaId = [], psr_Query = [], psr_Version = NoVersion\<rparr>, None)),
     gl_AnnotateContext = (\<lambda>n r. None),
     gl_HTTPError = (\<lambda>e. \<lparr>rs_Status = gateway_status e, rs_Headers = [], rs_Body = error_text e\<rparr>),
     gl_ForwardResponseMessage = (\<lambda>r. \<lparr>rs_Status = 200, rs_Headers = [], rs_Body = []\<rparr>)\<rparr>"

definition demo_body :: NamespaceRequest where
  "demo_body = \<lparr>nreq_Id = ''a'', nreq_Format = 1, nreq_Compatibility = 1, nreq_Description = ''new''\<rparr>"

definition demo_request :: HttpRequest where
  "demo_request = \<lparr>rq_PathParams = (\<lambda>n. []), rq_Header = (\<lambda>n. []), rq_Query = (\<lambda>n. []), rq_Body = Inr []\<rparr>"

definition put_route :: "world gw_route" where
  "put_route = RegisterStencilServiceHandlerClient (demo_gw demo_body) (NewStencilServiceClient plain_grpc demo_API) ! 3"

theorem namespace_isolation_witness:
  "gr_method put_route = ''PUT'' \<and>
   json_ns ''a'' \<in> set (namespaces (w_db (fst (gr_handler put_route demo_request [''id'' \<mapsto> ''b''] demo_world))))"
proof
  obtain w' response where h: "gr_handler put_route demo_request [''id'' \<mapsto> ''b''] demo_world = (w', response)" by fastforce
  have r: "put_route \<in> set (RegisterStencilServiceHandlerClient (demo_gw demo_body) (NewStencilServiceClient plain_grpc demo_API))"
    unfolding put_route_def by (rule nth_mem) (simp add: RegisterStencilServiceHandlerClient_def)
  have "\<not> named (demo_gw demo_body) [''id'' \<mapsto> ''b''] ''a''" by (simp add: named_def path_value_def demo_gw_def)
  moreover have "json_ns ''a'' \<in> set (namespaces (w_db demo_world))" "ns_ID (json_ns ''a'') = ''a''" by (simp_all add: demo_world_def json_ns_def)
  ultimately show "json_ns ''a'' \<in> set (namespaces (w_db (fst (gr_handler put_route demo_request [''id'' \<mapsto> ''b''] demo_world))))"
    using namespace_isolation [OF demo_world_inv r [unfolded demo_API_def] h, of "''a''" _ _ "json_ns ''a''"] h by simp
qed (simp add: put_route_def RegisterStencilServiceHandlerClient_def Handle_def)

section \<open>An upload whose answer is lost\<close>

text \<open>
  A file that is uploaded again is found by its version id: as long as its version is there, whatever was
  uploaded since, the answer is the same and nothing is stored.
\<close>

lemma create_again:
  assumes "db_inv (w_db w)" and "Service_Create (service F ords ord cfg) ns sc meta data sha w = (w1, info, None, job)"
    and w2: "db_inv (w_db w2)" "namespaces (w_db w2) = namespaces (w_db w)" "set (versions (w_db w1)) \<subseteq> set (versions (w_db w2))"
    and "Service_Create (service F ords ord cfg) ns sc meta data sha w2 = (w3, info', None, job')"
  shows "w_db w3 = w_db w2 \<and> info' = info"
  using assms(2)
proof (cases rule: service_create_cases)
  case (accepted n p x2 x3 l req)
  note one = accepted
  obtain v where v: "v \<in> set (versions (w_db w1))" "v_id v = getIDforSchema F ns sc (sf_ID (GetCanonicalValue F p))"
    "v_version v = si_Version info" using SchemaRepository_Create_row [OF pg_create_world [OF one(10)]] by blast
  show ?thesis
    using assms(6)
  proof (cases rule: service_create_cases)
    case (accepted n' p' y2 y3 l' req')
    have "n' = n"
      using accepted(1,2) one(1,2) distinct_map_eq [OF db_inv_keys(6) [OF assms(1)]] unfolding w2(2) by simp
    then have p: "p' = p" using accepted(3) one(3) by simp
    have "w_db w3 = w_db w2 \<and> si_Version info' = v_version v"
      using SchemaRepository_Create_again [OF w2(1) _ pg_create_world [OF accepted(10), unfolded accepted(6) p, folded v(2)]] v(1) w2(3)
      by blast
    then show ?thesis using accepted(11) one(11) v(3) p by simp
  qed simp
qed simp


definition lossy_grpc :: "world grpc_env" where
  "lossy_grpc = plain_grpc\<lparr>ge_fate := (\<lambda>n s. if versions (w_db s) = [] then ReplyLost (ErrExt ''deadline'') else Delivered)\<rparr>"

lemma lossy_upload:
  "case CreateSchema_Handler lossy_grpc demo_API upload_request demo_world of (w1, r1) \<Rightarrow>
     versions (w_db w1) \<noteq> [] \<and> namespaces (w_db w1) = namespaces (w_db demo_world) \<and>
     (case r1 of Inl e \<Rightarrow> False | Inr info \<Rightarrow>
       (case snd (CreateSchema_Handler lossy_grpc demo_API upload_request w1) of Inl e \<Rightarrow> False | Inr info' \<Rightarrow> True))"
  by code_simp


section \<open>Required fields\<close>

definition unless_missing :: "string list \<Rightarrow> ('s, 'a) io \<Rightarrow> ('s, 'a) io" where
  "unless_missing ps h s = (if ps = [] then h s else (s, Inl (missing_error ps)))"

text \<open>
  C16. Between a client and a handler stands exactly this check: an upload or a compatibility check
  without data, a search without a query, a namespace without an id (on creation only) or with a number
  that the enum does not declare is refused with the names of the missing fields, and everything else
  reaches the handler. The \<open>UNSPECIFIED\<close> numbers are declared: a format or mode that is left out
  passes, although both are marked as required.
\<close>

theorem rpc_guard_exact:
  assumes "reliable G"
  shows "CreateSchema_Handler G A csr s = unless_missing (if csr_Data csr = [] then [''data''] else [])
      (rpc_io (\<lambda>s. case API_CreateSchema A csr s of (s', info, err, job) \<Rightarrow> (s', info, err))) s \<and>
    CheckCompatibility_Handler G A ccr s = unless_missing (if ccr_Data ccr = [] then [''data''] else [])
      (rpc_io (\<lambda>s. case API_CheckCompatibility A ccr s of (s', err) \<Rightarrow> (s', (), err))) s \<and>
    Search_Handler G A sr s = unless_missing (if psr_Query sr = [] then [''query''] else []) (API_Search A sr) s \<and>
    CreateNamespace_Handler G A nr s = unless_missing ((if nreq_Id nr = [] then [''id''] else []) @
      (if nreq_Format nr \<in> {0..3} then [] else [''format'']) @ (if nreq_Compatibility nr \<in> {0..6} then [] else [''compatibility'']))
      (rpc_io (API_CreateNamespace A nr)) s \<and>
    UpdateNamespace_Handler G A nr s = unless_missing (
      (if nreq_Format nr \<in> {0..3} then [] else [''format'']) @ (if nreq_Compatibility nr \<in> {0..6} then [] else [''compatibility'']))
      (rpc_io (API_UpdateNamespace A nr)) s \<and>
    GetSchema_Handler G A ns sc v s = rpc_io (API_GetSchema A ns sc v) s \<and>
    DeleteVersion_Handler G A ns sc v s = rpc_io (API_DeleteVersion A ns sc v) s"
proof -
  have f: "x \<in> set (map fst Schema_Format_name) \<longleftrightarrow> x \<in> {0..3}" "x \<in> set (map fst Schema_Compatibility_name) \<longleftrightarrow> x \<in> {0..6}" for x
    by (auto simp: enum_tables)
  show ?thesis
    unfolding unless_missing_def handler_defs reliable_call(2) [OF assms] interceptor_requests f by simp
qed

theorem rpc_guard_exact_witness:
  "CreateSchema_Handler plain_grpc demo_API (upload_request\<lparr>csr_Data := []\<rparr>) demo_world = (demo_world, Inl (missing_error [''data''])) \<and>
   CreateNamespace_Handler plain_grpc demo_API (demo_body\<lparr>nreq_Format := 0\<rparr>) demo_world =
     rpc_io (API_CreateNamespace demo_API (demo_body\<lparr>nreq_Format := 0\<rparr>)) demo_world"
  using rpc_guard_exact [OF reliable_plain, of demo_API "upload_request\<lparr>csr_Data := []\<rparr>" demo_world]
    rpc_guard_exact [OF reliable_plain, where A = demo_API and nr = "demo_body\<lparr>nreq_Format := 0\<rparr>" and s = demo_world]
  by (simp add: demo_body_def unless_missing_def)

text \<open>
  C35. So a namespace created without a format stores the name of the unspecified one, and from then on
  every upload over HTTP that relies on the namespace's format is refused.
\<close>

theorem required_enums_unchecked:
  fixes F ords ord cfg J ji jl je defines "A \<equiv> pg_API F ords ord cfg J ji jl je"
  assumes "reliable G" and "nreq_Id r \<noteq> []" and "nreq_Format r = 0" and "nreq_Compatibility r \<in> {0..6}"
    and "no_fault (w_envs w 0)" and "nreq_Id r \<notin> ns_ID ` set (namespaces (w_db w))"
    and "namespaces (w_db w2) = namespaces (w_db (fst (sc_CreateNamespace (NewStencilServiceClient G A) r w)))"
    and "rq_PathParams req ''namespace'' = nreq_Id r" and "rq_Header req HeaderFormat = []"
  shows "(\<exists>n. snd (sc_CreateNamespace (NewStencilServiceClient G A) r w) = Inr n) \<and>
    (\<exists>e. fst (snd (API_HTTPUpload A req w2)) = Inl e)"
proof -
  let ?row = "(createNamespaceRequestToNamespace r)\<lparr>ns_CreatedAt := now (w_envs w 0), ns_UpdatedAt := now (w_envs w 0)\<rparr>"
  have nr: "NamespaceRepository_Create (w_envs w 0) (createNamespaceRequestToNamespace r) (w_db w) =
      ((w_db w)\<lparr>namespaces := namespaces (w_db w) @ [?row]\<rparr>, Inr ?row)"
    using assms(6,7) by (simp add: NamespaceRepository_Create_def stmt_def no_fault_def createNamespaceRequestToNamespace_def
        Let_def wrap_res_def)
  have c: "sc_CreateNamespace (NewStencilServiceClient G A) r w =
      ((next_env w)\<lparr>w_db := (w_db w)\<lparr>namespaces := namespaces (w_db w) @ [?row]\<rparr>\<rparr>, Inr (namespaceToProto ?row))"
    unfolding client_sel CreateNamespace_Handler_def
    by (rule call_ok [OF assms(2)]) (use assms(3-5) in \<open>simp_all add: validate_requests enum_tables rpc_io_def API_CreateNamespace_def
        namespace_service_defs A_def pg_API_def pg_NamespaceRepository_def pg_write_def nr map_rpc_def val_err_def\<close>, auto)
  have fresh: "x \<in> set (namespaces (w_db w)) \<Longrightarrow> ns_ID x \<noteq> nreq_Id r" for x using assms(7) by (metis imageI)
  have only: "ns_Format n = ''FORMAT_UNSPECIFIED''" if "n \<in> set (namespaces (w_db w2))" "ns_ID n = nreq_Id r" for n
    using that fresh [of n] unfolding assms(8) c
    by (auto simp: createNamespaceRequestToNamespace_def assms(4) enum_String_def enum_tables)
  have "\<exists>e. fst (snd (API_HTTPUpload A req w2)) = Inl e"
  proof (cases "rq_Body req")
    case (Inr data)
    obtain w3 info err job where u: "Service_Create (service F ords ord cfg) (nreq_Id r) (rq_PathParams req ''name'')
        \<lparr>meta_Authority = [], meta_Format = [], meta_Compatibility = rq_Header req HeaderCompatibility,
         meta_SourceURL = rq_Header req HeaderSourceUrl\<rparr> data (rq_Header req HeaderCommitSHA) w2 = (w3, info, err, job)"
      by (metis prod_cases4)
    then have "err \<noteq> None"
    proof (cases rule: service_create_cases)
      case (accepted n p x2 x3 l q)
      then show ?thesis using only [OF accepted(1,2)] unspecified_unknown [of F data] by simp
    qed simp
    then show ?thesis using u Inr by (auto simp: API_HTTPUpload_def A_def assms(9,10) Let_def)
  qed (simp add: API_HTTPUpload_def)
  then show ?thesis using c by simp
qed

theorem required_enums_unchecked_witness:
  "case sc_CreateNamespace (NewStencilServiceClient plain_grpc demo_API) (demo_body\<lparr>nreq_Id := ''n'', nreq_Format := 0\<rparr>) demo_world of
     (w', r) \<Rightarrow> (\<exists>n. r = Inr n) \<and>
       (\<exists>e. fst (snd (API_HTTPUpload demo_API (demo_request\<lparr>rq_PathParams := (\<lambda>p. ''n'')\<rparr>) w')) = Inl e)"
proof -
  obtain w' r where c: "sc_CreateNamespace (NewStencilServiceClient plain_grpc demo_API) (demo_body\<lparr>nreq_Id := ''n'', nreq_Format := 0\<rparr>)
      demo_world = (w', r)" by fastforce
  then show ?thesis
    using required_enums_unchecked [where G = plain_grpc and r = "demo_body\<lparr>nreq_Id := ''n'', nreq_Format := 0\<rparr>" and w = demo_world
        and ?w2.0 = w' and req = "demo_request\<lparr>rq_PathParams := (\<lambda>p. ''n'')\<rparr>" and F = demo_format and ords = "\<lambda>_ ks. ks" and
        ord = "\<lambda>ks. ks" and cfg = demo_cfg and J = "\<lambda>q. Inr (\<lambda>xs. xs)" and ji = "\<lambda>i. si_Location i" and jl = "\<lambda>l. []" and
        je = "\<lambda>e. []", folded demo_API_def]
    by (simp del: client_sel add: demo_body_def demo_request_def demo_world_def json_ns_def quiet_no_fault)
qed

section \<open>A \<open>GET\<close> that writes\<close>

definition guide_API :: "world API" where
  "guide_API = pg_API (demo_format\<lparr>proto := guide_proto\<rparr>) (\<lambda>_ ks. ks) (\<lambda>ks. ks) demo_cfg (\<lambda>q. Inr (\<lambda>xs. xs))
     (\<lambda>i. si_Location i) (\<lambda>l. []) (\<lambda>e. [])"

definition detect_request :: HttpRequest where
  "detect_request = \<lparr>rq_PathParams = (\<lambda>n. if n = ''namespaceId'' then ''a'' else ''s''), rq_Header = (\<lambda>n. []),
     rq_Query = (\<lambda>n. []), rq_Body = Inr []\<rparr>"

definition two_versions :: world where
  "two_versions = fst (guide_upload ''v2'' (fst (guide_upload ''v1'' (demo_world\<lparr>w_ids := (\<lambda>i. replicate i (CHR ''e''))\<rparr>))))"

definition detect_route :: "world \<Rightarrow> world \<times> HttpResponse" where
  "detect_route = snd (snd (RegisterSchemaHandlers guide_API ! 5)) detect_request"

text \<open>
  The route that detects changes is a \<open>GET\<close> with effects: every request for the same two versions
  inserts another notification event and sends another message.
\<close>

theorem detect_change_get_writes:
  "fst (RegisterSchemaHandlers guide_API ! 5) = ''GET'' \<and>
   (let w1 = fst (detect_route two_versions); w2 = fst (detect_route w1)
    in map (\<lambda>w. (length (notification_events (w_db w)), length (w_sent w))) [two_versions, w1, w2] = [(0, 0), (1, 1), (2, 2)])"
  by code_simp

end
