(* ===== verification/Gateway_Types.thy ===== *)
theory Gateway_Types
  imports Gateway_Claims
begin

text \<open>
  The types of the namespace rows: the columns for the format and the mode are strings, and what keeps
  them to the names of the enums is the check of required fields alone.
\<close>

definition typed_row :: "Namespace \<Rightarrow> bool" where
  "typed_row n \<longleftrightarrow> ns_Format n \<in> set (map snd Schema_Format_name) \<and> ns_Compatibility n \<in> set (map snd Schema_Compatibility_name)"

definition typed_db :: "db \<Rightarrow> bool" where "typed_db db \<longleftrightarrow> list_all typed_row (namespaces db)"

lemma typed_subset: "typed_db db \<Longrightarrow> set (namespaces db') \<subseteq> set (namespaces db) \<Longrightarrow> typed_db db'"
  by (auto simp: typed_db_def list_all_iff)

lemma namespaces_subset:
  "namespaces (fst (SchemaRepository_Delete env ns sc db)) = namespaces db"
  "namespaces (fst (SchemaRepository_DeleteVersion env ns sc v db)) = namespaces db"
  "namespaces (fst (SchemaRepository_UpdateMetadata env ns sc m db)) = namespaces db"
  "set (namespaces (fst (NamespaceRepository_Delete env ns db))) \<subseteq> set (namespaces db)"
  by (auto simp: SchemaRepository_Delete_def SchemaRepository_DeleteVersion_def NamespaceRepository_Delete_def exec_def
      SchemaRepository_UpdateMetadata_def updateSchemaMetaQuery_def stmt_def
      deleteSchemaQuery_def deleteVersionQuery_def namespaceDeleteQuery_def namespaces_kept Let_def split: option.splits prod.splits)

lemma typed_others:
  "typed_db db \<Longrightarrow> typed_db (fst (SchemaRepository_Delete env ns sc db))"
  "typed_db db \<Longrightarrow> typed_db (fst (SchemaRepository_DeleteVersion env ns sc v db))"
  "typed_db db \<Longrightarrow> typed_db (fst (SchemaRepository_UpdateMetadata env ns sc m db))"
  "typed_db db \<Longrightarrow> typed_db (fst (NamespaceRepository_Delete env ns db))"
  by (erule typed_subset, simp add: namespaces_subset)+

lemma typed_row_changed [simp]:
  "typed_row (n\<lparr>ns_CreatedAt := t, ns_UpdatedAt := t'\<rparr>) \<longleftrightarrow> typed_row n"
  "typed_row (m\<lparr>ns_Format := ns_Format n, ns_Compatibility := ns_Compatibility n, ns_Description := d, ns_UpdatedAt := t'\<rparr>) \<longleftrightarrow> typed_row n"
  by (simp_all add: typed_row_def)

lemma typed_write:
  assumes "typed_db db" and "typed_row n"
  shows "typed_db (fst (NamespaceRepository_Create env n db))" "typed_db (fst (NamespaceRepository_Update env n db))"
  using assms by (auto simp: typed_db_def list_all_iff NamespaceRepository_Create_def NamespaceRepository_Update_def
      namespaceUpdateQuery_def stmt_def Let_def typed_row_changed split: option.splits prod.splits)

text \<open>A declared number is stored under its name.\<close>

lemma declared_name: "x \<in> set (map fst names) \<Longrightarrow> enum_String names x \<in> set (map snd names)"
  by (cases "map_of names x") (auto simp: enum_String_def map_of_eq_None_iff intro: rev_image_eqI dest: map_of_SomeD)

text \<open>The handler runs only on messages that pass the check.\<close>

lemma keeps_guarded:
  "(validateMessage (ge_protoSize G) msg = Some [] \<Longrightarrow> keeps I m) \<Longrightarrow>
     keeps I (\<lambda>s. unary_Handler (ge_dec_error G n s) (Some (server_interceptor G)) msg m s)"
  by (auto simp: keeps_def unary_Handler_def server_interceptor_def UnaryServerInterceptor_def validate_def
      split: option.splits if_splits)

lemma namespace_handlers_typed:
  fixes F ords ord cfg J ji jl je defines "A \<equiv> pg_API F ords ord cfg J ji jl je"
  shows "keeps (on_db typed_db) (CreateNamespace_Handler G A r)" "keeps (on_db typed_db) (UpdateNamespace_Handler G A r)"
  unfolding A_def CreateNamespace_Handler_def UpdateNamespace_Handler_def API_CreateNamespace_def API_UpdateNamespace_def namespace_service_defs
  by (rule keeps_guarded, rule keeps_rpc, simp only: pg_API_sel pg_API_def pg_NamespaceRepository_def NamespaceRepository.simps API.simps,
      rule keeps_pg_write, rule typed_write, assumption,
      simp add: validate_requests typed_row_def createNamespaceRequestToNamespace_def declared_name del: set_map split: if_splits)+

lemma write_handlers_typed:
  fixes F ords ord cfg J ji jl je defines "A \<equiv> pg_API F ords ord cfg J ji jl je"
  shows "keeps (on_db typed_db) (DeleteNamespace_Handler G A i)" "keeps (on_db typed_db) (UpdateSchemaMetadata_Handler G A ns sc c)"
    "keeps (on_db typed_db) (DeleteSchema_Handler G A ns sc)" "keeps (on_db typed_db) (DeleteVersion_Handler G A ns sc v)"
  unfolding A_def handler_defs API_DeleteNamespace_def API_UpdateSchemaMetadata_def
    API_DeleteSchema_def API_DeleteVersion_def namespace_service_defs Service_UpdateMetadata_def Service_Delete_def Service_DeleteVersion_def
  by (rule keeps_served, (rule keeps_rpc)?, simp add: pg_API_def pg_Repository_def pg_NamespaceRepository_def
      keeps_pg_write keeps_outcome typed_others)+

lemma gw_routes_typed:
  fixes F ords ord cfg J ji jl je G ps L defines "C \<equiv> api_client G (pg_API F ords ord cfg J ji jl je)"
  shows "keeps (on_db typed_db) (request_CreateNamespace L C req ps)" "keeps (on_db typed_db) (request_UpdateNamespace L C req ps)"
    "keeps (on_db typed_db) (request_DeleteNamespace L C req ps)" "keeps (on_db typed_db) (request_UpdateSchemaMetadata L C req ps)"
    "keeps (on_db typed_db) (request_DeleteSchema L C req ps)" "keeps (on_db typed_db) (request_DeleteVersion L C req ps)"
  unfolding request_defs C_def client_sel
  by (auto intro!: keeps_path_param keeps_decode_body keeps_Invoke namespace_handlers_typed write_handlers_typed)

text \<open>
  C21. Every row of a namespace holds the name of a declared format and of a declared mode, and every
  request through the gateway keeps it so, whatever its body decodes to and whatever fails: a number
  outside the enums does not get past the check of required fields.
\<close>

theorem namespace_rows_typed:
  fixes F ords ord cfg J ji jl je defines "A \<equiv> pg_API F ords ord cfg J ji jl je"
  assumes "typed_db (w_db w)" and "route \<in> set (RegisterStencilServiceHandlerClient L (NewStencilServiceClient G A))"
    and "gr_handler route req ps w = (w', response)"
  shows "typed_db (w_db w')"
proof -
  let ?I = "on_db typed_db"
  have w: "?I w" using assms(2) by (simp add: on_db_def)
  have g: "?I (fst (gw_handler L rpc wrap f req ps w))" if "keeps ?I (f req ps)" for rpc f and wrap :: "'a \<Rightarrow> gw_response"
    by (rule keeps_gw_handler [where f = f, OF that w])
  have "list_all (\<lambda>r. ?I (fst (gr_handler r req ps w))) (RegisterStencilServiceHandlerClient L (NewStencilServiceClient G A))"
    unfolding A_def by (simp add: RegisterStencilServiceHandlerClient_def Handle_def g gw_routes_typed keeps_on_db keeps_gw_reads)
  then show ?thesis using assms(3,4) by (auto simp: list_all_iff on_db_def)
qed

text \<open>A number that the enum does not declare, put on a namespace that exists.\<close>

definition put_nine :: "world gw_route" where
  "put_nine = RegisterStencilServiceHandlerClient (demo_gw (demo_body\<lparr>nreq_Format := 9\<rparr>)) (NewStencilServiceClient plain_grpc demo_API) ! 3"

definition typed_world :: world where
  "typed_world = demo_world\<lparr>w_db := (w_db demo_world)\<lparr>namespaces := [(json_ns ''a'')\<lparr>ns_Compatibility := ''COMPATIBILITY_FULL''\<rparr>]\<rparr>\<rparr>"

theorem namespace_rows_typed_witness:
  "typed_db (w_db (fst (gr_handler put_nine demo_request [''id'' \<mapsto> ''a''] typed_world))) \<and> namespaces (w_db typed_world) \<noteq> []"
proof
  have "put_nine \<in> set (RegisterStencilServiceHandlerClient (demo_gw (demo_body\<lparr>nreq_Format := 9\<rparr>)) (NewStencilServiceClient plain_grpc demo_API))"
    unfolding put_nine_def by (rule nth_mem) (simp add: RegisterStencilServiceHandlerClient_def)
  moreover have "typed_db (w_db typed_world)" by code_simp
  moreover obtain w' response where "gr_handler put_nine demo_request [''id'' \<mapsto> ''a''] typed_world = (w', response)" by fastforce
  ultimately show "typed_db (w_db (fst (gr_handler put_nine demo_request [''id'' \<mapsto> ''a''] typed_world)))"
    using namespace_rows_typed [where w = typed_world and route = put_nine] unfolding demo_API_def by simp
qed (simp add: typed_world_def)

end
