(* ===== verification/Gateway_Local.thy ===== *)
theory Gateway_Local
  imports Gateway_Claims
begin

text \<open>
  The other ways to register the gateway of \<open>stencil.pb.gw.go\<close>: with the handlers in the same process
  (\<open>RegisterStencilServiceHandlerServer\<close> and the functions \<open>local_request_\<close>...), over a connection
  (\<open>RegisterStencilServiceHandler\<close>, which \<open>Start\<close> uses) and over a connection it dials itself.
  \<open>AnnotateIncoming\<close> is the \<open>AnnotateIncomingContext\<close> of the gateway library.
\<close>

section \<open>One function for each route\<close>

definition local_request_ListNamespaces ::
  "gw_lib \<Rightarrow> 's API \<Rightarrow> HttpRequest \<Rightarrow> path_params \<Rightarrow> ('s, pb_Namespace list) io" where
  "local_request_ListNamespaces L srv req pathParams = rpc_io (API_ListNamespaces srv)"

definition local_request_GetNamespace ::
  "gw_lib \<Rightarrow> 's API \<Rightarrow> HttpRequest \<Rightarrow> path_params \<Rightarrow> ('s, pb_Namespace) io" where
  "local_request_GetNamespace L srv req pathParams =
     bind_io (path_param (gl_String L) pathParams ''id'') (\<lambda>i. rpc_io (API_GetNamespace srv i))"

definition local_request_CreateNamespace ::
  "gw_lib \<Rightarrow> 's API \<Rightarrow> HttpRequest \<Rightarrow> path_params \<Rightarrow> ('s, pb_Namespace) io" where
  "local_request_CreateNamespace L srv req pathParams =
     bind_io (decode_body (gl_Decode_Namespace L) req) (\<lambda>protoReq. rpc_io (API_CreateNamespace srv protoReq))"

definition local_request_UpdateNamespace ::
  "gw_lib \<Rightarrow> 's API \<Rightarrow> HttpRequest \<Rightarrow> path_params \<Rightarrow> ('s, pb_Namespace) io" where
  "local_request_UpdateNamespace L srv req pathParams =
     bind_io (decode_body (gl_Decode_Namespace L) req) (\<lambda>protoReq.
     bind_io (path_param (gl_String L) pathParams ''id'') (\<lambda>i.
       rpc_io (API_UpdateNamespace srv (protoReq\<lparr>nreq_Id := i\<rparr>))))"

definition local_request_DeleteNamespace ::
  "gw_lib \<Rightarrow> 's API \<Rightarrow> HttpRequest \<Rightarrow> path_params \<Rightarrow> ('s, string) io" where
  "local_request_DeleteNamespace L srv req pathParams =
     bind_io (path_param (gl_String L) pathParams ''id'') (\<lambda>i. rpc_io (API_DeleteNamespace srv i))"

definition local_request_ListSchemas ::
  "gw_lib \<Rightarrow> 's API \<Rightarrow> HttpRequest \<Rightarrow> path_params \<Rightarrow> ('s, pb_Schema list) io" where
  "local_request_ListSchemas L srv req pathParams =
     bind_io (path_param (gl_String L) pathParams ''id'') (\<lambda>i. rpc_io (API_ListSchemas srv i))"

definition local_request_GetSchemaMetadata ::
  "gw_lib \<Rightarrow> 's API \<Rightarrow> HttpRequest \<Rightarrow> path_params \<Rightarrow> ('s, pb_Schema) io" where
  "local_request_GetSchemaMetadata L srv req pathParams =
     bind_io (path_param (gl_String L) pathParams ''namespace_id'') (\<lambda>ns.
     bind_io (path_param (gl_String L) pathParams ''schema_id'') (\<lambda>sc.
       rpc_io (API_GetSchemaMetadata srv ns sc)))"

definition local_request_UpdateSchemaMetadata ::
  "gw_lib \<Rightarrow> 's API \<Rightarrow> HttpRequest \<Rightarrow> path_params \<Rightarrow> ('s, pb_Schema) io" where
  "local_request_UpdateSchemaMetadata L srv req pathParams =
     bind_io (decode_body (gl_Decode_Metadata L) req) (\<lambda>protoReq.
     bind_io (path_param (gl_String L) pathParams ''namespace_id'') (\<lambda>ns.
     bind_io (path_param (gl_String L) pathParams ''schema_id'') (\<lambda>sc.
       rpc_io (API_UpdateSchemaMetadata srv ns sc (umr_Compatibility protoReq)))))"

definition local_request_DeleteSchema ::
  "gw_lib \<Rightarrow> 's API \<Rightarrow> HttpRequest \<Rightarrow> path_params \<Rightarrow> ('s, string) io" where
  "local_request_DeleteSchema L srv req pathParams =
     bind_io (path_param (gl_String L) pathParams ''namespace_id'') (\<lambda>ns.
     bind_io (path_param (gl_String L) pathParams ''schema_id'') (\<lambda>sc.
       rpc_io (API_DeleteSchema srv ns sc)))"

definition local_request_ListVersions ::
  "gw_lib \<Rightarrow> 's API \<Rightarrow> HttpRequest \<Rightarrow> path_params \<Rightarrow> ('s, int32 list) io" where
  "local_request_ListVersions L srv req pathParams =
     bind_io (path_param (gl_String L) pathParams ''namespace_id'') (\<lambda>ns.
     bind_io (path_param (gl_String L) pathParams ''schema_id'') (\<lambda>sc.
       rpc_io (API_ListVersions srv ns sc)))"

definition local_request_DeleteVersion ::
  "gw_lib \<Rightarrow> 's API \<Rightarrow> HttpRequest \<Rightarrow> path_params \<Rightarrow> ('s, string) io" where
  "local_request_DeleteVersion L srv req pathParams =
     bind_io (path_param (gl_String L) pathParams ''namespace_id'') (\<lambda>ns.
     bind_io (path_param (gl_String L) pathParams ''schema_id'') (\<lambda>sc.
     bind_io (path_param (gl_Int32 L) pathParams ''version_id'') (\<lambda>v.
       rpc_io (API_DeleteVersion srv ns sc v))))"

definition local_request_Search ::
  "gw_lib \<Rightarrow> 's API \<Rightarrow> HttpRequest \<Rightarrow> path_params \<Rightarrow> ('s, pb_SearchHits list \<times> nat) io" where
  "local_request_Search L srv req pathParams =
     (case gl_ParseForm L req of
        Inl err \<Rightarrow> fail_io (StatusErr Code_InvalidArgument (error_text err))
      | Inr form \<Rightarrow>
          (case gl_PopulateQueryParameters L form of
             (protoReq, Some err) \<Rightarrow> fail_io (StatusErr Code_InvalidArgument (error_text err))
           | (protoReq, None) \<Rightarrow> API_Search srv protoReq))"

lemmas local_request_defs = local_request_ListNamespaces_def local_request_GetNamespace_def local_request_CreateNamespace_def
  local_request_UpdateNamespace_def local_request_DeleteNamespace_def local_request_ListSchemas_def
  local_request_GetSchemaMetadata_def local_request_UpdateSchemaMetadata_def local_request_DeleteSchema_def
  local_request_ListVersions_def local_request_DeleteVersion_def local_request_Search_def

section \<open>Routes\<close>

definition local_handler ::
  "gw_lib \<Rightarrow> (string \<Rightarrow> HttpRequest \<Rightarrow> go_error option) \<Rightarrow> string \<Rightarrow> ('a \<Rightarrow> gw_response)
   \<Rightarrow> (HttpRequest \<Rightarrow> path_params \<Rightarrow> ('s, 'a) io) \<Rightarrow> HttpRequest \<Rightarrow> path_params \<Rightarrow> 's \<Rightarrow> 's \<times> HttpResponse" where
  "local_handler L AnnotateIncoming rpc wrap f req pathParams s =
     (case AnnotateIncoming (rpc_name rpc) req of
        Some err \<Rightarrow> (s, gl_HTTPError L err)
      | None \<Rightarrow>
          (case f req pathParams s of
             (s', Inl err) \<Rightarrow> (s', gl_HTTPError L err)
           | (s', Inr resp) \<Rightarrow> (s', gl_ForwardResponseMessage L (wrap resp))))"

definition RegisterStencilServiceHandlerServer :: "gw_lib \<Rightarrow> (string \<Rightarrow> HttpRequest \<Rightarrow> go_error option) \<Rightarrow> 's API \<Rightarrow> 's gw_route list" where
  "RegisterStencilServiceHandlerServer L AnnotateIncoming srv =
     [Handle ''GET'' pattern_ListNamespaces ''/v1beta1/namespaces''
        (local_handler L AnnotateIncoming ''ListNamespaces'' ListNamespacesResponse (local_request_ListNamespaces L srv)),
      Handle ''GET'' pattern_GetNamespace ''/v1beta1/namespaces/{id}''
        (local_handler L AnnotateIncoming ''GetNamespace'' GetNamespaceResponse (local_request_GetNamespace L srv)),
      Handle ''POST'' pattern_CreateNamespace ''/v1beta1/namespaces''
        (local_handler L AnnotateIncoming ''CreateNamespace'' CreateNamespaceResponse (local_request_CreateNamespace L srv)),
      Handle ''PUT'' pattern_UpdateNamespace ''/v1beta1/namespaces/{id}''
        (local_handler L AnnotateIncoming ''UpdateNamespace'' UpdateNamespaceResponse (local_request_UpdateNamespace L srv)),
      Handle ''DELETE'' pattern_DeleteNamespace ''/v1beta1/namespaces/{id}''
        (local_handler L AnnotateIncoming ''DeleteNamespace'' DeleteNamespaceResponse (local_request_DeleteNamespace L srv)),
      Handle ''GET'' pattern_ListSchemas ''/v1beta1/namespaces/{id}/schemas''
        (local_handler L AnnotateIncoming ''ListSchemas'' ListSchemasResponse (local_request_ListSchemas L srv)),
      Handle ''GET'' pattern_GetSchemaMetadata ''/v1beta1/namespaces/{namespace_id}/schemas/{schema_id}/meta''
        (local_handler L AnnotateIncoming ''GetSchemaMetadata'' GetSchemaMetadataResponse (local_request_GetSchemaMetadata L srv)),
      Handle ''PATCH'' pattern_UpdateSchemaMetadata ''/v1beta1/namespaces/{namespace_id}/schemas/{schema_id}''
        (local_handler L AnnotateIncoming ''UpdateSchemaMetadata'' UpdateSchemaMetadataResponse (local_request_UpdateSchemaMetadata L srv)),
      Handle ''DELETE'' pattern_DeleteSchema ''/v1beta1/namespaces/{namespace_id}/schemas/{schema_id}''
        (local_handler L AnnotateIncoming ''DeleteSchema'' DeleteSchemaResponse (local_request_DeleteSchema L srv)),
      Handle ''GET'' pattern_ListVersions ''/v1beta1/namespaces/{namespace_id}/schemas/{schema_id}/versions''
        (local_handler L AnnotateIncoming ''ListVersions'' ListVersionsResponse (local_request_ListVersions L srv)),
      Handle ''DELETE'' pattern_DeleteVersion ''/v1beta1/namespaces/{namespace_id}/schemas/{schema_id}/versions/{version_id}''
        (local_handler L AnnotateIncoming ''DeleteVersion'' DeleteVersionResponse (local_request_DeleteVersion L srv)),
      Handle ''GET'' pattern_Search ''/v1beta1/search''
        (local_handler L AnnotateIncoming ''Search'' (\<lambda>(hits, total). SearchResponse hits total) (local_request_Search L srv))]"

definition RegisterStencilServiceHandler :: "gw_lib \<Rightarrow> 's grpc_env \<Rightarrow> 's API \<Rightarrow> 's gw_route list" where
  "RegisterStencilServiceHandler L conn srv = RegisterStencilServiceHandlerClient L (NewStencilServiceClient conn srv)"

text \<open>
  Registering never fails, so the connection stays open until the context is done; what is logged then
  depends on how closing it ends.
\<close>

definition RegisterStencilServiceHandlerFromEndpoint ::
  "gw_lib \<Rightarrow> (string \<Rightarrow> 's grpc_env res) \<Rightarrow> 's API \<Rightarrow> string \<Rightarrow> ('s gw_route list \<times> (go_error option \<Rightarrow> string list)) res" where
  "RegisterStencilServiceHandlerFromEndpoint L DialContext srv endpoint =
     (case DialContext endpoint of
        Inl err \<Rightarrow> Inl err
      | Inr conn \<Rightarrow> Inr (RegisterStencilServiceHandler L conn srv,
          (\<lambda>cerr. case cerr of None \<Rightarrow> [] | Some e \<Rightarrow> [''Failed to close conn to '' @ endpoint @ '': '' @ error_text e])))"

section \<open>In process and over the connection\<close>

text \<open>
  What a call over the connection gives, \<open>x\<close>, beside the same call in process, \<open>y\<close>: the same; or the
  same state with the error as it crosses the wire; or, where required fields are missing, a refusal
  that leaves the state alone.
\<close>

definition crosses :: "'s \<Rightarrow> 's \<times> 'a res \<Rightarrow> 's \<times> 'a res \<Rightarrow> bool" where
  "crosses s x y \<longleftrightarrow> x = y \<or> (\<exists>s' e. y = (s', Inl e) \<and> x = (s', Inl (wire_error e)))"

definition refused :: "'s \<Rightarrow> 's \<times> 'a res \<Rightarrow> bool" where
  "refused s x \<longleftrightarrow> (\<exists>p ps. x = (s, Inl (wire_error (missing_error (p # ps)))))"

lemma crosses_bind:
  assumes "\<And>a. crosses s (f a s) (g a s)"
  shows "crosses s (bind_io (path_param c ps n) f s) (bind_io (path_param c ps n) g s)"
    "crosses s (bind_io (decode_body D req) f s) (bind_io (decode_body D req) g s)"
  using assms by (auto simp: bind_io_def path_param_def decode_body_def crosses_def split: option.splits sum.splits prod.splits decode_error.splits)

lemma refused_bind:
  assumes "\<And>a. refused s (f a s) \<or> crosses s (f a s) (g a s)"
  shows "refused s (bind_io (path_param c ps n) f s) \<or> crosses s (bind_io (path_param c ps n) f s) (bind_io (path_param c ps n) g s)"
    "refused s (bind_io (decode_body D req) f s) \<or> crosses s (bind_io (decode_body D req) f s) (bind_io (decode_body D req) g s)"
  using assms by (auto simp: bind_io_def path_param_def decode_body_def crosses_def split: option.splits sum.splits prod.splits decode_error.splits)

lemma call_crosses:
  assumes "reliable G" and "validateMessage (ge_protoSize G) msg = Some []"
  shows "crosses s (Invoke G n (served G n' msg m) s) (m s)"
  using interceptor_decides [OF assms(2), of m s]
  by (auto simp: reliable_call [OF assms(1)] map_err_io_def crosses_def split: prod.splits sum.splits)

lemma call_refused:
  assumes "reliable G" and "validateMessage (ge_protoSize G) msg \<noteq> None"
  shows "refused s (Invoke G n (served G n' msg m) s) \<or> crosses s (Invoke G n (served G n' msg m) s) (m s)"
proof -
  obtain ps where "validateMessage (ge_protoSize G) msg = Some ps" using assms(2) by blast
  from interceptor_decides [OF this, of m s] show ?thesis
    by (auto simp: reliable_call [OF assms(1)] map_err_io_def crosses_def refused_def neq_Nil_conv split: prod.splits sum.splits if_splits)
qed

lemma requests_cross:
  assumes "reliable G"
  shows "crosses s (request_ListNamespaces L (api_client G A) req ps s) (local_request_ListNamespaces L A req ps s)"
    "crosses s (request_GetNamespace L (api_client G A) req ps s) (local_request_GetNamespace L A req ps s)"
    "crosses s (request_DeleteNamespace L (api_client G A) req ps s) (local_request_DeleteNamespace L A req ps s)"
    "crosses s (request_ListSchemas L (api_client G A) req ps s) (local_request_ListSchemas L A req ps s)"
    "crosses s (request_GetSchemaMetadata L (api_client G A) req ps s) (local_request_GetSchemaMetadata L A req ps s)"
    "crosses s (request_UpdateSchemaMetadata L (api_client G A) req ps s) (local_request_UpdateSchemaMetadata L A req ps s)"
    "crosses s (request_DeleteSchema L (api_client G A) req ps s) (local_request_DeleteSchema L A req ps s)"
    "crosses s (request_ListVersions L (api_client G A) req ps s) (local_request_ListVersions L A req ps s)"
    "crosses s (request_DeleteVersion L (api_client G A) req ps s) (local_request_DeleteVersion L A req ps s)"
  unfolding request_defs local_request_defs client_sel handler_defs
  by (intro crosses_bind call_crosses [OF assms] validate_requests)+

lemma requests_refused:
  assumes "reliable G"
  shows "refused s (request_CreateNamespace L (api_client G A) req ps s) \<or>
      crosses s (request_CreateNamespace L (api_client G A) req ps s) (local_request_CreateNamespace L A req ps s)"
    "refused s (request_UpdateNamespace L (api_client G A) req ps s) \<or>
      crosses s (request_UpdateNamespace L (api_client G A) req ps s) (local_request_UpdateNamespace L A req ps s)"
    "refused s (request_Search L (api_client G A) req ps s) \<or>
      crosses s (request_Search L (api_client G A) req ps s) (local_request_Search L A req ps s)"
proof -
  show "refused s (request_CreateNamespace L (api_client G A) req ps s) \<or>
      crosses s (request_CreateNamespace L (api_client G A) req ps s) (local_request_CreateNamespace L A req ps s)"
    "refused s (request_UpdateNamespace L (api_client G A) req ps s) \<or>
      crosses s (request_UpdateNamespace L (api_client G A) req ps s) (local_request_UpdateNamespace L A req ps s)"
    unfolding request_defs local_request_defs client_sel handler_defs
    by (intro refused_bind call_refused [OF assms], simp add: validate_requests)+
  show "refused s (request_Search L (api_client G A) req ps s) \<or>
      crosses s (request_Search L (api_client G A) req ps s) (local_request_Search L A req ps s)"
  proof (cases "gl_ParseForm L req")
    case (Inr form)
    obtain r err where r: "gl_PopulateQueryParameters L form = (r, err)" by fastforce
    show ?thesis
    proof (cases err)
      case None
      have "validateMessage (ge_protoSize G) (SearchRequest_msg r) \<noteq> None" by (simp add: validate_requests)
      then show ?thesis using Inr r None call_refused [OF assms]
        unfolding request_defs local_request_defs client_sel handler_defs by simp
    qed (simp add: request_defs local_request_defs Inr r crosses_def)
  qed (simp add: request_defs local_request_defs crosses_def)
qed

text \<open>The same for the answer of a route.\<close>

definition same_answer :: "gw_lib \<Rightarrow> 's \<times> HttpResponse \<Rightarrow> 's \<times> HttpResponse \<Rightarrow> bool" where
  "same_answer L x y \<longleftrightarrow> x = y \<or> (\<exists>s' e. y = (s', gl_HTTPError L e) \<and> x = (s', gl_HTTPError L (wire_error e)))"

definition refused_answer :: "gw_lib \<Rightarrow> 's \<Rightarrow> 's \<times> HttpResponse \<Rightarrow> bool" where
  "refused_answer L s x \<longleftrightarrow> (\<exists>p ps. x = (s, gl_HTTPError L (wire_error (missing_error (p # ps)))))"

lemma handlers_cross:
  assumes "\<And>rpc req. AI (rpc_name rpc) req = gl_AnnotateContext L (rpc_name rpc) req"
  shows "crosses s (f req ps s) (g req ps s) \<Longrightarrow>
      same_answer L (gw_handler L rpc wrap f req ps s) (local_handler L AI rpc wrap g req ps s) \<or> M"
    "refused s (f req ps s) \<or> crosses s (f req ps s) (g req ps s) \<Longrightarrow> N \<Longrightarrow>
      same_answer L (gw_handler L rpc wrap f req ps s) (local_handler L AI rpc wrap g req ps s) \<or>
      N \<and> refused_answer L s (gw_handler L rpc wrap f req ps s)"
proof -
  have same: "same_answer L (gw_handler L rpc wrap f req ps s) (local_handler L AI rpc wrap g req ps s)"
    if "crosses s (f req ps s) (g req ps s)"
    using that unfolding crosses_def
  proof (elim disjE exE conjE)
    assume "f req ps s = g req ps s"
    then show ?thesis unfolding same_answer_def gw_handler_def local_handler_def assms by (intro disjI1) (simp only:)
  next
    fix s' e assume "g req ps s = (s', Inl e)" "f req ps s = (s', Inl (wire_error e))"
    then show ?thesis by (auto simp: gw_handler_def local_handler_def assms same_answer_def split: option.split)
  qed
  have "gw_handler L rpc wrap f req ps s = local_handler L AI rpc wrap g req ps s \<or> refused_answer L s (gw_handler L rpc wrap f req ps s)"
    if r: "refused s (f req ps s)"
  proof -
    obtain p qs where "f req ps s = (s, Inl (wire_error (missing_error (p # qs))))" using r by (auto simp: refused_def)
    then show ?thesis
      by (cases "gl_AnnotateContext L (rpc_name rpc) req") (auto simp: gw_handler_def local_handler_def assms refused_answer_def)
  qed
  then show "crosses s (f req ps s) (g req ps s) \<Longrightarrow>
      same_answer L (gw_handler L rpc wrap f req ps s) (local_handler L AI rpc wrap g req ps s) \<or> M"
    "refused s (f req ps s) \<or> crosses s (f req ps s) (g req ps s) \<Longrightarrow> N \<Longrightarrow>
      same_answer L (gw_handler L rpc wrap f req ps s) (local_handler L AI rpc wrap g req ps s) \<or>
      N \<and> refused_answer L s (gw_handler L rpc wrap f req ps s)"
    using same by (auto simp: same_answer_def)
qed

text \<open>
  C25. The gateway in process has the routes of the gateway over a connection, and over a connection on
  which calls succeed they answer the same and leave the same state behind, up to the error as it crosses
  the wire; only the routes that create or change a namespace and the search can differ, and then the
  connection refuses the request with the names of the required fields that the gateway in process does not
  check.
\<close>

theorem local_gateway_agrees:
  assumes "reliable G" and "\<And>rpc req. AnnotateIncoming (rpc_name rpc) req = gl_AnnotateContext L (rpc_name rpc) req"
  shows "map (\<lambda>r. (gr_method r, gr_pattern r, gr_template r)) (RegisterStencilServiceHandlerServer L AnnotateIncoming A) =
      map (\<lambda>r. (gr_method r, gr_pattern r, gr_template r)) (RegisterStencilServiceHandler L G A) \<and>
    list_all2 (\<lambda>r l. \<forall>req ps s.
        same_answer L (gr_handler r req ps s) (gr_handler l req ps s) \<or>
        (gr_method r, gr_template r) \<in> {(''POST'', ''/v1beta1/namespaces''), (''PUT'', ''/v1beta1/namespaces/{id}''), (''GET'', ''/v1beta1/search'')} \<and>
        refused_answer L s (gr_handler r req ps s))
      (RegisterStencilServiceHandler L G A) (RegisterStencilServiceHandlerServer L AnnotateIncoming A)"
proof
  note cross = handlers_cross [of AnnotateIncoming L, OF assms(2)]
  show "map (\<lambda>r. (gr_method r, gr_pattern r, gr_template r)) (RegisterStencilServiceHandlerServer L AnnotateIncoming A) =
      map (\<lambda>r. (gr_method r, gr_pattern r, gr_template r)) (RegisterStencilServiceHandler L G A)"
    by (simp add: RegisterStencilServiceHandlerServer_def RegisterStencilServiceHandler_def RegisterStencilServiceHandlerClient_def Handle_def)
  show "list_all2 (\<lambda>r l. \<forall>req ps s.
        same_answer L (gr_handler r req ps s) (gr_handler l req ps s) \<or>
        (gr_method r, gr_template r) \<in> {(''POST'', ''/v1beta1/namespaces''), (''PUT'', ''/v1beta1/namespaces/{id}''), (''GET'', ''/v1beta1/search'')} \<and>
        refused_answer L s (gr_handler r req ps s))
      (RegisterStencilServiceHandler L G A) (RegisterStencilServiceHandlerServer L AnnotateIncoming A)"
    unfolding RegisterStencilServiceHandlerServer_def RegisterStencilServiceHandler_def RegisterStencilServiceHandlerClient_def Handle_def
    by (simp only: list_all2_Cons list_all2_Nil gw_route.select_convs, intro conjI allI TrueI)
      ((rule cross(1), rule requests_cross [OF assms(1)]) | (rule cross(2), rule requests_refused [OF assms(1)], simp) | rule refl)+
qed

theorem local_gateway_agrees_witness:
  "same_answer (demo_gw demo_body) (gr_handler (RegisterStencilServiceHandler (demo_gw demo_body) plain_grpc demo_API ! 1) demo_request [''id'' \<mapsto> ''a''] demo_world)
     (gr_handler (RegisterStencilServiceHandlerServer (demo_gw demo_body) (gl_AnnotateContext (demo_gw demo_body)) demo_API ! 1) demo_request [''id'' \<mapsto> ''a''] demo_world)"
  using local_gateway_agrees [OF reliable_plain refl, of "demo_gw demo_body" demo_API]
  by (simp add: RegisterStencilServiceHandlerServer_def RegisterStencilServiceHandler_def RegisterStencilServiceHandlerClient_def Handle_def)

end
