(* ===== verification/Server_Claims.thy ===== *)
theory Server_Claims
  imports Server Notify_Claims Gateway_Claims
begin

text \<open>
  The properties of the server's frame: the shutdown, which handler a request reaches, what the numbers
  of the configuration become, and what a producer of events has to do; \<open>producer\<close> is that
  contract, which the queue of \<open>Service_World\<close> fulfils, the Kafka writer too when its library
  does, and the producer of a server with events switched off does not.
\<close>

section \<open>Shutdown\<close>

definition main_rank :: "main_pc \<Rightarrow> nat" where
  "main_rank pc = (case pc of WaitSignal \<Rightarrow> 4 | Shutting \<Rightarrow> 3 | CleanUp _ \<Rightarrow> 2 | Finish _ \<Rightarrow> 1 | _ \<Rightarrow> 0)"

definition shut_rank :: "shutdown \<Rightarrow> nat" where
  "shut_rank s = main_rank (sd_main s) + (if sd_listening s then 1 else 0)"

definition cleaned :: "shutdown \<Rightarrow> bool" where
  "cleaned s \<longleftrightarrow> sd_cleanups s = (if main_rank (sd_main s) \<le> 1 then 1 else 0)"

lemma shut_step_rank: "shut_step is_closed s s' \<Longrightarrow> shut_rank s' < shut_rank s"
  by (erule shut_stepE) (auto simp: shut_rank_def main_rank_def over_def split: main_pc.splits)

lemma shut_step_cleaned: "shut_step is_closed s s' \<Longrightarrow> cleaned s \<Longrightarrow> cleaned s'"
  by (erule shut_stepE) (auto simp: cleaned_def main_rank_def split: main_pc.splits)

lemma shut_steps_rank: "(shut_step is_closed ^^ n) s s' \<Longrightarrow> shut_rank s' + n \<le> shut_rank s"
proof (induction n arbitrary: s')
  case (Suc n)
  then obtain t where "(shut_step is_closed ^^ n) s t" "shut_step is_closed t s'" by auto
  with Suc.IH [of t] shut_step_rank [of is_closed t s'] show ?case by linarith
qed simp

lemma shut_steps_cleaned: "(shut_step is_closed ^^ n) s s' \<Longrightarrow> cleaned s \<Longrightarrow> cleaned s'"
  by (induction n arbitrary: s') (auto intro: shut_step_cleaned)

lemma shut_progress: "sd_main s \<noteq> WaitSignal \<Longrightarrow> \<not> over (sd_main s) \<Longrightarrow> \<exists>s'. shut_step is_closed s s'"
proof (cases "sd_main s")
  case (Finish e)
  then show ?thesis by (cases e) (auto intro: shut_step.exits shut_step.fatal)
qed (auto intro: shut_step.shutdown shut_step.cleanup simp: over_def)


lemma demo_run: "(shut_step (\<lambda>e. True) ^^ 4) start_shutdown
    \<lparr>sd_main = Exited, sd_listening = True, sd_log = [''Shutting down server...'', ''Server exiting''], sd_cleanups = 1\<rparr>"
proof -
  let ?s1 = "start_shutdown\<lparr>sd_main := Shutting, sd_log := sd_log start_shutdown @ [''Shutting down server...'']\<rparr>"
  let ?s2 = "?s1\<lparr>sd_main := CleanUp None\<rparr>"
  let ?s3 = "?s2\<lparr>sd_main := Finish None, sd_cleanups := Suc (sd_cleanups ?s2)\<rparr>"
  let ?s4 = "?s3\<lparr>sd_main := Exited, sd_log := sd_log ?s3 @ [''Server exiting'']\<rparr>"
  have "shut_step (\<lambda>e. True) start_shutdown ?s1" by (rule shut_step.signal) (simp add: start_shutdown_def)
  moreover have "shut_step (\<lambda>e. True) ?s1 ?s2" by (rule shut_step.shutdown) simp
  moreover have "shut_step (\<lambda>e. True) ?s2 ?s3" by (rule shut_step.cleanup) simp
  moreover have "shut_step (\<lambda>e. True) ?s3 ?s4" by (rule shut_step.exits) simp
  ultimately have "(shut_step (\<lambda>e. True) ^^ 4) start_shutdown ?s4" by (auto simp: numeral_eq_Suc)
  then show ?thesis by (simp add: start_shutdown_def)
qed


text \<open>
  When listening fails, for instance because the port is taken, nothing is logged and the process
  does not end: the only step that is left is the signal. (The message is printed for
  \<open>ErrServerClosed\<close> only, the one error that an orderly shutdown gives.)
\<close>

theorem listen_failure_silent:
  assumes "\<not> is_closed err" and "s = start_shutdown\<lparr>sd_listening := False, sd_log := sd_log start_shutdown @ listen_log is_closed (Some err)\<rparr>"
  shows "shut_step is_closed start_shutdown s \<and> sd_log s = [] \<and>
    (shut_step is_closed s s' \<longleftrightarrow> s' = s\<lparr>sd_main := Shutting, sd_log := [''Shutting down server...'']\<rparr>)"
proof -
  have "shut_step is_closed start_shutdown s"
    unfolding assms(2) by (rule shut_step.listen) (simp_all add: start_shutdown_def over_def)
  moreover have s: "sd_main s = WaitSignal" "\<not> sd_listening s" "sd_log s = []"
    using assms by (simp_all add: start_shutdown_def listen_log_def)
  moreover have "shut_step is_closed s s' \<longleftrightarrow> s' = s\<lparr>sd_main := Shutting, sd_log := [''Shutting down server...'']\<rparr>"
    using shut_step.signal [OF s(1), of is_closed] s by (auto elim!: shut_stepE)
  ultimately show ?thesis by blast
qed

theorem listen_failure_silent_witness:
  "\<exists>s. shut_step (\<lambda>e. e = ErrString ''http: Server closed'') start_shutdown s \<and> sd_log s = [] \<and> \<not> sd_listening s"
proof -
  let ?closed = "\<lambda>e. e = ErrString ''http: Server closed''"
  let ?s = "start_shutdown\<lparr>sd_listening := False,
    sd_log := sd_log start_shutdown @ listen_log ?closed (Some (ErrExt ''address already in use''))\<rparr>"
  have "\<not> ?closed (ErrExt ''address already in use'')" by simp
  from listen_failure_silent [where is_closed = ?closed and err = "ErrExt ''address already in use''" and s = ?s and s' = ?s,
      OF this refl] have "shut_step ?closed start_shutdown ?s \<and> sd_log ?s = []" by blast
  moreover have "\<not> sd_listening ?s" by simp
  ultimately show ?thesis by blast
qed

section \<open>Which handler a request reaches\<close>

lemma base_matches:
  "mux_matches ''/ping'' (CHR ''/'' # r) \<longleftrightarrow> r = ''ping''" "mux_matches ''/metrics'' (CHR ''/'' # r) \<longleftrightarrow> r = ''metrics''"
  "mux_matches ''/debug/pprof/'' (CHR ''/'' # r) \<longleftrightarrow> prefix ''debug/pprof/'' r"
  "mux_matches ''/debug/pprof/cmdline'' (CHR ''/'' # r) \<longleftrightarrow> r = ''debug/pprof/cmdline''"
  "mux_matches ''/debug/pprof/profile'' (CHR ''/'' # r) \<longleftrightarrow> r = ''debug/pprof/profile''"
  "mux_matches ''/debug/pprof/symbol'' (CHR ''/'' # r) \<longleftrightarrow> r = ''debug/pprof/symbol''"
  "mux_matches ''/debug/pprof/trace'' (CHR ''/'' # r) \<longleftrightarrow> r = ''debug/pprof/trace''"
  "mux_matches ''/'' (CHR ''/'' # r)"
  by (auto simp: mux_matches_def suffix_to_prefix)

lemma base_route: "ServeMux base_mux (CHR ''/'' # r) =
    Some (if r = ''ping'' then (''/ping'', BasePing) else if r = ''metrics'' then (''/metrics'', Metrics)
      else if r = ''debug/pprof/cmdline'' then (''/debug/pprof/cmdline'', Pprof ''Cmdline'')
      else if r = ''debug/pprof/profile'' then (''/debug/pprof/profile'', Pprof ''Profile'')
      else if r = ''debug/pprof/symbol'' then (''/debug/pprof/symbol'', Pprof ''Symbol'')
      else if r = ''debug/pprof/trace'' then (''/debug/pprof/trace'', Pprof ''Trace'')
      else if prefix ''debug/pprof/'' r then (''/debug/pprof/'', Pprof ''Index'') else (''/'', GatewayMux))"
  unfolding base_mux_def MetricsHandler_def createBaseMux_def append.simps ServeMux.simps base_matches
  by (cases "r \<in> {''ping'', ''metrics'', ''debug/pprof/cmdline'', ''debug/pprof/profile'', ''debug/pprof/symbol'', ''debug/pprof/trace''}")
    (elim insertE emptyE, simp_all add: base_matches)


section \<open>Numbers\<close>

text \<open>
  The sizes are the configured numbers of megabytes as long as they fit into 64 bits, and from
  there they wrap; the write timeout counts its number, 5000 by default, in seconds.
\<close>

theorem start_limits_exact:
  "lim_CacheMaxCost (Start_limits cfg) = wrap64 (conf_CacheSizeInMB cfg * 2 ^ 20) \<and>
   (megabytes n = n * 2 ^ 20 \<longleftrightarrow> - (2 ^ 43) \<le> n \<and> n < 2 ^ 43) \<and> megabytes (2 ^ 43) = - (2 ^ 63) \<and>
   kw_WriteTimeout (NewWriter url (kc_Timeout (conf_KafkaProducer default_Config)) retries) = 5000 * time_Second \<and>
   lim_MaxRecvMsgSize (Start_limits default_Config) = 10485760"
  by (auto simp: Start_limits_def megabytes_def wrap64_def NewWriter_def default_Config_def time_Second_def)

section \<open>Producers of events\<close>

text \<open>
  What the service expects of a producer: a write without an error has delivered exactly its message, a
  write with an error has delivered it or nothing.
\<close>

locale producer =
  fixes Write :: "string \<Rightarrow> 'm \<Rightarrow> 's \<Rightarrow> 's \<times> go_error option"
    and item :: "string \<times> 'm \<Rightarrow> 'x"
    and delivered :: "'s \<Rightarrow> 'x list"
  assumes acked_delivers: "Write topic m s = (s', None) \<Longrightarrow> delivered s' = delivered s @ [item (topic, m)]"
    and failed_delivers: "Write topic m s = (s', Some err) \<Longrightarrow>
      delivered s' = delivered s \<or> delivered s' = delivered s @ [item (topic, m)]"

fun write_all :: "(string \<Rightarrow> 'm \<Rightarrow> 's \<Rightarrow> 's \<times> go_error option) \<Rightarrow> (string \<times> 'm) list \<Rightarrow> 's \<Rightarrow> 's \<times> go_error option list" where
  "write_all Write [] s = (s, [])"
| "write_all Write ((topic, m) # ms) s =
     (case Write topic m s of (s', r) \<Rightarrow> case write_all Write ms s' of (s'', rs) \<Rightarrow> (s'', r # rs))"

fun acked :: "'a list \<Rightarrow> go_error option list \<Rightarrow> 'a list" where
  "acked (m # ms) (r # rs) = (if r = None then m # acked ms rs else acked ms rs)"
| "acked _ _ = []"

context producer
begin

lemma write_all_delivered:
  "write_all Write ms s = (s', rs) \<Longrightarrow>
   \<exists>new. delivered s' = delivered s @ new \<and> subseq new (map item ms) \<and> subseq (map item (acked ms rs)) new"
proof (induction ms arbitrary: s rs)
  case (Cons p ms)
  obtain topic m where p: "p = (topic, m)" by (cases p)
  obtain s1 r where w: "Write topic m s = (s1, r)" by fastforce
  obtain rs1 where ws: "write_all Write ms s1 = (s', rs1)" and rs: "rs = r # rs1"
    using Cons.prems by (auto simp: p w split: prod.splits)
  from Cons.IH [OF ws] obtain new where
    new: "delivered s' = delivered s1 @ new" "subseq new (map item ms)" "subseq (map item (acked ms rs1)) new" by blast
  show ?case
  proof (cases "delivered s1 = delivered s")
    case True
    then have "r \<noteq> None" using acked_delivers [of topic m s s1] w by auto
    then show ?thesis using new True by (auto simp: p rs)
  next
    case False
    then have "delivered s1 = delivered s @ [item (topic, m)]"
      using acked_delivers failed_delivers w by (cases r) blast+
    then show ?thesis using new by (intro exI [of _ "item p # new"]) (auto simp: p rs)
  qed
qed auto

end

interpretation queue: producer queue_Write id w_sent
  by unfold_locales (auto simp: queue_Write_def Let_def split: option.splits)

text \<open>The producer of a server with events switched off breaks the contract, whatever counts as delivered.\<close>

lemma noop_no_producer: "\<not> producer NoopProducer_Write item delivered"
  by (simp add: producer_def NoopProducer_Write_def)

lemma Writer_Write_producer:
  assumes "\<And>topic b q q' r. kl_WriteMessages K topic b q = (q', r) \<Longrightarrow>
      written q' = written q @ [(topic, b)] \<or> r \<noteq> None \<and> written q' = written q"
  shows "producer (Writer_Write K) (\<lambda>(topic, m). (topic, projr (kl_Marshal K m))) (\<lambda>s. written (ks_queue s))"
  by unfold_locales
    (auto simp: Writer_Write_def Writer_send_def split: sum.splits prod.splits option.splits dest!: assms)

lemma Writer_Write_Success:
  "write_all (Writer_Write K) ms s = (s', rs) \<Longrightarrow> ks_Success s' = ks_Success s + length (acked ms rs)"
proof (induction ms arbitrary: s rs)
  case (Cons p ms)
  obtain topic m where p: "p = (topic, m)" by (cases p)
  obtain s1 r where w: "Writer_Write K topic m s = (s1, r)" by fastforce
  then have "ks_Success s1 = ks_Success s + (if r = None then 1 else 0)"
    by (auto simp: Writer_Write_def Writer_send_def split: sum.splits prod.splits option.splits)
  then show ?case using Cons w by (auto simp: p split: prod.splits if_splits)
qed auto


text \<open>A broker that loses the acknowledgement of its second message; the message \<open>bad\<close> cannot be marshalled.\<close>

definition demo_kafka :: "(string, (string \<times> bytes) list) kafka_lib" where
  "demo_kafka = \<lparr>
     kl_Marshal = (\<lambda>m. if m = ''bad'' then Inl (ErrExt ''invalid'') else Inr m),
     kl_WriteMessages = (\<lambda>topic b q. (q @ [(topic, b)], if length q = 1 then Some (ErrExt ''timeout'') else None)),
     kl_Close = (\<lambda>q. (q, None))\<rparr>"


definition disabled_API :: "world API" where
  "disabled_API = guide_API\<lparr>api_schema := Start_service default_Config (\<lambda>_. queue_Write) (api_schema guide_API)\<rparr>"


end
