(* ===== verification/Start.thy ===== *)
theory Start
  imports Server Grpc_World
begin

text \<open>
  \<open>Start\<close> of \<open>internal/server/server.go\<close>: it constructs the services from the repositories, the cache,
  the change detector and the producer, and the API from the services, and registers the routes.
  The libraries that open connections are an argument; each of them may fail, and what the code does
  then (a panic, \<open>log.Fatal\<close>, a warning) is the outcome.
\<close>

section \<open>Constructors\<close>

text \<open>The fields that are no argument of the constructors in Go are the libraries of the model.\<close>

definition schema_NewService ::
  "format_api \<Rightarrow> range_order \<Rightarrow> (SchemaChangedEvent \<Rightarrow> string) \<Rightarrow> 's Repository \<Rightarrow> (string \<Rightarrow> bytes \<Rightarrow> ParsedSchema res)
   \<Rightarrow> (string \<Rightarrow> ('s, Namespace) io) \<Rightarrow> 's Cache \<Rightarrow> (ChangeRequest \<Rightarrow> ('s, SchemaChangedEvent) io)
   \<Rightarrow> (string \<Rightarrow> SchemaChangedEvent \<Rightarrow> 's \<Rightarrow> 's \<times> go_error option) \<Rightarrow> SchemaChangeConfig \<Rightarrow> 's NotificationEventRepository \<Rightarrow> 's Service" where
  "schema_NewService F ord text repository prov nsSvc cach cds emit conf notifications =
     \<lparr>provider = prov, repo = repository, cache = cach, namespace_Get = nsSvc, identify = cds, producer_Write = emit,
      event_String = text, config = conf, notificationEventRepo = notifications, formats = F, roots_order = ord\<rparr>"

record api_lib =
  al_HTTPError :: "go_error \<Rightarrow> HttpResponse"
  al_json_SchemaInfo :: "SchemaInfo \<Rightarrow> bytes"
  al_json_Lineage :: "LineageResponse \<Rightarrow> bytes"
  al_json_Event :: "SchemaChangedEvent \<Rightarrow> bytes"

definition NewAPI :: "api_lib \<Rightarrow> 's NamespaceRepository \<Rightarrow> 's Service \<Rightarrow> 's SearchRepository \<Rightarrow> 's API" where
  "NewAPI H namespaceSvc schemaSvc searchSvc =
     \<lparr>api_namespace = namespaceSvc, api_schema = schemaSvc, api_search = searchSvc, api_HTTPError = al_HTTPError H,
      api_json_SchemaInfo = al_json_SchemaInfo H, api_json_Lineage = al_json_Lineage H, api_json_Event = al_json_Event H\<rparr>"

section \<open>Setting up\<close>

datatype 'a boot = Panic go_error | Fatal_log string | Up 'a

text \<open>
  \<open>sl_ParseConfig\<close> is the error of \<open>pgxpool.ParseConfig\<close>, whose configuration is nil then;
  \<open>sl_nil\<close> is the panic of the field access through it.
\<close>

record start_lib =
  sl_ParseConfig :: "string \<Rightarrow> go_error option"
  sl_nil :: go_error
  sl_ConnectConfig :: "string \<Rightarrow> go_error option"
  sl_NewCache :: "int \<Rightarrow> go_error option"
  sl_NewApplication :: "NewRelicConfig \<Rightarrow> go_error option"
  sl_Dial :: "string \<Rightarrow> go_error option"
  sl_spa :: "go_error option"

definition NewStore :: "start_lib \<Rightarrow> string \<Rightarrow> unit boot" where
  "NewStore L conn =
     (case sl_ParseConfig L conn of
        Some _ \<Rightarrow> Panic (sl_nil L)
      | None \<Rightarrow> (case sl_ConnectConfig L conn of Some err \<Rightarrow> Fatal_log (error_text err) | None \<Rightarrow> Up ()))"

definition getNewRelic :: "start_lib \<Rightarrow> Config \<Rightarrow> unit boot" where
  "getNewRelic L cfg =
     (case sl_NewApplication L (conf_NewRelic cfg) of Some err \<Rightarrow> Fatal_log (error_text err) | None \<Rightarrow> Up ())"

record 's server =
  srv_addr :: string
  srv_api :: "'s API"
  srv_limits :: limits
  srv_gateway :: "'s gw_route list"
  srv_handlers :: "(string \<times> string \<times> (HttpRequest \<Rightarrow> 's \<Rightarrow> 's \<times> HttpResponse)) list"
  srv_mux :: "(string \<times> base_handler) list"
  srv_ui :: bool

text \<open>The API over the repositories of \<open>world\<close>.\<close>

definition Start_api ::
  "format_api \<Rightarrow> (string \<Rightarrow> range_order) \<Rightarrow> range_order \<Rightarrow> jsonpath \<Rightarrow> api_lib
   \<Rightarrow> (KafkaWriter \<Rightarrow> string \<Rightarrow> SchemaChangedEvent \<Rightarrow> world \<Rightarrow> world \<times> go_error option) \<Rightarrow> Config \<Rightarrow> world API" where
  "Start_api F ords ord J H Write cfg =
     (let namespaceService = pg_NamespaceRepository;
          schemaService = Start_service cfg Write
            (schema_NewService F ord (\<lambda>sce. sce_EventId sce) pg_Repository (ParseSchema (NewSchemaProvider F))
              (NamespaceService_Get namespaceService) mem_Cache (detector (proto F) ords) NoopProducer_Write
              (conf_SchemaChange cfg) pg_NotificationEventRepository)
      in NewAPI H namespaceService schemaService (pg_SearchRepository J))"

text \<open>What is printed, and the server or how the process ended. \<open>G\<close> is the connection to itself.\<close>

definition Start ::
  "start_lib \<Rightarrow> format_api \<Rightarrow> (string \<Rightarrow> range_order) \<Rightarrow> range_order \<Rightarrow> jsonpath \<Rightarrow> api_lib
   \<Rightarrow> (KafkaWriter \<Rightarrow> string \<Rightarrow> SchemaChangedEvent \<Rightarrow> world \<Rightarrow> world \<times> go_error option) \<Rightarrow> gw_lib \<Rightarrow> world grpc_env
   \<Rightarrow> Config \<Rightarrow> string list \<times> world server boot" where
  "Start L F ords ord J H Write W G cfg =
     (case NewStore L (conf_DB cfg) of
        Panic e \<Rightarrow> ([], Panic e) | Fatal_log m \<Rightarrow> ([], Fatal_log m)
      | Up _ \<Rightarrow>
     (case sl_NewCache L (lim_CacheMaxCost (Start_limits cfg)) of
        Some err \<Rightarrow> ([], Panic err)
      | None \<Rightarrow>
     (let log1 = (if cfg_Enable (conf_SchemaChange cfg)
                  then [''Kafka Address '' @ kc_BootstrapServer (conf_KafkaProducer cfg)] else []);
          api = Start_api F ords ord J H Write cfg;
          port = CHR '':'' # conf_Port cfg
      in case getNewRelic L cfg of
           Panic e \<Rightarrow> (log1, Panic e) | Fatal_log m \<Rightarrow> (log1, Fatal_log m)
         | Up _ \<Rightarrow>
     (case sl_Dial L port of
        Some err \<Rightarrow> (log1, Fatal_log (''Failed to dial server: '' @ error_text err))
      | None \<Rightarrow>
     (let log2 = log1 @ [''enabling profile metrics''] @
            (case sl_spa L of None \<Rightarrow> []
             | Some err \<Rightarrow> [''Warning: Failed to load spa (UI will be unavailable): '' @ error_text err])
      in (log2, Up
        \<lparr>srv_addr = port, srv_api = api, srv_limits = Start_limits cfg,
         srv_gateway = RegisterStencilServiceHandlerClient W (NewStencilServiceClient G api),
         srv_handlers = RegisterSchemaHandlers api, srv_mux = base_mux, srv_ui = (sl_spa L = None)\<rparr>))))))"

end
