(* ===== verification/Start_Claims.thy ===== *)
theory Start_Claims
  imports Start Server_Claims
begin

text \<open>
  The server that \<open>Start\<close> brings up: when it does, and that it is the API of the other theories, whatever
  the configuration says, up to the producer of events.
\<close>

definition standard_lib :: "(SchemaInfo \<Rightarrow> bytes) \<Rightarrow> (LineageResponse \<Rightarrow> bytes) \<Rightarrow> (SchemaChangedEvent \<Rightarrow> bytes) \<Rightarrow> api_lib" where
  "standard_lib ji jl je = \<lparr>al_HTTPError = (\<lambda>e. \<lparr>rs_Status = gateway_status e, rs_Headers = [], rs_Body = error_text e\<rparr>),
     al_json_SchemaInfo = ji, al_json_Lineage = jl, al_json_Event = je\<rparr>"

definition with_producer ::
  "(string \<Rightarrow> SchemaChangedEvent \<Rightarrow> 's \<Rightarrow> 's \<times> go_error option) \<Rightarrow> 's API \<Rightarrow> 's API" where
  "with_producer p A = A\<lparr>api_schema := (api_schema A)\<lparr>producer_Write := p\<rparr>\<rparr>"

definition Start_producer ::
  "Config \<Rightarrow> (KafkaWriter \<Rightarrow> string \<Rightarrow> SchemaChangedEvent \<Rightarrow> 's \<Rightarrow> 's \<times> go_error option)
   \<Rightarrow> string \<Rightarrow> SchemaChangedEvent \<Rightarrow> 's \<Rightarrow> 's \<times> go_error option" where
  "Start_producer cfg Write = (if cfg_Enable (conf_SchemaChange cfg)
     then Write (NewWriter (kc_BootstrapServer (conf_KafkaProducer cfg)) (kc_Timeout (conf_KafkaProducer cfg))
                  (kc_Retries (conf_KafkaProducer cfg)))
     else NoopProducer_Write)"

lemma namespace_get_service: "NamespaceService_Get pg_NamespaceRepository = (\<lambda>i. pg_read (\<lambda>env. NamespaceRepository_Get env i))"
  by (intro ext) (simp add: NamespaceService_Get_def pg_NamespaceRepository_def)

lemma Start_api_is: "Start_api F ords ord J (standard_lib ji jl je) Write cfg =
    with_producer (Start_producer cfg Write) (pg_API F ords ord (conf_SchemaChange cfg) J ji jl je)"
  by (simp add: Start_api_def Let_def NewAPI_def standard_lib_def with_producer_def Start_producer_def pg_API_def Start_service_def
      schema_NewService_def service_def namespace_get_service)

text \<open>With events on, it is the API of the other theories.\<close>

lemma Start_api_enabled:
  assumes "cfg_Enable (conf_SchemaChange cfg)" and "\<And>kw. Write kw = queue_Write"
  shows "Start_api F ords ord J (standard_lib ji jl je) Write cfg = pg_API F ords ord (conf_SchemaChange cfg) J ji jl je"
  using assms by (simp add: Start_api_is with_producer_def Start_producer_def pg_API_def service_def)

text \<open>Only the notification uses the producer.\<close>

lemma producer_unused [simp]:
  "GetLatest (S\<lparr>producer_Write := p\<rparr>) = GetLatest S" "Service_Get (S\<lparr>producer_Write := p\<rparr>) = Service_Get S"
  "checkCompatibility (S\<lparr>producer_Write := p\<rparr>) = checkCompatibility S" "store_version (S\<lparr>producer_Write := p\<rparr>) = store_version S"
  "Service_Create (S\<lparr>producer_Write := p\<rparr>) = Service_Create S"
proof -
  have "cachedGetSchema (S\<lparr>producer_Write := p\<rparr>) = cachedGetSchema S" by (intro ext) (simp add: cachedGetSchema_def)
  then show get: "Service_Get (S\<lparr>producer_Write := p\<rparr>) = Service_Get S"
    by (intro ext) (simp add: Service_Get_def withMetadata_def)
  then show latest: "GetLatest (S\<lparr>producer_Write := p\<rparr>) = GetLatest S" by (intro ext) (simp add: GetLatest_def)
  then show check: "checkCompatibility (S\<lparr>producer_Write := p\<rparr>) = checkCompatibility S" by (intro ext) (simp add: checkCompatibility_def split: prod.split sum.split)
  show store: "store_version (S\<lparr>producer_Write := p\<rparr>) = store_version S" using latest by (intro ext) (simp add: store_version_def Let_def split: prod.split sum.split)
  show "Service_Create (S\<lparr>producer_Write := p\<rparr>) = Service_Create S"
    using check store by (intro ext) (simp add: Service_Create_def Let_def split: prod.split sum.split)
qed

lemma api_producer_unused:
  "API_CreateSchema (with_producer p A) = API_CreateSchema A"
  "API_HTTPGetSchema (with_producer p A) = API_HTTPGetSchema A"
  "handleSchemaResponse (with_producer p A) f = handleSchemaResponse A f"
  by (intro ext, simp add: with_producer_def API_CreateSchema_def API_HTTPGetSchema_def handleSchemaResponse_def
      split: sum.split prod.split)+

text \<open>
  The server comes up exactly when the connection string can be parsed, the database answers, the cache accepts
  its size, New Relic its settings and the dial succeeds; a broken user interface is only a warning.\<close>

theorem start_exact:
  "(\<exists>srv. snd (Start L F ords ord J H Write W G cfg) = Up srv) \<longleftrightarrow>
     (sl_ParseConfig L (conf_DB cfg) = None \<and> sl_ConnectConfig L (conf_DB cfg) = None \<and>
      sl_NewCache L (lim_CacheMaxCost (Start_limits cfg)) = None \<and> sl_NewApplication L (conf_NewRelic cfg) = None \<and>
      sl_Dial L (CHR '':'' # conf_Port cfg) = None)"
  by (auto simp: Start_def NewStore_def getNewRelic_def Let_def split: option.splits)

text \<open>
  A connection string that does not parse is a panic on a nil pointer and not a message, because the
  error of \<open>ParseConfig\<close> is dropped.
\<close>

theorem bad_connection_panics:
  assumes "sl_ParseConfig L (conf_DB cfg) = Some err"
  shows "Start L F ords ord J H Write W G cfg = ([], Panic (sl_nil L))"
  using assms by (simp add: Start_def NewStore_def)

text \<open>
  On a server that has started, with events switched on or off and whatever writes them, an upload over gRPC that the
  server answers without an error is served over HTTP: the route of \<open>api.go\<close> for a version answers 200 with the stored
  file, when the upload has stored a new version and no statement fails.
\<close>

theorem started_server_roundtrip:
  assumes "Start L F ords ord J (standard_lib ji jl je) Write W G cfg = (out, Up srv)" and "reliable G"
    and "cache_coherent w" and "calm w" and "CHR ''-'' \<notin> set (csr_NamespaceId inp)"
    and "sc_CreateSchema (NewStencilServiceClient G (srv_api srv)) inp w = (w', Inr info)"
    and "is_int32 (si_Version info)" and "\<not> w_db w' = w_db w"
    and "rq_PathParams r ''namespace'' = csr_NamespaceId inp" and "rq_PathParams r ''name'' = csr_SchemaId inp"
    and "rq_PathParams r ''version'' = show_int (si_Version info)"
  shows "si_Version info = latest (w_db w) (csr_NamespaceId inp) (csr_SchemaId inp) + 1 \<and>
    (\<exists>p. ParseSchema (NewSchemaProvider F) (format_String (csr_Format inp)) (csr_Data inp) = Inr p \<and>
      (case srv_handlers srv ! 1 of (m, t, h) \<Rightarrow> case h r w' of (_, resp) \<Rightarrow>
         m = ''GET'' \<and> rs_Status resp = 200 \<and> rs_Body resp = file_data (w_db w) (GetCanonicalValue F p)))"
proof -
  let ?A = "pg_API F ords ord (conf_SchemaChange cfg) J ji jl je"
  have api: "srv_api srv = with_producer (Start_producer cfg Write) ?A" "srv_handlers srv = RegisterSchemaHandlers (srv_api srv)"
    using assms(1) by (auto simp: Start_def Let_def Start_api_is split: boot.splits option.splits)
  obtain job where "API_CreateSchema ?A inp w = (w', info, None, job)"
    using create_rpc_Inr [OF assms(6)] by (auto simp: api api_producer_unused)
  from upload_then_download [OF assms(3,4,5) this assms(7,9,10,11)] show ?thesis
    using assms(8) by (auto simp: api(2) RegisterSchemaHandlers_def) (auto simp: api(1) api_producer_unused)
qed

text \<open>A server with the default configuration, so with events switched off.\<close>

definition working_lib :: start_lib where
  "working_lib = \<lparr>sl_ParseConfig = (\<lambda>c. None), sl_nil = ErrExt ''nil'', sl_ConnectConfig = (\<lambda>c. None), sl_NewCache = (\<lambda>n. None),
     sl_NewApplication = (\<lambda>c. None), sl_Dial = (\<lambda>a. None), sl_spa = Some (ErrExt ''no build'')\<rparr>"

definition demo_start :: "string list \<times> world server boot" where
  "demo_start = Start working_lib demo_format (\<lambda>_ ks. ks) (\<lambda>ks. ks) (\<lambda>q. Inr (\<lambda>xs. xs))
     (standard_lib (\<lambda>i. si_Location i) (\<lambda>l. []) (\<lambda>e. [])) (\<lambda>kw. queue_Write) (demo_gw demo_body) plain_grpc default_Config"

definition off_API :: "world API" where
  "off_API = pg_API demo_format (\<lambda>_ ks. ks) (\<lambda>ks. ks) (conf_SchemaChange default_Config) (\<lambda>q. Inr (\<lambda>xs. xs))
     (\<lambda>i. si_Location i) (\<lambda>l. []) (\<lambda>e. [])"

lemma demo_start_up: "\<exists>out srv. demo_start = (out, Up srv) \<and> srv_api srv = with_producer NoopProducer_Write off_API"
  by (simp add: demo_start_def Start_def NewStore_def getNewRelic_def working_lib_def Let_def Start_api_is off_API_def
      Start_producer_def) (simp add: default_Config_def)

lemma off_upload:
  "case API_CreateSchema off_API upload_request demo_world of (w', info, err, job) \<Rightarrow>
     versions (w_db w') \<noteq> [] \<and> si_Version info = 1 \<and> err = None"
  by code_simp

text \<open>The first upload to it.\<close>

lemma demo_started_upload:
  obtains out srv w' info where "demo_start = (out, Up srv)" and "si_Version info = 1" and "w_db w' \<noteq> w_db demo_world"
    and "sc_CreateSchema (NewStencilServiceClient plain_grpc (srv_api srv)) upload_request demo_world = (w', Inr info)"
proof -
  obtain out srv where d: "demo_start = (out, Up srv)" and api: "srv_api srv = with_producer NoopProducer_Write off_API"
    using demo_start_up by blast
  obtain w' info err job where c: "API_CreateSchema (srv_api srv) upload_request demo_world = (w', info, err, job)"
    by (metis prod_cases4)
  then have v: "si_Version info = 1" and n: "versions (w_db w') \<noteq> []" and "err = None"
    using off_upload by (simp_all add: api api_producer_unused)
  then have u: "sc_CreateSchema (NewStencilServiceClient plain_grpc (srv_api srv)) upload_request demo_world = (w', Inr info)"
    unfolding client_sel CreateSchema_Handler_def using c
    by (intro call_ok [OF reliable_plain]) (simp_all add: validate_requests upload_request_def unspecified_request_def rpc_io_def)
  have "versions (w_db demo_world) = []" by (simp add: demo_world_def empty_db_def)
  then have "w_db w' \<noteq> w_db demo_world" using n by auto
  with that d v u show ?thesis by blast
qed

text \<open>What the witnesses of an upload need of the world and the requests.\<close>

lemma demo_upload_facts:
  "cache_coherent demo_world" "calm demo_world"
  "csr_NamespaceId upload_request = ''a''" "csr_SchemaId upload_request = ''s''" "csr_Data upload_request = ''one''"
  "csr_Format upload_request = 3"
  "ParseSchema (NewSchemaProvider demo_format) (format_String 3) ''one'' = Inr (JsonSchema ''one'')"
  "file_data (w_db demo_world) (GetCanonicalValue demo_format (JsonSchema ''one'')) = ''one''"
proof -
  show "cache_coherent demo_world" using demo_world_inv by (simp add: cache_coherent_def demo_world_def)
  show "calm demo_world" by (simp add: calm_def demo_world_def quiet_no_fault)
  show "csr_NamespaceId upload_request = ''a''" "csr_SchemaId upload_request = ''s''" "csr_Data upload_request = ''one''"
    "csr_Format upload_request = 3" by (simp_all add: upload_request_def unspecified_request_def)
  show "ParseSchema (NewSchemaProvider demo_format) (format_String 3) ''one'' = Inr (JsonSchema ''one'')"
    by (simp add: ParseSchema_def NewSchemaProvider_def gm_get_def gm_set_def gm_empty_def enum_String_def enum_tables
        json_GetParsedSchema_def demo_format_def)
  show "file_data (w_db demo_world) (GetCanonicalValue demo_format (JsonSchema ''one'')) = ''one''"
    by (simp_all add: demo_world_def empty_db_def file_data_def)
qed

theorem started_server_roundtrip_witness:
  "\<exists>srv w' info. snd demo_start = Up srv \<and>
     sc_CreateSchema (NewStencilServiceClient plain_grpc (srv_api srv)) upload_request demo_world = (w', Inr info) \<and>
     (case srv_handlers srv ! 1 of (m, t, h) \<Rightarrow> case h download_request w' of (_, resp) \<Rightarrow>
       rs_Status resp = 200 \<and> rs_Body resp = ''one'')"
proof -
  obtain out srv w' info where d: "demo_start = (out, Up srv)" and v: "si_Version info = 1" and n: "w_db w' \<noteq> w_db demo_world"
    and u: "sc_CreateSchema (NewStencilServiceClient plain_grpc (srv_api srv)) upload_request demo_world = (w', Inr info)"
    by (rule demo_started_upload)
  have q: "rq_PathParams download_request ''namespace'' = ''a''" "rq_PathParams download_request ''name'' = ''s''"
    "rq_PathParams download_request ''version'' = show_int 1" by (simp_all add: download_request_def) code_simp
  have "case srv_handlers srv ! 1 of (m, t, h) \<Rightarrow> case h download_request w' of (_, resp) \<Rightarrow>
      rs_Status resp = 200 \<and> rs_Body resp = ''one''"
    using started_server_roundtrip [OF d [unfolded demo_start_def] reliable_plain demo_upload_facts(1,2) _ u, of download_request]
      demo_upload_facts q v n
    by (auto simp: is_int32_def min_int32_def max_int32_def)
  moreover have "snd demo_start = Up srv" by (subst d) simp
  ultimately show ?thesis by - (rule exI [of _ srv], rule exI [of _ w'], rule exI [of _ info], rule conjI, assumption, rule conjI, rule u)
qed

theorem bad_connection_panics_witness:
  "Start (working_lib\<lparr>sl_ParseConfig := (\<lambda>c. Some (ErrExt ''cannot parse''))\<rparr>) demo_format (\<lambda>_ ks. ks) (\<lambda>ks. ks) (\<lambda>q. Inr (\<lambda>xs. xs))
     (standard_lib (\<lambda>i. si_Location i) (\<lambda>l. []) (\<lambda>e. [])) (\<lambda>kw. queue_Write) (demo_gw demo_body) plain_grpc default_Config =
     ([], Panic (ErrExt ''nil''))"
  by (subst bad_connection_panics) (simp_all add: working_lib_def)

end
