(* ===== verification/Front.thy ===== *)
theory Front
  imports Start Gateway_Claims
begin

text \<open>
  A request on the port of the server, from \<open>grpcHandlerFunc\<close> over the two multiplexers to the handler
  of its route. The multiplexer of the gateway library is an argument; \<open>mux_serves\<close> is what its
  documentation says of it for a path without escapes and verbs: a request goes to a registered
  route of its method whose pattern fits the segments of its path, with the variables of the
  pattern bound to them.
\<close>

record http_request =
  hq_ProtoMajor :: nat
  hq_Method :: string
  hq_Path :: string
  hq_Header :: "string \<Rightarrow> string"
  hq_Query :: "string \<Rightarrow> string"
  hq_Body :: "bytes res"

type_synonym 's route_handler = "HttpRequest \<Rightarrow> path_params \<Rightarrow> 's \<Rightarrow> 's \<times> HttpResponse"
type_synonym 's mux_route = "string \<times> seg list \<times> 's route_handler"

section \<open>The routes of the gateway multiplexer\<close>

definition path_segs :: "string \<Rightarrow> string list" where "path_segs path = tl (split_slash path)"

fun bindings :: "seg list \<Rightarrow> string list \<Rightarrow> path_params" where
  "bindings (Lit l # ss) (x # xs) = bindings ss xs"
| "bindings (Var v # ss) (x # xs) = (bindings ss xs)(v \<mapsto> x)"
| "bindings _ _ = Map.empty"

text \<open>A handler of \<open>api.go\<close> reads its parameters from a Go map, where a missing one is empty.\<close>

definition with_params :: "(HttpRequest \<Rightarrow> 's \<Rightarrow> 's \<times> HttpResponse) \<Rightarrow> 's route_handler" where
  "with_params h req pathParams =
     h (req\<lparr>rq_PathParams := (\<lambda>n. case pathParams n of None \<Rightarrow> [] | Some v \<Rightarrow> v)\<rparr>)"

definition gateway_routes :: "'s server \<Rightarrow> 's mux_route list" where
  "gateway_routes srv =
     map (\<lambda>(m, t, h). (m, template_segs t, with_params h)) (srv_handlers srv) @
     map (\<lambda>r. (gr_method r, gw_segs r, gr_handler r)) (srv_gateway srv)"

definition clean_path :: "string \<Rightarrow> bool" where
  "clean_path path \<longleftrightarrow> path \<noteq> [] \<and> hd path = CHR ''/'' \<and> CHR 0x25 \<notin> set path \<and> CHR '':'' \<notin> set path \<and> [] \<notin> set (path_segs path)"

type_synonym 's gateway_mux = "'s mux_route list \<Rightarrow> string \<Rightarrow> string \<Rightarrow> ('s route_handler \<times> path_params) option"

definition mux_serves :: "'s gateway_mux \<Rightarrow> bool" where
  "mux_serves Mux \<longleftrightarrow> (\<forall>routes httpMethod path. clean_path path \<longrightarrow>
     (case Mux routes httpMethod path of
        None \<Rightarrow> \<forall>(m, ss, h) \<in> set routes. m = httpMethod \<longrightarrow> \<not> fits ss (path_segs path)
      | Some (h, ps) \<Rightarrow> \<exists>ss. (httpMethod, ss, h) \<in> set routes \<and> fits ss (path_segs path) \<and> ps = bindings ss (path_segs path)))"

section \<open>A request\<close>

text \<open>The handlers outside of the repository: the gRPC server, the user interface, the profiler and metrics.\<close>

record 's front_lib =
  fl_Mux :: "'s gateway_mux"
  fl_unrouted :: HttpResponse
  fl_grpc :: "http_request \<Rightarrow> 's \<Rightarrow> 's \<times> HttpResponse"
  fl_ui :: "bool \<Rightarrow> http_request \<Rightarrow> 's \<Rightarrow> 's \<times> HttpResponse"
  fl_other :: "base_handler \<Rightarrow> http_request \<Rightarrow> 's \<Rightarrow> 's \<times> HttpResponse"

definition middleware :: "('r \<Rightarrow> 's \<Rightarrow> 's \<times> HttpResponse) \<Rightarrow> 'r \<Rightarrow> 's \<Rightarrow> 's \<times> HttpResponse" where
  "middleware next_handler r = next_handler r"

definition gateway_serve :: "'s front_lib \<Rightarrow> 's server \<Rightarrow> http_request \<Rightarrow> 's \<Rightarrow> 's \<times> HttpResponse" where
  "gateway_serve W srv r s =
     (case fl_Mux W (gateway_routes srv) (hq_Method r) (hq_Path r) of
        None \<Rightarrow> (s, fl_unrouted W)
      | Some (h, ps) \<Rightarrow>
          h \<lparr>rq_PathParams = (\<lambda>_. []), rq_Header = hq_Header r, rq_Query = hq_Query r, rq_Body = hq_Body r\<rparr> ps s)"

definition serve :: "'s front_lib \<Rightarrow> 's server \<Rightarrow> http_request \<Rightarrow> 's \<Rightarrow> 's \<times> HttpResponse" where
  "serve W srv r s =
     (case grpcHandlerFunc (hq_ProtoMajor r) (hq_Header r ''Content-Type'') (hq_Path r) of
        GrpcServer \<Rightarrow> fl_grpc W r s
      | UiHandler \<Rightarrow> fl_ui W (srv_ui srv) r s
      | OtherHandler \<Rightarrow>
          (case ServeMux (srv_mux srv) (hq_Path r) of
             None \<Rightarrow> (s, fl_unrouted W)
           | Some (_, GatewayMux) \<Rightarrow> middleware (gateway_serve W srv) r s
           | Some (_, BasePing) \<Rightarrow> (s, \<lparr>rs_Status = 200, rs_Headers = [], rs_Body = ''pong''\<rparr>)
           | Some (_, h) \<Rightarrow> fl_other W h r s))"

end
