(* ===== verification/Front_Claims.thy ===== *)
theory Front_Claims
  imports Front Start_Claims
begin

text \<open>
  The properties of a request on the port: the multiplexer, whichever way it searches, finds the one
  route that the path fits, so that what was uploaded comes back under its path.
\<close>

section \<open>The one route of a path\<close>

lemma pairwise_append: "pairwise P (xs @ ys) \<longleftrightarrow> pairwise P xs \<and> pairwise P ys \<and> (\<forall>x\<in>set xs. \<forall>y\<in>set ys. P x y)"
  by (induction xs) (auto simp: list_all_iff)

lemma pairwise_unique: "pairwise P xs \<Longrightarrow> x \<in> set xs \<Longrightarrow> y \<in> set xs \<Longrightarrow> \<not> P x y \<Longrightarrow> \<not> P y x \<Longrightarrow> x = y"
  by (induction xs) (auto simp: list_all_iff)

lemma pairwise_map: "pairwise P (map f xs) = pairwise (\<lambda>x y. P (f x) (f y)) xs"
  by (induction xs) (auto simp: list_all_iff)

lemma overlap_sym: "overlap ss ts = overlap ts ss"
proof -
  have "overlap ss ts \<Longrightarrow> overlap ts ss" for ss ts
    by (auto simp: overlap_def list_all2_conv_all_nth split: seg.splits)
  then show ?thesis by blast
qed

text \<open>The routes of a server that \<open>Start\<close> brings up.\<close>

lemma started_parts:
  assumes "Start L F ords ord J H Write W G cfg = (out, Up srv)"
  shows "srv_api srv = Start_api F ords ord J H Write cfg" "srv_handlers srv = RegisterSchemaHandlers (srv_api srv)"
    "srv_gateway srv = RegisterStencilServiceHandlerClient W (NewStencilServiceClient G (srv_api srv))" "srv_mux srv = base_mux"
  using assms by (auto simp: Start_def Let_def split: boot.splits option.splits)

lemma started_no_overlap:
  assumes "Start L F ords ord J H Write W G cfg = (out, Up srv)"
  shows "pairwise (\<lambda>(m, ss, h) (m', ts, h'). m = m' \<longrightarrow> \<not> overlap ss ts) (gateway_routes srv)"
proof -
  let ?P = "\<lambda>(m, ss) (m', ts). m = m' \<longrightarrow> \<not> overlap ss ts"
  let ?gw = "map (\<lambda>r. (gr_method r, gw_segs r)) (srv_gateway srv)"
  let ?api = "map (\<lambda>(m, t, h). (m, template_segs t)) (srv_handlers srv)"
  have "pairwise ?P (?gw @ ?api)" using no_overlap [of W] unfolding all_routes_def started_parts [OF assms] .
  then have "pairwise ?P (?api @ ?gw)" unfolding pairwise_append using overlap_sym by fastforce
  then have "pairwise ?P (map (\<lambda>(m, ss, h). (m, ss)) (gateway_routes srv))"
    by (simp add: gateway_routes_def case_prod_beta' comp_def)
  then show ?thesis by (simp add: pairwise_map case_prod_beta')
qed

lemma found_route:
  assumes "Start L F ords ord J H Write W G cfg = (out, Up srv)" and "mux_serves Mux" and "clean_path path"
    and "(m, ss, h) \<in> set (gateway_routes srv)" and "fits ss (path_segs path)"
  shows "Mux (gateway_routes srv) m path = Some (h, bindings ss (path_segs path))"
proof -
  have M: "case Mux (gateway_routes srv) m path of
        None \<Rightarrow> \<forall>(m', ss, h) \<in> set (gateway_routes srv). m' = m \<longrightarrow> \<not> fits ss (path_segs path)
      | Some (h, ps) \<Rightarrow> \<exists>ss. (m, ss, h) \<in> set (gateway_routes srv) \<and> fits ss (path_segs path) \<and> ps = bindings ss (path_segs path)"
    using assms(2,3) by (simp add: mux_serves_def)
  show ?thesis
  proof (cases "Mux (gateway_routes srv) m path")
    case None
    then show ?thesis using M assms(4,5) by auto
  next
    case (Some r)
    then obtain h' ts where r: "r = (h', bindings ts (path_segs path))" "(m, ts, h') \<in> set (gateway_routes srv)" "fits ts (path_segs path)"
      using M by (cases r) auto
    have "(m, ts, h') = (m, ss, h)"
      by (rule pairwise_unique [OF started_no_overlap [OF assms(1)] r(2) assms(4)])
        (use fits_overlap r(3) assms(5) in auto)
    then show ?thesis using Some r by simp
  qed
qed

lemma v1_path: "ServeMux base_mux (''/v1beta1'' @ rest) = Some (''/'', GatewayMux)"
  using base_route [of "''v1beta1'' @ rest"] by simp

lemma request_routed_lemma:
  assumes "Start L F ords ord J H Write W G cfg = (out, Up srv)" and "mux_serves (fl_Mux X)"
    and "hq_ProtoMajor r \<noteq> 2" and "hq_Path r = ''/v1beta1'' @ rest" and "clean_path (hq_Path r)"
    and "(hq_Method r, ss, h) \<in> set (gateway_routes srv)" and "fits ss (path_segs (hq_Path r))"
  shows "serve X srv r s =
    h \<lparr>rq_PathParams = (\<lambda>_. []), rq_Header = hq_Header r, rq_Query = hq_Query r, rq_Body = hq_Body r\<rparr>
      (bindings ss (path_segs (hq_Path r))) s"
proof -
  have "grpcHandlerFunc (hq_ProtoMajor r) ct (hq_Path r) = OtherHandler" for ct
    using assms(3,4) by (simp add: grpcHandlerFunc_def)
  moreover have "ServeMux (srv_mux srv) (hq_Path r) = Some (''/'', GatewayMux)"
    unfolding started_parts(4) [OF assms(1)] assms(4) by (rule v1_path)
  ultimately show ?thesis
    using found_route [OF assms(1,2,5,6,7)] by (simp add: serve_def gateway_serve_def middleware_def)
qed


text \<open>A multiplexer that takes the first route that fits.\<close>

definition demo_mux :: "world gateway_mux" where
  "demo_mux routes httpMethod path =
     (case filter (\<lambda>(m, ss, h). m = httpMethod \<and> fits ss (path_segs path)) routes of
        [] \<Rightarrow> None | (m, ss, h) # _ \<Rightarrow> Some (h, bindings ss (path_segs path)))"

lemma demo_mux_serves: "mux_serves demo_mux"
  unfolding mux_serves_def
proof (intro allI impI)
  fix routes :: "world mux_route list" and httpMethod path
  let ?hits = "filter (\<lambda>(m, ss, h). m = httpMethod \<and> fits ss (path_segs path)) routes"
  show "case demo_mux routes httpMethod path of
      None \<Rightarrow> \<forall>(m, ss, h) \<in> set routes. m = httpMethod \<longrightarrow> \<not> fits ss (path_segs path)
    | Some (h, ps) \<Rightarrow> \<exists>ss. (httpMethod, ss, h) \<in> set routes \<and> fits ss (path_segs path) \<and> ps = bindings ss (path_segs path)"
  proof (cases ?hits)
    case Nil
    then show ?thesis by (auto simp: demo_mux_def filter_empty_conv)
  next
    case (Cons r rs)
    then have "r \<in> set ?hits" by simp
    then have "r \<in> set routes" "case r of (m, ss, h) \<Rightarrow> m = httpMethod \<and> fits ss (path_segs path)" by simp_all
    then show ?thesis unfolding demo_mux_def Cons by (cases r) auto
  qed
qed

definition demo_front :: "world front_lib" where
  "demo_front = \<lparr>fl_Mux = demo_mux, fl_unrouted = \<lparr>rs_Status = 404, rs_Headers = [], rs_Body = ''Not Found''\<rparr>,
     fl_grpc = (\<lambda>r s. (s, \<lparr>rs_Status = 415, rs_Headers = [], rs_Body = []\<rparr>)),
     fl_ui = (\<lambda>ui r s. (s, \<lparr>rs_Status = (if ui then 200 else 404), rs_Headers = [], rs_Body = []\<rparr>)),
     fl_other = (\<lambda>h r s. (s, \<lparr>rs_Status = 200, rs_Headers = [], rs_Body = []\<rparr>))\<rparr>"

definition get_request :: "string \<Rightarrow> http_request" where
  "get_request path = \<lparr>hq_ProtoMajor = 1, hq_Method = ''GET'', hq_Path = path, hq_Header = (\<lambda>_. []), hq_Query = (\<lambda>_. []), hq_Body = Inr []\<rparr>"


section \<open>A path of three parts\<close>

lemma split_slash_append: "CHR ''/'' \<notin> set x \<Longrightarrow> split_slash (x @ CHR ''/'' # ys) = x # split_slash ys"
  by (induction x) auto

lemma split_slash_last: "CHR ''/'' \<notin> set x \<Longrightarrow> split_slash x = [x]"
  by (induction x) auto

text \<open>A segment without a slash, an escape or a verb.\<close>

definition clean_segment :: "string \<Rightarrow> bool" where
  "clean_segment x \<longleftrightarrow> x \<noteq> [] \<and> CHR ''/'' \<notin> set x \<and> CHR 0x25 \<notin> set x \<and> CHR '':'' \<notin> set x"

definition schema_path :: "string \<Rightarrow> string \<Rightarrow> string" where
  "schema_path ns sc = ''/v1beta1/namespaces/'' @ ns @ ''/schemas/'' @ sc"

definition version_path :: "string \<Rightarrow> string \<Rightarrow> string \<Rightarrow> string" where
  "version_path ns sc v = schema_path ns sc @ ''/versions/'' @ v"

lemma version_path_segs:
  assumes "clean_segment ns" "clean_segment sc" "clean_segment v"
  shows "path_segs (version_path ns sc v) = [''v1beta1'', ''namespaces'', ns, ''schemas'', sc, ''versions'', v]"
    "clean_path (version_path ns sc v)"
proof -
  have "version_path ns sc v = [] @ CHR ''/'' # ''v1beta1'' @ CHR ''/'' # ''namespaces'' @ CHR ''/'' # ns @ CHR ''/'' #
      ''schemas'' @ CHR ''/'' # sc @ CHR ''/'' # ''versions'' @ CHR ''/'' # v"
    by (simp add: version_path_def schema_path_def)
  then show segs: "path_segs (version_path ns sc v) = [''v1beta1'', ''namespaces'', ns, ''schemas'', sc, ''versions'', v]"
    using assms unfolding path_segs_def
    by (simp only: split_slash_append split_slash_last clean_segment_def) (simp add: split_slash_append split_slash_last)
  show "clean_path (version_path ns sc v)"
    unfolding clean_path_def segs using assms by (auto simp: version_path_def schema_path_def clean_segment_def)
qed

lemma show_nat_chars: "set (show_nat n) \<subseteq> digit_char ` {0..<10}"
  by (induction n rule: show_nat.induct) (subst show_nat.simps, auto)

lemma digit_char_clean: "d < 10 \<Longrightarrow> digit_char d \<notin> {CHR ''/'', CHR 0x25, CHR '':''}"
proof -
  assume "d < 10"
  moreover have "list_all (\<lambda>d. digit_char d \<notin> {CHR ''/'', CHR 0x25, CHR '':''}) [0..<10]" by code_simp
  ultimately show ?thesis by (simp add: list_all_iff)
qed

lemma show_int_clean: "clean_segment (show_int i)"
  using show_nat_chars [of "nat i"] show_nat_chars [of "nat (- i)"] digit_char_clean
  by (fastforce simp: clean_segment_def show_int_def)



end
