(* ===== verification/Seed.thy ===== *)
theory Seed
  imports Go_IO Go_Fmt Descriptors "HOL-Library.List_Lexorder" "HOL-Library.Char_ord"
begin

text \<open>
  The program that tests the lineage of a running server, \<open>test_helper/seed_lineage_data.go\<close>, and the
  helpers of the tests, \<open>test_helper/testutils.go\<close>. The compiler \<open>protoc\<close>, the file system, the HTTP
  client and the decoding of JSON are arguments. A program state is the world with what was printed; \<open>log.Fatalf\<close>
  ends the program with its message as the error.
\<close>

section \<open>What the program calls\<close>

record http_reply =
  hr_Status :: nat
  hr_Body :: "bytes res"

record 's seed_lib =
  sd_LookPath :: "string \<Rightarrow> string res"
  sd_EvalSymlinks :: "string \<Rightarrow> string res"
  sd_Abs :: "string \<Rightarrow> string res"
  sd_Dir :: "string \<Rightarrow> string"
  sd_Join :: "string list \<Rightarrow> string"
  sd_Glob :: "string \<Rightarrow> string list"
  sd_CreateTemp :: "string \<Rightarrow> string res"
  sd_Command :: "string \<Rightarrow> string list \<Rightarrow> string \<times> go_error option"
  sd_ReadFile :: "string \<Rightarrow> bytes res"
  sd_http :: "string \<Rightarrow> string \<Rightarrow> (string \<times> string) list \<Rightarrow> bytes \<Rightarrow> ('s, http_reply) io"

record 's script =
  st_server :: 's
  st_out :: "string list"
  st_temp :: "string list"

definition println :: "string \<Rightarrow> ('s script, unit) io" where
  "println line st = (st\<lparr>st_out := st_out st @ [line]\<rparr>, Inr ())"

definition Fatalf :: "string \<Rightarrow> ('s script, 'a) io" where "Fatalf message = fail_io (ErrString message)"

definition do_http ::
  "'s seed_lib \<Rightarrow> string \<Rightarrow> string \<Rightarrow> (string \<times> string) list \<Rightarrow> bytes \<Rightarrow> ('s script, http_reply res) io" where
  "do_http E httpMethod url headers body st =
     (case sd_http E httpMethod url headers body (st_server st) of (s', r) \<Rightarrow> (st\<lparr>st_server := s'\<rparr>, Inr r))"

text \<open>
  The temporary file. The deferred removal runs when the function returns; \<open>log.Fatalf\<close> exits
  without it.
\<close>

definition make_temp :: "'s seed_lib \<Rightarrow> string \<Rightarrow> ('s script, string res) io" where
  "make_temp E pattern st =
     (case sd_CreateTemp E pattern of
        Inl err \<Rightarrow> (st, Inr (Inl err))
      | Inr path \<Rightarrow> (st\<lparr>st_temp := path # st_temp st\<rparr>, Inr (Inr path)))"

definition remove_temp :: "string \<Rightarrow> ('s script, unit) io" where
  "remove_temp path st = (st\<lparr>st_temp := remove1 path (st_temp st)\<rparr>, Inr ())"

text \<open>
  \<open>json.Marshal\<close> of a map of strings: the keys sorted, quotes and backslashes escaped (the program
  has no other character that JSON escapes).
\<close>

definition json_string :: "string \<Rightarrow> string" where
  "json_string s = [CHR 0x22] @ concat (map (\<lambda>c. if c = CHR 0x22 \<or> c = CHR 0x5C then [CHR 0x5C, c] else [c]) s) @ [CHR 0x22]"

definition json_map :: "(string \<times> string) list \<Rightarrow> bytes" where
  "json_map m = ''{'' @ join (map (\<lambda>k. json_string k @ '':'' @ json_string (the (map_of m k))) (sort (map fst m))) '','' @ ''}''"

text \<open>The body, empty where reading it fails and the code ignores that.\<close>

definition read_body :: "http_reply \<Rightarrow> bytes" where
  "read_body resp = (case hr_Body resp of Inl err \<Rightarrow> [] | Inr b \<Rightarrow> b)"

abbreviation (input) check_mark :: string where "check_mark \<equiv> utf8 0x2713"
abbreviation (input) cross_mark :: string where "cross_mark \<equiv> utf8 0x2717"

definition baseURL :: string where "baseURL = ''http://localhost:8080''"
definition namespaceID :: string where "namespaceID = ''gotocompany''"
definition schemaID :: string where "schemaID = ''esb-log-entities''"
definition protoPath :: string where "protoPath = ''./test_helper/lineage_seed.proto''"

section \<open>The descriptor\<close>

definition buildDescriptorFromProto :: "'s seed_lib \<Rightarrow> ('s script, bytes) io" where
  "buildDescriptorFromProto E =
     (case sd_LookPath E ''protoc'' of
        Inl err \<Rightarrow> Fatalf (''protoc not found in PATH: '' @ error_text err)
      | Inr protocBin \<Rightarrow>
     (case sd_Abs E protoPath of
        Inl err \<Rightarrow> Fatalf (''resolve proto path: '' @ error_text err)
      | Inr absProtoPath \<Rightarrow>
     bind_io (make_temp E ''lineage_seed_*.desc'') (\<lambda>t. case t of
        Inl err \<Rightarrow> Fatalf (''create temp descriptor file: '' @ error_text err)
      | Inr descOutPath \<Rightarrow>
     (case sd_Command E protocBin [''-I'', sd_Dir E absProtoPath, ''--descriptor_set_out='' @ descOutPath, ''--include_imports'', absProtoPath] of
        (out, Some err) \<Rightarrow> Fatalf (''protoc failed: '' @ error_text err @ [CHR 0x0A] @ out)
      | (out, None) \<Rightarrow>
     (case sd_ReadFile E descOutPath of
        Inl err \<Rightarrow> Fatalf (''read descriptor file: '' @ error_text err)
      | Inr b \<Rightarrow> bind_io (remove_temp descOutPath) (\<lambda>_. return_io b))))))"

section \<open>Seeding\<close>

definition createNamespace :: "'s seed_lib \<Rightarrow> ('s script, unit) io" where
  "createNamespace E =
     (let body = json_map [(''id'', namespaceID), (''format'', ''FORMAT_PROTOBUF''),
            (''compatibility'', ''COMPATIBILITY_BACKWARD''), (''description'', ''Lineage E2E seed namespace'')]
      in bind_io (do_http E ''POST'' (baseURL @ ''/v1beta1/namespaces'') [(''Content-Type'', ''application/json'')] body) (\<lambda>r.
         case r of
           Inl err \<Rightarrow> Fatalf (''create namespace: '' @ error_text err)
         | Inr resp \<Rightarrow>
             if hr_Status resp = 200 \<or> hr_Status resp = 201
             then println (check_mark @ '' Namespace '' @ [CHR 0x27] @ namespaceID @ [CHR 0x27] @ '' created (HTTP '' @
                    show_int (int (hr_Status resp)) @ '')'')
             else if hr_Status resp = 409
             then println (utf8 0x2139 @ '' Namespace '' @ [CHR 0x27] @ namespaceID @ [CHR 0x27] @ '' already exists '' @ utf8 0x2014 @ '' skipping'')
             else println (utf8 0x26A0 @ '' Namespace create response (HTTP '' @ show_int (int (hr_Status resp)) @ ''): '' @ read_body resp)))"

definition schema_url :: "string \<Rightarrow> string" where
  "schema_url schemaName = baseURL @ ''/v1beta1/namespaces/'' @ namespaceID @ ''/schemas/'' @ schemaName"

definition deleteSchema :: "'s seed_lib \<Rightarrow> string \<Rightarrow> ('s script, unit) io" where
  "deleteSchema E schemaName =
     bind_io (do_http E ''DELETE'' (schema_url schemaName) [] []) (\<lambda>r.
       case r of
         Inl err \<Rightarrow> return_io ()
       | Inr resp \<Rightarrow>
           if hr_Status resp = 200
           then println (utf8 0x27F3 @ '' Schema '' @ [CHR 0x27] @ namespaceID @ ''/'' @ schemaName @ [CHR 0x27] @ '' deleted before re-seed'')
           else return_io ())"

definition uploadSchema :: "'s seed_lib \<Rightarrow> string \<Rightarrow> bytes \<Rightarrow> ('s script, unit) io" where
  "uploadSchema E schemaName descBytes =
     bind_io (do_http E ''POST'' (schema_url schemaName)
         [(''X-Format'', ''FORMAT_PROTOBUF''), (''X-Compatibility'', ''COMPATIBILITY_BACKWARD''), (''Content-Type'', ''application/octet-stream'')]
         descBytes) (\<lambda>r.
       case r of
         Inl err \<Rightarrow> Fatalf (''upload schema: '' @ error_text err)
       | Inr resp \<Rightarrow>
           if hr_Status resp = 200 \<or> hr_Status resp = 201
           then println (check_mark @ '' Schema '' @ [CHR 0x27] @ namespaceID @ ''/'' @ schemaName @ [CHR 0x27] @ '' uploaded (HTTP '' @
                  show_int (int (hr_Status resp)) @ ''): '' @ read_body resp)
           else Fatalf (''upload schema failed (HTTP '' @ show_int (int (hr_Status resp)) @ ''): '' @ read_body resp))"

section \<open>The cases\<close>

record e2eCase =
  tc_name :: string
  tc_typeName :: string
  tc_query :: string
  tc_wantStatus :: nat
  tc_wantDownstreamSet :: "string list"
  tc_wantUpstreamSet :: "string list"
  tc_wantDownstreamSize :: int
  tc_wantUpstreamSize :: int

text \<open>Of the answer only the names of the nodes are read; the other fields are decoded and ignored.\<close>

record seed_lineage =
  sl_Downstream :: "string list"
  sl_Upstream :: "string list"

definition events :: "string list \<Rightarrow> string list" where "events = map (\<lambda>n. ''gotocompany.events.'' @ n)"

definition down_case :: "string \<Rightarrow> string \<Rightarrow> string list \<Rightarrow> e2eCase" where
  "down_case n t want = \<lparr>tc_name = n, tc_typeName = ''gotocompany.events.'' @ t, tc_query = ''direction=downstream'', tc_wantStatus = 200,
     tc_wantDownstreamSet = events want, tc_wantUpstreamSet = [], tc_wantDownstreamSize = int (length want), tc_wantUpstreamSize = 0\<rparr>"

definition up_case :: "string \<Rightarrow> string \<Rightarrow> string list \<Rightarrow> e2eCase" where
  "up_case n t want = \<lparr>tc_name = n, tc_typeName = ''gotocompany.events.'' @ t, tc_query = ''direction=upstream'', tc_wantStatus = 200,
     tc_wantDownstreamSet = [], tc_wantUpstreamSet = events want, tc_wantDownstreamSize = 0, tc_wantUpstreamSize = int (length want)\<rparr>"

definition e2e_cases :: "e2eCase list" where
  "e2e_cases =
     [down_case ''container + type_name downstream location-like root'' ''Product'' [''Order.Item'', ''Order'', ''Cart'', ''Payment''],
      down_case ''container + type_name downstream nested receipt root'' ''Payment.Receipt'' [''Payment'', ''Ledger''],
      up_case ''container + type_name upstream cart'' ''Cart'' [''User'', ''Order.Item'', ''Address'', ''Product''],
      \<lparr>tc_name = ''invalid direction'', tc_typeName = ''gotocompany.events.Product'', tc_query = ''direction=sideways'', tc_wantStatus = 400,
       tc_wantDownstreamSet = [], tc_wantUpstreamSet = [], tc_wantDownstreamSize = 0, tc_wantUpstreamSize = 0\<rparr>,
      up_case ''upstream of DataMessage includes user chain + enum deps'' ''DataMessage''
        [''User'', ''Address'', ''DataTypes'', ''DataTypes.Enum'', ''Status''],
      down_case ''downstream of nested enum DataTypes.Enum'' ''DataTypes.Enum'' [''DataMessage''],
      down_case ''downstream of DataTypes wrapper message'' ''DataTypes'' [''DataTypes.Enum'', ''DataMessage''],
      down_case ''downstream of top-level enum Status'' ''Status'' [''Order'', ''DataMessage'']]"

definition go_strings :: "string list \<Rightarrow> string" where "go_strings xs = ''['' @ join xs '' '' @ '']''"

definition extractNames :: "string list \<Rightarrow> string list" where
  "extractNames nodes = sort (remdups (filter (\<lambda>n. n \<noteq> []) nodes))"

definition ensureContainsAll :: "string list \<Rightarrow> string list \<Rightarrow> string \<Rightarrow> go_error option" where
  "ensureContainsAll got want label =
     (if want = [] then None
      else let missing = filter (\<lambda>w. w \<notin> set got) want
           in if missing \<noteq> []
              then Some (ErrString (label @ '' missing expected nodes: '' @ join missing '', '' @ '' (got='' @ go_strings got @ '')''))
              else None)"

definition size_mismatch :: "string \<Rightarrow> string list \<Rightarrow> int \<Rightarrow> go_error" where
  "size_mismatch label got want = ErrString (label @ '' size mismatch: got='' @ show_int (int (length got)) @ '' want='' @ show_int want @
     '' gotSet='' @ go_strings got)"

text \<open>The checks of \<open>runCase\<close> on an answer.\<close>

definition judge :: "(bytes \<Rightarrow> seed_lineage res) \<Rightarrow> e2eCase \<Rightarrow> nat \<Rightarrow> bytes \<Rightarrow> go_error option" where
  "judge Unmarshal tc status body =
     (if status \<noteq> tc_wantStatus tc
      then Some (ErrString (''status mismatch: got='' @ show_int (int status) @ '' want='' @ show_int (int (tc_wantStatus tc)) @ '' body='' @ body))
      else if tc_wantStatus tc \<noteq> 200 then None
      else case Unmarshal body of
             Inl err \<Rightarrow> Some (ErrWrap (''decode response: '' @ error_text err @ '' body='' @ body) err)
           | Inr parsed \<Rightarrow>
               let downSet = extractNames (sl_Downstream parsed); upSet = extractNames (sl_Upstream parsed)
               in if tc_wantDownstreamSize tc \<ge> 0 \<and> tc_wantDownstreamSize tc \<noteq> int (length downSet) \<and> tc_wantDownstreamSet tc \<noteq> []
                  then Some (size_mismatch ''downstream'' downSet (tc_wantDownstreamSize tc))
                  else if tc_wantUpstreamSize tc \<ge> 0 \<and> tc_wantUpstreamSize tc \<noteq> int (length upSet) \<and> tc_wantUpstreamSet tc \<noteq> []
                  then Some (size_mismatch ''upstream'' upSet (tc_wantUpstreamSize tc))
                  else case ensureContainsAll downSet (tc_wantDownstreamSet tc) ''downstream'' of
                         Some err \<Rightarrow> Some err
                       | None \<Rightarrow> ensureContainsAll upSet (tc_wantUpstreamSet tc) ''upstream'')"

definition doGet :: "'s seed_lib \<Rightarrow> string \<Rightarrow> ('s script, (nat \<times> bytes) res) io" where
  "doGet E url =
     bind_io (do_http E ''GET'' url [] []) (\<lambda>r. return_io
       (case r of
          Inl err \<Rightarrow> Inl (ErrWrap (''http get '' @ url @ '': '' @ error_text err) err)
        | Inr resp \<Rightarrow>
            (case hr_Body resp of
               Inl err \<Rightarrow> Inl (ErrWrap (''read body: '' @ error_text err) err)
             | Inr body \<Rightarrow> Inr (hr_Status resp, body))))"

definition runCase :: "'s seed_lib \<Rightarrow> (bytes \<Rightarrow> seed_lineage res) \<Rightarrow> e2eCase \<Rightarrow> string \<Rightarrow> ('s script, go_error option) io" where
  "runCase E Unmarshal tc url =
     bind_io (doGet E url) (\<lambda>r. return_io
       (case r of Inl err \<Rightarrow> Some err | Inr (status, body) \<Rightarrow> judge Unmarshal tc status body))"

fun run_cases :: "'s seed_lib \<Rightarrow> (bytes \<Rightarrow> seed_lineage res) \<Rightarrow> string \<Rightarrow> e2eCase list \<Rightarrow> ('s script, unit) io" where
  "run_cases E Unmarshal base [] = return_io ()"
| "run_cases E Unmarshal base (tc # tcs) =
     bind_io (runCase E Unmarshal tc (base @ ''/types/'' @ tc_typeName tc @ ''/lineage?'' @ tc_query tc)) (\<lambda>err.
       case err of
         Some e \<Rightarrow> Fatalf (cross_mark @ '' '' @ tc_name tc @ '': '' @ error_text e)
       | None \<Rightarrow> bind_io (println (check_mark @ '' '' @ tc_name tc)) (\<lambda>_. run_cases E Unmarshal base tcs))"

definition ruler :: string where "ruler = concat (replicate 60 (utf8 0x2501))"

definition runE2ECases :: "'s seed_lib \<Rightarrow> (bytes \<Rightarrow> seed_lineage res) \<Rightarrow> ('s script, unit) io" where
  "runE2ECases E Unmarshal =
     bind_io (println []) (\<lambda>_. bind_io (println ruler) (\<lambda>_.
     bind_io (println (utf8 0x1F9EA @ '' Running lineage E2E cases'')) (\<lambda>_. bind_io (println ruler) (\<lambda>_.
     bind_io (run_cases E Unmarshal (schema_url schemaID) e2e_cases) (\<lambda>_.
       println ([CHR 0x0A] @ utf8 0x2705 @ '' All lineage E2E cases passed''))))))"

definition seed_main :: "'s seed_lib \<Rightarrow> (bytes \<Rightarrow> seed_lineage res) \<Rightarrow> ('s script, unit) io" where
  "seed_main E Unmarshal =
     bind_io (buildDescriptorFromProto E) (\<lambda>descBytes.
     bind_io (println (check_mark @ '' FileDescriptorSet built ('' @ show_int (int (length descBytes)) @ '' bytes)'')) (\<lambda>_.
     bind_io (createNamespace E) (\<lambda>_.
     bind_io (deleteSchema E schemaID) (\<lambda>_.
     bind_io (uploadSchema E schemaID descBytes) (\<lambda>_.
       runE2ECases E Unmarshal)))))"

section \<open>The compiled file\<close>

text \<open>
  What \<open>protoc\<close> makes of \<open>test_helper/lineage_seed.proto\<close>, with the type numbers of
  \<open>descriptor.proto\<close>: 1 double, 5 int32, 9 string, 11 message and 14 enum.
\<close>

definition seed_field :: "int \<Rightarrow> string \<Rightarrow> string \<Rightarrow> FieldDescriptorProto" where
  "seed_field n ty nm = \<lparr>fd_name = nm, fd_type = n, fd_type_name = ty, fd_options = None, fd_rest = []\<rparr>"

definition seed_ref :: "int \<Rightarrow> string \<Rightarrow> string \<Rightarrow> FieldDescriptorProto" where
  "seed_ref n ty = seed_field n (''.gotocompany.events.'' @ ty)"

definition seed_message :: "string \<Rightarrow> FieldDescriptorProto list \<Rightarrow> DescriptorProto list \<Rightarrow> DescriptorProto" where
  "seed_message nm fs nested = DescriptorProto nm fs nested [] None []"

definition seed_enum :: "string \<Rightarrow> string list \<Rightarrow> EnumDescriptorProto" where
  "seed_enum nm vs = \<lparr>ed_name = nm, ed_value = map (\<lambda>v. \<lparr>ev_name = v, ev_options = None, ev_rest = []\<rparr>) vs, ed_options = None, ed_rest = []\<rparr>"

definition seed_fds :: FileDescriptorSet where
  "seed_fds = [\<lparr>fl_name = ''lineage_seed.proto'', fl_package = ''gotocompany.events'',
    fl_message_type =
     [seed_message ''Address'' [seed_field 9 [] ''street'', seed_field 9 [] ''city'', seed_field 9 [] ''zip''] [],
      seed_message ''User'' [seed_field 9 [] ''id'', seed_field 9 [] ''name'', seed_ref 11 ''Address'' ''address''] [],
      seed_message ''Product'' [seed_field 9 [] ''id'', seed_field 9 [] ''name'', seed_field 1 [] ''price''] [],
      seed_message ''Invoice'' [seed_field 9 [] ''id'', seed_field 1 [] ''amount''] [],
      seed_message ''Order''
        [seed_field 9 [] ''id'', seed_ref 11 ''User'' ''user'', seed_ref 14 ''Status'' ''status'', seed_ref 11 ''Order.Item'' ''items'']
        [seed_message ''Item'' [seed_ref 11 ''Product'' ''product'', seed_field 5 [] ''quantity''] []],
      seed_message ''Payment''
        [seed_field 9 [] ''id'', seed_ref 11 ''Order'' ''order'', seed_ref 11 ''Payment.Receipt'' ''receipt'']
        [seed_message ''Receipt'' [seed_ref 11 ''Invoice'' ''invoice'', seed_field 9 [] ''issued_at''] []],
      seed_message ''Cart'' [seed_field 9 [] ''id'', seed_ref 11 ''User'' ''user'', seed_ref 11 ''Order.Item'' ''item''] [],
      seed_message ''Ledger'' [seed_field 9 [] ''id'', seed_ref 11 ''Payment.Receipt'' ''receipt''] [],
      DescriptorProto ''DataTypes'' [] [] [seed_enum ''Enum'' [''UNKNOWN'', ''SET'', ''UNSET'']] None [],
      seed_message ''DataMessage''
        [seed_field 9 [] ''id'', seed_ref 11 ''User'' ''user'', seed_ref 14 ''DataTypes.Enum'' ''action_type'',
         seed_ref 14 ''Status'' ''status'', seed_field 9 [] ''item_sequence''] []],
    fl_enum_type = [seed_enum ''Status'' [''STATUS_UNKNOWN'', ''STATUS_ACTIVE'', ''STATUS_INACTIVE'']], fl_rest = []\<rparr>]"

section \<open>Helpers of the tests\<close>

definition RunProtoc :: "'s seed_lib \<Rightarrow> string \<Rightarrow> bool \<Rightarrow> string \<Rightarrow> string list option \<Rightarrow> go_error option" where
  "RunProtoc E rootDir includeImports descSetOut protoFilesNames =
     (case sd_LookPath E ''protoc'' of Inl err \<Rightarrow> Some err | Inr p1 \<Rightarrow>
     (case sd_EvalSymlinks E p1 of Inl err \<Rightarrow> Some err | Inr p2 \<Rightarrow>
     (case sd_Abs E p2 of Inl err \<Rightarrow> Some err | Inr protocBinPath \<Rightarrow>
     (case sd_Abs E (sd_Join E [sd_Dir E protocBinPath, ''..'', ''include'']) of Inl err \<Rightarrow> Some err | Inr protocIncludePath \<Rightarrow>
       let args = [''-I'', rootDir, ''-I'', protocIncludePath] @ [''--descriptor_set_out='' @ descSetOut] @
                  (if includeImports then [''--include_imports''] else []) @
                  (case protoFilesNames of
                     None \<Rightarrow> sd_Glob E (sd_Join E [rootDir, ''./*.proto'']) @ sd_Glob E (sd_Join E [rootDir, ''./**/*.proto''])
                   | Some names \<Rightarrow> names)
       in case sd_Command E protocBinPath args of
            (stderr, Some err) \<Rightarrow> Some (ErrString (protocBinPath @ '' returned error: '' @ error_text err @ '' '' @ stderr))
          | (_, None) \<Rightarrow> None))))"

definition hex_digit :: "nat \<Rightarrow> char" where "hex_digit n = (if n < 10 then digit_char n else char_of (87 + n))"

text \<open>Ten random bytes, in hexadecimal.\<close>

definition GetRandomName :: "bytes \<Rightarrow> string" where
  "GetRandomName b = concat (map (\<lambda>c. [hex_digit (of_char c div 16), hex_digit (of_char c mod 16)]) b)"

end
