(* ===== verification/Seed_Claims.thy ===== *)
theory Seed_Claims
  imports Seed Front_Claims
begin

text \<open>
  The end-to-end program of the lineage against the model of the server: what a \<open>GET\<close> of a lineage
  path answers, and which of the eight cases of \<open>seed_lineage_data.go\<close> the server passes.
\<close>

section \<open>A request for a lineage\<close>

definition lineage_path :: "string \<Rightarrow> string \<Rightarrow> string \<Rightarrow> string" where
  "lineage_path ns sc t = schema_path ns sc @ ''/types/'' @ t @ ''/lineage''"

lemma lineage_path_segs:
  assumes "clean_segment ns" "clean_segment sc" "clean_segment t"
  shows "path_segs (lineage_path ns sc t) = [''v1beta1'', ''namespaces'', ns, ''schemas'', sc, ''types'', t, ''lineage'']"
    "clean_path (lineage_path ns sc t)"
proof -
  have "lineage_path ns sc t = [] @ CHR ''/'' # ''v1beta1'' @ CHR ''/'' # ''namespaces'' @ CHR ''/'' # ns @ CHR ''/'' #
      ''schemas'' @ CHR ''/'' # sc @ CHR ''/'' # ''types'' @ CHR ''/'' # t @ CHR ''/'' # ''lineage''"
    by (simp add: lineage_path_def schema_path_def)
  then show segs: "path_segs (lineage_path ns sc t) = [''v1beta1'', ''namespaces'', ns, ''schemas'', sc, ''types'', t, ''lineage'']"
    using assms unfolding path_segs_def
    by (simp only: split_slash_append split_slash_last clean_segment_def) (simp add: split_slash_append split_slash_last)
  show "clean_path (lineage_path ns sc t)"
    unfolding clean_path_def segs using assms by (auto simp: lineage_path_def schema_path_def clean_segment_def)
qed

text \<open>A world in which the latest version of a schema is stored and every statement succeeds.\<close>

definition has_latest :: "string \<Rightarrow> string \<Rightarrow> bytes \<Rightarrow> world \<Rightarrow> bool" where
  "has_latest ns sc d w \<longleftrightarrow> cache_coherent w \<and> calm w \<and> CHR ''-'' \<notin> set ns \<and>
     stored (w_db w) (ns, sc, latest (w_db w) ns sc) = Some d"

lemma latest_served:
  assumes "has_latest ns sc d w"
  shows "\<exists>w' m. GetLatest (service F ords ord cfg) ns sc w = (w', Inr (m, d)) \<and> has_latest ns sc d w'"
proof -
  have w: "cache_coherent w" "calm w" "CHR ''-'' \<notin> set ns" "stored (w_db w) (ns, sc, latest (w_db w) ns sc) = Some d"
    using assms by (auto simp: has_latest_def)
  have inv: "db_inv (w_db w)" using w(1) by (simp add: cache_coherent_def)
  have n: "cache_coherent (next_env w)" "w_db (next_env w) = w_db w" using w(1) by (simp_all add: cache_coherent_def)
  have free: "dash_free (ns, sc, latest (w_db w) ns sc)"
    using w(3) max_version_nonneg [of "w_db w"] inv by (simp add: dash_free_def latest_def db_inv_def)
  have "repo_GetLatestVersion pg_Repository ns sc w = (next_env w, Inr (latest (w_db w) ns sc))"
    using w(2) by (simp add: pg_Repository_def pg_read_def SchemaRepository_GetLatestVersion_view calm_def)
  moreover obtain w' m where "Service_Get (service F ords ord cfg) ns sc (latest (w_db w) ns sc) (next_env w) = (w', Inr (m, d))"
    using stored_is_served [OF n(1) calm_next [OF w(2)] free] w(4) n(2) by metis
  ultimately have g: "GetLatest (service F ords ord cfg) ns sc w = (w', Inr (m, d))" by (simp add: GetLatest_def bind_io_def)
  have "w_db w' = w_db w" "calm w'" "cache_coherent w'"
    using get_latest_db [OF g] get_latest_calm [OF g w(2)] get_latest_coherent [OF w(1,3) g] by simp_all
  then show ?thesis using g w(3,4) by (auto simp: has_latest_def)
qed

definition lineage_answer :: "format_api \<Rightarrow> range_order \<Rightarrow> (LineageResponse \<Rightarrow> bytes) \<Rightarrow> string \<Rightarrow> string \<Rightarrow> string
    \<Rightarrow> (string \<Rightarrow> string) \<Rightarrow> bytes \<Rightarrow> nat \<times> bytes" where
  "lineage_answer F ord jl ns sc t query d =
     (case NormalizeLineageDirection (query ''direction'') of
        Inl err \<Rightarrow> (400, error_text (HTTPStatusErr 400 err))
      | Inr dir \<Rightarrow>
          (case computeLineage (proto F) ord d ns sc t (lineage_level (query ''level'')) dir of
             Inl err \<Rightarrow> (gateway_status err, error_text err)
           | Inr resp \<Rightarrow> (200, jl resp)))"

lemma normalize_default: "NormalizeLineageDirection (if q = [] then LineageDirectionBoth else q) = NormalizeLineageDirection q"
  by (simp add: NormalizeLineageDirection_def direction_defs)

lemma normalize_fix: "NormalizeLineageDirection q = Inr dir \<Longrightarrow>
    computeLineage P ord d ns sc t l (if q = [] then LineageDirectionBoth else q) = computeLineage P ord d ns sc t l dir"
  by (auto simp: NormalizeLineageDirection_def computeLineage_def direction_defs split: if_splits)

lemma lineage_level_pos: "0 < lineage_level q"
  by (simp add: lineage_level_def split: option.split)

lemma lineage_handler:
  assumes "has_latest ns sc d w" and "t \<noteq> []"
    and "rq_PathParams r = (\<lambda>n. case ([''namespace_id'' \<mapsto> ns, ''schema_id'' \<mapsto> sc, ''type_name'' \<mapsto> t] n) of None \<Rightarrow> [] | Some v \<Rightarrow> v)"
    and "A = with_producer p (pg_API F ords ord cfg J ji jl je)"
  shows "\<exists>w' resp. wrapErrHandler A (API_GetLineage A) r w = (w', resp) \<and> has_latest ns sc d w' \<and>
    (rs_Status resp, rs_Body resp) = lineage_answer F ord jl ns sc t (rq_Query r) d"
proof -
  have A: "api_schema A = (service F ords ord cfg)\<lparr>producer_Write := p\<rparr>" "api_json_Lineage A = jl"
    "api_HTTPError A = (\<lambda>e. \<lparr>rs_Status = gateway_status e, rs_Headers = [], rs_Body = error_text e\<rparr>)"
    by (simp_all add: assms(4) with_producer_def pg_API_def)
  have roots: "roots_order (service F ords ord cfg) = ord" by (simp add: service_def)
  have p: "rq_PathParams r ''namespace_id'' = ns" "rq_PathParams r ''schema_id'' = sc" "rq_PathParams r ''type_name'' = t"
    by (simp_all add: assms(3))
  show ?thesis
  proof (cases "NormalizeLineageDirection (rq_Query r ''direction'')")
    case (Inl err)
    then show ?thesis using assms(1,2) p
      by (simp add: wrapErrHandler_def API_GetLineage_def Let_def normalize_default lineage_answer_def A gateway_status_def)
  next
    case (Inr dir)
    obtain w' m where g: "GetLatest (service F ords ord cfg) ns sc w = (w', Inr (m, d))" "has_latest ns sc d w'"
      using latest_served [OF assms(1)] by blast
    have "GetLineage (api_schema A) ns sc t (lineage_level q) (if rq_Query r ''direction'' = [] then LineageDirectionBoth else rq_Query r ''direction'') w =
        (w', computeLineage (proto F) ord d ns sc t (lineage_level q) dir)" for q
      using lineage_level_pos [of q] normalize_fix [OF Inr]
      by (simp add: GetLineage_def bind_io_def map_err_io_def A g roots)
    then show ?thesis using assms(2) Inr g(2) p
      by (simp add: wrapErrHandler_def API_GetLineage_def Let_def normalize_default lineage_answer_def bind_io_def A split: sum.split)
  qed
qed

lemma lineage_by_path:
  assumes "Start L F ords ord J (standard_lib ji jl je) Write W G cfg = (out, Up srv)" and "mux_serves (fl_Mux X)"
    and "has_latest ns sc d w" and "clean_segment ns" and "clean_segment sc" and "clean_segment t"
    and "hq_ProtoMajor r \<noteq> 2" and "hq_Method r = ''GET''" and "hq_Path r = lineage_path ns sc t"
  shows "\<exists>w' resp. serve X srv r w = (w', resp) \<and> has_latest ns sc d w' \<and>
    (rs_Status resp, rs_Body resp) = lineage_answer F ord jl ns sc t (hq_Query r) d"
proof -
  let ?ss = "[Lit ''v1beta1'', Lit ''namespaces'', Var ''namespace_id'', Lit ''schemas'', Var ''schema_id'', Lit ''types'', Var ''type_name'', Lit ''lineage'']"
  let ?h = "wrapErrHandler (srv_api srv) (API_GetLineage (srv_api srv))"
  note segs = lineage_path_segs [OF assms(4,5,6)]
  have route: "(''GET'', ?ss, with_params ?h) \<in> set (gateway_routes srv)"
    unfolding gateway_routes_def started_parts(2) [OF assms(1)]
    by (simp add: RegisterSchemaHandlers_def template_segs_def template_seg_def)
  have fit: "fits ?ss (path_segs (hq_Path r))" unfolding assms(9) segs by (simp add: fits_def)
  have "serve X srv r w = with_params ?h \<lparr>rq_PathParams = (\<lambda>_. []), rq_Header = hq_Header r, rq_Query = hq_Query r, rq_Body = hq_Body r\<rparr>
      (bindings ?ss (path_segs (hq_Path r))) w"
    by (rule request_routed_lemma [OF assms(1,2,7) _ _ _ fit, where rest = "drop 8 (hq_Path r)"])
      (use segs route assms(8,9) in \<open>simp_all add: lineage_path_def schema_path_def\<close>)
  moreover have "srv_api srv = with_producer (Start_producer cfg Write) (pg_API F ords ord (conf_SchemaChange cfg) J ji jl je)"
    using started_parts(1) [OF assms(1)] by (simp add: Start_api_is)
  moreover have "t \<noteq> []" using assms(6) by (simp add: clean_segment_def)
  moreover have "bindings ?ss (path_segs (hq_Path r)) = [''namespace_id'' \<mapsto> ns, ''schema_id'' \<mapsto> sc, ''type_name'' \<mapsto> t]"
    unfolding assms(9) segs by (simp add: fun_upd_twist)
  ultimately show ?thesis
    using lineage_handler [OF assms(3), where r = "\<lparr>rq_PathParams = (\<lambda>n. case ([''namespace_id'' \<mapsto> ns, ''schema_id'' \<mapsto> sc, ''type_name'' \<mapsto> t] n) of
        None \<Rightarrow> [] | Some v \<Rightarrow> v), rq_Header = hq_Header r, rq_Query = hq_Query r, rq_Body = hq_Body r\<rparr>"]
    by (simp add: with_params_def)
qed

section \<open>The HTTP client and the server\<close>

text \<open>The parts of a URL of the program after the host: the path and the query.\<close>

definition split_target :: "string \<Rightarrow> string \<times> string" where
  "split_target url =
     (let target = drop (length baseURL) url
      in (takeWhile (\<lambda>c. c \<noteq> CHR ''?'') target, drop 1 (dropWhile (\<lambda>c. c \<noteq> CHR ''?'') target)))"

text \<open>A query of one parameter, without escapes.\<close>

definition query_value :: "string \<Rightarrow> string \<Rightarrow> string" where
  "query_value q name =
     (if takeWhile (\<lambda>c. c \<noteq> CHR ''='') q = name then drop 1 (dropWhile (\<lambda>c. c \<noteq> CHR ''='') q) else [])"

definition http_server :: "'s front_lib \<Rightarrow> 's server \<Rightarrow> string \<Rightarrow> string \<Rightarrow> (string \<times> string) list \<Rightarrow> bytes \<Rightarrow> ('s, http_reply) io" where
  "http_server X srv httpMethod url headers body s =
     (case split_target url of (path, query) \<Rightarrow>
        (case serve X srv \<lparr>hq_ProtoMajor = 1, hq_Method = httpMethod, hq_Path = path,
             hq_Header = (\<lambda>n. case map_of headers n of None \<Rightarrow> [] | Some v \<Rightarrow> v), hq_Query = query_value query, hq_Body = Inr body\<rparr> s of
           (s', resp) \<Rightarrow> (s', Inr \<lparr>hr_Status = rs_Status resp, hr_Body = Inr (rs_Body resp)\<rparr>)))"

definition case_url :: "e2eCase \<Rightarrow> string" where
  "case_url tc = schema_url schemaID @ ''/types/'' @ tc_typeName tc @ ''/lineage?'' @ tc_query tc"

lemma case_urls: "list_all (\<lambda>tc. split_target (case_url tc) = (lineage_path namespaceID schemaID (tc_typeName tc), tc_query tc) \<and>
    clean_segment (tc_typeName tc)) e2e_cases"
  by code_simp

lemma seed_names: "clean_segment namespaceID" "clean_segment schemaID"
  by code_simp+

lemma run_case_served:
  assumes "Start L F ords ord J (standard_lib ji jl je) Write W G cfg = (out, Up srv)" and "mux_serves (fl_Mux X)"
    and "has_latest namespaceID schemaID d (st_server st)" and "sd_http E = http_server X srv" and "tc \<in> set e2e_cases"
  shows "\<exists>w'. has_latest namespaceID schemaID d w' \<and> runCase E Unmarshal tc (case_url tc) st = (st\<lparr>st_server := w'\<rparr>, Inr
    (case lineage_answer F ord jl namespaceID schemaID (tc_typeName tc) (query_value (tc_query tc)) d of
       (status, body) \<Rightarrow> judge Unmarshal tc status body))"
proof -
  let ?r = "\<lparr>hq_ProtoMajor = 1, hq_Method = ''GET'', hq_Path = lineage_path namespaceID schemaID (tc_typeName tc),
    hq_Header = (\<lambda>_. []), hq_Query = query_value (tc_query tc), hq_Body = Inr []\<rparr>"
  have tc: "split_target (case_url tc) = (lineage_path namespaceID schemaID (tc_typeName tc), tc_query tc)" "clean_segment (tc_typeName tc)"
    using case_urls assms(5) by (auto simp: list_all_iff)
  obtain w' resp where "serve X srv ?r (st_server st) = (w', resp)" and h: "has_latest namespaceID schemaID d w'"
    and a: "(rs_Status resp, rs_Body resp) = lineage_answer F ord jl namespaceID schemaID (tc_typeName tc) (query_value (tc_query tc)) d"
    using lineage_by_path [OF assms(1-3) seed_names tc(2), of ?r] by auto
  then show ?thesis
    by (intro exI [of _ w']) (simp add: runCase_def doGet_def do_http_def bind_io_def assms(4) http_server_def tc(1) a [symmetric])
qed

section \<open>The verdicts\<close>

text \<open>With one root the order of the names does not matter.\<close>

lemma filter_single: "mset xs = mset ys \<Longrightarrow> length (filter P ys) \<le> 1 \<Longrightarrow> filter P xs = filter P ys"
proof -
  assume m: "mset xs = mset ys" and l: "length (filter P ys) \<le> 1"
  have "mset (filter P xs) = mset (filter P ys)" using m by simp
  then show ?thesis using l by (cases "filter P ys") (auto simp del: mset_filter)
qed

definition seed_proto :: proto_api where
  "seed_proto = \<lparr>unmarshal_fds = (\<lambda>d. Inr seed_fds), equal_message = (=), equal_enum = (=)\<rparr>"

lemma seed_roots: "list_all (\<lambda>tc. length (findRootFQNs (\<lambda>ks. ks) seed_fds (tc_typeName tc)) \<le> 1) e2e_cases"
  by code_simp

lemma seed_lineage_is:
  assumes "perm_order ord" and "unmarshal_fds P d = Inr seed_fds" and "tc \<in> set e2e_cases"
  shows "computeLineage P ord d ns sc (tc_typeName tc) l dir = computeLineage seed_proto (\<lambda>ks. ks) [] ns sc (tc_typeName tc) l dir"
proof -
  have "length (findRootFQNs (\<lambda>ks. ks) seed_fds (tc_typeName tc)) \<le> 1" using seed_roots assms(3) by (auto simp: list_all_iff)
  then have "findRootFQNs ord seed_fds (tc_typeName tc) = findRootFQNs (\<lambda>ks. ks) seed_fds (tc_typeName tc)"
    unfolding findRootFQNs_def by (intro filter_single) (simp_all add: perm_order_mset [OF assms(1)])
  then show ?thesis by (simp add: computeLineage_def GetDescriptorSet_def assms(2) seed_proto_def)
qed

definition response_names :: "LineageResponse \<Rightarrow> seed_lineage" where
  "response_names r = \<lparr>sl_Downstream = map ls_TypeName (lr_Downstream r), sl_Upstream = map ls_TypeName (lr_Upstream r)\<rparr>"

definition seed_verdict :: "e2eCase \<Rightarrow> go_error option" where
  "seed_verdict tc =
     (case NormalizeLineageDirection (query_value (tc_query tc) ''direction'') of
        Inl err \<Rightarrow> judge (\<lambda>b. Inr \<lparr>sl_Downstream = [], sl_Upstream = []\<rparr>) tc 400 (error_text (HTTPStatusErr 400 err))
      | Inr dir \<Rightarrow>
          (case computeLineage seed_proto (\<lambda>ks. ks) [] namespaceID schemaID (tc_typeName tc) (lineage_level (query_value (tc_query tc) ''level'')) dir of
             Inl err \<Rightarrow> None
           | Inr resp \<Rightarrow> judge (\<lambda>b. Inr (response_names resp)) tc 200 []))"

definition fifth_error :: string where
  "fifth_error = ''upstream size mismatch: got=4 want=5 gotSet=[gotocompany.events.Address gotocompany.events.DataTypes.Enum gotocompany.events.Status gotocompany.events.User]''"

lemma seed_verdicts:
  "map seed_verdict e2e_cases = map (map_option ErrString)
     [None, None, None, None, Some fifth_error, None,
      Some ''downstream size mismatch: got=0 want=2 gotSet=[]'',
      Some ''downstream size mismatch: got=3 want=2 gotSet=[gotocompany.events.DataMessage gotocompany.events.Order gotocompany.events.Payment]'']"
  by code_simp

lemma seed_lineage_ok:
  assumes "NormalizeLineageDirection q = Inr dir"
  shows "\<exists>resp. computeLineage seed_proto ord d ns sc t l dir = Inr resp"
proof -
  have "NormalizeLineageDirection dir = Inr dir"
    using assms by (auto simp: NormalizeLineageDirection_def direction_defs split: if_splits)
  then show ?thesis
    by (simp add: computeLineage_def GetDescriptorSet_def seed_proto_def bind_res_def split: prod.split)
qed

lemma seed_case:
  assumes "perm_order ord" and "unmarshal_fds (proto F) d = Inr seed_fds" and "\<And>r. Unmarshal (jl r) = Inr (response_names r)"
    and "tc \<in> set e2e_cases"
  shows "(case lineage_answer F ord jl namespaceID schemaID (tc_typeName tc) (query_value (tc_query tc)) d of
      (status, body) \<Rightarrow> judge Unmarshal tc status body) = seed_verdict tc"
proof -
  have "tc_wantStatus tc \<noteq> 200 \<or> NormalizeLineageDirection (query_value (tc_query tc) ''direction'') \<noteq> Inl e" for e
    using assms(4) unfolding e2e_cases_def by (auto simp: down_case_def up_case_def query_value_def NormalizeLineageDirection_def direction_defs)
  moreover have "tc_wantStatus tc = 200 \<or> (\<exists>e. NormalizeLineageDirection (query_value (tc_query tc) ''direction'') = Inl e)"
    using assms(4) unfolding e2e_cases_def by (auto simp: down_case_def up_case_def query_value_def NormalizeLineageDirection_def direction_defs)
  ultimately show ?thesis
    using seed_lineage_ok
    by (auto simp: lineage_answer_def seed_verdict_def seed_lineage_is [OF assms(1,2,4)] judge_def assms(3) split: sum.split)
      (metis sum.distinct(1))+
qed

section \<open>The run\<close>

lemma run_cases_pass:
  assumes "runCase E Unmarshal tc (base @ ''/types/'' @ tc_typeName tc @ ''/lineage?'' @ tc_query tc) st = (st', Inr None)"
  shows "run_cases E Unmarshal base (tc # tcs) st = run_cases E Unmarshal base tcs (st'\<lparr>st_out := st_out st' @ [check_mark @ '' '' @ tc_name tc]\<rparr>)"
  using assms by (simp add: bind_io_def println_def)

lemma run_cases_stop:
  assumes "\<And>tc st. tc \<in> set (pre @ [bad]) \<Longrightarrow> P (st_server st) \<Longrightarrow> \<exists>w'. P w' \<and> runCase E Unmarshal tc (url tc) st = (st\<lparr>st_server := w'\<rparr>, Inr (v tc))"
    and "\<And>tc. base @ ''/types/'' @ tc_typeName tc @ ''/lineage?'' @ tc_query tc = url tc"
    and "\<forall>tc\<in>set pre. v tc = None" and "v bad = Some e" and "P (st_server st)"
  shows "\<exists>w'. run_cases E Unmarshal base (pre @ bad # rest) st =
    (st\<lparr>st_server := w', st_out := st_out st @ map (\<lambda>tc. check_mark @ '' '' @ tc_name tc) pre\<rparr>,
     Inl (ErrString (cross_mark @ '' '' @ tc_name bad @ '': '' @ error_text e)))"
  using assms
proof (induction pre arbitrary: st)
  case Nil
  obtain w' where "runCase E Unmarshal bad (url bad) st = (st\<lparr>st_server := w'\<rparr>, Inr (v bad))"
    using Nil.prems(1) [OF _ Nil.prems(5), of bad] by auto
  then show ?case using Nil.prems(4) unfolding append_Nil run_cases.simps Nil.prems(2)
    by (intro exI [of _ w']) (simp add: bind_io_def Fatalf_def)
next
  case (Cons tc pre)
  obtain w1 where w1: "P w1" "runCase E Unmarshal tc (url tc) st = (st\<lparr>st_server := w1\<rparr>, Inr (v tc))"
    using Cons.prems(1) [of tc st] Cons.prems(5) by auto
  let ?st = "st\<lparr>st_server := w1, st_out := st_out st @ [check_mark @ '' '' @ tc_name tc]\<rparr>"
  obtain w' where "run_cases E Unmarshal base (pre @ bad # rest) ?st =
    (?st\<lparr>st_server := w', st_out := st_out ?st @ map (\<lambda>tc. check_mark @ '' '' @ tc_name tc) pre\<rparr>,
     Inl (ErrString (cross_mark @ '' '' @ tc_name bad @ '': '' @ error_text e)))"
    using Cons.IH [of ?st, OF Cons.prems(1)] Cons.prems(2-4) w1(1) by auto
  moreover have step: "runCase E Unmarshal tc (base @ ''/types/'' @ tc_typeName tc @ ''/lineage?'' @ tc_query tc) st = (st\<lparr>st_server := w1\<rparr>, Inr None)"
    unfolding Cons.prems(2) using w1(2) Cons.prems(3) by simp
  ultimately show ?case by (intro exI [of _ w']) (simp add: run_cases_pass [OF step] del: run_cases.simps)
qed

text \<open>
  C14. The end-to-end program of the repository fails against the server of the repository: with the
  descriptor of \<open>lineage_seed.proto\<close> stored as the latest version, four cases pass and the program exits
  at the fifth, the upstream of \<open>DataMessage\<close>, because a nested enum has no edge to the message around it
  (\<open>DataTypes\<close> is not reached); run alone, the cases on the downstream of \<open>DataTypes\<close> and of
  \<open>Status\<close> fail too.
\<close>

theorem e2e_stops_at_fifth:
  assumes "Start L F ords ord J (standard_lib ji jl je) Write W G cfg = (out, Up srv)" and "mux_serves (fl_Mux X)"
    and "has_latest namespaceID schemaID d (st_server st)" and "sd_http E = http_server X srv"
    and "perm_order ord" and "unmarshal_fds (proto F) d = Inr seed_fds" and "\<And>r. Unmarshal (jl r) = Inr (response_names r)"
  shows "(\<exists>w'. runE2ECases E Unmarshal st =
      (st\<lparr>st_server := w', st_out := st_out st @ [[], ruler, utf8 0x1F9EA @ '' Running lineage E2E cases'', ruler] @
         map (\<lambda>tc. check_mark @ '' '' @ tc_name tc) (take 4 e2e_cases)\<rparr>,
       Inl (ErrString (cross_mark @ '' upstream of DataMessage includes user chain + enum deps: '' @ fifth_error)))) \<and>
    map (\<lambda>tc. snd (runCase E Unmarshal tc (case_url tc) st) = Inr None) e2e_cases = [True, True, True, True, False, True, False, False]"
proof
  have one: "\<exists>w'. has_latest namespaceID schemaID d w' \<and> runCase E Unmarshal tc (case_url tc) st = (st\<lparr>st_server := w'\<rparr>, Inr (seed_verdict tc))"
    if "tc \<in> set e2e_cases" and "has_latest namespaceID schemaID d (st_server st)" for tc and st :: "world script"
    using run_case_served [OF assms(1,2) that(2) assms(4) that(1), of Unmarshal] unfolding seed_case [OF assms(5-7) that(1)] .
  have v: "map seed_verdict (take 4 e2e_cases) = [None, None, None, None]" "seed_verdict (e2e_cases ! 4) = Some (ErrString fifth_error)"
    using arg_cong [OF seed_verdicts, of "take 4"] arg_cong [OF seed_verdicts, of "\<lambda>xs. xs ! 4"] by (simp_all add: take_map e2e_cases_def)
  show "map (\<lambda>tc. snd (runCase E Unmarshal tc (case_url tc) st) = Inr None) e2e_cases = [True, True, True, True, False, True, False, False]"
  proof -
    have "map (\<lambda>tc. snd (runCase E Unmarshal tc (case_url tc) st) = Inr None) e2e_cases = map (\<lambda>tc. seed_verdict tc = None) e2e_cases"
      using one [OF _ assms(3)] by (intro map_cong) (auto, metis snd_conv sum.inject(2), metis snd_conv)
    also have "\<dots> = map (\<lambda>v. v = None) (map seed_verdict e2e_cases)" by simp
    also have "\<dots> = [True, True, True, True, False, True, False, False]" unfolding seed_verdicts by simp
    finally show ?thesis .
  qed
  let ?out = "[[], ruler, utf8 0x1F9EA @ '' Running lineage E2E cases'', ruler]"
  let ?st = "st\<lparr>st_out := st_out st @ ?out\<rparr>"
  have split: "e2e_cases = take 4 e2e_cases @ (e2e_cases ! 4) # drop 5 e2e_cases" by (simp add: e2e_cases_def)
  have in5: "tc \<in> set (take 4 e2e_cases @ [e2e_cases ! 4]) \<Longrightarrow> tc \<in> set e2e_cases" for tc
    by (subst split) auto
  have fifth: "tc_name (e2e_cases ! 4) = ''upstream of DataMessage includes user chain + enum deps''"
    by (simp add: e2e_cases_def up_case_def)
  have "\<exists>w'. run_cases E Unmarshal (schema_url schemaID) (take 4 e2e_cases @ (e2e_cases ! 4) # drop 5 e2e_cases) ?st =
    (?st\<lparr>st_server := w', st_out := st_out ?st @ map (\<lambda>tc. check_mark @ '' '' @ tc_name tc) (take 4 e2e_cases)\<rparr>,
     Inl (ErrString (cross_mark @ '' '' @ tc_name (e2e_cases ! 4) @ '': '' @ error_text (ErrString fifth_error))))"
    by (rule run_cases_stop [where P = "has_latest namespaceID schemaID d" and v = seed_verdict and url = case_url])
      (use one in5 v assms(3) in \<open>auto simp: case_url_def\<close>)
  then obtain w' where "run_cases E Unmarshal (schema_url schemaID) e2e_cases ?st =
    (?st\<lparr>st_server := w', st_out := st_out ?st @ map (\<lambda>tc. check_mark @ '' '' @ tc_name tc) (take 4 e2e_cases)\<rparr>,
     Inl (ErrString (cross_mark @ '' upstream of DataMessage includes user chain + enum deps: '' @ fifth_error)))"
    unfolding split [symmetric] fifth by auto
  then show "\<exists>w'. runE2ECases E Unmarshal st = (st\<lparr>st_server := w', st_out := st_out st @ ?out @
         map (\<lambda>tc. check_mark @ '' '' @ tc_name tc) (take 4 e2e_cases)\<rparr>,
       Inl (ErrString (cross_mark @ '' upstream of DataMessage includes user chain + enum deps: '' @ fifth_error)))"
    by (intro exI [of _ w']) (simp add: runE2ECases_def bind_io_def println_def)
qed

section \<open>The temporary file\<close>

text \<open>The file is removed when a descriptor is returned, and left behind when the compiler fails.\<close>

theorem build_removes_temp:
  assumes "buildDescriptorFromProto E st = (st', Inr b)"
  shows "st_temp st' = st_temp st"
  using assms by (auto simp: buildDescriptorFromProto_def bind_io_def make_temp_def remove_temp_def Fatalf_def split: sum.splits prod.splits option.splits)

theorem fatal_leaves_temp:
  assumes "sd_LookPath E ''protoc'' = Inr protocBin" and "sd_Abs E protoPath = Inr p" and "sd_CreateTemp E ''lineage_seed_*.desc'' = Inr path"
    and "\<And>args. snd (sd_Command E protocBin args) \<noteq> None"
  shows "\<exists>e. buildDescriptorFromProto E st = (st\<lparr>st_temp := path # st_temp st\<rparr>, Inl e)"
proof -
  have "\<exists>out err. sd_Command E protocBin args = (out, Some err)" for args using assms(4) [of args] by (cases "sd_Command E protocBin args") auto
  then show ?thesis
    using assms(1-3) by (auto simp: buildDescriptorFromProto_def bind_io_def make_temp_def Fatalf_def split: prod.split option.split) (metis option.distinct(1) prod.inject)
qed

section \<open>A run\<close>

text \<open>A run: a format library that decodes everything to the seed, and a JSON of names.\<close>

definition seed_format :: format_api where "seed_format = demo_format\<lparr>proto := seed_proto\<rparr>"

definition enc_names :: "char \<Rightarrow> string list \<Rightarrow> bytes" where
  "enc_names tag names = concat (map (\<lambda>n. concat (map (\<lambda>c. [CHR ''.'', c]) n) @ [tag]) names)"

definition enc_lineage :: "LineageResponse \<Rightarrow> bytes" where
  "enc_lineage r = enc_names CHR ''d'' (map ls_TypeName (lr_Downstream r)) @ enc_names CHR ''u'' (map ls_TypeName (lr_Upstream r))"

fun dec_names :: "string \<Rightarrow> bytes \<Rightarrow> seed_lineage" where
  "dec_names cur [] = \<lparr>sl_Downstream = [], sl_Upstream = []\<rparr>"
| "dec_names cur [t] = (if t = CHR ''d'' then \<lparr>sl_Downstream = [cur], sl_Upstream = []\<rparr> else \<lparr>sl_Downstream = [], sl_Upstream = [cur]\<rparr>)"
| "dec_names cur (t # c # rest) =
     (if t = CHR ''.'' then dec_names (cur @ [c]) rest
      else let l = dec_names [] (c # rest)
           in if t = CHR ''d'' then l\<lparr>sl_Downstream := cur # sl_Downstream l\<rparr> else l\<lparr>sl_Upstream := cur # sl_Upstream l\<rparr>)"

lemma dec_name: "dec_names cur (concat (map (\<lambda>c. [CHR ''.'', c]) n) @ rest) = dec_names (cur @ n) rest"
  by (induction n arbitrary: cur) simp_all

lemma dec_tag: "dec_names cur (CHR ''d'' # rest) = (dec_names [] rest)\<lparr>sl_Downstream := cur # sl_Downstream (dec_names [] rest)\<rparr>"
  "dec_names cur (CHR ''u'' # rest) = (dec_names [] rest)\<lparr>sl_Upstream := cur # sl_Upstream (dec_names [] rest)\<rparr>"
  by (cases rest; simp add: Let_def)+

lemma dec_down: "dec_names [] (enc_names CHR ''d'' ns @ rest) = (dec_names [] rest)\<lparr>sl_Downstream := ns @ sl_Downstream (dec_names [] rest)\<rparr>"
  by (induction ns) (simp_all add: enc_names_def dec_name dec_tag)

lemma dec_up: "dec_names [] (enc_names CHR ''u'' ns @ rest) = (dec_names [] rest)\<lparr>sl_Upstream := ns @ sl_Upstream (dec_names [] rest)\<rparr>"
  by (induction ns) (simp_all add: enc_names_def dec_name dec_tag)

lemma dec_enc: "dec_names [] (enc_lineage r) = response_names r"
  using dec_up [of "map ls_TypeName (lr_Upstream r)" "[]"] by (simp add: enc_lineage_def dec_down response_names_def)

definition seed_world :: world where
  "seed_world = demo_world\<lparr>w_db := empty_db\<lparr>namespaces := [demo_ns namespaceID]\<rparr>\<rparr>"

definition seed_upload :: CreateSchemaRequest where
  "seed_upload = unspecified_request\<lparr>csr_NamespaceId := namespaceID, csr_SchemaId := schemaID, csr_Format := 1\<rparr>"

definition seed_API :: "world API" where
  "seed_API = pg_API seed_format (\<lambda>_ ks. ks) (\<lambda>ks. ks) (conf_SchemaChange default_Config) (\<lambda>q. Inr (\<lambda>xs. xs)) (\<lambda>i. []) enc_lineage (\<lambda>e. [])"

definition seeded_world :: world where "seeded_world = fst (API_CreateSchema seed_API seed_upload seed_world)"

lemma seed_uploaded:
  "case API_CreateSchema seed_API seed_upload seed_world of (w', info, err, job) \<Rightarrow> versions (w_db w') \<noteq> [] \<and> err = None"
  by code_simp

lemma seeded_has_latest: "\<exists>d. has_latest namespaceID schemaID d seeded_world"
proof -
  obtain w' info err job where c: "API_CreateSchema seed_API seed_upload seed_world = (w', info, err, job)"
    by (metis prod_cases4)
  have w: "w' = seeded_world" "err = None" "versions (w_db w') \<noteq> []" using c seed_uploaded by (simp_all add: seeded_world_def)
  have "db_inv (w_db seed_world)"
    by (simp add: seed_world_def demo_store db_inv_def keys_ok_def links_ok_def)
  then have co: "cache_coherent seed_world" by (simp add: cache_coherent_def seed_world_def demo_world_def)
  have ca: "calm seed_world" by (simp add: seed_world_def calm_def demo_world_def quiet_no_fault)
  have r: "csr_NamespaceId seed_upload = namespaceID" "csr_SchemaId seed_upload = schemaID" "CHR ''-'' \<notin> set namespaceID"
    by (simp_all add: seed_upload_def namespaceID_def)
  have "versions (w_db seed_world) = []" by (simp add: seed_world_def empty_db_def)
  then have "w_db w' \<noteq> w_db seed_world" using w(3) by auto
  then show ?thesis
    using upload_stored [OF co ca, of seed_upload seed_format "\<lambda>_ ks. ks" "\<lambda>ks. ks" "conf_SchemaChange default_Config" "\<lambda>q. Inr (\<lambda>xs. xs)" "\<lambda>i. []"
        enc_lineage "\<lambda>e. []" w' info job] c w r
    by (auto simp: has_latest_def seed_API_def)
qed

definition seed_start :: "string list \<times> world server boot" where
  "seed_start = Start working_lib seed_format (\<lambda>_ ks. ks) (\<lambda>ks. ks) (\<lambda>q. Inr (\<lambda>xs. xs))
     (standard_lib (\<lambda>i. []) enc_lineage (\<lambda>e. [])) (\<lambda>kw. queue_Write) (demo_gw demo_body) plain_grpc default_Config"

lemma seed_start_up: "\<exists>out srv. seed_start = (out, Up srv)"
  by (simp add: seed_start_def Start_def NewStore_def getNewRelic_def working_lib_def Let_def)

definition seed_tools :: "world server \<Rightarrow> world seed_lib" where
  "seed_tools srv = \<lparr>sd_LookPath = (\<lambda>n. Inr n), sd_EvalSymlinks = Inr, sd_Abs = Inr, sd_Dir = (\<lambda>p. p), sd_Join = concat, sd_Glob = (\<lambda>p. []),
     sd_CreateTemp = (\<lambda>p. Inr ''t''), sd_Command = (\<lambda>c args. ([], None)), sd_ReadFile = (\<lambda>p. Inr []), sd_http = http_server demo_front srv\<rparr>"

theorem e2e_stops_at_fifth_witness:
  "\<exists>out srv w'. seed_start = (out, Up srv) \<and>
     runE2ECases (seed_tools srv) (\<lambda>b. Inr (dec_names [] b)) \<lparr>st_server = seeded_world, st_out = [], st_temp = []\<rparr> =
       (\<lparr>st_server = w', st_out = [[], ruler, utf8 0x1F9EA @ '' Running lineage E2E cases'', ruler] @
         map (\<lambda>tc. check_mark @ '' '' @ tc_name tc) (take 4 e2e_cases), st_temp = []\<rparr>,
        Inl (ErrString (cross_mark @ '' upstream of DataMessage includes user chain + enum deps: '' @ fifth_error)))"
proof -
  obtain out srv where up: "seed_start = (out, Up srv)" using seed_start_up by blast
  obtain d where "has_latest namespaceID schemaID d seeded_world" using seeded_has_latest by blast
  then have "\<exists>w'. runE2ECases (seed_tools srv) (\<lambda>b. Inr (dec_names [] b)) \<lparr>st_server = seeded_world, st_out = [], st_temp = []\<rparr> =
       (\<lparr>st_server = w', st_out = [[], ruler, utf8 0x1F9EA @ '' Running lineage E2E cases'', ruler] @
         map (\<lambda>tc. check_mark @ '' '' @ tc_name tc) (take 4 e2e_cases), st_temp = []\<rparr>,
        Inl (ErrString (cross_mark @ '' upstream of DataMessage includes user chain + enum deps: '' @ fifth_error)))"
    using e2e_stops_at_fifth [OF up [unfolded seed_start_def], where X = demo_front and d = d and E = "seed_tools srv" and
        Unmarshal = "\<lambda>b. Inr (dec_names [] b)" and st = "\<lparr>st_server = seeded_world, st_out = [], st_temp = []\<rparr>"] demo_mux_serves
    by (simp add: demo_front_def seed_tools_def seed_format_def seed_proto_def perm_order_id dec_enc)
  with up show ?thesis by blast
qed

end
