(* ===== verification/Validation.thy ===== *)
theory Validation
  imports Go_Map Go_Fmt Go_Errors "HOL-Library.List_Lexorder" "HOL-Library.Char_ord"
begin

text \<open>
  The generated validation of the messages, \<open>stencil.pb.validate.go\<close>: for each message the function
  \<open>validate\<close>, behind its methods \<open>Validate\<close> (\<open>all\<close> false) and \<open>ValidateAll\<close> (\<open>all\<close> true), and
  the errors they return. No field has a rule, so a validator only asks the messages embedded in its own.
  The methods of a timestamp are those of the protobuf library and an argument, \<open>ts\<close>.
\<close>

section \<open>Errors\<close>

datatype verror =
    ValidationError (ve_name: string) (ve_Field: string) (ve_Reason: string) (ve_Cause: "verror option") (ve_Key: bool)
  | MultiError (me_name: string) (me_AllErrors: "verror list")
  | OtherError go_error

definition ErrorName :: "verror \<Rightarrow> string" where "ErrorName e = ve_name e @ ''ValidationError''"

fun verror_Error :: "verror \<Rightarrow> string" where
  "verror_Error (ValidationError name field reason cause key) =
     ''invalid '' @ (if key then ''key for '' else []) @ name @ ''.'' @ field @ '': '' @ reason @
     (case cause of None \<Rightarrow> [] | Some err \<Rightarrow> '' | caused by: '' @ verror_Error err)"
| "verror_Error (MultiError name errs) = join (map verror_Error errs) ''; ''"
| "verror_Error (OtherError err) = error_text err"

section \<open>Checks\<close>

text \<open>
  A field without a rule is only named.
  What the type switches ask of a value: whether it has the methods, and what they return. A message of
  the package has both, also behind a nil pointer.
\<close>

record methods =
  mt_Validate :: "verror option option"
  mt_ValidateAll :: "verror option option"

definition own :: "(bool \<Rightarrow> 'm option \<Rightarrow> verror option) \<Rightarrow> 'm option \<Rightarrow> methods" where
  "own validate m = \<lparr>mt_Validate = Some (validate False m), mt_ValidateAll = Some (validate True m)\<rparr>"

datatype check = NoRule string | Embedded string methods | TypedNil string

definition embedded_error :: "bool \<Rightarrow> methods \<Rightarrow> verror option" where
  "embedded_error all v =
     (let plain = (case mt_Validate v of None \<Rightarrow> None | Some err \<Rightarrow> err)
      in if all then (case mt_ValidateAll v of Some err \<Rightarrow> err | None \<Rightarrow> plain) else plain)"

definition check_error :: "string \<Rightarrow> bool \<Rightarrow> check \<Rightarrow> verror option" where
  "check_error name all c =
     (case c of
        NoRule field \<Rightarrow> None
      | Embedded field v \<Rightarrow>
          (case embedded_error all v of
             None \<Rightarrow> None
           | Some err \<Rightarrow> Some (ValidationError name field ''embedded message failed validation'' (Some err) False))
      | TypedNil field \<Rightarrow> Some (ValidationError name field ''oneof value cannot be a typed-nil'' None False))"

fun validate_fields :: "string \<Rightarrow> bool \<Rightarrow> check list \<Rightarrow> verror list \<Rightarrow> verror option" where
  "validate_fields name all [] errors = (if errors \<noteq> [] then Some (MultiError name errors) else None)"
| "validate_fields name all (c # cs) errors =
     (case check_error name all c of
        None \<Rightarrow> validate_fields name all cs errors
      | Some err \<Rightarrow> if all then validate_fields name all cs (errors @ [err]) else Some err)"

definition validate_message :: "string \<Rightarrow> ('m \<Rightarrow> check list) \<Rightarrow> bool \<Rightarrow> 'm option \<Rightarrow> verror option" where
  "validate_message name checks all m = (case m of None \<Rightarrow> None | Some v \<Rightarrow> validate_fields name all (checks v) [])"

text \<open>The loops over a list and over the sorted keys of a map.\<close>

definition repeated :: "string \<Rightarrow> ('m option \<Rightarrow> methods) \<Rightarrow> 'm option list \<Rightarrow> check list" where
  "repeated field f items = map (\<lambda>(idx, item). Embedded (field @ ''['' @ show_int (int idx) @ '']'') (f item)) (enumerate 0 items)"

definition keyed :: "string \<Rightarrow> ('m option \<Rightarrow> methods) \<Rightarrow> 'm option gomap \<Rightarrow> check list" where
  "keyed field f m = map (\<lambda>key. Embedded (field @ ''['' @ key @ '']'') (f (case gm_get m key of None \<Rightarrow> None | Some v \<Rightarrow> v))) (sort (gm_keys m))"

section \<open>The messages\<close>

text \<open>The structs of \<open>stencil.pb.go\<close>; a pointer is an option. A wrapper of a oneof can be a typed nil.\<close>

type_synonym timestamp = "int \<times> int"

datatype v_version = VersionUnset | HistoryPtr "bool option" | VersionIdPtr "int32 option"

record v_Namespace =
  Namespace_Id :: "string"
  Namespace_Format :: "int32"
  Namespace_Compatibility :: "int32"
  Namespace_Description :: "string"
  Namespace_CreatedAt :: "timestamp option"
  Namespace_UpdatedAt :: "timestamp option"

record v_Schema =
  Schema_Name :: "string"
  Schema_Format :: "int32"
  Schema_Authority :: "string"
  Schema_Compatibility :: "int32"
  Schema_CreatedAt :: "timestamp option"
  Schema_UpdatedAt :: "timestamp option"
  Schema_SourceUrl :: "string"

type_synonym v_ListNamespacesRequest = unit

record v_ListNamespacesResponse =
  ListNamespacesResponse_Namespaces :: "v_Namespace option list"

record v_GetNamespaceRequest =
  GetNamespaceRequest_Id :: "string"

record v_GetNamespaceResponse =
  GetNamespaceResponse_Namespace :: "v_Namespace option"

record v_CreateNamespaceRequest =
  CreateNamespaceRequest_Id :: "string"
  CreateNamespaceRequest_Format :: "int32"
  CreateNamespaceRequest_Compatibility :: "int32"
  CreateNamespaceRequest_Description :: "string"

record v_CreateNamespaceResponse =
  CreateNamespaceResponse_Namespace :: "v_Namespace option"

record v_UpdateNamespaceRequest =
  UpdateNamespaceRequest_Id :: "string"
  UpdateNamespaceRequest_Format :: "int32"
  UpdateNamespaceRequest_Compatibility :: "int32"
  UpdateNamespaceRequest_Description :: "string"

record v_UpdateNamespaceResponse =
  UpdateNamespaceResponse_Namespace :: "v_Namespace option"

record v_DeleteNamespaceRequest =
  DeleteNamespaceRequest_Id :: "string"

record v_DeleteNamespaceResponse =
  DeleteNamespaceResponse_Message :: "string"

record v_ListSchemasRequest =
  ListSchemasRequest_Id :: "string"

record v_ListSchemasResponse =
  ListSchemasResponse_Schemas :: "v_Schema option list"

record v_GetLatestSchemaRequest =
  GetLatestSchemaRequest_NamespaceId :: "string"
  GetLatestSchemaRequest_SchemaId :: "string"

record v_GetLatestSchemaResponse =
  GetLatestSchemaResponse_Data :: "bytes"

record v_CreateSchemaRequest =
  CreateSchemaRequest_NamespaceId :: "string"
  CreateSchemaRequest_SchemaId :: "string"
  CreateSchemaRequest_Data :: "bytes"
  CreateSchemaRequest_Format :: "int32"
  CreateSchemaRequest_Compatibility :: "int32"
  CreateSchemaRequest_SourceUrl :: "string"
  CreateSchemaRequest_CommitSha :: "string"

record v_CreateSchemaResponse =
  CreateSchemaResponse_Version :: "int32"
  CreateSchemaResponse_Id :: "string"
  CreateSchemaResponse_Location :: "string"

record v_CheckCompatibilityRequest =
  CheckCompatibilityRequest_NamespaceId :: "string"
  CheckCompatibilityRequest_SchemaId :: "string"
  CheckCompatibilityRequest_Data :: "bytes"
  CheckCompatibilityRequest_Compatibility :: "int32"

type_synonym v_CheckCompatibilityResponse = unit

record v_GetSchemaMetadataRequest =
  GetSchemaMetadataRequest_NamespaceId :: "string"
  GetSchemaMetadataRequest_SchemaId :: "string"

record v_GetSchemaMetadataResponse =
  GetSchemaMetadataResponse_Format :: "int32"
  GetSchemaMetadataResponse_Compatibility :: "int32"
  GetSchemaMetadataResponse_Authority :: "string"
  GetSchemaMetadataResponse_Name :: "string"
  GetSchemaMetadataResponse_CreatedAt :: "timestamp option"
  GetSchemaMetadataResponse_UpdatedAt :: "timestamp option"
  GetSchemaMetadataResponse_SourceUrl :: "string"

record v_UpdateSchemaMetadataRequest =
  UpdateSchemaMetadataRequest_NamespaceId :: "string"
  UpdateSchemaMetadataRequest_SchemaId :: "string"
  UpdateSchemaMetadataRequest_Compatibility :: "int32"

record v_UpdateSchemaMetadataResponse =
  UpdateSchemaMetadataResponse_Format :: "int32"
  UpdateSchemaMetadataResponse_Compatibility :: "int32"
  UpdateSchemaMetadataResponse_Authority :: "string"

record v_DeleteSchemaRequest =
  DeleteSchemaRequest_NamespaceId :: "string"
  DeleteSchemaRequest_SchemaId :: "string"

record v_DeleteSchemaResponse =
  DeleteSchemaResponse_Message :: "string"

record v_ListVersionsRequest =
  ListVersionsRequest_NamespaceId :: "string"
  ListVersionsRequest_SchemaId :: "string"

record v_ListVersionsResponse =
  ListVersionsResponse_Versions :: "int32 list"

record v_GetSchemaRequest =
  GetSchemaRequest_NamespaceId :: "string"
  GetSchemaRequest_SchemaId :: "string"
  GetSchemaRequest_VersionId :: "int32"

record v_GetSchemaResponse =
  GetSchemaResponse_Data :: "bytes"

record v_DeleteVersionRequest =
  DeleteVersionRequest_NamespaceId :: "string"
  DeleteVersionRequest_SchemaId :: "string"
  DeleteVersionRequest_VersionId :: "int32"

record v_DeleteVersionResponse =
  DeleteVersionResponse_Message :: "string"

record v_SearchRequest =
  SearchRequest_NamespaceId :: "string"
  SearchRequest_SchemaId :: "string"
  SearchRequest_Query :: "string"
  SearchRequest_Version :: "v_version"

record v_SearchHits =
  SearchHits_NamespaceId :: "string"
  SearchHits_SchemaId :: "string"
  SearchHits_VersionId :: "int32"
  SearchHits_Fields :: "string list"
  SearchHits_Types :: "string list"
  SearchHits_Path :: "string"

record v_SearchMeta =
  SearchMeta_Total :: "nat"

record v_SearchResponse =
  SearchResponse_Hits :: "v_SearchHits option list"
  SearchResponse_Meta :: "v_SearchMeta option"

record v_ImpactedFields =
  ImpactedFields_FieldNames :: "string list"

record v_ImpactedSchemas =
  ImpactedSchemas_SchemaNames :: "string list"

record v_Metadata =
  Metadata_SourceUrl :: "string"
  Metadata_CommitSha :: "string"

record v_SchemaChangedEvent =
  SchemaChangedEvent_EventId :: "string"
  SchemaChangedEvent_EventTimestamp :: "timestamp option"
  SchemaChangedEvent_NamespaceName :: "string"
  SchemaChangedEvent_SchemaName :: "string"
  SchemaChangedEvent_UpdatedSchemas :: "string list"
  SchemaChangedEvent_UpdatedFields :: "v_ImpactedFields option gomap"
  SchemaChangedEvent_ImpactedSchemas :: "v_ImpactedSchemas option gomap"
  SchemaChangedEvent_Version :: "int32"
  SchemaChangedEvent_Metadata :: "v_Metadata option"

section \<open>The validators\<close>

definition Namespace_validate :: "(timestamp option \<Rightarrow> methods) \<Rightarrow> bool \<Rightarrow> v_Namespace option \<Rightarrow> verror option" where
  "Namespace_validate ts = validate_message ''Namespace''
     (\<lambda>m. [NoRule ''Id'', NoRule ''Format'', NoRule ''Compatibility'', NoRule ''Description'', Embedded ''CreatedAt'' (ts (Namespace_CreatedAt m)), Embedded ''UpdatedAt'' (ts (Namespace_UpdatedAt m))])"

definition Schema_validate :: "(timestamp option \<Rightarrow> methods) \<Rightarrow> bool \<Rightarrow> v_Schema option \<Rightarrow> verror option" where
  "Schema_validate ts = validate_message ''Schema''
     (\<lambda>m. [NoRule ''Name'', NoRule ''Format'', NoRule ''Authority'', NoRule ''Compatibility'', Embedded ''CreatedAt'' (ts (Schema_CreatedAt m)), Embedded ''UpdatedAt'' (ts (Schema_UpdatedAt m)), NoRule ''SourceUrl''])"

definition ListNamespacesRequest_validate :: "bool \<Rightarrow> v_ListNamespacesRequest option \<Rightarrow> verror option" where
  "ListNamespacesRequest_validate = validate_message ''ListNamespacesRequest''
     (\<lambda>m. [])"

definition ListNamespacesResponse_validate :: "(timestamp option \<Rightarrow> methods) \<Rightarrow> bool \<Rightarrow> v_ListNamespacesResponse option \<Rightarrow> verror option" where
  "ListNamespacesResponse_validate ts = validate_message ''ListNamespacesResponse''
     (\<lambda>m. repeated ''Namespaces'' (own (Namespace_validate ts)) (ListNamespacesResponse_Namespaces m))"

definition GetNamespaceRequest_validate :: "bool \<Rightarrow> v_GetNamespaceRequest option \<Rightarrow> verror option" where
  "GetNamespaceRequest_validate = validate_message ''GetNamespaceRequest''
     (\<lambda>m. [NoRule ''Id''])"

definition GetNamespaceResponse_validate :: "(timestamp option \<Rightarrow> methods) \<Rightarrow> bool \<Rightarrow> v_GetNamespaceResponse option \<Rightarrow> verror option" where
  "GetNamespaceResponse_validate ts = validate_message ''GetNamespaceResponse''
     (\<lambda>m. [Embedded ''Namespace'' (own (Namespace_validate ts) (GetNamespaceResponse_Namespace m))])"

definition CreateNamespaceRequest_validate :: "bool \<Rightarrow> v_CreateNamespaceRequest option \<Rightarrow> verror option" where
  "CreateNamespaceRequest_validate = validate_message ''CreateNamespaceRequest''
     (\<lambda>m. [NoRule ''Id'', NoRule ''Format'', NoRule ''Compatibility'', NoRule ''Description''])"

definition CreateNamespaceResponse_validate :: "(timestamp option \<Rightarrow> methods) \<Rightarrow> bool \<Rightarrow> v_CreateNamespaceResponse option \<Rightarrow> verror option" where
  "CreateNamespaceResponse_validate ts = validate_message ''CreateNamespaceResponse''
     (\<lambda>m. [Embedded ''Namespace'' (own (Namespace_validate ts) (CreateNamespaceResponse_Namespace m))])"

definition UpdateNamespaceRequest_validate :: "bool \<Rightarrow> v_UpdateNamespaceRequest option \<Rightarrow> verror option" where
  "UpdateNamespaceRequest_validate = validate_message ''UpdateNamespaceRequest''
     (\<lambda>m. [NoRule ''Id'', NoRule ''Format'', NoRule ''Compatibility'', NoRule ''Description''])"

definition UpdateNamespaceResponse_validate :: "(timestamp option \<Rightarrow> methods) \<Rightarrow> bool \<Rightarrow> v_UpdateNamespaceResponse option \<Rightarrow> verror option" where
  "UpdateNamespaceResponse_validate ts = validate_message ''UpdateNamespaceResponse''
     (\<lambda>m. [Embedded ''Namespace'' (own (Namespace_validate ts) (UpdateNamespaceResponse_Namespace m))])"

definition DeleteNamespaceRequest_validate :: "bool \<Rightarrow> v_DeleteNamespaceRequest option \<Rightarrow> verror option" where
  "DeleteNamespaceRequest_validate = validate_message ''DeleteNamespaceRequest''
     (\<lambda>m. [NoRule ''Id''])"

definition DeleteNamespaceResponse_validate :: "bool \<Rightarrow> v_DeleteNamespaceResponse option \<Rightarrow> verror option" where
  "DeleteNamespaceResponse_validate = validate_message ''DeleteNamespaceResponse''
     (\<lambda>m. [NoRule ''Message''])"

definition ListSchemasRequest_validate :: "bool \<Rightarrow> v_ListSchemasRequest option \<Rightarrow> verror option" where
  "ListSchemasRequest_validate = validate_message ''ListSchemasRequest''
     (\<lambda>m. [NoRule ''Id''])"

definition ListSchemasResponse_validate :: "(timestamp option \<Rightarrow> methods) \<Rightarrow> bool \<Rightarrow> v_ListSchemasResponse option \<Rightarrow> verror option" where
  "ListSchemasResponse_validate ts = validate_message ''ListSchemasResponse''
     (\<lambda>m. repeated ''Schemas'' (own (Schema_validate ts)) (ListSchemasResponse_Schemas m))"

definition GetLatestSchemaRequest_validate :: "bool \<Rightarrow> v_GetLatestSchemaRequest option \<Rightarrow> verror option" where
  "GetLatestSchemaRequest_validate = validate_message ''GetLatestSchemaRequest''
     (\<lambda>m. [NoRule ''NamespaceId'', NoRule ''SchemaId''])"

definition GetLatestSchemaResponse_validate :: "bool \<Rightarrow> v_GetLatestSchemaResponse option \<Rightarrow> verror option" where
  "GetLatestSchemaResponse_validate = validate_message ''GetLatestSchemaResponse''
     (\<lambda>m. [NoRule ''Data''])"

definition CreateSchemaRequest_validate :: "bool \<Rightarrow> v_CreateSchemaRequest option \<Rightarrow> verror option" where
  "CreateSchemaRequest_validate = validate_message ''CreateSchemaRequest''
     (\<lambda>m. [NoRule ''NamespaceId'', NoRule ''SchemaId'', NoRule ''Data'', NoRule ''Format'', NoRule ''Compatibility'', NoRule ''SourceUrl'', NoRule ''CommitSha''])"

definition CreateSchemaResponse_validate :: "bool \<Rightarrow> v_CreateSchemaResponse option \<Rightarrow> verror option" where
  "CreateSchemaResponse_validate = validate_message ''CreateSchemaResponse''
     (\<lambda>m. [NoRule ''Version'', NoRule ''Id'', NoRule ''Location''])"

definition CheckCompatibilityRequest_validate :: "bool \<Rightarrow> v_CheckCompatibilityRequest option \<Rightarrow> verror option" where
  "CheckCompatibilityRequest_validate = validate_message ''CheckCompatibilityRequest''
     (\<lambda>m. [NoRule ''NamespaceId'', NoRule ''SchemaId'', NoRule ''Data'', NoRule ''Compatibility''])"

definition CheckCompatibilityResponse_validate :: "bool \<Rightarrow> v_CheckCompatibilityResponse option \<Rightarrow> verror option" where
  "CheckCompatibilityResponse_validate = validate_message ''CheckCompatibilityResponse''
     (\<lambda>m. [])"

definition GetSchemaMetadataRequest_validate :: "bool \<Rightarrow> v_GetSchemaMetadataRequest option \<Rightarrow> verror option" where
  "GetSchemaMetadataRequest_validate = validate_message ''GetSchemaMetadataRequest''
     (\<lambda>m. [NoRule ''NamespaceId'', NoRule ''SchemaId''])"

definition GetSchemaMetadataResponse_validate :: "(timestamp option \<Rightarrow> methods) \<Rightarrow> bool \<Rightarrow> v_GetSchemaMetadataResponse option \<Rightarrow> verror option" where
  "GetSchemaMetadataResponse_validate ts = validate_message ''GetSchemaMetadataResponse''
     (\<lambda>m. [NoRule ''Format'', NoRule ''Compatibility'', NoRule ''Authority'', NoRule ''Name'', Embedded ''CreatedAt'' (ts (GetSchemaMetadataResponse_CreatedAt m)), Embedded ''UpdatedAt'' (ts (GetSchemaMetadataResponse_UpdatedAt m)), NoRule ''SourceUrl''])"

definition UpdateSchemaMetadataRequest_validate :: "bool \<Rightarrow> v_UpdateSchemaMetadataRequest option \<Rightarrow> verror option" where
  "UpdateSchemaMetadataRequest_validate = validate_message ''UpdateSchemaMetadataRequest''
     (\<lambda>m. [NoRule ''NamespaceId'', NoRule ''SchemaId'', NoRule ''Compatibility''])"

definition UpdateSchemaMetadataResponse_validate :: "bool \<Rightarrow> v_UpdateSchemaMetadataResponse option \<Rightarrow> verror option" where
  "UpdateSchemaMetadataResponse_validate = validate_message ''UpdateSchemaMetadataResponse''
     (\<lambda>m. [NoRule ''Format'', NoRule ''Compatibility'', NoRule ''Authority''])"

definition DeleteSchemaRequest_validate :: "bool \<Rightarrow> v_DeleteSchemaRequest option \<Rightarrow> verror option" where
  "DeleteSchemaRequest_validate = validate_message ''DeleteSchemaRequest''
     (\<lambda>m. [NoRule ''NamespaceId'', NoRule ''SchemaId''])"

definition DeleteSchemaResponse_validate :: "bool \<Rightarrow> v_DeleteSchemaResponse option \<Rightarrow> verror option" where
  "DeleteSchemaResponse_validate = validate_message ''DeleteSchemaResponse''
     (\<lambda>m. [NoRule ''Message''])"

definition ListVersionsRequest_validate :: "bool \<Rightarrow> v_ListVersionsRequest option \<Rightarrow> verror option" where
  "ListVersionsRequest_validate = validate_message ''ListVersionsRequest''
     (\<lambda>m. [NoRule ''NamespaceId'', NoRule ''SchemaId''])"

definition ListVersionsResponse_validate :: "bool \<Rightarrow> v_ListVersionsResponse option \<Rightarrow> verror option" where
  "ListVersionsResponse_validate = validate_message ''ListVersionsResponse''
     (\<lambda>m. [])"

definition GetSchemaRequest_validate :: "bool \<Rightarrow> v_GetSchemaRequest option \<Rightarrow> verror option" where
  "GetSchemaRequest_validate = validate_message ''GetSchemaRequest''
     (\<lambda>m. [NoRule ''NamespaceId'', NoRule ''SchemaId'', NoRule ''VersionId''])"

definition GetSchemaResponse_validate :: "bool \<Rightarrow> v_GetSchemaResponse option \<Rightarrow> verror option" where
  "GetSchemaResponse_validate = validate_message ''GetSchemaResponse''
     (\<lambda>m. [NoRule ''Data''])"

definition DeleteVersionRequest_validate :: "bool \<Rightarrow> v_DeleteVersionRequest option \<Rightarrow> verror option" where
  "DeleteVersionRequest_validate = validate_message ''DeleteVersionRequest''
     (\<lambda>m. [NoRule ''NamespaceId'', NoRule ''SchemaId'', NoRule ''VersionId''])"

definition DeleteVersionResponse_validate :: "bool \<Rightarrow> v_DeleteVersionResponse option \<Rightarrow> verror option" where
  "DeleteVersionResponse_validate = validate_message ''DeleteVersionResponse''
     (\<lambda>m. [NoRule ''Message''])"

definition SearchRequest_validate :: "bool \<Rightarrow> v_SearchRequest option \<Rightarrow> verror option" where
  "SearchRequest_validate = validate_message ''SearchRequest''
     (\<lambda>m. [NoRule ''NamespaceId'', NoRule ''SchemaId'', NoRule ''Query''] @
       (case SearchRequest_Version m of
          HistoryPtr v \<Rightarrow> (if v = None then [TypedNil ''Version''] else []) @ [NoRule ''History'']
        | VersionIdPtr v \<Rightarrow> (if v = None then [TypedNil ''Version''] else []) @ [NoRule ''VersionId'']
        | VersionUnset \<Rightarrow> []))"

definition SearchHits_validate :: "bool \<Rightarrow> v_SearchHits option \<Rightarrow> verror option" where
  "SearchHits_validate = validate_message ''SearchHits''
     (\<lambda>m. [NoRule ''NamespaceId'', NoRule ''SchemaId'', NoRule ''VersionId'', NoRule ''Path''])"

definition SearchMeta_validate :: "bool \<Rightarrow> v_SearchMeta option \<Rightarrow> verror option" where
  "SearchMeta_validate = validate_message ''SearchMeta''
     (\<lambda>m. [NoRule ''Total''])"

definition SearchResponse_validate :: "bool \<Rightarrow> v_SearchResponse option \<Rightarrow> verror option" where
  "SearchResponse_validate = validate_message ''SearchResponse''
     (\<lambda>m. repeated ''Hits'' (own SearchHits_validate) (SearchResponse_Hits m) @
       [Embedded ''Meta'' (own SearchMeta_validate (SearchResponse_Meta m))])"

definition ImpactedFields_validate :: "bool \<Rightarrow> v_ImpactedFields option \<Rightarrow> verror option" where
  "ImpactedFields_validate = validate_message ''ImpactedFields''
     (\<lambda>m. [])"

definition ImpactedSchemas_validate :: "bool \<Rightarrow> v_ImpactedSchemas option \<Rightarrow> verror option" where
  "ImpactedSchemas_validate = validate_message ''ImpactedSchemas''
     (\<lambda>m. [])"

definition Metadata_validate :: "bool \<Rightarrow> v_Metadata option \<Rightarrow> verror option" where
  "Metadata_validate = validate_message ''Metadata''
     (\<lambda>m. [NoRule ''SourceUrl'', NoRule ''CommitSha''])"

definition SchemaChangedEvent_validate :: "(timestamp option \<Rightarrow> methods) \<Rightarrow> bool \<Rightarrow> v_SchemaChangedEvent option \<Rightarrow> verror option" where
  "SchemaChangedEvent_validate ts = validate_message ''SchemaChangedEvent''
     (\<lambda>m. [NoRule ''EventId'', Embedded ''EventTimestamp'' (ts (SchemaChangedEvent_EventTimestamp m)), NoRule ''NamespaceName'', NoRule ''SchemaName''] @
       keyed ''UpdatedFields'' (own ImpactedFields_validate) (SchemaChangedEvent_UpdatedFields m) @
       keyed ''ImpactedSchemas'' (own ImpactedSchemas_validate) (SchemaChangedEvent_ImpactedSchemas m) @
       [NoRule ''Version'', Embedded ''Metadata'' (own Metadata_validate (SchemaChangedEvent_Metadata m))])"

lemmas validate_defs = Namespace_validate_def Schema_validate_def ListNamespacesRequest_validate_def ListNamespacesResponse_validate_def
  GetNamespaceRequest_validate_def GetNamespaceResponse_validate_def CreateNamespaceRequest_validate_def CreateNamespaceResponse_validate_def
  UpdateNamespaceRequest_validate_def UpdateNamespaceResponse_validate_def DeleteNamespaceRequest_validate_def DeleteNamespaceResponse_validate_def
  ListSchemasRequest_validate_def ListSchemasResponse_validate_def GetLatestSchemaRequest_validate_def GetLatestSchemaResponse_validate_def
  CreateSchemaRequest_validate_def CreateSchemaResponse_validate_def CheckCompatibilityRequest_validate_def CheckCompatibilityResponse_validate_def
  GetSchemaMetadataRequest_validate_def GetSchemaMetadataResponse_validate_def UpdateSchemaMetadataRequest_validate_def UpdateSchemaMetadataResponse_validate_def
  DeleteSchemaRequest_validate_def DeleteSchemaResponse_validate_def ListVersionsRequest_validate_def ListVersionsResponse_validate_def
  GetSchemaRequest_validate_def GetSchemaResponse_validate_def DeleteVersionRequest_validate_def DeleteVersionResponse_validate_def
  SearchRequest_validate_def SearchHits_validate_def SearchMeta_validate_def SearchResponse_validate_def
  ImpactedFields_validate_def ImpactedSchemas_validate_def Metadata_validate_def SchemaChangedEvent_validate_def

section \<open>Any message\<close>

datatype service_message =
    M_Namespace "v_Namespace option"
  | M_Schema "v_Schema option"
  | M_ListNamespacesRequest "v_ListNamespacesRequest option"
  | M_ListNamespacesResponse "v_ListNamespacesResponse option"
  | M_GetNamespaceRequest "v_GetNamespaceRequest option"
  | M_GetNamespaceResponse "v_GetNamespaceResponse option"
  | M_CreateNamespaceRequest "v_CreateNamespaceRequest option"
  | M_CreateNamespaceResponse "v_CreateNamespaceResponse option"
  | M_UpdateNamespaceRequest "v_UpdateNamespaceRequest option"
  | M_UpdateNamespaceResponse "v_UpdateNamespaceResponse option"
  | M_DeleteNamespaceRequest "v_DeleteNamespaceRequest option"
  | M_DeleteNamespaceResponse "v_DeleteNamespaceResponse option"
  | M_ListSchemasRequest "v_ListSchemasRequest option"
  | M_ListSchemasResponse "v_ListSchemasResponse option"
  | M_GetLatestSchemaRequest "v_GetLatestSchemaRequest option"
  | M_GetLatestSchemaResponse "v_GetLatestSchemaResponse option"
  | M_CreateSchemaRequest "v_CreateSchemaRequest option"
  | M_CreateSchemaResponse "v_CreateSchemaResponse option"
  | M_CheckCompatibilityRequest "v_CheckCompatibilityRequest option"
  | M_CheckCompatibilityResponse "v_CheckCompatibilityResponse option"
  | M_GetSchemaMetadataRequest "v_GetSchemaMetadataRequest option"
  | M_GetSchemaMetadataResponse "v_GetSchemaMetadataResponse option"
  | M_UpdateSchemaMetadataRequest "v_UpdateSchemaMetadataRequest option"
  | M_UpdateSchemaMetadataResponse "v_UpdateSchemaMetadataResponse option"
  | M_DeleteSchemaRequest "v_DeleteSchemaRequest option"
  | M_DeleteSchemaResponse "v_DeleteSchemaResponse option"
  | M_ListVersionsRequest "v_ListVersionsRequest option"
  | M_ListVersionsResponse "v_ListVersionsResponse option"
  | M_GetSchemaRequest "v_GetSchemaRequest option"
  | M_GetSchemaResponse "v_GetSchemaResponse option"
  | M_DeleteVersionRequest "v_DeleteVersionRequest option"
  | M_DeleteVersionResponse "v_DeleteVersionResponse option"
  | M_SearchRequest "v_SearchRequest option"
  | M_SearchResponse "v_SearchResponse option"
  | M_SearchHits "v_SearchHits option"
  | M_SearchMeta "v_SearchMeta option"
  | M_SchemaChangedEvent "v_SchemaChangedEvent option"
  | M_ImpactedFields "v_ImpactedFields option"
  | M_ImpactedSchemas "v_ImpactedSchemas option"
  | M_Metadata "v_Metadata option"

fun message_validate :: "(timestamp option \<Rightarrow> methods) \<Rightarrow> bool \<Rightarrow> service_message \<Rightarrow> verror option" where
  "message_validate ts all (M_Namespace m) = Namespace_validate ts all m"
| "message_validate ts all (M_Schema m) = Schema_validate ts all m"
| "message_validate ts all (M_ListNamespacesRequest m) = ListNamespacesRequest_validate all m"
| "message_validate ts all (M_ListNamespacesResponse m) = ListNamespacesResponse_validate ts all m"
| "message_validate ts all (M_GetNamespaceRequest m) = GetNamespaceRequest_validate all m"
| "message_validate ts all (M_GetNamespaceResponse m) = GetNamespaceResponse_validate ts all m"
| "message_validate ts all (M_CreateNamespaceRequest m) = CreateNamespaceRequest_validate all m"
| "message_validate ts all (M_CreateNamespaceResponse m) = CreateNamespaceResponse_validate ts all m"
| "message_validate ts all (M_UpdateNamespaceRequest m) = UpdateNamespaceRequest_validate all m"
| "message_validate ts all (M_UpdateNamespaceResponse m) = UpdateNamespaceResponse_validate ts all m"
| "message_validate ts all (M_DeleteNamespaceRequest m) = DeleteNamespaceRequest_validate all m"
| "message_validate ts all (M_DeleteNamespaceResponse m) = DeleteNamespaceResponse_validate all m"
| "message_validate ts all (M_ListSchemasRequest m) = ListSchemasRequest_validate all m"
| "message_validate ts all (M_ListSchemasResponse m) = ListSchemasResponse_validate ts all m"
| "message_validate ts all (M_GetLatestSchemaRequest m) = GetLatestSchemaRequest_validate all m"
| "message_validate ts all (M_GetLatestSchemaResponse m) = GetLatestSchemaResponse_validate all m"
| "message_validate ts all (M_CreateSchemaRequest m) = CreateSchemaRequest_validate all m"
| "message_validate ts all (M_CreateSchemaResponse m) = CreateSchemaResponse_validate all m"
| "message_validate ts all (M_CheckCompatibilityRequest m) = CheckCompatibilityRequest_validate all m"
| "message_validate ts all (M_CheckCompatibilityResponse m) = CheckCompatibilityResponse_validate all m"
| "message_validate ts all (M_GetSchemaMetadataRequest m) = GetSchemaMetadataRequest_validate all m"
| "message_validate ts all (M_GetSchemaMetadataResponse m) = GetSchemaMetadataResponse_validate ts all m"
| "message_validate ts all (M_UpdateSchemaMetadataRequest m) = UpdateSchemaMetadataRequest_validate all m"
| "message_validate ts all (M_UpdateSchemaMetadataResponse m) = UpdateSchemaMetadataResponse_validate all m"
| "message_validate ts all (M_DeleteSchemaRequest m) = DeleteSchemaRequest_validate all m"
| "message_validate ts all (M_DeleteSchemaResponse m) = DeleteSchemaResponse_validate all m"
| "message_validate ts all (M_ListVersionsRequest m) = ListVersionsRequest_validate all m"
| "message_validate ts all (M_ListVersionsResponse m) = ListVersionsResponse_validate all m"
| "message_validate ts all (M_GetSchemaRequest m) = GetSchemaRequest_validate all m"
| "message_validate ts all (M_GetSchemaResponse m) = GetSchemaResponse_validate all m"
| "message_validate ts all (M_DeleteVersionRequest m) = DeleteVersionRequest_validate all m"
| "message_validate ts all (M_DeleteVersionResponse m) = DeleteVersionResponse_validate all m"
| "message_validate ts all (M_SearchRequest m) = SearchRequest_validate all m"
| "message_validate ts all (M_SearchResponse m) = SearchResponse_validate all m"
| "message_validate ts all (M_SearchHits m) = SearchHits_validate all m"
| "message_validate ts all (M_SearchMeta m) = SearchMeta_validate all m"
| "message_validate ts all (M_SchemaChangedEvent m) = SchemaChangedEvent_validate ts all m"
| "message_validate ts all (M_ImpactedFields m) = ImpactedFields_validate all m"
| "message_validate ts all (M_ImpactedSchemas m) = ImpactedSchemas_validate all m"
| "message_validate ts all (M_Metadata m) = Metadata_validate all m"

end
