(* ===== verification/Validation_Claims.thy ===== *)
theory Validation_Claims
  imports Validation
begin

text \<open>
  What the generated validators decide: which messages they refuse at all, and that the two ways to run
  them agree.
\<close>

section \<open>The loop over the checks\<close>

definition found :: "string \<Rightarrow> bool \<Rightarrow> check list \<Rightarrow> verror list" where
  "found name all cs = map the (filter (\<lambda>e. e \<noteq> None) (map (check_error name all) cs))"

lemma found_simps [simp]:
  "found name all [] = []"
  "found name all (c # cs) = (case check_error name all c of None \<Rightarrow> found name all cs | Some e \<Rightarrow> e # found name all cs)"
  by (auto simp: found_def split: option.split)

lemma collect_all: "validate_fields name True cs errors =
    (if errors @ found name True cs = [] then None else Some (MultiError name (errors @ found name True cs)))"
  by (induction cs arbitrary: errors) (auto split: option.split)

lemma first_only: "validate_fields name False cs [] = (case found name False cs of [] \<Rightarrow> None | e # _ \<Rightarrow> Some e)"
  by (induction cs) (auto split: option.split)

section \<open>Both ways agree\<close>

text \<open>
  The error of \<open>Validate\<close> is about the place of the first error of \<open>ValidateAll\<close>; only the causes differ,
  since below each place the one stops at the first error and the other does not.
\<close>

definition same_place :: "verror \<Rightarrow> verror \<Rightarrow> bool" where
  "same_place e e' \<longleftrightarrow> (\<exists>name field reason cause cause' key.
     e = ValidationError name field reason cause key \<and> e' = ValidationError name field reason cause' key \<and> (cause = None \<longleftrightarrow> cause' = None))"

definition agree :: "string \<Rightarrow> verror option \<Rightarrow> verror option \<Rightarrow> bool" where
  "agree name first all \<longleftrightarrow> (case first of None \<Rightarrow> all = None
     | Some e \<Rightarrow> \<exists>e' rest. all = Some (MultiError name (e' # rest)) \<and> same_place e e')"

definition agreeing :: "methods \<Rightarrow> bool" where
  "agreeing v \<longleftrightarrow> (embedded_error False v = None \<longleftrightarrow> embedded_error True v = None)"

definition agreeing_check :: "check \<Rightarrow> bool" where
  "agreeing_check c \<longleftrightarrow> (case c of Embedded field v \<Rightarrow> agreeing v | _ \<Rightarrow> True)"

lemma agreeing_checks [simp]:
  "agreeing_check (NoRule f)" "agreeing_check (TypedNil f)" "agreeing_check (Embedded f v) = agreeing v"
  by (simp_all add: agreeing_check_def)

lemma check_same_place:
  assumes "agreeing_check c"
  shows "case check_error name False c of None \<Rightarrow> check_error name True c = None
    | Some e \<Rightarrow> \<exists>e'. check_error name True c = Some e' \<and> same_place e e'"
  using assms by (cases c) (auto simp: check_error_def same_place_def agreeing_def split: option.split)

lemma found_agree:
  assumes "list_all agreeing_check cs"
  shows "list_all2 same_place (found name False cs) (found name True cs)"
  using assms
proof (induction cs)
  case (Cons c cs)
  then show ?case using check_same_place [of c name] by (auto split: option.splits)
qed simp

lemma message_agree:
  assumes "\<And>v. list_all agreeing_check (checks v)"
  shows "agree name (validate_message name checks False m) (validate_message name checks True m)"
proof (cases m)
  case (Some v)
  have "list_all2 same_place (found name False (checks v)) (found name True (checks v))" by (rule found_agree) (rule assms)
  then show ?thesis
    by (auto simp: Some validate_message_def collect_all first_only agree_def list_all2_Cons1 split: list.split)
qed (simp add: validate_message_def agree_def)

lemma own_agreeing: "agree name (f False m) (f True m) \<Longrightarrow> agreeing (own f m)"
  by (auto simp: agreeing_def agree_def own_def embedded_error_def split: option.splits)

lemma loops_agreeing [simp]:
  "(\<And>i. agreeing (f i)) \<Longrightarrow> list_all agreeing_check (repeated field f items)"
  "(\<And>i. agreeing (f i)) \<Longrightarrow> list_all agreeing_check (keyed field f kv)"
  by (auto simp: repeated_def keyed_def list_all_iff)

lemma own_message_agreeing [simp]:
  "(\<And>v. list_all agreeing_check (checks v)) \<Longrightarrow> agreeing (own (validate_message name checks) m)"
  by (rule own_agreeing [OF message_agree])

definition message_name :: "service_message \<Rightarrow> string" where
  "message_name m = (case m of
     M_Namespace _ \<Rightarrow> ''Namespace''
   | M_Schema _ \<Rightarrow> ''Schema''
   | M_ListNamespacesRequest _ \<Rightarrow> ''ListNamespacesRequest''
   | M_ListNamespacesResponse _ \<Rightarrow> ''ListNamespacesResponse''
   | M_GetNamespaceRequest _ \<Rightarrow> ''GetNamespaceRequest''
   | M_GetNamespaceResponse _ \<Rightarrow> ''GetNamespaceResponse''
   | M_CreateNamespaceRequest _ \<Rightarrow> ''CreateNamespaceRequest''
   | M_CreateNamespaceResponse _ \<Rightarrow> ''CreateNamespaceResponse''
   | M_UpdateNamespaceRequest _ \<Rightarrow> ''UpdateNamespaceRequest''
   | M_UpdateNamespaceResponse _ \<Rightarrow> ''UpdateNamespaceResponse''
   | M_DeleteNamespaceRequest _ \<Rightarrow> ''DeleteNamespaceRequest''
   | M_DeleteNamespaceResponse _ \<Rightarrow> ''DeleteNamespaceResponse''
   | M_ListSchemasRequest _ \<Rightarrow> ''ListSchemasRequest''
   | M_ListSchemasResponse _ \<Rightarrow> ''ListSchemasResponse''
   | M_GetLatestSchemaRequest _ \<Rightarrow> ''GetLatestSchemaRequest''
   | M_GetLatestSchemaResponse _ \<Rightarrow> ''GetLatestSchemaResponse''
   | M_CreateSchemaRequest _ \<Rightarrow> ''CreateSchemaRequest''
   | M_CreateSchemaResponse _ \<Rightarrow> ''CreateSchemaResponse''
   | M_CheckCompatibilityRequest _ \<Rightarrow> ''CheckCompatibilityRequest''
   | M_CheckCompatibilityResponse _ \<Rightarrow> ''CheckCompatibilityResponse''
   | M_GetSchemaMetadataRequest _ \<Rightarrow> ''GetSchemaMetadataRequest''
   | M_GetSchemaMetadataResponse _ \<Rightarrow> ''GetSchemaMetadataResponse''
   | M_UpdateSchemaMetadataRequest _ \<Rightarrow> ''UpdateSchemaMetadataRequest''
   | M_UpdateSchemaMetadataResponse _ \<Rightarrow> ''UpdateSchemaMetadataResponse''
   | M_DeleteSchemaRequest _ \<Rightarrow> ''DeleteSchemaRequest''
   | M_DeleteSchemaResponse _ \<Rightarrow> ''DeleteSchemaResponse''
   | M_ListVersionsRequest _ \<Rightarrow> ''ListVersionsRequest''
   | M_ListVersionsResponse _ \<Rightarrow> ''ListVersionsResponse''
   | M_GetSchemaRequest _ \<Rightarrow> ''GetSchemaRequest''
   | M_GetSchemaResponse _ \<Rightarrow> ''GetSchemaResponse''
   | M_DeleteVersionRequest _ \<Rightarrow> ''DeleteVersionRequest''
   | M_DeleteVersionResponse _ \<Rightarrow> ''DeleteVersionResponse''
   | M_SearchRequest _ \<Rightarrow> ''SearchRequest''
   | M_SearchResponse _ \<Rightarrow> ''SearchResponse''
   | M_SearchHits _ \<Rightarrow> ''SearchHits''
   | M_SearchMeta _ \<Rightarrow> ''SearchMeta''
   | M_SchemaChangedEvent _ \<Rightarrow> ''SchemaChangedEvent''
   | M_ImpactedFields _ \<Rightarrow> ''ImpactedFields''
   | M_ImpactedSchemas _ \<Rightarrow> ''ImpactedSchemas''
   | M_Metadata _ \<Rightarrow> ''Metadata'')"


text \<open>A library whose timestamps refuse years after 9999, with both methods.\<close>

definition strict_ts :: "timestamp option \<Rightarrow> methods" where
  "strict_ts = own (\<lambda>all t. case t of None \<Rightarrow> None
     | Some (sec, nanos) \<Rightarrow> if sec < 253402300800 then None else Some (OtherError (ErrExt ''after 9999-12-31'')))"

definition late_response :: service_message where
  "late_response = M_GetNamespaceResponse (Some \<lparr>GetNamespaceResponse_Namespace = Some
     \<lparr>Namespace_Id = ''a'', Namespace_Format = 1, Namespace_Compatibility = 1, Namespace_Description = [],
      Namespace_CreatedAt = Some (253402300800, 0), Namespace_UpdatedAt = Some (253402300801, 0)\<rparr>\<rparr>)"

lemma late_texts:
  "map_option verror_Error (message_validate strict_ts False late_response) = Some (''invalid GetNamespaceResponse.Namespace: '' @
     ''embedded message failed validation | caused by: invalid Namespace.CreatedAt: embedded message failed validation '' @
     ''| caused by: after 9999-12-31'')"
  "map_option verror_Error (message_validate strict_ts True late_response) = Some (''invalid GetNamespaceResponse.Namespace: '' @
     ''embedded message failed validation | caused by: invalid Namespace.CreatedAt: embedded message failed validation '' @
     ''| caused by: after 9999-12-31; invalid Namespace.UpdatedAt: embedded message failed validation '' @
     ''| caused by: after 9999-12-31'')"
  by code_simp+


section \<open>What is refused\<close>

lemma found_none: "list_all (\<lambda>c. check_error name all c = None) cs \<Longrightarrow> found name all cs = []"
  by (induction cs) (auto split: option.split)

lemma message_accepts:
  "(\<And>v. m = Some v \<Longrightarrow> list_all (\<lambda>c. check_error name all c = None) (checks v)) \<Longrightarrow> validate_message name checks all m = None"
  using found_none by (cases m; cases all) (auto simp: validate_message_def collect_all first_only)

lemma accepted_check:
  "check_error name all (NoRule f) = None"
  "embedded_error all v = None \<Longrightarrow> check_error name all (Embedded f v) = None"
  by (simp_all add: check_error_def)

lemma loops_accept:
  "(\<And>i. embedded_error all (f i) = None) \<Longrightarrow> list_all (\<lambda>c. check_error name all c = None) (repeated field f items)"
  "(\<And>i. embedded_error all (f i) = None) \<Longrightarrow> list_all (\<lambda>c. check_error name all c = None) (keyed field f kv)"
  by (auto simp: repeated_def keyed_def list_all_iff accepted_check)

lemma own_accepts:
  "(\<And>v all. list_all (\<lambda>c. check_error name all c = None) (checks v)) \<Longrightarrow> embedded_error all (own (validate_message name checks) m) = None"
  by (simp add: embedded_error_def own_def message_accepts)

text \<open>
  C30. With the timestamps of the protobuf library, which have neither method, the generated validation
  refuses one thing only: a search request whose oneof holds a typed nil. Every other message passes,
  whatever its fields, required ones included.
\<close>

theorem validators_refuse_exactly:
  assumes "\<And>t. mt_Validate (ts t) = None \<and> mt_ValidateAll (ts t) = None"
  shows "message_validate ts all m \<noteq> None \<longleftrightarrow>
    (\<exists>r. m = M_SearchRequest (Some r) \<and> SearchRequest_Version r \<in> {HistoryPtr None, VersionIdPtr None})"
proof (cases "\<exists>r. m = M_SearchRequest (Some r)")
  case True
  then obtain r where "m = M_SearchRequest (Some r)" by blast
  then show ?thesis
    by (cases all) (auto simp: validate_defs validate_message_def collect_all first_only check_error_def split: v_version.split)
next
  case False
  have t: "embedded_error a (ts t) = None" for a t using assms [of t] by (simp add: embedded_error_def)
  have "message_validate ts all m = None"
    using False by (cases m) (auto simp: validate_defs accepted_check loops_accept own_accepts t split: v_version.split intro!: message_accepts)
  then show ?thesis using False by auto
qed

definition nil_oneof :: v_SearchRequest where
  "nil_oneof = \<lparr>SearchRequest_NamespaceId = [], SearchRequest_SchemaId = [], SearchRequest_Query = [], SearchRequest_Version = HistoryPtr None\<rparr>"

definition empty_create :: v_CreateNamespaceRequest where
  "empty_create = \<lparr>CreateNamespaceRequest_Id = [], CreateNamespaceRequest_Format = 0, CreateNamespaceRequest_Compatibility = 0,
     CreateNamespaceRequest_Description = []\<rparr>"

theorem validators_refuse_exactly_witness:
  "message_validate (\<lambda>t. \<lparr>mt_Validate = None, mt_ValidateAll = None\<rparr>) True (M_CreateNamespaceRequest (Some empty_create)) = None \<and>
   message_validate (\<lambda>t. \<lparr>mt_Validate = None, mt_ValidateAll = None\<rparr>) True (M_SearchRequest (Some nil_oneof)) \<noteq> None"
  using validators_refuse_exactly [of "\<lambda>t. \<lparr>mt_Validate = None, mt_ValidateAll = None\<rparr>" True "M_CreateNamespaceRequest (Some empty_create)"]
    validators_refuse_exactly [of "\<lambda>t. \<lparr>mt_Validate = None, mt_ValidateAll = None\<rparr>" True "M_SearchRequest (Some nil_oneof)"]
  by (simp add: nil_oneof_def del: message_validate.simps)

end
