(* ===== verification/Spec2Isabelle.thy ===== *)
theory Spec2Isabelle
  imports Change_Detector_Claims Lineage_Claims Formats_Claims Store_Claims Service_Claims
    Notify_Claims Api_Claims Validator Client_Claims Cli_Claims Gateway_Claims Gateway_Types Gateway_Local Server_Claims Start_Claims
    Front_Claims Seed_Claims Validation_Claims
begin

text \<open>
  Stencil: a schema registry, its Go client and its command line.

  The program. A server stores versions of schemas (protobuf descriptor sets, Avro and JSON Schema
  documents) under a namespace and a name. An upload is parsed in its format, checked for
  compatibility with the latest version, and stored; then the server looks for what changed, which
  other schemas are affected, and announces it on a Kafka topic, with a row per announcement in the
  database. Reads go through a cache. Lineage answers which types a type uses and which use it.
  The Go client loads descriptor sets over HTTP, keeps them refreshed in the background and decodes
  messages with them; the command line calls the gRPC API, over which also a gateway serves HTTP. The
  calls go from the command line or the gateway through the generated service code and the
  interceptors, or from the client over HTTP, to the handlers (\<open>internal/api\<close>), to the services (\<open>core\<close>), and from
  those to the formats (\<open>formats\<close>), the repositories (\<open>internal/store/postgres\<close>), the
  cache, the change detector and the queue.

  How Go is written here. A Go string or byte slice is a \<open>string\<close> (a list of bytes); an
  \<open>error\<close> is the datatype \<open>go_error\<close> of Go_Errors, and a result with an error is
  \<open>'a res\<close>, a sum with the error on the left, so every early return is a branch. \<open>int32\<close>
  is an integer with the wrap-around of \<open>wrap32\<close> written where a conversion happens. A Go map
  whose iteration order can be observed comes with that order as an argument. A panic is the value
  None. A call that reaches outside (database, cache, queue, network, terminal) takes a state and
  returns the new one (Go_IO, Store_View and the step relations below).

  Theories, bottom up.

  Go_Prelude, Go_Errors, Go_Fmt, Go_Map, Go_IO: the standard library as far as it is used (fmt, strconv,
  strings, errors), association lists as Go maps (the interface \<open>go_map\<close>, interpreted on them),
  and calls with effects.

  Descriptors, Level_Search, Change_Detector, Change_Detector_Search, _Props, _Claims:
  \<open>core/changedetector\<close>. The lemmas characterise the reported fields, enums and messages of a
  comparison, and the dependents within a depth. Level_Search has the contract \<open>level_search\<close> of one
  pass over a queue; the detector's loop and the lineage walk interpret it, so both get their
  correctness from one proof. The loops end because each level visits new names: their measure is
  the number of names not yet visited; no fuel is used.

  Lineage, Lineage_Props, Lineage_Claims: \<open>core/schema/lineage.go\<close>, the dependency maps in both directions,
  root lookup, walk with shortest paths, response and counts; the equivalence with the detector's search.

  Proto_Compat, Proto_Compat_Props, Formats, Formats_Claims: \<open>formats/protobuf\<close>, \<open>formats/avro\<close>,
  \<open>formats/json\<close>, \<open>core/schema/provider\<close> and \<open>compatibility.go\<close>. A specification of when a
  difference of each kind exists is shown equivalent to the comparison; then what each mode
  accepts, reflexivity, and the hierarchy of the modes.

  Schema_Types, Postgres, Repositories, Store_Props, Store_View, Store_Effects, Store_Claims: the tables
  as the record \<open>db\<close>, each SQL statement as a function on it, each repository method as a
  sequence of statements any of which may fail. The lemmas show integrity in every reachable state,
  an abstract view (a map from namespace, name and version to bytes) and what each method does to
  that view, and that a failing method is atomic.

  Schema_Service, Service_World, Service_Claims, Notify_Claims: \<open>core/schema/service.go\<close>. The
  service is written over records of functions for its interfaces; Service_World supplies the model's
  repositories, a cache that may drop entries, the change detector and a queue that may fail. The
  contracts \<open>version_store\<close>, \<open>lossy_cache\<close> and their combination \<open>cached_store\<close> are interpreted
  on these. The theorems show which reads through the cache are right and which are not,
  what an upload must pass, and what is announced and recorded about it.

  Api, Api_Claims: \<open>internal/api\<close>, \<open>core/namespace\<close> and \<open>core/search\<close>: each handler,
  the route table, the conversion of enums, search over latest or all versions, and the round trip of
  an upload over gRPC and a read over HTTP. Validator: \<open>pkg/validator\<close>, the interceptor that
  refuses a request with an absent required field; an inductive relation specifies the missing paths.

  Client_Store, Client_Resolver, Client, Client_Claims: \<open>clients/go\<close>. The store, its worker and Close are
  the step relations \<open>own_step\<close> (what worker and Close do by themselves) and \<open>outer_step\<close> (ticks and
  readers), with invariants over the reachable states; \<open>close_rank\<close> bounds Close by five steps.
  The registry of the protobuf library is the contract \<open>registry_contract\<close>, a hypothesis that its
  witness discharges on a concrete registry.

  Grpc, Grpc_World: the generated client and handlers (\<open>stencil_grpc.pb.go\<close>), the request messages as
  the check of required fields sees them, and the chain of interceptors. \<open>grpc_env\<close> decides what becomes of
  each call: it does not arrive, its answer is lost, or it is served and answered.

  Cli, Cli_Namespace, Cli_Claims: \<open>cmd\<close> and \<open>pkg/graph\<close>, each command's RunE over a gRPC client, files,
  prompts and printed text; the theorems run the commands over Grpc against the model of the server.

  Gateway, Gateway_Claims, Gateway_Types, Gateway_Local: the HTTP routes generated from the proto file
  (\<open>stencil.pb.gw.go\<close>): path parameters, bodies, compiled patterns. The theorems treat the whole HTTP
  interface, with the routes of \<open>api.go\<close>: a path has at most one route, what a request may change in the
  tables and what it cannot, the types of the namespace rows, the exact effect of the check of required
  fields, and the retry of an upload whose answer was lost. Gateway_Local has the other ways to register
  the routes, and the comparison of the gateway in process with the gateway over a connection.

  Server, Server_Claims: the frame of the server: the Kafka writer, the configuration with its defaults,
  the producer and the limits that \<open>Start\<close> derives from it, the dispatch of requests, the migration
  command, and the shutdown as the step relation \<open>shut_step\<close> of two goroutines, whose rank bounds it by
  five steps. \<open>producer\<close> is the contract of a producer of events, interpreted on the queue of
  Service_World and shown for the Kafka writer.

  Start, Start_Claims: \<open>Start\<close> of \<open>internal/server\<close>, from the constructors to the registered routes, with the
  outcome of each library call that may fail. The API it builds is the one of the other theories up
  to the producer of events, so their theorems hold of the running server.

  Parameters. Code that is not in the repository is an argument: the protobuf runtime
  (unmarshalling, reflection, registries), the Avro, JSON Schema and UUID libraries,
  \<open>multierr\<close>, the gRPC connection, the gateway's JSON and query parsing, Kafka, the migration and
  configuration libraries, the HTTP transport, jsonpath matching, prompts and terminal colours. What a theorem
  needs of them is a hypothesis in its statement, and its witness gives a concrete instance.

  Not modelled. What New Relic, the logger and the metrics record; the SQL of the
  migrations (the tables they create are the record \<open>db\<close>); of the generated code the serialization of
  messages; flag declarations and the command tree; the generated mocks; the clients in other
  languages and the user interface. Between the command line and the handlers only the wire encoding is
  left out.
\<close>

end
